(* ===== verification/Prelude.thy ===== *)
theory Prelude
  imports Main "HOL-Library.Word" "HOL-Library.AList" "HOL-Library.Multiset"
begin

text \<open>
  Shared vocabulary of the development.

  \<^item> \<open>prog\<close>: a C++ statement as a function of the process state.  The result is
    \<open>None\<close> when execution never leaves the statement in a defined way (self-deadlock on a
    non-recursive mutex, undefined behaviour of the language, \<open>std::terminate\<close>, or a loop that
    does not end), \<open>Some (Inl e, w)\<close> when it leaves by throwing \<open>e\<close>, and
    \<open>Some (Inr a, w)\<close> when it returns \<open>a\<close>.
  \<^item> \<open>keeps\<close>: a statement preserves an invariant whichever way it is left; its rules form
    the collection \<open>keeps_intros\<close>.
  \<^item> \<open>yields\<close>: what a statement returns has a property; its rules form \<open>yields_intros\<close>.
  \<^item> \<open>run_ok\<close>: a statement returns normally and its result satisfies a postcondition
    (total correctness).
  \<^item> byte order (\<open>htonl\<close>/\<open>ntohl\<close>), overwriting a buffer at an offset, decimal printing,
    and association lists standing for \<open>std::unordered_map\<close>.
\<close>

named_theorems prog_simps \<open>unfolding rules of the program combinators\<close>
named_theorems keeps_intros \<open>rules that a program keeps an invariant\<close>
named_theorems yields_intros \<open>rules that a program returns only values with a property\<close>

section \<open>Programs: state, exceptions, no result\<close>

type_synonym ('w, 'e, 'a) prog = "'w \<Rightarrow> (('e + 'a) \<times> 'w) option"

definition ret :: "'a \<Rightarrow> ('w, 'e, 'a) prog" where
  "ret a = (\<lambda>w. Some (Inr a, w))"

definition raise :: "'e \<Rightarrow> ('w, 'e, 'a) prog" where
  "raise e = (\<lambda>w. Some (Inl e, w))"

definition stuck :: "('w, 'e, 'a) prog" where
  "stuck = (\<lambda>w. None)"

definition bnd :: "('w, 'e, 'a) prog \<Rightarrow> ('a \<Rightarrow> ('w, 'e, 'b) prog) \<Rightarrow> ('w, 'e, 'b) prog" where
  "bnd m f = (\<lambda>w. case m w of
       None \<Rightarrow> None
     | Some (Inl e, w') \<Rightarrow> Some (Inl e, w')
     | Some (Inr a, w') \<Rightarrow> f a w')"

definition seq :: "('w, 'e, 'a) prog \<Rightarrow> ('w, 'e, 'b) prog \<Rightarrow> ('w, 'e, 'b) prog" where
  "seq m n = bnd m (\<lambda>_. n)"

definition try_catch :: "('w, 'e, 'a) prog \<Rightarrow> ('e \<Rightarrow> ('w, 'e, 'a) prog) \<Rightarrow> ('w, 'e, 'a) prog" where
  "try_catch m h = (\<lambda>w. case m w of
       None \<Rightarrow> None
     | Some (Inl e, w') \<Rightarrow> h e w'
     | Some (Inr a, w') \<Rightarrow> Some (Inr a, w'))"

definition modify :: "('w \<Rightarrow> 'w) \<Rightarrow> ('w, 'e, unit) prog" where
  "modify f = (\<lambda>w. Some (Inr (), f w))"

definition gets :: "('w \<Rightarrow> 'a) \<Rightarrow> ('w, 'e, 'a) prog" where
  "gets f = (\<lambda>w. Some (Inr (f w), w))"

definition lift :: "'e + 'a \<Rightarrow> ('w, 'e, 'a) prog" where
  "lift r = (\<lambda>w. Some (r, w))"

text \<open>A range-based \<open>for\<close> over a sequence fixed at loop entry.\<close>

fun for_each :: "'a list \<Rightarrow> ('a \<Rightarrow> ('w, 'e, unit) prog) \<Rightarrow> ('w, 'e, unit) prog" where
  "for_each [] f = ret ()"
| "for_each (x # xs) f = seq (f x) (for_each xs f)"

lemma ret_apply [simp, prog_simps]: "ret a w = Some (Inr a, w)"
  by (simp add: ret_def)

lemma raise_apply [simp, prog_simps]: "raise e w = Some (Inl e, w)"
  by (simp add: raise_def)

lemma stuck_apply [simp, prog_simps]: "stuck w = None"
  by (simp add: stuck_def)

lemma modify_apply [simp, prog_simps]: "modify f w = Some (Inr (), f w)"
  by (simp add: modify_def)

lemma gets_apply [simp, prog_simps]: "gets f w = Some (Inr (f w), w)"
  by (simp add: gets_def)

lemma lift_apply [simp, prog_simps]: "lift r w = Some (r, w)"
  by (simp add: lift_def)

lemma bnd_None [simp, prog_simps]: "m w = None \<Longrightarrow> bnd m f w = None"
  by (simp add: bnd_def)

lemma bnd_Inl [simp, prog_simps]: "m w = Some (Inl e, w') \<Longrightarrow> bnd m f w = Some (Inl e, w')"
  by (simp add: bnd_def)

lemma bnd_Inr [simp, prog_simps]: "m w = Some (Inr a, w') \<Longrightarrow> bnd m f w = f a w'"
  by (simp add: bnd_def)

lemma seq_None [simp, prog_simps]: "m w = None \<Longrightarrow> seq m n w = None"
  by (simp add: seq_def)

lemma seq_Inl [simp, prog_simps]: "m w = Some (Inl e, w') \<Longrightarrow> seq m n w = Some (Inl e, w')"
  by (simp add: seq_def)

lemma seq_Inr [simp, prog_simps]: "m w = Some (Inr a, w') \<Longrightarrow> seq m n w = n w'"
  by (simp add: seq_def)

lemma try_catch_None [simp, prog_simps]: "m w = None \<Longrightarrow> try_catch m h w = None"
  by (simp add: try_catch_def)

lemma try_catch_Inl [simp, prog_simps]: "m w = Some (Inl e, w') \<Longrightarrow> try_catch m h w = h e w'"
  by (simp add: try_catch_def)

lemma try_catch_Inr [simp, prog_simps]:
  "m w = Some (Inr a, w') \<Longrightarrow> try_catch m h w = Some (Inr a, w')"
  by (simp add: try_catch_def)

lemma bnd_ret [simp]: "bnd (ret a) f = f a"
  by (rule ext) simp

lemma bnd_lift [simp]: "bnd (lift (Inr a)) f = f a" "bnd (lift (Inl e)) f = raise e"
  by (rule HOL.ext, simp add: bnd_def)+

lemma bnd_gets [simp]: "bnd (gets g) f w = f (g w) w"
  by simp

text \<open>A program returns or throws if its parts do.\<close>

lemma bnd_returns: "m w \<noteq> None \<Longrightarrow> (\<And>a w. f a w \<noteq> None) \<Longrightarrow> bnd m f w \<noteq> None"
  by (auto simp: bnd_def split: sum.splits)

lemma seq_returns: "m w \<noteq> None \<Longrightarrow> (\<And>w. n w \<noteq> None) \<Longrightarrow> seq m n w \<noteq> None"
  by (simp add: seq_def bnd_returns)

lemma try_catch_returns: "m w \<noteq> None \<Longrightarrow> (\<And>e w. h e w \<noteq> None) \<Longrightarrow> try_catch m h w \<noteq> None"
  by (auto simp: try_catch_def split: sum.splits)

section \<open>Invariants of programs\<close>

definition keeps :: "('w \<Rightarrow> bool) \<Rightarrow> ('w, 'e, 'a) prog \<Rightarrow> bool" where
  "keeps I m \<longleftrightarrow> (\<forall>w r w'. I w \<longrightarrow> m w = Some (r, w') \<longrightarrow> I w')"

lemma keepsI: "(\<And>w r w'. I w \<Longrightarrow> m w = Some (r, w') \<Longrightarrow> I w') \<Longrightarrow> keeps I m"
  by (auto simp: keeps_def)

lemma keepsD: "keeps I m \<Longrightarrow> I w \<Longrightarrow> m w = Some (r, w') \<Longrightarrow> I w'"
  by (auto simp: keeps_def)

lemma keeps_ret [keeps_intros]: "keeps I (ret a)"
  by (auto simp: keeps_def)

lemma keeps_raise [keeps_intros]: "keeps I (raise e)"
  by (auto simp: keeps_def)

lemma keeps_stuck [keeps_intros]: "keeps I stuck"
  by (auto simp: keeps_def)

lemma keeps_gets [keeps_intros]: "keeps I (gets f)"
  by (auto simp: keeps_def)

lemma keeps_lift [keeps_intros]: "keeps I (lift r)"
  by (auto simp: keeps_def)

lemma keeps_modify: "(\<And>w. I w \<Longrightarrow> I (f w)) \<Longrightarrow> keeps I (modify f)"
  by (auto simp: keeps_def)

lemma keeps_bnd [keeps_intros]:
  "keeps I m \<Longrightarrow> (\<And>a. keeps I (f a)) \<Longrightarrow> keeps I (bnd m f)"
  by (rule keepsI, simp add: bnd_def split: option.splits prod.splits sum.splits)
    (auto dest: keepsD)

lemma keeps_bind:
  assumes "Option.bind (m w) (\<lambda>(r, w). case r of Inl e \<Rightarrow> Some (Inl e, w) | Inr a \<Rightarrow> k a w) = Some y"
    and "keeps I m" and "I w"
    and "\<And>a w'. k a w' = Some y \<Longrightarrow> I w' \<Longrightarrow> I (snd y)"
  shows "I (snd y)"
proof -
  from assms(1) obtain r w' where r: "m w = Some (r, w')"
      "(case r of Inl e \<Rightarrow> Some (Inl e, w') | Inr a \<Rightarrow> k a w') = Some y"
    by (auto simp: bind_eq_Some_conv)
  with assms(2,3) have "I w'" by (auto dest: keepsD)
  with r(2) assms(4) show ?thesis by (cases r) auto
qed

lemma keeps_finally:
  "keeps I m \<Longrightarrow> (\<And>r. keeps I (k r)) \<Longrightarrow> keeps I (\<lambda>w. case m w of None \<Rightarrow> None | Some (r, w') \<Rightarrow> k r w')"
  by (rule keepsI, simp split: option.splits prod.splits) (auto dest: keepsD)

lemma keeps_seq [keeps_intros]: "keeps I m \<Longrightarrow> keeps I n \<Longrightarrow> keeps I (seq m n)"
  unfolding seq_def by (intro keeps_intros)

lemma keeps_try_catch [keeps_intros]:
  "keeps I m \<Longrightarrow> (\<And>e. keeps I (h e)) \<Longrightarrow> keeps I (try_catch m h)"
  by (rule keepsI, simp add: try_catch_def split: option.splits prod.splits sum.splits)
    (auto dest: keepsD)

lemma keeps_if [keeps_intros]:
  "(b \<Longrightarrow> keeps I m) \<Longrightarrow> (\<not> b \<Longrightarrow> keeps I n) \<Longrightarrow> keeps I (if b then m else n)"
  by simp

lemma keeps_case_option [keeps_intros]:
  "(x = None \<Longrightarrow> keeps I m) \<Longrightarrow> (\<And>a. x = Some a \<Longrightarrow> keeps I (f a))
   \<Longrightarrow> keeps I (case x of None \<Rightarrow> m | Some a \<Rightarrow> f a)"
  by (cases x) auto

lemma keeps_case_sum [keeps_intros]:
  "(\<And>a. x = Inl a \<Longrightarrow> keeps I (f a)) \<Longrightarrow> (\<And>b. x = Inr b \<Longrightarrow> keeps I (g b))
   \<Longrightarrow> keeps I (case x of Inl a \<Rightarrow> f a | Inr b \<Rightarrow> g b)"
  by (cases x) auto

lemma keeps_for_each [keeps_intros]: "(\<And>x. keeps I (f x)) \<Longrightarrow> keeps I (for_each xs f)"
  by (induction xs) (auto intro!: keeps_intros)

text \<open>\<open>yields P m\<close>: what \<open>m\<close> returns, if it returns, satisfies \<open>P\<close>.  An invariant may depend on it.\<close>

definition yields :: "('a \<Rightarrow> bool) \<Rightarrow> ('w, 'e, 'a) prog \<Rightarrow> bool" where
  "yields P m \<longleftrightarrow> (\<forall>w a w'. m w = Some (Inr a, w') \<longrightarrow> P a)"

lemma yields_ret [yields_intros]: "P a \<Longrightarrow> yields P (ret a)"
  by (simp add: yields_def)

lemma yields_bnd [yields_intros]: "(\<And>a. yields P (f a)) \<Longrightarrow> yields P (bnd m f)"
  by (auto simp: yields_def bnd_def split: option.splits prod.splits sum.splits)

lemma yields_seq [yields_intros]: "yields P n \<Longrightarrow> yields P (seq m n)"
  unfolding seq_def by (rule yields_bnd)

lemma yields_try_catch [yields_intros]:
  "yields P m \<Longrightarrow> (\<And>e. yields P (h e)) \<Longrightarrow> yields P (try_catch m h)"
  by (auto simp: yields_def try_catch_def split: option.splits prod.splits sum.splits)

lemma yields_case_option [yields_intros]:
  "(x = None \<Longrightarrow> yields P m) \<Longrightarrow> (\<And>a. x = Some a \<Longrightarrow> yields P (f a))
   \<Longrightarrow> yields P (case x of None \<Rightarrow> m | Some a \<Rightarrow> f a)"
  by (cases x) auto

lemma keeps_yields:
  assumes "keeps I m" and "yields P m" and "\<And>a. P a \<Longrightarrow> keeps I (f a)"
  shows "keeps I (bnd m f)"
proof (rule keepsI)
  fix w r w'
  assume "I w" and run: "bnd m f w = Some (r, w')"
  then obtain r1 w1 where m: "m w = Some (r1, w1)" by (cases "m w") auto
  with assms(1) \<open>I w\<close> have "I w1" by (auto dest: keepsD)
  then show "I w'"
    using run m assms(2,3) by (cases r1) (auto simp: yields_def dest: keepsD)
qed

section \<open>Total correctness of programs\<close>

definition run_ok :: "'w \<Rightarrow> ('w, 'e, 'a) prog \<Rightarrow> ('a \<Rightarrow> 'w \<Rightarrow> bool) \<Rightarrow> bool" where
  "run_ok w m Q \<longleftrightarrow> (\<exists>a w'. m w = Some (Inr a, w') \<and> Q a w')"

lemma run_okI: "m w = Some (Inr a, w') \<Longrightarrow> Q a w' \<Longrightarrow> run_ok w m Q"
  by (auto simp: run_ok_def)

lemma run_okE:
  assumes "run_ok w m Q"
  obtains a w' where "m w = Some (Inr a, w')" and "Q a w'"
  using assms by (auto simp: run_ok_def)

lemma run_ok_seq: "run_ok w m (\<lambda>_ w'. run_ok w' n Q) \<Longrightarrow> run_ok w (seq m n) Q"
  by (auto simp: run_ok_def)

lemma run_ok_bnd: "run_ok w m (\<lambda>a w'. run_ok w' (f a) Q) \<Longrightarrow> run_ok w (bnd m f) Q"
  by (auto simp: run_ok_def)

lemma try_catch_ret_total:
  assumes "m w = Some (r, w')"
  shows "try_catch m (\<lambda>_. ret ()) w = Some (Inr (), w')"
  using assms by (cases r) simp_all

text \<open>
  A loop over a list whose body always returns, keeps \<open>I\<close>, and acts on the observation \<open>obs\<close>
  as \<open>step\<close>: the loop returns and acts on the observation as the fold of \<open>step\<close>.
\<close>

lemma for_each_append:
  "for_each xs f w = Some (Inr (), w1) \<Longrightarrow> for_each (xs @ ys) f w = for_each ys f w1"
proof (induction xs arbitrary: w)
  case (Cons x xs)
  then show ?case by (auto simp: seq_def bnd_def split: option.splits prod.splits sum.splits)
qed simp

lemma for_each_fold:
  assumes body: "\<And>x w. x \<in> set xs \<Longrightarrow> I w \<Longrightarrow>
      \<exists>w'. f x w = Some (Inr (), w') \<and> I w' \<and> obs w' = step x (obs w)"
    and "I w"
  shows "\<exists>w'. for_each xs f w = Some (Inr (), w') \<and> I w' \<and> obs w' = fold step xs (obs w)"
  using assms
proof (induction xs arbitrary: w)
  case Nil
  then show ?case by simp
next
  case (Cons x xs)
  obtain w1 where w1: "f x w = Some (Inr (), w1)" "I w1" "obs w1 = step x (obs w)"
    using Cons.prems by (meson list.set_intros(1))
  obtain w2 where "for_each xs f w1 = Some (Inr (), w2)" "I w2"
      "obs w2 = fold step xs (obs w1)"
    using Cons.IH [OF _ w1(2)] Cons.prems(1) by (meson list.set_intros(2))
  with w1 show ?case by simp
qed

text \<open>A loop with a body that never returns for one of its elements never returns.\<close>

lemma for_each_stuck:
  assumes "\<And>x w. x \<in> set xs \<Longrightarrow> I w \<Longrightarrow> f x w = None \<or> (\<exists>w'. f x w = Some (Inr (), w') \<and> I w')"
    and "x0 \<in> set xs" and "\<And>w. I w \<Longrightarrow> f x0 w = None" and "I w"
  shows "for_each xs f w = None"
  using assms
proof (induction xs arbitrary: w)
  case Nil
  then show ?case by simp
next
  case (Cons x xs)
  have rest: "for_each xs f w' = None" if "f x w = Some (Inr (), w')" "I w'" for w'
  proof (rule Cons.IH)
    show "x0 \<in> set xs" using Cons.prems that(1) by (metis option.distinct(1) set_ConsD)
  qed (use Cons.prems that in auto)
  show ?case
    using Cons.prems(1) [of x w] Cons.prems(4) rest by auto
qed

section \<open>Bytes, byte order and buffers\<close>

type_synonym byte = "8 word"
type_synonym uint32 = "32 word"
type_synonym int32 = "32 word"
type_synonym double = "64 word" \<comment> \<open>the IEEE-754 bit pattern; the code only hands doubles on\<close>

text \<open>
  \<open>htonl\<close> followed by reading the four bytes of the word in memory order, and its inverse
  \<open>ntohl\<close> on a four byte buffer.
\<close>

definition be_bytes :: "nat \<Rightarrow> byte list" where
  "be_bytes n = map (\<lambda>k. word_of_nat (n div 256 ^ k)) [3, 2, 1, 0]"

definition be_value :: "byte list \<Rightarrow> nat" where
  "be_value bs = foldl (\<lambda>acc b. 256 * acc + unat b) 0 bs"

lemma length_be_bytes [simp]: "length (be_bytes n) = 4"
  by (simp add: be_bytes_def)

lemma be_value_be_bytes:
  assumes "n < 2 ^ 32"
  shows "be_value (be_bytes n) = n"
proof -
  have "256 * (n div 256) + n mod 256 = n"
    "256 * (n div 65536) + n div 256 mod 256 = n div 256"
    "256 * (n div 16777216) + n div 65536 mod 256 = n div 65536"
    using mult_div_mod_eq [of 256 n] mult_div_mod_eq [of 256 "n div 256"]
      mult_div_mod_eq [of 256 "n div 65536"] by (simp_all flip: div_mult2_eq)
  then show ?thesis
    using assms by (simp add: be_bytes_def be_value_def unat_of_nat)
qed

lemma be_value_bound:
  assumes "length bs = 4"
  shows "be_value bs < 2 ^ 32"
proof -
  obtain a b c d where bs: "bs = [a, b, c, d]"
    using assms by (auto simp: numeral_eq_Suc length_Suc_conv)
  have "unat a < 256" "unat b < 256" "unat c < 256" "unat d < 256"
    using unsigned_less [of a] unsigned_less [of b] unsigned_less [of c] unsigned_less [of d]
    by simp_all
  then show ?thesis by (simp add: bs be_value_def)
qed

text \<open>The socket writes \<open>bs\<close> into \<open>buf\<close> from offset \<open>off\<close> on.\<close>

definition write_at :: "nat \<Rightarrow> 'a list \<Rightarrow> 'a list \<Rightarrow> 'a list" where
  "write_at off bs buf = take off buf @ bs @ drop (off + length bs) buf"

lemma length_write_at [simp]:
  "off + length bs \<le> length buf \<Longrightarrow> length (write_at off bs buf) = length buf"
  by (simp add: write_at_def)

lemma take_write_at [simp]:
  "off + length bs \<le> length buf \<Longrightarrow>
   take (off + length bs) (write_at off bs buf) = take off buf @ bs"
  by (simp add: write_at_def)

text \<open>\<open>std::vector::resize\<close> with value-initialised new elements.\<close>

definition resize :: "nat \<Rightarrow> byte list \<Rightarrow> byte list" where
  "resize n buf = take n buf @ replicate (n - length buf) 0"

lemma length_resize [simp]: "length (resize n buf) = n"
  by (simp add: resize_def)

section \<open>Decimal printing (std::to_string)\<close>

fun nat_digits :: "nat \<Rightarrow> string" where
  "nat_digits n =
     (if n < 10 then [char_of (48 + n)] else nat_digits (n div 10) @ [char_of (48 + n mod 10)])"

declare nat_digits.simps [simp del]

definition int_to_string :: "int32 \<Rightarrow> string" where
  "int_to_string c = (if sint c < 0 then CHR ''-'' # nat_digits (nat (- sint c))
                      else nat_digits (nat (sint c)))"

definition uint_to_string :: "uint32 \<Rightarrow> string" where
  "uint_to_string n = nat_digits (unat n)"

text \<open>The elements of a list of strings with a separator between them.\<close>

fun join :: "string \<Rightarrow> string list \<Rightarrow> string" where
  "join sep [] = []"
| "join sep [x] = x"
| "join sep (x # y # xs) = x @ sep @ join sep (y # xs)"

lemma join_Cons: "join sep (x # xs) = (if xs = [] then x else x @ sep @ join sep xs)"
  by (cases xs) simp_all

lemma join_append:
  "join sep (xs @ ys) =
     (if xs = [] then join sep ys else if ys = [] then join sep xs
      else join sep xs @ sep @ join sep ys)"
  by (induction xs) (auto simp: join_Cons)

section \<open>Sums as results of fallible functions\<close>

definition sum_bind :: "'e + 'a \<Rightarrow> ('a \<Rightarrow> 'e + 'b) \<Rightarrow> 'e + 'b" where
  "sum_bind r f = (case r of Inl e \<Rightarrow> Inl e | Inr a \<Rightarrow> f a)"

lemma sum_bind_simps [simp]: "sum_bind (Inl e) f = Inl e" "sum_bind (Inr a) f = f a"
  by (simp_all add: sum_bind_def)

text \<open>An exception that leaves a \<open>noexcept\<close> function calls \<open>std::terminate\<close>.\<close>

definition noexcept :: "'e + 'a \<Rightarrow> 'a option" where
  "noexcept r = (case r of Inl e \<Rightarrow> None | Inr a \<Rightarrow> Some a)"

lemma noexcept_simps [simp]: "noexcept (Inl e) = None" "noexcept (Inr a) = Some a"
  by (simp_all add: noexcept_def)

section \<open>Association lists as hash tables\<close>

abbreviation keys :: "('k \<times> 'v) list \<Rightarrow> 'k list" where
  "keys m \<equiv> map fst m"

lemma map_of_update [simp]: "map_of (AList.update k v m) = (map_of m)(k \<mapsto> v)"
  by (rule update_conv')

lemma map_of_delete [simp]: "map_of (AList.delete k m) = (map_of m)(k := None)"
  by (rule delete_conv')

lemma distinct_keys_update [simp]: "distinct (keys m) \<Longrightarrow> distinct (keys (AList.update k v m))"
  by (rule distinct_update)

lemma distinct_keys_delete [simp]: "distinct (keys m) \<Longrightarrow> distinct (keys (AList.delete k m))"
  by (rule distinct_delete)

lemma set_keys_update [simp]: "set (keys (AList.update k v m)) = insert k (set (keys m))"
  by (simp flip: dom_map_of_conv_image_fst)

lemma set_keys_delete [simp]: "set (keys (AList.delete k m)) = set (keys m) - {k}"
  by (simp flip: dom_map_of_conv_image_fst)

lemma map_of_None_keys: "map_of m k = None \<longleftrightarrow> k \<notin> set (keys m)"
  by (simp add: map_of_eq_None_iff)

lemma map_of_fresh: "k \<notin> fst ` set m \<Longrightarrow> map_of m k = None"
  by (simp add: map_of_eq_None_iff)

lemma update_fresh: "map_of m k = None \<Longrightarrow> AList.update k v m = m @ [(k, v)]"
  by (induction m) (auto split: if_splits)

lemma delete_absent: "map_of m k = None \<Longrightarrow> AList.delete k m = m"
  by (induction m) (auto split: if_splits)

lemma set_delete_subset: "set (AList.delete k m) \<subseteq> set m"
  by (induction m) auto

lemma map_le_emptyD: "m \<subseteq>\<^sub>m Map.empty \<Longrightarrow> m = Map.empty"
  by (rule HOL.ext) (metis domIff map_le_def)

lemma delete_update_same: "AList.delete k (AList.update k v m) = AList.delete k m"
  by (induction m) auto

lemma update_update_same: "AList.update k x (AList.update k y m) = AList.update k x m"
  by (induction m) auto

lemma length_update_present: "map_of m k \<noteq> None \<Longrightarrow> length (AList.update k v m) = length m"
  by (induction m) (auto split: if_splits)

lemma delete_update_fresh: "map_of m k = None \<Longrightarrow> AList.delete k (AList.update k v m) = m"
  by (induction m) (auto split: if_splits)

end
