(* ===== verification/Json_Value.thy ===== *)
theory Json_Value
  imports Prelude
begin

text \<open>
  The interface to the two third-party libraries whose values the peer handles: jsoncpp
  (\<open>Json::Value\<close>, its reader and its writer) and the JSON-RPC names of libhbk
  (\<open>hbk/jsonrpc/jsonrpc_defines.h\<close>).  Neither is part of the repository, so both are parameters:
  a record of operations that every definition takes as its first argument, and the locales
  \<open>jsoncpp\<close> and \<open>jsonrpc\<close> with the documented behaviour the peer relies on.
  \<open>Json::Value\<close> accessors that assert on the type of the value throw \<open>Json::LogicError\<close>;
  they are sums here.  Assignments through \<open>operator[]\<close> are total: the peer only assigns into
  values that are null or objects, and the laws speak of those only.

  The theory \<open>Json_Model\<close> gives a concrete value type and shows that it satisfies the laws.
\<close>

section \<open>Exceptions\<close>

text \<open>
  \<open>hbk::jet::jsoncpprpcException\<close> (defines.h): the inherited code and message of
  \<open>hbk::exception::jsonrpcException\<close>, the text of \<open>what()\<close> and the data object.
\<close>

record 'j jsoncpprpcException =
  m_code :: int32
  m_message :: string
  m_what :: string
  m_data_obj :: 'j

text \<open>
  The exceptions that reach a handler of the peer, by the class the handlers distinguish:
  \<open>jsoncpprpcException\<close>, its base \<open>jsonrpcException\<close>, \<open>std::runtime_error\<close>, the
  \<open>Json::LogicError\<close> of a mistyped access, \<open>std::bad_function_call\<close> of an empty
  \<open>std::function\<close>, any other \<open>std::exception\<close>, and everything else.
\<close>

datatype 'j exn =
    JsoncppRpcException "'j jsoncpprpcException"
  | JsonrpcException int32 string
  | RuntimeError string
  | LogicError string
  | BadFunctionCall
  | StdException string
  | OtherException

section \<open>jsoncpp\<close>

datatype ValueType = nullValue | intValue | uintValue | realValue | stringValue | booleanValue
  | arrayValue | objectValue

record 'j jsoncpp =
  json_type :: "'j \<Rightarrow> ValueType"
  json_null :: 'j                                  \<comment> \<open>\<open>Json::Value()\<close>\<close>
  json_array :: 'j                                 \<comment> \<open>\<open>Json::Value(Json::arrayValue)\<close>\<close>
  json_object :: 'j                                \<comment> \<open>\<open>Json::Value(Json::objectValue)\<close>\<close>
  json_string :: "string \<Rightarrow> 'j"
  json_int :: "int32 \<Rightarrow> 'j"
  json_uint :: "uint32 \<Rightarrow> 'j"
  json_u64 :: "64 word \<Rightarrow> 'j"                   \<comment> \<open>\<open>Json::Value(Json::UInt64)\<close>\<close>
  json_i64 :: "64 word \<Rightarrow> 'j"                    \<comment> \<open>\<open>Json::Value(Json::Int64)\<close>\<close>
  json_bool :: "bool \<Rightarrow> 'j"
  json_double :: "double \<Rightarrow> 'j"
  json_get :: "'j \<Rightarrow> string \<Rightarrow> 'j exn + 'j"       \<comment> \<open>\<open>v[key]\<close>, read\<close>
  json_put :: "'j \<Rightarrow> string \<Rightarrow> 'j \<Rightarrow> 'j"            \<comment> \<open>\<open>v[key] = x\<close>, the new \<open>v\<close>\<close>
  json_append :: "'j \<Rightarrow> 'j \<Rightarrow> 'j"
  json_isMember :: "'j \<Rightarrow> string \<Rightarrow> 'j exn + bool"
  json_asString :: "'j \<Rightarrow> 'j exn + string"
  json_asInt :: "'j \<Rightarrow> 'j exn + int32"
  json_asUInt :: "'j \<Rightarrow> 'j exn + uint32"
  json_isInt :: "'j \<Rightarrow> bool"
  json_elements :: "'j \<Rightarrow> 'j list"                 \<comment> \<open>range-based \<open>for\<close> over the children\<close>
  json_members :: "'j \<Rightarrow> (string \<times> 'j) list"      \<comment> \<open>iteration with \<open>key().asString()\<close>\<close>
  json_toStyledString :: "'j \<Rightarrow> string"
  json_writeString :: "'j \<Rightarrow> byte list"            \<comment> \<open>\<open>Json::writeString(wBuilder, v)\<close>\<close>
  json_parse :: "byte list \<Rightarrow> 'j option"           \<comment> \<open>\<open>CharReader::parse\<close>, \<open>None\<close>: returned false\<close>

text \<open>The types into which \<open>operator[]\<close> may look.\<close>

definition is_record :: "('j, 'z) jsoncpp_scheme \<Rightarrow> 'j \<Rightarrow> bool" where
  "is_record J v \<longleftrightarrow> json_type J v = nullValue \<or> json_type J v = objectValue"

abbreviation isNull :: "('j, 'z) jsoncpp_scheme \<Rightarrow> 'j \<Rightarrow> bool" where
  "isNull J v \<equiv> json_type J v = nullValue"

abbreviation isObject :: "('j, 'z) jsoncpp_scheme \<Rightarrow> 'j \<Rightarrow> bool" where
  "isObject J v \<equiv> json_type J v = objectValue"

text \<open>\<open>v[a][b]\<close>, read, and \<open>v[a][b] = x\<close>.\<close>

definition json_get2 :: "('j, 'z) jsoncpp_scheme \<Rightarrow> 'j \<Rightarrow> string \<Rightarrow> string \<Rightarrow> 'j exn + 'j" where
  "json_get2 J v a b = (case json_get J v a of Inl e \<Rightarrow> Inl e | Inr c \<Rightarrow> json_get J c b)"

definition json_child :: "('j, 'z) jsoncpp_scheme \<Rightarrow> 'j \<Rightarrow> string \<Rightarrow> 'j" where
  "json_child J v a = (case json_get J v a of Inl e \<Rightarrow> json_null J | Inr c \<Rightarrow> c)"

definition json_put2 ::
    "('j, 'z) jsoncpp_scheme \<Rightarrow> 'j \<Rightarrow> string \<Rightarrow> string \<Rightarrow> 'j \<Rightarrow> 'j" where
  "json_put2 J v a b x = json_put J v a (json_put J (json_child J v a) b x)"

definition json_put3 ::
    "('j, 'z) jsoncpp_scheme \<Rightarrow> 'j \<Rightarrow> string \<Rightarrow> string \<Rightarrow> string \<Rightarrow> 'j \<Rightarrow> 'j" where
  "json_put3 J v a b c x = json_put J v a (json_put2 J (json_child J v a) b c x)"

locale jsoncpp =
  fixes J :: "('j, 'z) jsoncpp_scheme"
  assumes type_null: "json_type J (json_null J) = nullValue"
    and type_array: "json_type J (json_array J) = arrayValue"
    and type_object: "json_type J (json_object J) = objectValue"
    and type_string: "json_type J (json_string J s) = stringValue"
    and type_int: "json_type J (json_int J i) = intValue"
    and type_uint: "json_type J (json_uint J n) = uintValue"
    and type_bool: "json_type J (json_bool J b) = booleanValue"
    and type_double: "json_type J (json_double J d) = realValue"
    and type_put: "is_record J v \<Longrightarrow> json_type J (json_put J v k x) = objectValue"
    and get_put: "is_record J v \<Longrightarrow>
      json_get J (json_put J v k x) k' = (if k' = k then Inr x else json_get J v k')"
    and get_record: "is_record J v \<Longrightarrow> \<exists>x. json_get J v k = Inr x"
    and get_absent: "json_isMember J v k = Inr False \<Longrightarrow> json_get J v k = Inr (json_null J)"
    and get_mistyped: "\<not> is_record J v \<Longrightarrow> \<exists>msg. json_get J v k = Inl (LogicError msg)"
    and isMember_null: "isNull J v \<Longrightarrow> json_isMember J v k = Inr False"
    and isMember_put: "is_record J v \<Longrightarrow> json_isMember J (json_put J v k x) k' =
      (if k' = k then Inr True else json_isMember J v k')"
    and isMember_record: "is_record J v \<Longrightarrow> \<exists>b. json_isMember J v k = Inr b"
    and isMember_object: "json_isMember J (json_object J) k = Inr False"
    and append_type: "json_type J v = arrayValue \<or> isNull J v \<Longrightarrow>
      json_type J (json_append J v x) = arrayValue"
    and append_elements: "json_type J v = arrayValue \<or> isNull J v \<Longrightarrow>
      json_elements J (json_append J v x) = json_elements J v @ [x]"
    and elements_array: "json_elements J (json_array J) = []"
    and elements_null: "isNull J v \<Longrightarrow> json_elements J v = []"
    and members_record: "is_record J v \<Longrightarrow> distinct (keys (json_members J v)) \<and>
      (\<forall>k. map_of (json_members J v) k =
        (if json_isMember J v k = Inr True then Some (json_child J v k) else None))"
    and asString_string: "json_asString J (json_string J s) = Inr s"
    and asString_null: "json_asString J (json_null J) = Inr []"
    and asInt_int: "json_asInt J (json_int J i) = Inr i"
    and asInt_null: "json_asInt J (json_null J) = Inr 0"
    and isInt_int: "json_isInt J (json_int J i)"
    and isInt_null: "isNull J v \<Longrightarrow> \<not> json_isInt J v"
    and asUInt_uint: "json_asUInt J (json_uint J n) = Inr n"
    and asUInt_null: "json_asUInt J (json_null J) = Inr 0"
begin

lemmas type_simps = type_null type_array type_object type_string type_int type_uint type_bool
  type_double

lemma is_record_null: "is_record J (json_null J)"
  by (simp add: is_record_def type_null)

lemma is_record_object: "is_record J (json_object J)"
  by (simp add: is_record_def type_object)

lemma is_record_put: "is_record J v \<Longrightarrow> is_record J (json_put J v k x)"
  by (simp add: is_record_def [of J "json_put J v k x"] type_put)

lemma get_null: "json_get J (json_null J) k = Inr (json_null J)"
  by (rule get_absent) (simp add: isMember_null type_null)

lemma get_object: "json_get J (json_object J) k = Inr (json_null J)"
  by (rule get_absent) (simp add: isMember_object)

lemma child_put: "is_record J v \<Longrightarrow>
    json_child J (json_put J v k x) k' = (if k' = k then x else json_child J v k')"
  by (simp add: json_child_def get_put)

lemma child_null: "json_child J (json_null J) k = json_null J"
  by (simp add: json_child_def get_null)

lemma child_object: "json_child J (json_object J) k = json_null J"
  by (simp add: json_child_def get_object)

lemma get_child: "is_record J v \<Longrightarrow> json_get J v k = Inr (json_child J v k)"
  using get_record [of v k] by (auto simp: json_child_def)

lemma isMember_get: "is_record J v \<Longrightarrow> \<not> isNull J (json_child J v k)
    \<Longrightarrow> json_isMember J v k = Inr True"
proof (rule ccontr)
  assume v: "is_record J v" "\<not> isNull J (json_child J v k)"
    and no: "json_isMember J v k \<noteq> Inr True"
  obtain b where "json_isMember J v k = Inr b"
    using isMember_record [OF v(1)] by blast
  with no have "json_isMember J v k = Inr False"
    by (cases b) auto
  then have "json_child J v k = json_null J"
    by (simp add: json_child_def get_absent)
  with v(2) show False by (simp add: type_null)
qed

lemma get2_record: "is_record J v \<Longrightarrow> json_get2 J v a b = json_get J (json_child J v a) b"
  by (simp add: json_get2_def get_child)

lemmas record_simps = is_record_null is_record_object is_record_put type_put get_put child_put
  child_null child_object get_null get_object isMember_put isMember_object type_simps

end

section \<open>The JSON-RPC names of libhbk\<close>

record 'j jsonrpc = "'j jsoncpp" +
  rpc_ID :: string
  rpc_METHOD :: string
  rpc_PARAMS :: string
  rpc_RESULT :: string
  rpc_ERR :: string
  rpc_CODE :: string
  rpc_MESSAGE :: string
  rpc_DATA :: string
  rpc_JSONRPC :: string
  rpc_internalError :: int32

locale jsonrpc = jsoncpp J for J :: "('j, 'z) jsonrpc_scheme" +
  assumes rpc_keys: "distinct [rpc_ID J, rpc_METHOD J, rpc_PARAMS J, rpc_RESULT J, rpc_ERR J,
      rpc_JSONRPC J]"
    and rpc_error_keys: "distinct [rpc_CODE J, rpc_MESSAGE J, rpc_DATA J]"
begin

lemma rpc_neq:
  "rpc_ERR J \<noteq> rpc_ID J" "rpc_ID J \<noteq> rpc_ERR J" "rpc_RESULT J \<noteq> rpc_ID J"
  "rpc_ID J \<noteq> rpc_RESULT J" "rpc_RESULT J \<noteq> rpc_ERR J" "rpc_ERR J \<noteq> rpc_RESULT J"
  "rpc_METHOD J \<noteq> rpc_ID J" "rpc_ID J \<noteq> rpc_METHOD J" "rpc_METHOD J \<noteq> rpc_PARAMS J"
  "rpc_PARAMS J \<noteq> rpc_METHOD J" "rpc_PARAMS J \<noteq> rpc_ID J" "rpc_ID J \<noteq> rpc_PARAMS J"
  "rpc_JSONRPC J \<noteq> rpc_ID J" "rpc_ID J \<noteq> rpc_JSONRPC J" "rpc_METHOD J \<noteq> rpc_JSONRPC J"
  "rpc_PARAMS J \<noteq> rpc_JSONRPC J" "rpc_METHOD J \<noteq> rpc_RESULT J" "rpc_METHOD J \<noteq> rpc_ERR J"
  "rpc_CODE J \<noteq> rpc_MESSAGE J" "rpc_MESSAGE J \<noteq> rpc_CODE J" "rpc_CODE J \<noteq> rpc_DATA J"
  "rpc_DATA J \<noteq> rpc_CODE J" "rpc_DATA J \<noteq> rpc_MESSAGE J" "rpc_MESSAGE J \<noteq> rpc_DATA J"
  "rpc_JSONRPC J \<noteq> rpc_METHOD J" "rpc_JSONRPC J \<noteq> rpc_PARAMS J"
  "rpc_RESULT J \<noteq> rpc_METHOD J" "rpc_ERR J \<noteq> rpc_METHOD J"
  using rpc_keys rpc_error_keys by auto

end

end
