(* ===== verification/Json_Model.thy ===== *)
theory Json_Model
  imports Json_Value
begin

text \<open>
  A concrete JSON value type with the operations of the \<open>jsoncpp\<close> record, and the proof that it
  satisfies the laws of the locales \<open>jsoncpp\<close> and \<open>jsonrpc\<close>: the hypotheses the properties
  make about the third-party library can be met.  Objects are association lists without duplicate
  keys; the reader, the writer and the styled writer stay parameters.
\<close>

datatype json =
    JNull
  | JInt int
  | JUInt nat
  | JReal double
  | JString string
  | JBool bool
  | JArray "json list"
  | JObject "(string \<times> json) list"

primrec jtype :: "json \<Rightarrow> ValueType" where
  "jtype JNull = nullValue"
| "jtype (JInt i) = intValue"
| "jtype (JUInt n) = uintValue"
| "jtype (JReal d) = realValue"
| "jtype (JString s) = stringValue"
| "jtype (JBool b) = booleanValue"
| "jtype (JArray xs) = arrayValue"
| "jtype (JObject m) = objectValue"

definition mistyped :: "json exn" where
  "mistyped = LogicError ''mistyped access''"

text \<open>Members of an object with duplicates removed: the first entry of a key counts.\<close>

fun jmembers :: "json \<Rightarrow> (string \<times> json) list" where
  "jmembers (JObject m) = AList.clearjunk m"
| "jmembers _ = []"

fun jget :: "json \<Rightarrow> string \<Rightarrow> json exn + json" where
  "jget JNull k = Inr JNull"
| "jget (JObject m) k = Inr (case map_of m k of None \<Rightarrow> JNull | Some x \<Rightarrow> x)"
| "jget _ k = Inl mistyped"

fun jput :: "json \<Rightarrow> string \<Rightarrow> json \<Rightarrow> json" where
  "jput (JObject m) k x = JObject (AList.update k x m)"
| "jput _ k x = JObject [(k, x)]"

fun jappend :: "json \<Rightarrow> json \<Rightarrow> json" where
  "jappend (JArray xs) x = JArray (xs @ [x])"
| "jappend _ x = JArray [x]"

fun jisMember :: "json \<Rightarrow> string \<Rightarrow> json exn + bool" where
  "jisMember JNull k = Inr False"
| "jisMember (JObject m) k = Inr (map_of m k \<noteq> None)"
| "jisMember _ k = Inl mistyped"

fun jasString :: "json \<Rightarrow> json exn + string" where
  "jasString JNull = Inr []"
| "jasString (JString s) = Inr s"
| "jasString _ = Inl mistyped"

definition in_int32 :: "int \<Rightarrow> bool" where
  "in_int32 i \<longleftrightarrow> - (2 ^ 31) \<le> i \<and> i < 2 ^ 31"

fun jisInt :: "json \<Rightarrow> bool" where
  "jisInt (JInt i) = in_int32 i"
| "jisInt (JUInt n) = in_int32 (int n)"
| "jisInt _ = False"

fun jasInt :: "json \<Rightarrow> json exn + int32" where
  "jasInt JNull = Inr 0"
| "jasInt (JBool b) = Inr (if b then 1 else 0)"
| "jasInt (JInt i) = (if in_int32 i then Inr (word_of_int i) else Inl mistyped)"
| "jasInt (JUInt n) = (if in_int32 (int n) then Inr (word_of_nat n) else Inl mistyped)"
| "jasInt _ = Inl mistyped"

fun jasUInt :: "json \<Rightarrow> json exn + uint32" where
  "jasUInt JNull = Inr 0"
| "jasUInt (JBool b) = Inr (if b then 1 else 0)"
| "jasUInt (JInt i) = (if 0 \<le> i \<and> i < 2 ^ 32 then Inr (word_of_int i) else Inl mistyped)"
| "jasUInt (JUInt n) = (if n < 2 ^ 32 then Inr (word_of_nat n) else Inl mistyped)"
| "jasUInt _ = Inl mistyped"

fun jelements :: "json \<Rightarrow> json list" where
  "jelements (JArray xs) = xs"
| "jelements (JObject m) = map snd (AList.clearjunk m)"
| "jelements _ = []"

text \<open>
  The record of operations, with the names of the JSON-RPC 2.0 specification as the doc comments
  of defines.h show them, and room for the remaining parameters of the peer (\<open>ext\<close>).
\<close>

definition rpc_model :: "(json \<Rightarrow> byte list) \<Rightarrow> (byte list \<Rightarrow> json option) \<Rightarrow> (json \<Rightarrow> string)
    \<Rightarrow> 'z \<Rightarrow> (json, 'z) jsonrpc_scheme" where
  "rpc_model wr rd st ext = \<lparr>
     json_type = jtype, json_null = JNull, json_array = JArray [], json_object = JObject [],
     json_string = JString, json_int = (\<lambda>i. JInt (sint i)), json_uint = (\<lambda>n. JUInt (unat n)),
     json_u64 = (\<lambda>n. JUInt (unat n)), json_i64 = (\<lambda>i. JInt (sint i)),
     json_bool = JBool, json_double = JReal, json_get = jget, json_put = jput,
     json_append = jappend, json_isMember = jisMember, json_asString = jasString,
     json_asInt = jasInt, json_asUInt = jasUInt, json_isInt = jisInt,
     json_elements = jelements, json_members = jmembers, json_toStyledString = st,
     json_writeString = wr, json_parse = rd,
     rpc_ID = ''id'', rpc_METHOD = ''method'', rpc_PARAMS = ''params'', rpc_RESULT = ''result'',
     rpc_ERR = ''error'', rpc_CODE = ''code'', rpc_MESSAGE = ''message'', rpc_DATA = ''data'',
     rpc_JSONRPC = ''jsonrpc'', rpc_internalError = - 32603, \<dots> = ext \<rparr>"

lemma rpc_model_simps [simp]:
  "json_type (rpc_model wr rd st ext) = jtype"
  "json_null (rpc_model wr rd st ext) = JNull"
  "json_array (rpc_model wr rd st ext) = JArray []"
  "json_object (rpc_model wr rd st ext) = JObject []"
  "json_string (rpc_model wr rd st ext) = JString"
  "json_int (rpc_model wr rd st ext) i = JInt (sint i)"
  "json_uint (rpc_model wr rd st ext) n = JUInt (unat n)"
  "json_u64 (rpc_model wr rd st ext) = (\<lambda>n. JUInt (unat n))"
  "json_i64 (rpc_model wr rd st ext) = (\<lambda>i. JInt (sint i))"
  "json_bool (rpc_model wr rd st ext) = JBool"
  "json_double (rpc_model wr rd st ext) = JReal"
  "json_get (rpc_model wr rd st ext) = jget"
  "json_put (rpc_model wr rd st ext) = jput"
  "json_append (rpc_model wr rd st ext) = jappend"
  "json_isMember (rpc_model wr rd st ext) = jisMember"
  "json_asString (rpc_model wr rd st ext) = jasString"
  "json_asInt (rpc_model wr rd st ext) = jasInt"
  "json_asUInt (rpc_model wr rd st ext) = jasUInt"
  "json_isInt (rpc_model wr rd st ext) = jisInt"
  "json_elements (rpc_model wr rd st ext) = jelements"
  "json_members (rpc_model wr rd st ext) = jmembers"
  "json_toStyledString (rpc_model wr rd st ext) = st"
  "json_writeString (rpc_model wr rd st ext) = wr"
  "json_parse (rpc_model wr rd st ext) = rd"
  "rpc_ID (rpc_model wr rd st ext) = ''id''"
  "rpc_METHOD (rpc_model wr rd st ext) = ''method''"
  "rpc_PARAMS (rpc_model wr rd st ext) = ''params''"
  "rpc_RESULT (rpc_model wr rd st ext) = ''result''"
  "rpc_ERR (rpc_model wr rd st ext) = ''error''"
  "rpc_CODE (rpc_model wr rd st ext) = ''code''"
  "rpc_MESSAGE (rpc_model wr rd st ext) = ''message''"
  "rpc_DATA (rpc_model wr rd st ext) = ''data''"
  "rpc_JSONRPC (rpc_model wr rd st ext) = ''jsonrpc''"
  "rpc_internalError (rpc_model wr rd st ext) = - 32603"
  by (simp_all add: rpc_model_def)

lemma jtype_iff:
  "jtype v = nullValue \<longleftrightarrow> v = JNull"
  "jtype v = objectValue \<longleftrightarrow> (\<exists>m. v = JObject m)"
  "jtype v = arrayValue \<longleftrightarrow> (\<exists>xs. v = JArray xs)"
  by (cases v; simp)+

lemma jget_absent: "jisMember v k = Inr False \<Longrightarrow> jget v k = Inr JNull"
  by (cases v) auto

lemma jasUInt_unat: "jasUInt (JUInt (unat (n :: uint32))) = Inr n"
  using unsigned_less [of n] by simp

lemma jtype_record: "is_record (rpc_model wr rd st ext) v \<longleftrightarrow> v = JNull \<or> (\<exists>m. v = JObject m)"
  by (cases v) (simp_all add: is_record_def)

lemma in_int32_sint: "in_int32 (sint (i :: int32))"
  using sint_greater_eq [of i] sint_less [of i] by (simp add: in_int32_def)

lemma jchild_object: "json_child (rpc_model wr rd st ext) (JObject m) k
    = (case map_of m k of None \<Rightarrow> JNull | Some x \<Rightarrow> x)"
  by (simp add: json_child_def)

lemma jmembers_laws:
  assumes "is_record (rpc_model wr rd st ext) v"
  shows "distinct (keys (jmembers v)) \<and> (\<forall>k. map_of (jmembers v) k =
    (if jisMember v k = Inr True then Some (json_child (rpc_model wr rd st ext) v k) else None))"
  using assms
  by (auto simp: jtype_record jchild_object distinct_clearjunk map_of_clearjunk
      split: option.splits)

interpretation jm: jsonrpc "rpc_model wr rd st ext" for wr rd st ext
proof
  fix v :: json
  show "is_record (rpc_model wr rd st ext) v \<Longrightarrow>
      distinct (keys (json_members (rpc_model wr rd st ext) v)) \<and>
      (\<forall>k. map_of (json_members (rpc_model wr rd st ext) v) k =
        (if json_isMember (rpc_model wr rd st ext) v k = Inr True
         then Some (json_child (rpc_model wr rd st ext) v k) else None))" for v
    using jmembers_laws [of wr rd st ext v] by simp
next
  show "\<not> is_record (rpc_model wr rd st ext) v \<Longrightarrow>
      \<exists>msg. json_get (rpc_model wr rd st ext) v k = Inl (LogicError msg)" for v k
    by (cases v) (auto simp: is_record_def mistyped_def)
qed (auto simp: jtype_record jtype_iff in_int32_sint jget_absent jasUInt_unat
    simp del: jasUInt.simps(4))

end
