(* ===== verification/Defines.thy ===== *)
theory Defines
  imports Json_Value
begin

text \<open>
  include/jet/defines.h and lib/jsoncpprpc_exception.cpp: the names of the jet protocol, the
  result types of state callbacks, the fetch matcher with its \<open>print\<close>, and the constructors and
  accessors of \<open>jsoncpprpcException\<close>.
\<close>

section \<open>Names of the jet protocol\<close>

definition JETD_TCP_PORT :: uint32 where "JETD_TCP_PORT = 11122"
definition JETWS_TCP_PORT :: uint32 where "JETWS_TCP_PORT = 11123"
definition JET_UNIX_DOMAIN_SOCKET_NAME :: string where
  "JET_UNIX_DOMAIN_SOCKET_NAME = ''/var/run/jet.socket''"

definition NAME :: string where "NAME = ''name''"
definition DBG :: string where "DBG = ''debug''"
definition PATH :: string where "PATH = ''path''"
definition ARGS :: string where "ARGS = ''args''"
definition VALUE :: string where "VALUE = ''value''"
definition TIMEOUT :: string where "TIMEOUT = ''timeout''"
definition FETCHONLY :: string where "FETCHONLY = ''fetchOnly''"
definition VALUEASRESULT :: string where "VALUEASRESULT = ''valueAsResult''"
definition EVENT :: string where "EVENT = ''event''"

definition CONTAINS :: string where "CONTAINS = ''contains''"
definition STARTSWITH :: string where "STARTSWITH = ''startsWith''"
definition ENDSWITH :: string where "ENDSWITH = ''endsWith''"
definition EQUALS :: string where "EQUALS = ''equals''"
definition EQUALSNOT :: string where "EQUALSNOT = ''equalsNot''"
definition CONTAINSALLOF :: string where "CONTAINSALLOF = ''containsAllOf''"
definition CASEINSENSITIVE :: string where "CASEINSENSITIVE = ''caseInsensitive''"

definition ADD :: string where "ADD = ''add''"
definition REMOVE :: string where "REMOVE = ''remove''"
definition FETCH :: string where "FETCH = ''fetch''"
definition UNFETCH :: string where "UNFETCH = ''unfetch''"
definition CALL :: string where "CALL = ''call''"
definition SET :: string where "SET = ''set''"
definition GET :: string where "GET = ''get''"
definition CONFIG :: string where "CONFIG = ''config''"
definition INFO :: string where "INFO = ''info''"
definition AUTHENTICATE :: string where "AUTHENTICATE = ''authenticate''"
definition CHANGE :: string where "CHANGE = ''change''"
definition WARNING :: string where "WARNING = ''warning''"

definition USER :: string where "USER = ''user''"
definition PASSWORD :: string where "PASSWORD = ''password''"
definition ACCESS :: string where "ACCESS = ''access''"
definition FETCH_GROUPS :: string where "FETCH_GROUPS = ''fetchGroups''"
definition SET_GROUPS :: string where "SET_GROUPS = ''setGroups''"
definition CALL_GROUPS :: string where "CALL_GROUPS = ''callGroups''"

definition MAX_MESSAGE_SIZE :: nat where "MAX_MESSAGE_SIZE = 262144"

lemmas jet_key_defs = NAME_def DBG_def PATH_def ARGS_def VALUE_def TIMEOUT_def FETCHONLY_def
  VALUEASRESULT_def EVENT_def CONTAINS_def STARTSWITH_def ENDSWITH_def EQUALS_def EQUALSNOT_def
  CONTAINSALLOF_def CASEINSENSITIVE_def USER_def PASSWORD_def ACCESS_def FETCH_GROUPS_def
  SET_GROUPS_def CALL_GROUPS_def WARNING_def

lemmas jet_request_defs = ADD_def REMOVE_def FETCH_def UNFETCH_def CALL_def SET_def GET_def
  CONFIG_def INFO_def AUTHENTICATE_def CHANGE_def

text \<open>Different parameter names are different strings.\<close>

lemma param_keys_distinct:
  "distinct [NAME, DBG, PATH, ARGS, VALUE, TIMEOUT, FETCHONLY, VALUEASRESULT, EVENT, USER,
     PASSWORD, ACCESS, WARNING]"
  by (simp add: jet_key_defs)

lemma matcher_keys_distinct:
  "distinct [CONTAINS, STARTSWITH, ENDSWITH, EQUALS, EQUALSNOT, CONTAINSALLOF, CASEINSENSITIVE]"
  by (simp add: jet_key_defs)

section \<open>Results of setting a state\<close>

text \<open>
  \<open>enum WarningCode\<close> is read from and written to JSON integers by \<open>static_cast\<close>, so it is the
  integer itself with its two enumerators named.
\<close>

type_synonym WarningCode = int32

definition WARN_NONE :: WarningCode where "WARN_NONE = 0"
definition WARN_ADAPTED :: WarningCode where "WARN_ADAPTED = 1"

record SetStateResult =
  code :: WarningCode
  message :: string

definition SetStateResult_default :: SetStateResult where
  "SetStateResult_default = \<lparr>code = WARN_NONE, message = []\<rparr>"

definition SetStateResult_code :: "WarningCode \<Rightarrow> SetStateResult" where
  "SetStateResult_code c = \<lparr>code = c, message = []\<rparr>"

definition SetStateResult_message :: "WarningCode \<Rightarrow> string \<Rightarrow> SetStateResult" where
  "SetStateResult_message c m = \<lparr>code = c, message = m\<rparr>"

record 'j SetStateCbResult =
  cb_value :: 'j
  cb_result :: SetStateResult

definition SetStateCbResult_default :: "('j, 'z) jsoncpp_scheme \<Rightarrow> 'j SetStateCbResult" where
  "SetStateCbResult_default J = \<lparr>cb_value = json_null J, cb_result = SetStateResult_default\<rparr>"

definition SetStateCbResult_value :: "'j \<Rightarrow> 'j SetStateCbResult" where
  "SetStateCbResult_value v = \<lparr>cb_value = v, cb_result = SetStateResult_default\<rparr>"

definition SetStateCbResult_code :: "'j \<Rightarrow> WarningCode \<Rightarrow> 'j SetStateCbResult" where
  "SetStateCbResult_code v c = \<lparr>cb_value = v, cb_result = SetStateResult_code c\<rparr>"

definition SetStateCbResult_message ::
    "'j \<Rightarrow> WarningCode \<Rightarrow> string \<Rightarrow> 'j SetStateCbResult" where
  "SetStateCbResult_message v c m = \<lparr>cb_value = v, cb_result = SetStateResult_message c m\<rparr>"

section \<open>The fetch matcher\<close>

record matcher_t =
  caseInsensitive :: bool
  contains :: string
  startsWith :: string
  endsWith :: string
  equals :: string
  equalsNot :: string
  containsAllOf :: "string list"

definition matcher_default :: matcher_t where
  "matcher_default = \<lparr>caseInsensitive = False, contains = [], startsWith = [], endsWith = [],
     equals = [], equalsNot = [], containsAllOf = []\<rparr>"

text \<open>One \<open>if (x.empty()==false)\<close> block of \<open>matcher_t::print\<close>.\<close>

definition print_rule :: "string \<Rightarrow> string \<Rightarrow> string \<Rightarrow> string" where
  "print_rule key x msg =
     (if x \<noteq> [] then (if msg \<noteq> [] then msg @ '', '' else msg) @ key @ ''='' @ x else msg)"

definition print :: "matcher_t \<Rightarrow> string" where
  "print m =
     (let msg = [];
          msg = (if caseInsensitive m then msg @ CASEINSENSITIVE else msg);
          msg = print_rule CONTAINS (contains m) msg;
          msg = print_rule STARTSWITH (startsWith m) msg;
          msg = print_rule ENDSWITH (endsWith m) msg;
          msg = print_rule EQUALS (equals m) msg;
          msg = print_rule EQUALSNOT (equalsNot m) msg
      in if containsAllOf m \<noteq> [] then
           let msg = (if msg \<noteq> [] then msg @ '', '' else msg);
               msg = msg @ CONTAINSALLOF @ ''=['';
               msg = foldl (\<lambda>msg x. msg @ x @ '', '') msg (containsAllOf m);
               msg = butlast msg;
               msg = butlast msg
           in msg @ '']''
         else msg)"

section \<open>jsoncpprpcException\<close>

record DataEntry =
  de_code :: int32
  de_message :: string

text \<open>The text that every constructor but the one from data entries stores for \<open>what()\<close>.\<close>

definition what_text :: "('j, 'z) jsoncpp_scheme \<Rightarrow> int32 \<Rightarrow> string \<Rightarrow> 'j \<Rightarrow> string" where
  "what_text J c msg d =
     ''code: '' @ int_to_string c @ '', message: '' @ msg @
     (if \<not> isNull J d then '', data: '' @ json_toStyledString J d else [])"

text \<open>From a complete error object; \<open>None\<close> is \<open>std::terminate\<close> (the constructor is noexcept).\<close>

definition jsoncpprpcException_error ::
    "('j, 'z) jsonrpc_scheme \<Rightarrow> 'j \<Rightarrow> 'j jsoncpprpcException option" where
  "jsoncpprpcException_error J err = noexcept (
     sum_bind (json_get2 J err (rpc_ERR J) (rpc_CODE J)) (\<lambda>c.
     sum_bind (json_asInt J c) (\<lambda>code.
     sum_bind (json_get2 J err (rpc_ERR J) (rpc_MESSAGE J)) (\<lambda>m.
     sum_bind (json_asString J m) (\<lambda>msg.
     sum_bind (json_get2 J err (rpc_ERR J) (rpc_DATA J)) (\<lambda>d.
     Inr \<lparr>m_code = code, m_message = msg, m_what = what_text J code msg d,
          m_data_obj = d\<rparr>))))))"

definition jsoncpprpcException_code ::
    "('j, 'z) jsonrpc_scheme \<Rightarrow> int32 \<Rightarrow> string \<Rightarrow> 'j jsoncpprpcException" where
  "jsoncpprpcException_code J c msg =
     \<lparr>m_code = c, m_message = msg,
      m_what = ''code: '' @ int_to_string c @ '', message: '' @ msg, m_data_obj = json_null J\<rparr>"

definition jsoncpprpcException_data ::
    "('j, 'z) jsonrpc_scheme \<Rightarrow> int32 \<Rightarrow> string \<Rightarrow> 'j \<Rightarrow> 'j jsoncpprpcException" where
  "jsoncpprpcException_data J c msg d =
     \<lparr>m_code = c, m_message = msg, m_what = what_text J c msg d, m_data_obj = d\<rparr>"

definition entry_item :: "('j, 'z) jsonrpc_scheme \<Rightarrow> DataEntry \<Rightarrow> 'j" where
  "entry_item J entry =
     (let item = json_null J;
          item = json_put J item (rpc_CODE J) (json_int J (de_code entry));
          item = json_put J item (rpc_MESSAGE J) (json_string J (de_message entry))
      in item)"

text \<open>From data entries, in the order in which the hash table is traversed.\<close>

definition jsoncpprpcException_entries ::
    "('j, 'z) jsonrpc_scheme \<Rightarrow> (string \<times> DataEntry) list \<Rightarrow> 'j jsoncpprpcException" where
  "jsoncpprpcException_entries J data =
     \<lparr>m_code = - 1, m_message = ''see data object for details'', m_what = [],
      m_data_obj = foldl (\<lambda>obj (k, entry). json_put J obj k (entry_item J entry))
        (json_null J) data\<rparr>"

definition exn_json :: "('j, 'z) jsonrpc_scheme \<Rightarrow> 'j jsoncpprpcException \<Rightarrow> 'j" where
  "exn_json J e =
     (let errorObject = json_null J;
          errorObject = json_put2 J errorObject (rpc_ERR J) (rpc_CODE J) (json_int J (m_code e));
          errorObject = json_put2 J errorObject (rpc_ERR J) (rpc_MESSAGE J)
                          (json_string J (m_message e));
          errorObject = json_put2 J errorObject (rpc_ERR J) (rpc_DATA J) (m_data_obj e)
      in errorObject)"

text \<open>\<open>code\<close>, \<open>message\<close>, \<open>what\<close> and \<open>data\<close>.  A text handed out as \<open>const char*\<close> ends at its first
  zero character.\<close>

definition c_str :: "string \<Rightarrow> string" where
  "c_str s = takeWhile (\<lambda>c. c \<noteq> CHR 0x00) s"

definition exception_code :: "'j jsoncpprpcException \<Rightarrow> int32" where
  "exception_code e = m_code e"

definition exception_message :: "'j jsoncpprpcException \<Rightarrow> string" where
  "exception_message e = c_str (m_message e)"

definition exception_what :: "'j jsoncpprpcException \<Rightarrow> string" where
  "exception_what e = c_str (m_what e)"

definition exception_data :: "'j jsoncpprpcException \<Rightarrow> 'j" where
  "exception_data e = m_data_obj e"

definition read_entry :: "('j, 'z) jsonrpc_scheme \<Rightarrow> 'j \<Rightarrow> 'j exn + DataEntry" where
  "read_entry J entryNode =
     sum_bind (json_get J entryNode (rpc_CODE J)) (\<lambda>c.
     sum_bind (json_asInt J c) (\<lambda>code.
     sum_bind (json_get J entryNode (rpc_MESSAGE J)) (\<lambda>m.
     sum_bind (json_asString J m) (\<lambda>msg.
     Inr \<lparr>de_code = code, de_message = msg\<rparr>))))"

fun read_entries :: "('j, 'z) jsonrpc_scheme \<Rightarrow> (string \<times> 'j) list
    \<Rightarrow> (string \<times> DataEntry) list \<Rightarrow> 'j exn + (string \<times> DataEntry) list" where
  "read_entries J [] acc = Inr acc"
| "read_entries J ((k, node) # rest) acc =
     sum_bind (read_entry J node) (\<lambda>entry. read_entries J rest (AList.update k entry acc))"

definition dataEntries ::
    "('j, 'z) jsonrpc_scheme \<Rightarrow> 'j jsoncpprpcException \<Rightarrow> (string \<times> DataEntry) list option" where
  "dataEntries J e = noexcept (read_entries J (json_members J (m_data_obj e)) [])"

text \<open>The two exceptions of defines.h for method callbacks.\<close>

definition wrongParameterNumberException :: "'j exn" where
  "wrongParameterNumberException = JsonrpcException (- 1) ''wrong number of parameters for method''"

definition missingParameterException :: "string \<Rightarrow> 'j exn" where
  "missingParameterException name =
     JsonrpcException (- 1) (''missing parameter '' @ [CHR 0x27] @ name @ [CHR 0x27] @ '' for method'')"

section \<open>Properties of the matcher text\<close>

definition rule_clauses :: "string \<Rightarrow> string \<Rightarrow> string list" where
  "rule_clauses key x = (if x \<noteq> [] then [key @ ''='' @ x] else [])"

text \<open>What the text of a matcher should be: its active rules, comma separated.\<close>

definition base_clauses :: "matcher_t \<Rightarrow> string list" where
  "base_clauses m =
     (if caseInsensitive m then [CASEINSENSITIVE] else []) @
     rule_clauses CONTAINS (contains m) @ rule_clauses STARTSWITH (startsWith m) @
     rule_clauses ENDSWITH (endsWith m) @ rule_clauses EQUALS (equals m) @
     rule_clauses EQUALSNOT (equalsNot m)"

definition matcher_clauses :: "matcher_t \<Rightarrow> string list" where
  "matcher_clauses m = base_clauses m @
     (if containsAllOf m \<noteq> [] then [CONTAINSALLOF @ ''=['' @ join '', '' (containsAllOf m) @ '']'']
      else [])"

lemma join_eq_Nil: "[] \<notin> set xs \<Longrightarrow> join sep xs = [] \<longleftrightarrow> xs = []"
  by (cases xs) (auto simp: join_Cons)

lemma print_rule_join:
  assumes "[] \<notin> set cs"
  shows "print_rule key x (join '', '' cs) = join '', '' (cs @ rule_clauses key x)"
  using assms by (simp add: print_rule_def rule_clauses_def join_append join_eq_Nil)

lemma rule_clauses_nonempty: "[] \<notin> set (rule_clauses key x)"
proof -
  have "key @ ''='' @ x \<noteq> []"
    by (metis append_is_Nil_conv not_Cons_self2)
  then show ?thesis
    unfolding rule_clauses_def by (metis empty_iff empty_set set_ConsD)
qed

lemma foldl_append_join:
  "xs \<noteq> [] \<Longrightarrow> foldl (\<lambda>msg x. msg @ x @ '', '') msg xs = msg @ join '', '' xs @ '', ''"
  by (induction xs arbitrary: msg) (auto simp: join_Cons)

lemma butlast2_comma: "butlast (butlast (s @ '', '')) = s"
  by (simp add: butlast_append)

lemma CASEINSENSITIVE_nonempty: "[] \<noteq> CASEINSENSITIVE"
  by (simp add: CASEINSENSITIVE_def)

lemmas clauses_nonempty = CASEINSENSITIVE_nonempty rule_clauses_nonempty

lemma base_clauses_nonempty: "[] \<notin> set (base_clauses m)"
  by (simp add: base_clauses_def clauses_nonempty)

text \<open>The text before the \<open>containsAllOf\<close> block.\<close>

lemma print_prefix:
  "print_rule EQUALSNOT (equalsNot m) (print_rule EQUALS (equals m)
     (print_rule ENDSWITH (endsWith m) (print_rule STARTSWITH (startsWith m)
     (print_rule CONTAINS (contains m) (if caseInsensitive m then CASEINSENSITIVE else [])))))
     = join '', '' (base_clauses m)"
proof -
  have start: "(if caseInsensitive m then CASEINSENSITIVE else []) =
      join '', '' (if caseInsensitive m then [CASEINSENSITIVE] else [])"
    by simp
  show ?thesis
    unfolding start base_clauses_def
    by (simp add: print_rule_join clauses_nonempty del: join.simps)
qed

text \<open>
  The text of a matcher is the list of its active rules, separated by commas, with the
  strings of \<open>containsAllOf\<close> themselves comma separated in brackets.
\<close>

lemma print_clauses: "print m = join '', '' (matcher_clauses m)"
proof (cases "containsAllOf m = []")
  case True
  then show ?thesis
    by (simp only: print_def Let_def append_Nil print_prefix matcher_clauses_def if_False
        not_True_eq_False append_Nil2 simp_thms)
next
  case False
  have "print m = butlast (butlast (foldl (\<lambda>msg x. msg @ x @ '', '')
      ((if base_clauses m \<noteq> [] then join '', '' (base_clauses m) @ '', ''
        else join '', '' (base_clauses m)) @ CONTAINSALLOF @ ''=['') (containsAllOf m))) @ '']''"
    using False by (simp only: print_def Let_def append_Nil print_prefix if_True simp_thms
        join_eq_Nil [OF base_clauses_nonempty])
  with False show ?thesis
    by (simp add: foldl_append_join matcher_clauses_def join_append butlast_append)
qed

section \<open>Properties of the exception\<close>

context jsonrpc
begin

lemma error_json_record: "is_record J (exn_json J e)"
  by (simp add: exn_json_def json_put2_def record_simps Let_def)

lemma error_child:
  "json_child J (exn_json J e) (rpc_ERR J) =
     json_put J (json_put J (json_put J (json_null J) (rpc_CODE J) (json_int J (m_code e)))
       (rpc_MESSAGE J) (json_string J (m_message e))) (rpc_DATA J) (m_data_obj e)"
  by (simp add: exn_json_def json_put2_def record_simps Let_def)

lemma exn_json_error:
  "jsoncpprpcException_error J (exn_json J e) =
     Some (jsoncpprpcException_data J (m_code e) (m_message e) (m_data_obj e))"
  by (simp add: jsoncpprpcException_error_def jsoncpprpcException_data_def get2_record
      error_json_record error_child record_simps rpc_neq asInt_int asString_string)

lemma entry_item_record: "is_record J (entry_item J entry)"
  by (simp add: entry_item_def record_simps Let_def)

lemma read_entry_item: "read_entry J (entry_item J entry) = Inr entry"
  by (simp add: read_entry_def entry_item_def Let_def record_simps rpc_neq asInt_int asString_string)

lemma put_entries_record:
  "is_record J v \<Longrightarrow> is_record J (foldl (\<lambda>obj (k, entry). json_put J obj k (entry_item J entry)) v es)"
  by (induction es arbitrary: v) (auto simp: record_simps)

lemma put_entries_member:
  "is_record J v \<Longrightarrow>
   json_isMember J (foldl (\<lambda>obj (k, entry). json_put J obj k (entry_item J entry)) v es) k =
     (if k \<in> set (keys es) then Inr True else json_isMember J v k)"
  by (induction es arbitrary: v) (simp_all add: record_simps case_prod_beta)

lemma put_entries_child:
  "is_record J v \<Longrightarrow> distinct (keys es) \<Longrightarrow>
   json_child J (foldl (\<lambda>obj (k, entry). json_put J obj k (entry_item J entry)) v es) k =
     (case map_of es k of None \<Rightarrow> json_child J v k | Some entry \<Rightarrow> entry_item J entry)"
  by (induction es arbitrary: v)
    (simp_all add: record_simps case_prod_beta map_of_fresh split: option.split)

lemma read_entries_items:
  assumes "\<forall>(k, node) \<in> set ms. \<exists>entry. node = entry_item J entry \<and> f k = Some entry"
    and "distinct (keys ms)"
  shows "\<exists>r. read_entries J ms acc = Inr r \<and>
    map_of r = (\<lambda>k. if k \<in> set (keys ms) then f k else map_of acc k)"
  using assms
proof (induction ms arbitrary: acc)
  case Nil
  then show ?case by simp
next
  case (Cons km ms)
  obtain k node where km: "km = (k, node)" by (cases km)
  then obtain entry where entry: "node = entry_item J entry" "f k = Some entry"
    using Cons.prems by auto
  obtain r where r: "read_entries J ms (AList.update k entry acc) = Inr r"
      "map_of r = (\<lambda>k'. if k' \<in> set (keys ms) then f k' else map_of (AList.update k entry acc) k')"
    using Cons.IH [of "AList.update k entry acc"] Cons.prems by auto
  have "map_of r = (\<lambda>k'. if k' \<in> set (keys (km # ms)) then f k' else map_of acc k')"
    using r(2) entry(2) Cons.prems(2) by (auto simp: km fun_eq_iff)
  with r(1) entry(1) show ?case by (simp add: km read_entry_item)
qed

lemma entries_roundtrip:
  assumes "distinct (keys es)"
  shows "\<exists>r. dataEntries J (jsoncpprpcException_entries J es) = Some r \<and> map_of r = map_of es"
proof -
  define obj where
    "obj = foldl (\<lambda>obj (k, entry). json_put J obj k (entry_item J entry)) (json_null J) es"
  have rec: "is_record J obj"
    unfolding obj_def by (rule put_entries_record) (simp add: record_simps)
  have mem: "json_isMember J obj k = (if k \<in> set (keys es) then Inr True else Inr False)" for k
    unfolding obj_def by (simp add: put_entries_member record_simps isMember_null)
  have child: "json_child J obj k = entry_item J entry" if "map_of es k = Some entry" for k entry
    unfolding obj_def using that assms by (simp add: put_entries_child record_simps)
  have ms: "distinct (keys (json_members J obj))" "map_of (json_members J obj) k =
      (if json_isMember J obj k = Inr True then Some (json_child J obj k) else None)" for k
    using members_record [OF rec] by auto
  have mkeys: "set (keys (json_members J obj)) = set (keys es)"
    using ms(2) mem by (auto simp flip: dom_map_of_conv_image_fst simp: dom_def split: if_splits)
  have "\<exists>entry. node = entry_item J entry \<and> map_of es k = Some entry"
    if "(k, node) \<in> set (json_members J obj)" for k node
  proof -
    have "map_of (json_members J obj) k = Some node"
      using that ms(1) by (simp add: map_of_eq_Some_iff)
    then have "k \<in> set (keys es)" "node = json_child J obj k"
      using ms(2) [of k] mem [of k] by (auto split: if_splits)
    then show ?thesis
      using child by (metis map_of_None_keys not_None_eq)
  qed
  then obtain r where "read_entries J (json_members J obj) [] = Inr r"
      "map_of r = (\<lambda>k. if k \<in> set (keys (json_members J obj)) then map_of es k else None)"
    using read_entries_items [of "json_members J obj" "map_of es" "[]"] ms(1) by fastforce
  moreover have "(\<lambda>k. if k \<in> set (keys es) then map_of es k else None) = map_of es"
    by (auto simp: fun_eq_iff map_of_fresh)
  ultimately show ?thesis
    unfolding mkeys
    by (simp add: dataEntries_def jsoncpprpcException_entries_def obj_def [symmetric])
qed

end

end
