(* ===== verification/Peer_State.thy ===== *)
theory Peer_State
  imports Defines
begin

text \<open>
  The state of a process that uses the library, the parameters for the code outside the
  repository, the registries of a peer (lib/peerasync.cpp, \<open>register*\<close> and \<open>unregister*\<close>),
  \<open>createFetchId\<close> and \<open>sendMessage\<close>.

  \<^item> A process holds any number of \<open>PeerAsync\<close> objects, numbered by \<open>pid\<close>; the static members
    \<open>PeerAsync::m_sfetchId\<close>, \<open>AsyncRequest::m_sid\<close>, \<open>AsyncRequest::m_openRequestCbs\<close> and its
    mutex are shared by all of them.
  \<^item> User callbacks are code outside the repository.  A \<open>std::function\<close> given by the user is a
    token of type \<open>'u\<close>; the fields \<open>run_response\<close>, \<open>run_fetch\<close>, \<open>run_state\<close> and
    \<open>run_method\<close> of the environment say what calling it does, to the whole process state: a
    callback may call the peer again.  An empty \<open>std::function\<close> is \<open>None\<close>.
  \<^item> The socket, the event loop's notifier and \<open>strerror\<close> of libhbk and the operating system are
    functions over a state \<open>'x\<close> of their own.
  \<^item> \<open>std::unordered_map\<close> is an association list without duplicate keys; the order in which it
    is traversed is not specified by the standard and is the parameter \<open>hash_order\<close>.
  \<^item> The library is built as C++11 (lib/CMakeLists.txt), which leaves open whether the left side of
    an assignment is evaluated before its right side; \<open>lhs_first\<close> says so.
\<close>

type_synonym pid = nat
type_synonym fetchId_t = int32
type_synonym userGroups_t = "string list"

text \<open>
  Response callbacks: the user's, the closures that \<open>addMethodAsyncPrivate\<close>,
  \<open>addStateAsyncPrivate\<close> and \<open>addFetchAsync\<close> wrap around one, and the closure of
  \<open>SyncRequest::executeSync\<close> that fulfils the promise of the request with that number.
\<close>

datatype 'u responseCb =
    UserCb 'u
  | AddMethodCb pid string "'u responseCb"
  | AddStateCb pid string "'u responseCb"
  | AddFetchCb pid fetchId_t "'u responseCb"
  | SyncCb nat

type_synonym 'u responseCallback_t = "'u responseCb option"

record 'u fetcher_t =
  fetch_callback :: "'u option"
  fetch_matcher :: matcher_t

definition fetcher_default :: "'u fetcher_t" where
  "fetcher_default = \<lparr>fetch_callback = None, fetch_matcher = matcher_default\<rparr>"

definition fetcher_of :: "'u option \<Rightarrow> matcher_t \<Rightarrow> 'u fetcher_t" where
  [simp]: "fetcher_of cb m = \<lparr>fetch_callback = cb, fetch_matcher = m\<rparr>"

text \<open>
  \<open>AsyncRequest::Request\<close>: the error notifier is set, with the code and message the closure
  captured, once sending failed.
\<close>

record 'u Request =
  responseCallback :: "'u responseCallback_t"
  errorNotifier :: "(int32 \<times> string) option"

record 'u peer =
  m_address :: string
  m_port :: uint32
  m_name :: string
  m_debug :: bool
  m_dataCb :: bool                       \<comment> \<open>\<open>m_socket.setDataCb\<close> was called\<close>
  m_stopped :: bool
  m_bigEndianLengthBuffer :: "byte list"
  m_lengthBufferLevel :: nat
  m_stateCallbacks :: "string \<rightharpoonup> 'u option"
  m_methodCallbacks :: "string \<rightharpoonup> 'u option"
  m_fetchers :: "(fetchId_t \<times> 'u fetcher_t) list"
  m_dataBuffer :: "byte list"
  m_dataBufferLevel :: nat

record ('j, 'u, 'x) world =
  m_sfetchId :: fetchId_t
  m_sid :: uint32
  m_openRequestCbs :: "(uint32 \<times> 'u Request) list"
  m_mtx_openRequestCbs :: bool           \<comment> \<open>the (non-recursive) mutex is held\<close>
  promises :: "nat \<rightharpoonup> 'j"
  peers :: "pid \<Rightarrow> 'u peer"
  ext :: 'x

type_synonym ('j, 'u, 'x, 'a) peer_prog = "(('j, 'u, 'x) world, 'j exn, 'a) prog"

text \<open>A call of \<open>recv\<close> on the non-blocking socket: bytes (none: the peer closed the connection),
  \<open>EWOULDBLOCK\<close>/\<open>EAGAIN\<close>, or another error.\<close>

datatype recv_result = Received "byte list" | WouldBlock | ReceiveError

record ('j, 'u, 'x) env = "'j jsonrpc" +
  sock_connect_tcp :: "pid \<Rightarrow> string \<Rightarrow> string \<Rightarrow> 'x \<Rightarrow> int32 \<times> 'x"
  sock_connect_unix :: "pid \<Rightarrow> string \<Rightarrow> 'x \<Rightarrow> int32 \<times> 'x"
  sock_disconnect :: "pid \<Rightarrow> 'x \<Rightarrow> 'x"
  sock_receive :: "pid \<Rightarrow> nat \<Rightarrow> 'x \<Rightarrow> recv_result \<times> 'x"
  sock_sendBlocks :: "pid \<Rightarrow> byte list list \<Rightarrow> 'x \<Rightarrow> int32 \<times> 'x"
  strerror_errno :: "'x \<Rightarrow> string"
  hash_order :: "uint32 list \<Rightarrow> uint32 list"
  captured_id :: "uint32 \<Rightarrow> uint32"
  lhs_first :: bool
  run_response :: "'u \<Rightarrow> 'j \<Rightarrow> ('j, 'u, 'x, unit) peer_prog"
  run_fetch :: "'u \<Rightarrow> 'j \<Rightarrow> int32 \<Rightarrow> ('j, 'u, 'x, unit) peer_prog"
  run_state :: "'u \<Rightarrow> 'j \<Rightarrow> string \<Rightarrow> ('j, 'u, 'x, 'j SetStateCbResult) peer_prog"
  run_method :: "'u \<Rightarrow> 'j \<Rightarrow> ('j, 'u, 'x, 'j) peer_prog"

section \<open>Access to one peer\<close>

definition upd_peer :: "pid \<Rightarrow> ('u peer \<Rightarrow> 'u peer) \<Rightarrow> ('j, 'u, 'x) world \<Rightarrow> ('j, 'u, 'x) world" where
  "upd_peer p f w = w\<lparr>peers := (peers w)(p := f (peers w p))\<rparr>"

lemma upd_peer_simps [simp]:
  "peers (upd_peer p f w) = (peers w)(p := f (peers w p))"
  "m_sfetchId (upd_peer p f w) = m_sfetchId w"
  "m_sid (upd_peer p f w) = m_sid w"
  "m_openRequestCbs (upd_peer p f w) = m_openRequestCbs w"
  "m_mtx_openRequestCbs (upd_peer p f w) = m_mtx_openRequestCbs w"
  "promises (upd_peer p f w) = promises w"
  "ext (upd_peer p f w) = ext w"
  by (simp_all add: upd_peer_def)

text \<open>Calling an empty \<open>std::function\<close> throws \<open>std::bad_function_call\<close>.\<close>

definition call_fetch ::
    "('j, 'u, 'x, 'z) env_scheme \<Rightarrow> 'u option \<Rightarrow> 'j \<Rightarrow> int32 \<Rightarrow> ('j, 'u, 'x, unit) peer_prog" where
  "call_fetch E cb params status =
     (case cb of None \<Rightarrow> raise BadFunctionCall | Some u \<Rightarrow> run_fetch E u params status)"

definition call_method ::
    "('j, 'u, 'x, 'z) env_scheme \<Rightarrow> 'u option \<Rightarrow> 'j \<Rightarrow> ('j, 'u, 'x, 'j) peer_prog" where
  "call_method E cb params =
     (case cb of None \<Rightarrow> raise BadFunctionCall | Some u \<Rightarrow> run_method E u params)"

section \<open>Registries\<close>

definition registerFetch :: "pid \<Rightarrow> fetchId_t \<Rightarrow> 'u fetcher_t \<Rightarrow> ('j, 'u, 'x, unit) peer_prog" where
  "registerFetch p fetchId fetcher =
     modify (upd_peer p (\<lambda>q. q\<lparr>m_fetchers := AList.update fetchId fetcher (m_fetchers q)\<rparr>))"

definition registerMethod :: "pid \<Rightarrow> string \<Rightarrow> 'u option \<Rightarrow> ('j, 'u, 'x, unit) peer_prog" where
  "registerMethod p path callback =
     modify (upd_peer p (\<lambda>q. q\<lparr>m_methodCallbacks := (m_methodCallbacks q)(path \<mapsto> callback)\<rparr>))"

definition registerState :: "pid \<Rightarrow> string \<Rightarrow> 'u option \<Rightarrow> ('j, 'u, 'x, unit) peer_prog" where
  "registerState p path callback =
     modify (upd_peer p (\<lambda>q. q\<lparr>m_stateCallbacks := (m_stateCallbacks q)(path \<mapsto> callback)\<rparr>))"

definition unregisterFetch :: "pid \<Rightarrow> fetchId_t \<Rightarrow> ('j, 'u, 'x, unit) peer_prog" where
  "unregisterFetch p fetchId =
     modify (upd_peer p (\<lambda>q. q\<lparr>m_fetchers := AList.delete fetchId (m_fetchers q)\<rparr>))"

definition unregisterMethod :: "pid \<Rightarrow> string \<Rightarrow> ('j, 'u, 'x, unit) peer_prog" where
  "unregisterMethod p path =
     modify (upd_peer p (\<lambda>q. q\<lparr>m_methodCallbacks := (m_methodCallbacks q)(path := None)\<rparr>))"

definition unregisterState :: "pid \<Rightarrow> string \<Rightarrow> ('j, 'u, 'x, unit) peer_prog" where
  "unregisterState p path =
     modify (upd_peer p (\<lambda>q. q\<lparr>m_stateCallbacks := (m_stateCallbacks q)(path := None)\<rparr>))"

lemmas registry_defs = registerFetch_def registerMethod_def registerState_def
  unregisterFetch_def unregisterMethod_def unregisterState_def

text \<open>\<open>++m_sfetchId\<close> on \<open>std::atomic<int>\<close>: two's complement wrap-around.\<close>

definition createFetchId :: "('j, 'u, 'x, fetchId_t) peer_prog" where
  "createFetchId =
     seq (modify (\<lambda>w. w\<lparr>m_sfetchId := m_sfetchId w + 1\<rparr>)) (gets m_sfetchId)"

section \<open>Callbacks that undo a registration\<close>

text \<open>
  A response is an object or null (theory \<open>Peer_Dispatch\<close>), so \<open>isMember\<close> does not throw; if it
  did, the exception would leave these functions.
\<close>

definition addMethodResultCb ::
    "('j, 'u, 'x, 'z) env_scheme \<Rightarrow> pid \<Rightarrow> 'j \<Rightarrow> string \<Rightarrow> ('j, 'u, 'x, unit) peer_prog" where
  "addMethodResultCb E p result path =
     bnd (lift (json_isMember E result (rpc_ERR E)))
       (\<lambda>err. if err then unregisterMethod p path else ret ())"

definition addStateResultCb ::
    "('j, 'u, 'x, 'z) env_scheme \<Rightarrow> pid \<Rightarrow> 'j \<Rightarrow> string \<Rightarrow> ('j, 'u, 'x, unit) peer_prog" where
  "addStateResultCb E p result path =
     bnd (lift (json_isMember E result (rpc_ERR E)))
       (\<lambda>err. if err then unregisterState p path else ret ())"

definition addFetchResultCb ::
    "('j, 'u, 'x, 'z) env_scheme \<Rightarrow> pid \<Rightarrow> 'j \<Rightarrow> fetchId_t \<Rightarrow> ('j, 'u, 'x, unit) peer_prog" where
  "addFetchResultCb E p result fetchId =
     bnd (lift (json_isMember E result (rpc_ERR E)))
       (\<lambda>err. if err then unregisterFetch p fetchId else ret ())"

section \<open>Sending\<close>

definition size_error :: "nat \<Rightarrow> 'j exn" where
  "size_error len = JsonrpcException (- 1)
     (''Message size '' @ nat_digits len @ '' exceeds maximum message size ('' @
      nat_digits MAX_MESSAGE_SIZE @ '') and will not be send!'')"

definition send_error :: "string \<Rightarrow> 'j exn" where
  "send_error err = JsonrpcException (- 1)
     (''could not send message: '' @ [CHR 0x27] @ err @ [CHR 0x27])"

definition sendMessage ::
    "('j, 'u, 'x, 'z) env_scheme \<Rightarrow> pid \<Rightarrow> 'j \<Rightarrow> ('j, 'u, 'x, unit) peer_prog" where
  "sendMessage E p value =
     (let msg = json_writeString E value; len = length msg in
      if len > MAX_MESSAGE_SIZE then raise (size_error len)
      else (\<lambda>w.
        case sock_sendBlocks E p [be_bytes len, msg] (ext w) of (result, x) \<Rightarrow>
          if sint result < 0 then raise (send_error (strerror_errno E x)) (w\<lparr>ext := x\<rparr>)
          else ret () (w\<lparr>ext := x\<rparr>)))"

text \<open>\<open>PeerAsync::notifyState\<close> (peerasync.hpp): a change notification carries no id.\<close>

definition change_doc :: "('j, 'z) jsonrpc_scheme \<Rightarrow> string \<Rightarrow> 'j \<Rightarrow> 'j" where
  "change_doc J path value =
     (let data = json_put J (json_null J) (rpc_METHOD J) (json_string J CHANGE);
          params = json_put J (json_null J) PATH (json_string J path);
          params = json_put J params VALUE value
      in json_put J data (rpc_PARAMS J) params)"

definition notifyState ::
    "('j, 'u, 'x, 'z) env_scheme \<Rightarrow> pid \<Rightarrow> string \<Rightarrow> 'j \<Rightarrow> ('j, 'u, 'x, int32) peer_prog" where
  "notifyState E p path value =
     try_catch (seq (sendMessage E p (change_doc E path value)) (ret 0)) (\<lambda>_. ret (- 1))"

end
