(* ===== verification/Async_Request.thy ===== *)
theory Async_Request
  imports Peer_State
begin

text \<open>
  lib/asyncrequest.cpp: the requests that wait for a response, shared by all peers of the process.
  An \<open>AsyncRequest\<close> object is its JSON document; \<open>execute\<close> returns the id it was given.
\<close>

text \<open>A block under \<open>lock_guard\<close> of the mutex of the open requests.  The mutex is not recursive:
  taking it while it is held never returns.\<close>

definition locked :: "('j, 'u, 'x, 'a) peer_prog \<Rightarrow> ('j, 'u, 'x, 'a) peer_prog" where
  "locked m = (\<lambda>w. if m_mtx_openRequestCbs w then None
     else case m (w\<lparr>m_mtx_openRequestCbs := True\<rparr>) of
         None \<Rightarrow> None
       | Some (r, w') \<Rightarrow> Some (r, w'\<lparr>m_mtx_openRequestCbs := False\<rparr>))"

definition AsyncRequest :: "('j, 'z) jsonrpc_scheme \<Rightarrow> string \<Rightarrow> 'j \<Rightarrow> 'j" where
  "AsyncRequest J name params =
     (let doc = json_null J;
          doc = json_put J doc (rpc_JSONRPC J) (json_string J ''2.0'');
          doc = json_put J doc (rpc_METHOD J) (json_string J name)
      in json_put J doc (rpc_PARAMS J) params)"

text \<open>\<open>m_id = ++m_sid; m_openRequestCbs[m_id].responseCallback = resultCb;\<close>\<close>

definition request_at :: "uint32 \<Rightarrow> (uint32 \<times> 'u Request) list \<Rightarrow> 'u Request" where
  "request_at i reqs = (case map_of reqs i of
       None \<Rightarrow> \<lparr>responseCallback = None, errorNotifier = None\<rparr>
     | Some r \<Rightarrow> r)"

definition add_request :: "'u responseCb \<Rightarrow> ('j, 'u, 'x) world \<Rightarrow> ('j, 'u, 'x) world" where
  "add_request cb w = (let i = m_sid w + 1; reqs = m_openRequestCbs w in
     w\<lparr>m_sid := i, m_openRequestCbs :=
       AList.update i (request_at i reqs\<lparr>responseCallback := Some cb\<rparr>) reqs\<rparr>)"

definition set_notifier :: "uint32 \<Rightarrow> int32 \<Rightarrow> string \<Rightarrow> ('j, 'u, 'x) world \<Rightarrow> ('j, 'u, 'x) world" where
  "set_notifier i c msg w = (let reqs = m_openRequestCbs w in
     w\<lparr>m_openRequestCbs :=
       AList.update i (request_at i reqs\<lparr>errorNotifier := Some (c, msg)\<rparr>) reqs\<rparr>)"

text \<open>What \<open>catch (const hbk::exception::jsonrpcException& e)\<close> catches: the class and its
  subclass.\<close>

fun as_jsonrpc :: "'j exn \<Rightarrow> (int32 \<times> string) option" where
  "as_jsonrpc (JsoncppRpcException e) = Some (m_code e, m_message e)"
| "as_jsonrpc (JsonrpcException c msg) = Some (c, msg)"
| "as_jsonrpc _ = None"

definition execute :: "('j, 'u, 'x, 'z) env_scheme \<Rightarrow> pid \<Rightarrow> 'j \<Rightarrow> 'u responseCallback_t
    \<Rightarrow> ('j, 'u, 'x, uint32) peer_prog" where
  "execute E p doc resultCb =
     (case resultCb of
        None \<Rightarrow>
          seq (try_catch (sendMessage E p doc)
                 (\<lambda>e. if as_jsonrpc e = None then raise e else ret ()))
            (ret 0)
      | Some cb \<Rightarrow>
          bnd (locked (seq (modify (add_request cb)) (gets m_sid))) (\<lambda>m_id.
          seq (try_catch (sendMessage E p (json_put E doc (rpc_ID E) (json_uint E m_id)))
                 (\<lambda>e. case as_jsonrpc e of
                    None \<Rightarrow> raise e
                  | Some (c, msg) \<Rightarrow> modify (set_notifier m_id c msg)))
            (ret m_id)))"

text \<open>The overload without a result callback.\<close>

definition execute_notification ::
    "('j, 'u, 'x, 'z) env_scheme \<Rightarrow> pid \<Rightarrow> 'j \<Rightarrow> ('j, 'u, 'x, unit) peer_prog" where
  "execute_notification E p doc = try_catch (sendMessage E p doc) (\<lambda>_. ret ())"

text \<open>Calling a response callback.  The closures of peerasync.cpp first undo a failed
  registration, then call the user's callback and swallow what it throws.\<close>

primrec call_response :: "('j, 'u, 'x, 'z) env_scheme \<Rightarrow> 'u responseCb \<Rightarrow> 'j
    \<Rightarrow> ('j, 'u, 'x, unit) peer_prog" where
  "call_response E (UserCb u) result = run_response E u result"
| "call_response E (AddMethodCb p path cb) result =
     seq (addMethodResultCb E p result path)
       (try_catch (call_response E cb result) (\<lambda>_. ret ()))"
| "call_response E (AddStateCb p path cb) result =
     seq (addStateResultCb E p result path)
       (try_catch (call_response E cb result) (\<lambda>_. ret ()))"
| "call_response E (AddFetchCb p fetchId cb) result =
     seq (addFetchResultCb E p result fetchId)
       (try_catch (call_response E cb result) (\<lambda>_. ret ()))"
| "call_response E (SyncCb n) result = (\<lambda>w.
     if promises w n = None then ret () (w\<lparr>promises := (promises w)(n \<mapsto> result)\<rparr>)
     else raise (StdException ''future_error'') w)"

text \<open>\<open>AsyncRequest::handleResult\<close>: the entry is copied and erased under the lock, the callback is
  called after the lock is released.\<close>

definition take_request :: "uint32 \<Rightarrow> ('j, 'u, 'x, 'u Request option) peer_prog" where
  "take_request i = locked (bnd (gets (\<lambda>w. map_of (m_openRequestCbs w) i)) (\<lambda>r.
     case r of
       None \<Rightarrow> ret None
     | Some req \<Rightarrow>
         seq (modify (\<lambda>w. w\<lparr>m_openRequestCbs := AList.delete i (m_openRequestCbs w)\<rparr>))
           (ret (Some req))))"

definition handleResult ::
    "('j, 'u, 'x, 'z) env_scheme \<Rightarrow> 'j \<Rightarrow> ('j, 'u, 'x, unit) peer_prog" where
  "handleResult E data =
     bnd (lift (sum_bind (json_get E data (rpc_ID E)) (json_asUInt E))) (\<lambda>i.
     bnd (take_request i) (\<lambda>r.
     case r of
       None \<Rightarrow> ret ()
     | Some req \<Rightarrow>
         try_catch
           (case responseCallback req of
              None \<Rightarrow> raise BadFunctionCall
            | Some cb \<Rightarrow> call_response E cb data)
           (\<lambda>_. ret ())))"

definition error_doc :: "('j, 'z) jsonrpc_scheme \<Rightarrow> uint32 \<Rightarrow> int32 \<Rightarrow> string \<Rightarrow> 'j" where
  "error_doc J i c msg =
     (let response = json_put J (json_null J) (rpc_ID J) (json_uint J i);
          response = json_put2 J response (rpc_ERR J) (rpc_CODE J) (json_int J c)
      in json_put2 J response (rpc_ERR J) (rpc_MESSAGE J) (json_string J msg))"

text \<open>
  The notifier of a request whose message could not be sent, run by the event loop.  The closure
  reads \<open>m_id\<close> through the captured \<open>this\<close>, an object that lives on the stack of the function
  that created the request; \<open>captured_id\<close> is what this read yields.
\<close>

definition fire_errorNotifier ::
    "('j, 'u, 'x, 'z) env_scheme \<Rightarrow> uint32 \<Rightarrow> ('j, 'u, 'x, unit) peer_prog" where
  "fire_errorNotifier E i =
     bnd (gets (\<lambda>w. map_of (m_openRequestCbs w) i)) (\<lambda>r.
     case r of
       None \<Rightarrow> ret ()
     | Some req \<Rightarrow> (case errorNotifier req of
           None \<Rightarrow> ret ()
         | Some (c, msg) \<Rightarrow>
             seq (modify (\<lambda>w. w\<lparr>m_openRequestCbs :=
                    AList.update i (req\<lparr>errorNotifier := None\<rparr>) (m_openRequestCbs w)\<rparr>))
               (handleResult E (error_doc E (captured_id E i) c msg))))"

definition cancel_text :: string where
  "cancel_text = ''jet request has been canceled without response!''"

text \<open>\<open>AsyncRequest::clear\<close>: every callback is called while the lock is held.\<close>

definition cancel_request ::
    "('j, 'u, 'x, 'z) env_scheme \<Rightarrow> (uint32 \<times> 'u Request) list \<Rightarrow> uint32
     \<Rightarrow> ('j, 'u, 'x, unit) peer_prog" where
  "cancel_request E reqs i =
     (case map_of reqs i of
        None \<Rightarrow> ret ()
      | Some req \<Rightarrow> (case responseCallback req of
            None \<Rightarrow> ret ()
          | Some cb \<Rightarrow>
              try_catch (call_response E cb (error_doc E i (- 1) cancel_text)) (\<lambda>_. ret ())))"

definition clear :: "('j, 'u, 'x, 'z) env_scheme \<Rightarrow> ('j, 'u, 'x, nat) peer_prog" where
  "clear E = locked (bnd (gets m_openRequestCbs) (\<lambda>reqs.
     seq (for_each (hash_order E (keys reqs)) (cancel_request E reqs))
       (seq (modify (\<lambda>w. w\<lparr>m_openRequestCbs := []\<rparr>)) (ret (length reqs)))))"

end
