(* ===== verification/Peer_Requests.thy ===== *)
theory Peer_Requests
  imports Async_Request
begin

text \<open>
  The requests of lib/peerasync.cpp: info, config, call, add, remove, set, get, fetch, unfetch and
  authenticate.  Each builds its parameters, updates the registries and executes an
  \<open>AsyncRequest\<close>.  Overloads are told apart by a suffix: \<open>_timeout\<close> and \<open>_groups\<close>.
\<close>

section \<open>Parameters\<close>

text \<open>\<open>PeerAsync::addPathInformation\<close>\<close>

definition add_rule :: "('j, 'z) jsoncpp_scheme \<Rightarrow> string \<Rightarrow> string \<Rightarrow> 'j \<Rightarrow> 'j" where
  "add_rule J key x params =
     (if x \<noteq> [] then json_put2 J params PATH key (json_string J x) else params)"

definition add_contained :: "('j, 'z) jsoncpp_scheme \<Rightarrow> 'j \<Rightarrow> string \<Rightarrow> 'j" where
  "add_contained J params x = json_put2 J params PATH CONTAINSALLOF
     (json_append J (json_child J (json_child J params PATH) CONTAINSALLOF) (json_string J x))"

definition addPathInformation :: "('j, 'z) jsoncpp_scheme \<Rightarrow> matcher_t \<Rightarrow> 'j \<Rightarrow> 'j" where
  "addPathInformation J match params =
     (let params = add_rule J CONTAINS (contains match) params;
          params = add_rule J STARTSWITH (startsWith match) params;
          params = add_rule J ENDSWITH (endsWith match) params;
          params = add_rule J EQUALS (equals match) params;
          params = add_rule J EQUALSNOT (equalsNot match) params;
          params = (if containsAllOf match \<noteq> []
                    then foldl (add_contained J) params (containsAllOf match) else params)
      in if caseInsensitive match then json_put2 J params PATH CASEINSENSITIVE (json_bool J True)
         else params)"

text \<open>\<open>if (!groups.empty()) \<dots> params[ACCESS][key] = groups\<close>\<close>

definition add_groups :: "('j, 'z) jsoncpp_scheme \<Rightarrow> string \<Rightarrow> userGroups_t \<Rightarrow> 'j \<Rightarrow> 'j" where
  "add_groups J key groups params =
     (if groups \<noteq> [] then
        json_put2 J params ACCESS key
          (foldl (\<lambda>a g. json_append J a (json_string J g)) (json_array J) groups)
      else params)"

definition timeout_params :: "('j, 'z) jsoncpp_scheme \<Rightarrow> double \<Rightarrow> 'j" where
  "timeout_params J timeout_s = json_put J (json_null J) TIMEOUT (json_double J timeout_s)"

section \<open>Requests without registration\<close>

definition infoAsync :: "('j, 'u, 'x, 'z) env_scheme \<Rightarrow> pid \<Rightarrow> 'u responseCallback_t
    \<Rightarrow> ('j, 'u, 'x, unit) peer_prog" where
  "infoAsync E p resultCallback =
     seq (execute E p (AsyncRequest E INFO (json_null E)) resultCallback) (ret ())"

definition configAsync :: "('j, 'u, 'x, 'z) env_scheme \<Rightarrow> pid \<Rightarrow> string \<Rightarrow> bool
    \<Rightarrow> 'u responseCallback_t \<Rightarrow> ('j, 'u, 'x, unit) peer_prog" where
  "configAsync E p name debug resultCallback =
     (let params = json_put E (json_null E) NAME (json_string E name);
          params = json_put E params DBG (json_bool E debug)
      in seq (execute E p (AsyncRequest E CONFIG params) resultCallback) (ret ()))"

definition callMethodAsyncPrivate :: "('j, 'u, 'x, 'z) env_scheme \<Rightarrow> pid \<Rightarrow> string \<Rightarrow> 'j \<Rightarrow> 'j
    \<Rightarrow> 'u responseCallback_t \<Rightarrow> ('j, 'u, 'x, unit) peer_prog" where
  "callMethodAsyncPrivate E p path args params resultCb =
     (let params = json_put E params PATH (json_string E path);
          params = (if \<not> isNull E args then json_put E params ARGS args else params)
      in seq (execute E p (AsyncRequest E CALL params) resultCb) (ret ()))"

definition callMethodAsync :: "('j, 'u, 'x, 'z) env_scheme \<Rightarrow> pid \<Rightarrow> string \<Rightarrow> 'j
    \<Rightarrow> 'u responseCallback_t \<Rightarrow> ('j, 'u, 'x, unit) peer_prog" where
  "callMethodAsync E p path args resultCb =
     callMethodAsyncPrivate E p path args (json_null E) resultCb"

definition callMethodAsync_timeout :: "('j, 'u, 'x, 'z) env_scheme \<Rightarrow> pid \<Rightarrow> string \<Rightarrow> 'j
    \<Rightarrow> double \<Rightarrow> 'u responseCallback_t \<Rightarrow> ('j, 'u, 'x, unit) peer_prog" where
  "callMethodAsync_timeout E p path args timeout_s resultCb =
     callMethodAsyncPrivate E p path args (timeout_params E timeout_s) resultCb"

definition setStateValueAsyncPrivate :: "('j, 'u, 'x, 'z) env_scheme \<Rightarrow> pid \<Rightarrow> string \<Rightarrow> 'j \<Rightarrow> 'j
    \<Rightarrow> 'u responseCallback_t \<Rightarrow> ('j, 'u, 'x, unit) peer_prog" where
  "setStateValueAsyncPrivate E p path value params resultCallback =
     (let params = json_put E params PATH (json_string E path);
          params = json_put E params VALUE value
      in seq (execute E p (AsyncRequest E SET params) resultCallback) (ret ()))"

definition setStateValueAsync :: "('j, 'u, 'x, 'z) env_scheme \<Rightarrow> pid \<Rightarrow> string \<Rightarrow> 'j
    \<Rightarrow> 'u responseCallback_t \<Rightarrow> ('j, 'u, 'x, unit) peer_prog" where
  "setStateValueAsync E p path value resultCallback =
     setStateValueAsyncPrivate E p path value (json_null E) resultCallback"

definition setStateValueAsync_timeout :: "('j, 'u, 'x, 'z) env_scheme \<Rightarrow> pid \<Rightarrow> string \<Rightarrow> 'j
    \<Rightarrow> double \<Rightarrow> 'u responseCallback_t \<Rightarrow> ('j, 'u, 'x, unit) peer_prog" where
  "setStateValueAsync_timeout E p path value timeout_s resultCallback =
     setStateValueAsyncPrivate E p path value (timeout_params E timeout_s) resultCallback"

definition authenticateAsync :: "('j, 'u, 'x, 'z) env_scheme \<Rightarrow> pid \<Rightarrow> string \<Rightarrow> string
    \<Rightarrow> 'u responseCallback_t \<Rightarrow> ('j, 'u, 'x, unit) peer_prog" where
  "authenticateAsync E p user password resultCallback =
     (let params = json_put E (json_null E) USER (json_string E user);
          params = json_put E params PASSWORD (json_string E password)
      in seq (execute E p (AsyncRequest E AUTHENTICATE params) resultCallback) (ret ()))"

definition getAsync :: "('j, 'u, 'x, 'z) env_scheme \<Rightarrow> pid \<Rightarrow> matcher_t \<Rightarrow> 'u responseCallback_t
    \<Rightarrow> ('j, 'u, 'x, unit) peer_prog" where
  "getAsync E p match resultCallback =
     seq (execute E p (AsyncRequest E GET (addPathInformation E match (json_null E)))
       resultCallback) (ret ())"

section \<open>Methods\<close>

definition addMethodAsyncPrivate :: "('j, 'u, 'x, 'z) env_scheme \<Rightarrow> pid \<Rightarrow> string \<Rightarrow> 'j
    \<Rightarrow> 'u responseCallback_t \<Rightarrow> 'u option \<Rightarrow> ('j, 'u, 'x, unit) peer_prog" where
  "addMethodAsyncPrivate E p path params resultCallback callback =
     (let params = json_put E params PATH (json_string E path);
          request = AsyncRequest E ADD params
      in seq (registerMethod p path callback)
           (case resultCallback of
              None \<Rightarrow> execute_notification E p request
            | Some cb \<Rightarrow> seq (execute E p request (Some (AddMethodCb p path cb))) (ret ())))"

definition addMethodAsync :: "('j, 'u, 'x, 'z) env_scheme \<Rightarrow> pid \<Rightarrow> string
    \<Rightarrow> 'u responseCallback_t \<Rightarrow> 'u option \<Rightarrow> ('j, 'u, 'x, unit) peer_prog" where
  "addMethodAsync E p path resultCallback callback =
     addMethodAsyncPrivate E p path (json_null E) resultCallback callback"

definition addMethodAsync_timeout :: "('j, 'u, 'x, 'z) env_scheme \<Rightarrow> pid \<Rightarrow> string \<Rightarrow> double
    \<Rightarrow> 'u responseCallback_t \<Rightarrow> 'u option \<Rightarrow> ('j, 'u, 'x, unit) peer_prog" where
  "addMethodAsync_timeout E p path timeout_s resultCallback callback =
     addMethodAsyncPrivate E p path (timeout_params E timeout_s) resultCallback callback"

definition addMethodAsync_groups :: "('j, 'u, 'x, 'z) env_scheme \<Rightarrow> pid \<Rightarrow> string \<Rightarrow> userGroups_t
    \<Rightarrow> userGroups_t \<Rightarrow> 'u option \<Rightarrow> double \<Rightarrow> 'u responseCallback_t
    \<Rightarrow> ('j, 'u, 'x, unit) peer_prog" where
  "addMethodAsync_groups E p path fetchGroups callGroups callback timeout_s resultCallback =
     (let params = timeout_params E timeout_s;
          params = add_groups E FETCH_GROUPS fetchGroups params;
          params = add_groups E CALL_GROUPS callGroups params
      in addMethodAsyncPrivate E p path params resultCallback callback)"

definition removeMethodAsync :: "('j, 'u, 'x, 'z) env_scheme \<Rightarrow> pid \<Rightarrow> string
    \<Rightarrow> 'u responseCallback_t \<Rightarrow> ('j, 'u, 'x, unit) peer_prog" where
  "removeMethodAsync E p path resultCallback =
     (if path = [] then ret ()
      else seq (unregisterMethod p path)
        (seq (execute E p (AsyncRequest E REMOVE
             (json_put E (json_null E) PATH (json_string E path))) resultCallback) (ret ())))"

section \<open>States\<close>

definition addStateAsyncPrivate :: "('j, 'u, 'x, 'z) env_scheme \<Rightarrow> pid \<Rightarrow> string \<Rightarrow> 'j \<Rightarrow> 'j
    \<Rightarrow> 'u responseCallback_t \<Rightarrow> 'u option \<Rightarrow> ('j, 'u, 'x, unit) peer_prog" where
  "addStateAsyncPrivate E p path value params resultCallback callback =
     (let params = json_put E params PATH (json_string E path);
          params = json_put E params VALUE value;
          params = (if callback = None then json_put E params FETCHONLY (json_bool E True)
                    else params);
          request = AsyncRequest E ADD params
      in seq (registerState p path callback)
           (case resultCallback of
              None \<Rightarrow> execute_notification E p request
            | Some cb \<Rightarrow> seq (execute E p request (Some (AddStateCb p path cb))) (ret ())))"

definition addStateAsync :: "('j, 'u, 'x, 'z) env_scheme \<Rightarrow> pid \<Rightarrow> string \<Rightarrow> 'j
    \<Rightarrow> 'u responseCallback_t \<Rightarrow> 'u option \<Rightarrow> ('j, 'u, 'x, unit) peer_prog" where
  "addStateAsync E p path value resultCallback callback =
     addStateAsyncPrivate E p path value (json_null E) resultCallback callback"

definition addStateAsync_timeout :: "('j, 'u, 'x, 'z) env_scheme \<Rightarrow> pid \<Rightarrow> string \<Rightarrow> 'j \<Rightarrow> double
    \<Rightarrow> 'u responseCallback_t \<Rightarrow> 'u option \<Rightarrow> ('j, 'u, 'x, unit) peer_prog" where
  "addStateAsync_timeout E p path value timeout_s resultCallback callback =
     addStateAsyncPrivate E p path value (timeout_params E timeout_s) resultCallback callback"

definition addStateAsync_groups :: "('j, 'u, 'x, 'z) env_scheme \<Rightarrow> pid \<Rightarrow> string \<Rightarrow> userGroups_t
    \<Rightarrow> userGroups_t \<Rightarrow> 'j \<Rightarrow> double \<Rightarrow> 'u responseCallback_t \<Rightarrow> 'u option
    \<Rightarrow> ('j, 'u, 'x, unit) peer_prog" where
  "addStateAsync_groups E p path fetchGroups setGroups value timeout_s resultCallback callback =
     (let params = timeout_params E timeout_s;
          params = add_groups E FETCH_GROUPS fetchGroups params;
          params = add_groups E SET_GROUPS setGroups params
      in addStateAsyncPrivate E p path value params resultCallback callback)"

definition removeStateAsync :: "('j, 'u, 'x, 'z) env_scheme \<Rightarrow> pid \<Rightarrow> string
    \<Rightarrow> 'u responseCallback_t \<Rightarrow> ('j, 'u, 'x, unit) peer_prog" where
  "removeStateAsync E p path resultCb =
     (if path = [] then ret ()
      else seq (unregisterState p path)
        (seq (execute E p (AsyncRequest E REMOVE
             (json_put E (json_null E) PATH (json_string E path))) resultCb) (ret ())))"

section \<open>Fetches\<close>

definition fetch_params :: "('j, 'z) jsonrpc_scheme \<Rightarrow> fetchId_t \<Rightarrow> matcher_t \<Rightarrow> 'j" where
  "fetch_params J fetchId match =
     addPathInformation J match (json_put J (json_null J) (rpc_ID J) (json_int J fetchId))"

definition addFetchAsync :: "('j, 'u, 'x, 'z) env_scheme \<Rightarrow> pid \<Rightarrow> matcher_t \<Rightarrow> 'u option
    \<Rightarrow> 'u responseCallback_t \<Rightarrow> ('j, 'u, 'x, fetchId_t) peer_prog" where
  "addFetchAsync E p match callback resultCb =
     bnd createFetchId (\<lambda>fetchId.
     let request = AsyncRequest E FETCH (fetch_params E fetchId match) in
     seq (registerFetch p fetchId (fetcher_of callback match))
    (seq (case resultCb of
            None \<Rightarrow> execute_notification E p request
          | Some cb \<Rightarrow> seq (execute E p request (Some (AddFetchCb p fetchId cb))) (ret ()))
         (ret fetchId)))"

definition restoreFetch :: "('j, 'u, 'x, 'z) env_scheme \<Rightarrow> pid \<Rightarrow> matcher_t \<Rightarrow> fetchId_t
    \<Rightarrow> ('j, 'u, 'x, unit) peer_prog" where
  "restoreFetch E p match fetchId =
     seq (execute E p (AsyncRequest E FETCH (fetch_params E fetchId match)) None) (ret ())"

definition removeFetchAsync :: "('j, 'u, 'x, 'z) env_scheme \<Rightarrow> pid \<Rightarrow> fetchId_t
    \<Rightarrow> 'u responseCallback_t \<Rightarrow> ('j, 'u, 'x, unit) peer_prog" where
  "removeFetchAsync E p fetchId resultCb =
     seq (unregisterFetch p fetchId)
       (seq (execute E p (AsyncRequest E UNFETCH
            (json_put E (json_null E) (rpc_ID E) (json_int E fetchId))) resultCb) (ret ()))"

end
