(* ===== verification/Peer_Lifecycle.thy ===== *)
theory Peer_Lifecycle
  imports Peer_Requests
begin

text \<open>
  Construction, \<open>start\<close>, \<open>stop\<close>, \<open>resume\<close> and destruction of a \<open>PeerAsync\<close>
  (lib/peerasync.cpp; the build for systems with Unix domain sockets).
\<close>

text \<open>
  A range-based \<open>for\<close> over \<open>m_fetchers\<close>.  A body that changes the table while it is traversed
  invalidates iterators: from there on the standard defines nothing.
\<close>

definition for_fetchers :: "('j, 'u, 'x, 'z) env_scheme \<Rightarrow> pid
    \<Rightarrow> (fetchId_t \<Rightarrow> 'u fetcher_t \<Rightarrow> ('j, 'u, 'x, unit) peer_prog)
    \<Rightarrow> ('j, 'u, 'x, unit) peer_prog" where
  "for_fetchers E p body =
     bnd (gets (\<lambda>w. m_fetchers (peers w p))) (\<lambda>fetchers.
     for_each (hash_order E (keys fetchers)) (\<lambda>k.
       seq (case map_of fetchers k of None \<Rightarrow> ret () | Some fetcher \<Rightarrow> body k fetcher)
         (\<lambda>w. if m_fetchers (peers w p) = fetchers then ret () w else stuck w)))"

definition reset_buffers :: "'u peer \<Rightarrow> 'u peer" where
  "reset_buffers q = q\<lparr>m_lengthBufferLevel := 0, m_dataBuffer := [], m_dataBufferLevel := 0\<rparr>"

definition connect_error :: "string \<Rightarrow> 'j exn" where
  "connect_error where_to =
     RuntimeError (''jet peerAsync could not connect to jetd ('' @ where_to @ '')!'')"

definition connect ::
    "('j, 'u, 'x, 'z) env_scheme \<Rightarrow> pid \<Rightarrow> ('j, 'u, 'x, unit) peer_prog" where
  "connect E p = (\<lambda>w.
     let address = m_address (peers w p) in
     if m_port (peers w p) \<noteq> 0 then
       (let portString = uint_to_string (m_port (peers w p)) in
        case sock_connect_tcp E p address portString (ext w) of (retVal, x) \<Rightarrow>
          if sint retVal < 0
          then raise (connect_error (''tcp: '' @ address @ '':'' @ portString)) (w\<lparr>ext := x\<rparr>)
          else ret () (w\<lparr>ext := x\<rparr>))
     else
       (case sock_connect_unix E p address (ext w) of (retVal, x) \<Rightarrow>
          if sint retVal < 0 then raise (connect_error address) (w\<lparr>ext := x\<rparr>)
          else ret () (w\<lparr>ext := x\<rparr>)))"

definition start ::
    "('j, 'u, 'x, 'z) env_scheme \<Rightarrow> pid \<Rightarrow> ('j, 'u, 'x, unit) peer_prog" where
  "start E p =
     seq (modify (upd_peer p reset_buffers))
    (seq (connect E p)
    (seq (modify (upd_peer p (\<lambda>q. q\<lparr>m_dataCb := True\<rparr>)))
    (seq (bnd (gets (\<lambda>w. peers w p)) (\<lambda>q. configAsync E p (m_name q) (m_debug q) None))
         (for_fetchers E p (\<lambda>fetchId fetcher.
            try_catch (restoreFetch E p (fetch_matcher fetcher) fetchId) (\<lambda>_. ret ()))))))"

definition stop ::
    "('j, 'u, 'x, 'z) env_scheme \<Rightarrow> pid \<Rightarrow> ('j, 'u, 'x, unit) peer_prog" where
  "stop E p =
     seq (modify (upd_peer p (\<lambda>q. q\<lparr>m_stopped := True\<rparr>)))
    (seq (modify (\<lambda>w. w\<lparr>ext := sock_disconnect E p (ext w)\<rparr>))
    (seq (for_fetchers E p (\<lambda>fetchId fetcher.
            try_catch (call_fetch E (fetch_callback fetcher) (json_null E) (- 1)) (\<lambda>_. ret ())))
    (seq (modify (upd_peer p (\<lambda>q. q\<lparr>m_stateCallbacks := Map.empty\<rparr>)))
    (seq (modify (upd_peer p (\<lambda>q. q\<lparr>m_methodCallbacks := Map.empty\<rparr>)))
    (seq (clear E) (ret ()))))))"

definition resume ::
    "('j, 'u, 'x, 'z) env_scheme \<Rightarrow> pid \<Rightarrow> ('j, 'u, 'x, bool) peer_prog" where
  "resume E p = try_catch (seq (start E p) (ret True)) (\<lambda>_. ret False)"

text \<open>The constructor; the content of the length buffer is not initialised.\<close>

definition PeerAsync :: "('j, 'u, 'x, 'z) env_scheme \<Rightarrow> pid \<Rightarrow> string \<Rightarrow> uint32 \<Rightarrow> string \<Rightarrow> bool
    \<Rightarrow> byte list \<Rightarrow> ('j, 'u, 'x, unit) peer_prog" where
  "PeerAsync E p address port name debug lengthBuffer =
     seq (modify (upd_peer p (\<lambda>_. \<lparr>m_address = address, m_port = port, m_name = name,
        m_debug = debug, m_dataCb = False, m_stopped = False,
        m_bigEndianLengthBuffer = take 4 (lengthBuffer @ replicate 4 0),
        m_lengthBufferLevel = 0, m_stateCallbacks = Map.empty, m_methodCallbacks = Map.empty,
        m_fetchers = [], m_dataBuffer = [], m_dataBufferLevel = 0\<rparr>)))
       (start E p)"

definition destroy ::
    "('j, 'u, 'x, 'z) env_scheme \<Rightarrow> pid \<Rightarrow> ('j, 'u, 'x, unit) peer_prog" where
  "destroy E p = seq (stop E p) (modify (upd_peer p (\<lambda>q. q\<lparr>m_fetchers := []\<rparr>)))"

end
