(* ===== verification/Peer_Dispatch.thy ===== *)
theory Peer_Dispatch
  imports Peer_Lifecycle
begin

text \<open>
  \<open>PeerAsync::receiveCallback\<close> and \<open>PeerAsync::handleMessage\<close> (lib/peerasync.cpp): what a
  received message does.
\<close>

text \<open>\<open>response[ERR][CODE] = c; response[ERR][MESSAGE] = msg;\<close>\<close>

definition put_error :: "('j, 'z) jsonrpc_scheme \<Rightarrow> 'j \<Rightarrow> int32 \<Rightarrow> string \<Rightarrow> 'j" where
  "put_error J response c msg =
     json_put2 J (json_put2 J response (rpc_ERR J) (rpc_CODE J) (json_int J c))
       (rpc_ERR J) (rpc_MESSAGE J) (json_string J msg)"

text \<open>The texts of \<open>what()\<close> for the exceptions that only the handler of \<open>std::exception\<close>
  catches.\<close>

fun std_what :: "'j exn \<Rightarrow> string option" where
  "std_what (RuntimeError msg) = Some msg"
| "std_what (LogicError msg) = Some msg"
| "std_what BadFunctionCall = Some ''bad_function_call''"
| "std_what (StdException msg) = Some msg"
| "std_what _ = None"

text \<open>The four handlers behind a state or method callback, in their order.\<close>

definition error_response :: "('j, 'z) jsonrpc_scheme \<Rightarrow> 'j exn \<Rightarrow> 'j \<Rightarrow> 'j" where
  "error_response J e response =
     (case e of
        JsoncppRpcException x \<Rightarrow> exn_json J x
      | JsonrpcException c msg \<Rightarrow> put_error J response c msg
      | _ \<Rightarrow> (case std_what e of
            Some msg \<Rightarrow> put_error J response (rpc_internalError J) msg
          | None \<Rightarrow> put_error J response (rpc_internalError J) ''caught exception!''))"

text \<open>The result object for a state that was set: empty, or a warning.\<close>

definition state_result :: "('j, 'z) jsonrpc_scheme \<Rightarrow> SetStateResult \<Rightarrow> 'j \<Rightarrow> 'j" where
  "state_result J r response =
     (if code r \<noteq> 0 then
        (let response = json_put3 J response (rpc_RESULT J) WARNING (rpc_CODE J)
                          (json_int J (code r))
         in if message r \<noteq> [] then
              json_put3 J response (rpc_RESULT J) WARNING (rpc_MESSAGE J)
                (json_string J (message r))
            else response)
      else json_put J response (rpc_RESULT J) (json_object J))"

text \<open>The body of the \<open>try\<close> block: call the callback, notify a changed value, then build the
  response.\<close>

definition set_state :: "('j, 'u, 'x, 'z) env_scheme \<Rightarrow> pid \<Rightarrow> 'u \<Rightarrow> 'j \<Rightarrow> string
    \<Rightarrow> ('j, 'u, 'x, 'j) peer_prog" where
  "set_state E p callback value path =
     bnd (run_state E callback value path) (\<lambda>stateCallbackResult.
     seq (if \<not> isNull E (cb_value stateCallbackResult)
          then sendMessage E p (change_doc E path (cb_value stateCallbackResult)) else ret ())
       (ret (state_result E (cb_result stateCallbackResult) (json_null E))))"

definition read_only_response :: "('j, 'z) jsonrpc_scheme \<Rightarrow> 'j" where
  "read_only_response J = put_error J (json_null J) (rpc_internalError J) ''state is read only!''"

text \<open>\<open>if (idNode) \<dots> sendMessage(response)\<close>; only the exception of \<open>sendMessage\<close> is caught.\<close>

definition send_response :: "('j, 'u, 'x, 'z) env_scheme \<Rightarrow> pid \<Rightarrow> 'j \<Rightarrow> 'j
    \<Rightarrow> ('j, 'u, 'x, unit) peer_prog" where
  "send_response E p data response =
     bnd (lift (json_get E data (rpc_ID E))) (\<lambda>idNode.
     if \<not> isNull E idNode then
       try_catch (sendMessage E p (json_put E response (rpc_ID E) idNode))
         (\<lambda>e. if as_jsonrpc e = None then raise e else ret ())
     else ret ())"

definition handle_state :: "('j, 'u, 'x, 'z) env_scheme \<Rightarrow> pid \<Rightarrow> 'u option \<Rightarrow> string \<Rightarrow> 'j
    \<Rightarrow> ('j, 'u, 'x, unit) peer_prog" where
  "handle_state E p callback method data =
     bnd (lift (json_get2 E data (rpc_PARAMS E) VALUE)) (\<lambda>value.
     if isNull E value then ret ()
     else
       bnd (case callback of
              None \<Rightarrow> ret (read_only_response E)
            | Some u \<Rightarrow> try_catch (set_state E p u value method)
                          (\<lambda>e. ret (error_response E e (json_null E))))
         (send_response E p data))"

text \<open>
  \<open>response[RESULT] = iter->second(params)\<close>: when the left side is evaluated first, the member
  exists (as null) while the callback runs, also if the callback then throws.
\<close>

definition method_response_base :: "('j, 'u, 'x, 'z) env_scheme \<Rightarrow> 'j" where
  "method_response_base E =
     (if lhs_first E then json_put E (json_null E) (rpc_RESULT E) (json_null E) else json_null E)"

definition handle_method :: "('j, 'u, 'x, 'z) env_scheme \<Rightarrow> pid \<Rightarrow> 'u option \<Rightarrow> 'j
    \<Rightarrow> ('j, 'u, 'x, unit) peer_prog" where
  "handle_method E p callback data =
     bnd (try_catch
            (bnd (lift (json_get E data (rpc_PARAMS E))) (\<lambda>params.
             bnd (call_method E callback params) (\<lambda>result.
             ret (json_put E (method_response_base E) (rpc_RESULT E) result))))
            (\<lambda>e. ret (error_response E e (method_response_base E))))
       (send_response E p data)"

definition handle_notification :: "('j, 'u, 'x, 'z) env_scheme \<Rightarrow> pid \<Rightarrow> 'u fetcher_t \<Rightarrow> 'j
    \<Rightarrow> ('j, 'u, 'x, unit) peer_prog" where
  "handle_notification E p fetcher data =
     bnd (lift (json_get E data (rpc_PARAMS E))) (\<lambda>params.
     try_catch (call_fetch E (fetch_callback fetcher) params 0) (\<lambda>_. ret ()))"

definition handleMessage ::
    "('j, 'u, 'x, 'z) env_scheme \<Rightarrow> pid \<Rightarrow> 'j \<Rightarrow> ('j, 'u, 'x, unit) peer_prog" where
  "handleMessage E p data =
     bnd (lift (json_get E data (rpc_METHOD E))) (\<lambda>methodNode.
     case json_type E methodNode of
       nullValue \<Rightarrow> handleResult E data
     | intValue \<Rightarrow>
         bnd (lift (json_asInt E methodNode)) (\<lambda>fetchId.
         bnd (gets (\<lambda>w. map_of (m_fetchers (peers w p)) fetchId)) (\<lambda>iter.
         case iter of
           None \<Rightarrow> ret ()
         | Some fetcher \<Rightarrow> handle_notification E p fetcher data))
     | stringValue \<Rightarrow>
         bnd (lift (json_asString E methodNode)) (\<lambda>method.
         bnd (gets (\<lambda>w. m_stateCallbacks (peers w p) method)) (\<lambda>state.
         case state of
           Some callback \<Rightarrow> handle_state E p callback method data
         | None \<Rightarrow>
             bnd (gets (\<lambda>w. m_methodCallbacks (peers w p) method)) (\<lambda>iter.
             case iter of
               Some callback \<Rightarrow> handle_method E p callback data
             | None \<Rightarrow> ret ())))
     | _ \<Rightarrow> ret ())"

definition receiveCallback ::
    "('j, 'u, 'x, 'z) env_scheme \<Rightarrow> pid \<Rightarrow> 'j \<Rightarrow> ('j, 'u, 'x, unit) peer_prog" where
  "receiveCallback E p data =
     (case json_type E data of
        arrayValue \<Rightarrow> for_each (json_elements E data) (handleMessage E p)
      | objectValue \<Rightarrow> handleMessage E p data
      | _ \<Rightarrow> ret ())"

end
