(* ===== verification/Peer_Receive.thy ===== *)
theory Peer_Receive
  imports Peer_Dispatch
begin

text \<open>
  \<open>PeerAsync::receive\<close> (lib/peerasync.cpp): four bytes of big-endian length, then that many bytes
  of JSON text, from a non-blocking socket that may deliver any number of bytes per call.  The three
  nested loops are three functions; \<open>flow\<close> says whether a loop was left by \<open>return\<close>.  A loop that
  never ends has no result.  The tables of the peer are in the state, so a partly received message
  survives until the next call.
\<close>

datatype flow = Return int32 | Continue

text \<open>One read into \<open>m_bigEndianLengthBuffer\<close>; \<open>retVal\<close> bytes were stored.\<close>

definition store_length :: "byte list \<Rightarrow> 'u peer \<Rightarrow> 'u peer" where
  "store_length bs q = q\<lparr>
     m_bigEndianLengthBuffer :=
       write_at (m_lengthBufferLevel q) bs (m_bigEndianLengthBuffer q),
     m_lengthBufferLevel := m_lengthBufferLevel q + length bs\<rparr>"

definition message_length :: "'u peer \<Rightarrow> nat" where
  "message_length q = be_value (m_bigEndianLengthBuffer q)"

definition store_data :: "byte list \<Rightarrow> 'u peer \<Rightarrow> 'u peer" where
  "store_data bs q = q\<lparr>
     m_dataBuffer := write_at (m_dataBufferLevel q) bs (m_dataBuffer q),
     m_dataBufferLevel := m_dataBufferLevel q + length bs\<rparr>"

text \<open>The first inner loop: read length information.\<close>

partial_function (option) receive_length ::
    "('j, 'u, 'x, 'z) env_scheme \<Rightarrow> pid \<Rightarrow> ('j, 'u, 'x) world
     \<Rightarrow> (('j exn + flow) \<times> ('j, 'u, 'x) world) option" where
  "receive_length E p w =
     (if m_lengthBufferLevel (peers w p) < 4 then
        (case sock_receive E p (4 - m_lengthBufferLevel (peers w p)) (ext w) of (res, x) \<Rightarrow>
         (case res of
            WouldBlock \<Rightarrow> Some (Inr (Return 0), w\<lparr>ext := x\<rparr>)
          | ReceiveError \<Rightarrow> seq (stop E p) (ret (Return (- 1))) (w\<lparr>ext := x\<rparr>)
          | Received bs \<Rightarrow>
              if bs = [] then seq (stop E p) (ret (Return 0)) (w\<lparr>ext := x\<rparr>)
              else
                let w = upd_peer p (store_length bs) (w\<lparr>ext := x\<rparr>) in
                if m_lengthBufferLevel (peers w p) = 4 then
                  if message_length (peers w p) > MAX_MESSAGE_SIZE
                  then seq (stop E p) (ret (Return (- 1))) w
                  else receive_length E p (upd_peer p
                    (\<lambda>q. q\<lparr>m_dataBuffer := resize (message_length q) (m_dataBuffer q)\<rparr>) w)
                else receive_length E p w))
      else Some (Inr Continue, w))"

text \<open>The second inner loop: read data.\<close>

partial_function (option) receive_data ::
    "('j, 'u, 'x, 'z) env_scheme \<Rightarrow> pid \<Rightarrow> ('j, 'u, 'x) world
     \<Rightarrow> (('j exn + flow) \<times> ('j, 'u, 'x) world) option" where
  "receive_data E p w =
     (if m_dataBufferLevel (peers w p) < length (m_dataBuffer (peers w p)) then
        (case sock_receive E p
             (length (m_dataBuffer (peers w p)) - m_dataBufferLevel (peers w p)) (ext w) of (res, x) \<Rightarrow>
         (case res of
            WouldBlock \<Rightarrow> Some (Inr (Return 0), w\<lparr>ext := x\<rparr>)
          | ReceiveError \<Rightarrow> seq (stop E p) (ret (Return (- 1))) (w\<lparr>ext := x\<rparr>)
          | Received bs \<Rightarrow>
              if bs = [] then seq (stop E p) (ret (Return 0)) (w\<lparr>ext := x\<rparr>)
              else receive_data E p (upd_peer p (store_data bs) (w\<lparr>ext := x\<rparr>))))
      else Some (Inr Continue, w))"

text \<open>
  The data package is complete: a terminating zero is appended, the bytes before it are parsed and
  dispatched (a parse error is only logged), and the buffers are cleared unless the dispatch threw.
\<close>

definition process_package ::
    "('j, 'u, 'x, 'z) env_scheme \<Rightarrow> pid \<Rightarrow> ('j, 'u, 'x, unit) peer_prog" where
  "process_package E p =
     seq (modify (upd_peer p (\<lambda>q. q\<lparr>m_dataBuffer := m_dataBuffer q @ [0]\<rparr>)))
    (seq (bnd (gets (\<lambda>w. json_parse E (butlast (m_dataBuffer (peers w p))))) (\<lambda>parsed.
            case parsed of None \<Rightarrow> ret () | Some data \<Rightarrow> receiveCallback E p data))
         (modify (upd_peer p reset_buffers)))"

partial_function (option) receive ::
    "('j, 'u, 'x, 'z) env_scheme \<Rightarrow> pid \<Rightarrow> ('j, 'u, 'x) world
     \<Rightarrow> (('j exn + int32) \<times> ('j, 'u, 'x) world) option" where
  "receive E p w =
     Option.bind (receive_length E p w) (\<lambda>(r, w).
     case r of
       Inl e \<Rightarrow> Some (Inl e, w)
     | Inr (Return i) \<Rightarrow> Some (Inr i, w)
     | Inr Continue \<Rightarrow>
         Option.bind (receive_data E p w) (\<lambda>(r, w).
         case r of
           Inl e \<Rightarrow> Some (Inl e, w)
         | Inr (Return i) \<Rightarrow> Some (Inr i, w)
         | Inr Continue \<Rightarrow>
             Option.bind (process_package E p w) (\<lambda>(r, w).
             case r of
               Inl e \<Rightarrow> Some (Inl e, w)
             | Inr _ \<Rightarrow> receive E p w)))"

end
