(* ===== verification/Framing.thy ===== *)
theory Framing
  imports Peer_Receive
begin

text \<open>
  What \<open>receive\<close> promises about the byte stream.  \<open>deframe\<close> is the specification: it cuts a byte
  stream into payloads by their length prefix.  The locale \<open>stream_socket\<close> states what the code
  relies on of a non-blocking stream socket (every call delivers some non-empty prefix of what has
  arrived, never more than asked for, and when nothing is left it reports how the stream stands:
  \<open>EWOULDBLOCK\<close> while the connection is open, no bytes when it was closed, any other error when it
  failed); \<open>framed_stream\<close> adds an observation and, for the payloads \<open>ok\<close>, that dispatching one returns, leaves reception
  alone and has a known effect on the observation.  Inside, \<open>receive\<close> is shown
  to dispatch exactly the payloads of \<open>deframe\<close>, however the socket cuts the stream into chunks,
  to keep the unfinished rest, and then to do what the end of the stream asks for: return, or stop
  the peer.
\<close>

section \<open>The specification\<close>

function deframe :: "byte list \<Rightarrow> byte list list \<times> byte list \<times> bool" where
  "deframe bs =
     (if length bs < 4 then ([], bs, False)
      else let n = be_value (take 4 bs) in
        if n > MAX_MESSAGE_SIZE then ([], bs, True)
        else if length bs < 4 + n then ([], bs, False)
        else case deframe (drop (4 + n) bs) of
            (payloads, rest, oversized) \<Rightarrow> (take n (drop 4 bs) # payloads, rest, oversized))"
  by pat_completeness auto
termination
  by (relation "measure length") auto

declare deframe.simps [simp del]

text \<open>What \<open>sendMessage\<close> puts on the wire for a text.\<close>

definition frame :: "byte list \<Rightarrow> byte list" where
  "frame msg = be_bytes (length msg) @ msg"

lemma deframe_payload:
  assumes "length header = 4" and "be_value header = length d" and "length d \<le> MAX_MESSAGE_SIZE"
  shows "deframe (header @ d @ bs) =
    (case deframe bs of (payloads, rest, oversized) \<Rightarrow> (d # payloads, rest, oversized))"
  using assms by (subst deframe.simps) simp

lemma deframe_frame:
  assumes "length msg \<le> MAX_MESSAGE_SIZE"
  shows "deframe (frame msg @ bs) =
    (case deframe bs of (payloads, rest, oversized) \<Rightarrow> (msg # payloads, rest, oversized))"
proof -
  have "be_value (be_bytes (length msg)) = length msg"
    using assms by (intro be_value_be_bytes) (simp add: MAX_MESSAGE_SIZE_def)
  with assms show ?thesis
    by (simp add: frame_def deframe_payload)
qed

lemma deframe_frames:
  assumes "\<forall>msg \<in> set msgs. length msg \<le> MAX_MESSAGE_SIZE"
  shows "deframe (concat (map frame msgs)) = (msgs, [], False)"
  using assms
proof (induction msgs)
  case Nil
  then show ?case by (simp add: deframe.simps)
next
  case (Cons msg msgs)
  then show ?case by (simp add: deframe_frame)
qed

section \<open>The reception state\<close>

definition rx :: "'u peer \<Rightarrow> byte list \<times> nat \<times> byte list \<times> nat" where
  "rx q = (m_bigEndianLengthBuffer q, m_lengthBufferLevel q, m_dataBuffer q, m_dataBufferLevel q)"

definition rx_inv :: "'u peer \<Rightarrow> bool" where
  "rx_inv q \<longleftrightarrow> length (m_bigEndianLengthBuffer q) = 4 \<and> m_lengthBufferLevel q \<le> 4 \<and>
     (if m_lengthBufferLevel q < 4 then m_dataBuffer q = [] \<and> m_dataBufferLevel q = 0
      else length (m_dataBuffer q) = message_length q \<and> message_length q \<le> MAX_MESSAGE_SIZE \<and>
        m_dataBufferLevel q \<le> length (m_dataBuffer q))"

text \<open>The bytes received so far of the message in progress.\<close>

definition pending :: "'u peer \<Rightarrow> byte list" where
  "pending q = (if m_lengthBufferLevel q < 4
     then take (m_lengthBufferLevel q) (m_bigEndianLengthBuffer q)
     else m_bigEndianLengthBuffer q @ take (m_dataBufferLevel q) (m_dataBuffer q))"

definition set_rx ::
    "byte list \<Rightarrow> nat \<Rightarrow> byte list \<Rightarrow> nat \<Rightarrow> 'u peer \<Rightarrow> 'u peer" where
  "set_rx lb ll db dl q = q\<lparr>m_bigEndianLengthBuffer := lb, m_lengthBufferLevel := ll,
     m_dataBuffer := db, m_dataBufferLevel := dl\<rparr>"

text \<open>Every update of \<open>receive\<close> to a peer only sets the reception state.\<close>

lemma rx_updates:
  "upd_peer p (store_length bs) w = upd_peer p (set_rx
     (write_at (m_lengthBufferLevel (peers w p)) bs (m_bigEndianLengthBuffer (peers w p)))
     (m_lengthBufferLevel (peers w p) + length bs)
     (m_dataBuffer (peers w p)) (m_dataBufferLevel (peers w p))) w"
  "upd_peer p (store_data bs) w = upd_peer p (set_rx
     (m_bigEndianLengthBuffer (peers w p)) (m_lengthBufferLevel (peers w p))
     (write_at (m_dataBufferLevel (peers w p)) bs (m_dataBuffer (peers w p)))
     (m_dataBufferLevel (peers w p) + length bs)) w"
  "upd_peer p (\<lambda>q. q\<lparr>m_dataBuffer := f q\<rparr>) w = upd_peer p (set_rx
     (m_bigEndianLengthBuffer (peers w p)) (m_lengthBufferLevel (peers w p))
     (f (peers w p)) (m_dataBufferLevel (peers w p))) w"
  "upd_peer p reset_buffers w = upd_peer p (set_rx (m_bigEndianLengthBuffer (peers w p)) 0 [] 0) w"
  by (simp_all add: upd_peer_def set_rx_def store_length_def store_data_def reset_buffers_def)

text \<open>
  What \<open>receive\<close> does when the bytes are used up: it returns 0 when the socket would block, stops the
  peer and returns 0 when the connection was closed, and stops it and returns -1 on an error.
\<close>

definition ended :: "('j, 'u, 'x, 'z) env_scheme \<Rightarrow> pid \<Rightarrow> recv_result \<Rightarrow> (int32 \<Rightarrow> 'a)
    \<Rightarrow> ('j, 'u, 'x, 'a) peer_prog" where
  "ended E p fin k = (case fin of
     WouldBlock \<Rightarrow> ret (k 0)
   | ReceiveError \<Rightarrow> seq (stop E p) (ret (k (- 1)))
   | Received _ \<Rightarrow> seq (stop E p) (ret (k 0)))"

lemma ended_simps [simp]:
  "ended E p WouldBlock k = ret (k 0)"
  "ended E p ReceiveError k = seq (stop E p) (ret (k (- 1)))"
  "ended E p (Received bs) k = seq (stop E p) (ret (k 0))"
  by (simp_all add: ended_def)

locale stream_socket =
  fixes E :: "('j, 'u, 'x, 'z) env_scheme"
    and p :: pid
    and avail :: "'x \<Rightarrow> byte list"
    and fin :: recv_result
  assumes recv_end: "avail x = [] \<Longrightarrow> 0 < n \<Longrightarrow>
      \<exists>x'. sock_receive E p n x = (fin, x') \<and> avail x' = []"
    and end_empty: "fin = Received bs \<Longrightarrow> bs = []"
    and recv_bytes: "avail x \<noteq> [] \<Longrightarrow> 0 < n \<Longrightarrow>
      \<exists>bs x'. sock_receive E p n x = (Received bs, x') \<and> bs \<noteq> [] \<and> length bs \<le> n \<and>
        avail x = bs @ avail x'"

locale framed_stream = stream_socket E p avail fin
  for E :: "('j, 'u, 'x, 'z) env_scheme" and p :: pid and avail :: "'x \<Rightarrow> byte list"
    and fin :: recv_result +
  fixes I :: "('j, 'u, 'x) world \<Rightarrow> bool"
    and ok :: "byte list \<Rightarrow> bool"
    and obs :: "('j, 'u, 'x) world \<Rightarrow> 'o"
    and on_payload :: "byte list \<Rightarrow> 'o \<Rightarrow> 'o"
  assumes obs_receive: "obs (w\<lparr>ext := snd (sock_receive E p n (ext w))\<rparr>) = obs w"
    and obs_rx: "obs (upd_peer p (set_rx lb ll db dl) w) = obs w"
    and I_receive: "I w \<Longrightarrow> I (w\<lparr>ext := snd (sock_receive E p n (ext w))\<rparr>)"
    and I_rx: "I w \<Longrightarrow> I (upd_peer p (set_rx lb ll db dl) w)"
    and dispatch: "I w \<Longrightarrow> ok bs \<Longrightarrow> json_parse E bs = Some data \<Longrightarrow>
      \<exists>w'. receiveCallback E p data w = Some (Inr (), w') \<and> I w' \<and>
        rx (peers w' p) = rx (peers w p) \<and> avail (ext w') = avail (ext w) \<and>
        obs w' = on_payload bs (obs w)"
    and no_dispatch: "json_parse E bs = None \<Longrightarrow> on_payload bs ob = ob"
begin

definition stream :: "('j, 'u, 'x) world \<Rightarrow> byte list" where
  "stream w = pending (peers w p) @ avail (ext w)"

text \<open>Nothing was dispatched between the two states.\<close>

definition quiet :: "('j, 'u, 'x) world \<Rightarrow> ('j, 'u, 'x) world \<Rightarrow> bool" where
  "quiet w w' \<longleftrightarrow> obs w' = obs w \<and> (I w \<longrightarrow> I w')"

lemma quiet_refl [simp]: "quiet w w"
  by (simp add: quiet_def)

lemma quiet_trans: "quiet w w1 \<Longrightarrow> quiet w1 w2 \<Longrightarrow> quiet w w2"
  by (simp add: quiet_def)

lemma quiet_receive:
  assumes "sock_receive E p n (ext w) = (r, x)"
  shows "quiet w (w\<lparr>ext := x\<rparr>)"
  using obs_receive [where w = w and n = n] I_receive [where w = w and n = n] assms
  by (simp add: quiet_def)

lemma quiet_rx: "quiet w (upd_peer p (set_rx lb ll db dl) w)"
  by (simp add: quiet_def obs_rx I_rx)

lemma quiet_store:
  assumes "sock_receive E p n (ext w) = (r, x)"
  shows "quiet w (upd_peer p (store_length bs) (w\<lparr>ext := x\<rparr>))"
    and "quiet w (upd_peer p (store_data bs) (w\<lparr>ext := x\<rparr>))"
  unfolding rx_updates by (rule quiet_trans [OF quiet_receive [OF assms] quiet_rx])+

lemma quiet_buffer:
  "quiet w (upd_peer p (\<lambda>q. q\<lparr>m_dataBuffer := f q\<rparr>) w)"
  "quiet w (upd_peer p reset_buffers w)"
  unfolding rx_updates by (rule quiet_rx)+

lemma rx_eq: "rx q' = rx q \<Longrightarrow> rx_inv q' = rx_inv q \<and> pending q' = pending q"
  by (simp add: rx_def rx_inv_def pending_def message_length_def)

text \<open>Delivered bytes move from the socket into the length buffer.\<close>

lemma store_length_step:
  assumes inv: "rx_inv q" and lt: "m_lengthBufferLevel q < 4"
    and bs: "length bs \<le> 4 - m_lengthBufferLevel q"
  defines "q' \<equiv> store_length bs q"
  shows "length (m_bigEndianLengthBuffer q') = 4"
    and "m_lengthBufferLevel q' = m_lengthBufferLevel q + length bs"
    and "take (m_lengthBufferLevel q') (m_bigEndianLengthBuffer q') = pending q @ bs"
    and "m_dataBuffer q' = []" and "m_dataBufferLevel q' = 0"
  using assms by (simp_all add: q'_def store_length_def rx_inv_def pending_def)

lemma pending_lt:
  "rx_inv q \<Longrightarrow> m_lengthBufferLevel q < 4 \<Longrightarrow> length (pending q) = m_lengthBufferLevel q"
  by (simp add: pending_def rx_inv_def)

text \<open>The three ways the loop over the length bytes ends.\<close>

definition length_outcome :: "('j, 'u, 'x) world
    \<Rightarrow> (('j exn + flow) \<times> ('j, 'u, 'x) world) option \<Rightarrow> bool" where
  "length_outcome w r \<longleftrightarrow>
     (if length (stream w) < 4 then
        \<exists>w'. r = ended E p fin Return w' \<and> rx_inv (peers w' p) \<and>
          pending (peers w' p) = stream w \<and> avail (ext w') = [] \<and> quiet w w'
      else if be_value (take 4 (stream w)) > MAX_MESSAGE_SIZE then
        \<exists>w'. r = seq (stop E p) (ret (Return (- 1))) w' \<and> quiet w w'
      else \<exists>w'. r = Some (Inr Continue, w') \<and> rx_inv (peers w' p) \<and>
          m_lengthBufferLevel (peers w' p) = 4 \<and> stream w' = stream w \<and> quiet w w')"

lemma length_outcome_cong:
  assumes "stream w1 = stream w" and "quiet w w1" and "length_outcome w1 r"
  shows "length_outcome w r"
  using assms unfolding length_outcome_def
  by (auto split: if_splits intro: quiet_trans)

lemma length_complete:
  assumes buf: "length (m_bigEndianLengthBuffer (peers w1 p)) = 4"
    and lvl: "m_lengthBufferLevel (peers w1 p) = 4" "m_dataBufferLevel (peers w1 p) = 0"
    and str: "stream w = m_bigEndianLengthBuffer (peers w1 p) @ avail (ext w1)"
    and quiet: "quiet w w1"
  shows "length_outcome w (if message_length (peers w1 p) > MAX_MESSAGE_SIZE
      then seq (stop E p) (ret (Return (- 1))) w1
      else receive_length E p (upd_peer p
        (\<lambda>q. q\<lparr>m_dataBuffer := resize (message_length q) (m_dataBuffer q)\<rparr>) w1))"
proof -
  define w2 where "w2 = upd_peer p
    (\<lambda>q. q\<lparr>m_dataBuffer := resize (message_length q) (m_dataBuffer q)\<rparr>) w1"
  have ml: "message_length (peers w1 p) = be_value (take 4 (stream w))" "4 \<le> length (stream w)"
    using buf str by (simp_all add: message_length_def)
  have q2: "quiet w w2"
    unfolding w2_def by (rule quiet_trans [OF quiet quiet_buffer(1)])
  have peer2: "stream w2 = stream w" "m_lengthBufferLevel (peers w2 p) = 4"
    using lvl buf str by (simp_all add: w2_def pending_def stream_def)
  have step: "receive_length E p w2 = Some (Inr Continue, w2)"
    using peer2(2) by (simp add: receive_length.simps [of E p w2])
  have inv2: "rx_inv (peers w2 p)" if "message_length (peers w1 p) \<le> MAX_MESSAGE_SIZE"
    using that lvl buf by (simp add: w2_def rx_inv_def message_length_def)
  show ?thesis
    unfolding w2_def [symmetric] using ml q2 step peer2 inv2 quiet
    by (auto simp: length_outcome_def not_less)
qed

text \<open>One delivery of length bytes, given the outcome for whatever is left after it.\<close>

lemma length_delivered:
  assumes inv: "rx_inv (peers w p)" and lt: "m_lengthBufferLevel (peers w p) < 4"
    and recv: "sock_receive E p (4 - m_lengthBufferLevel (peers w p)) (ext w) = (Received bs, x')"
      "bs \<noteq> []" "length bs \<le> 4 - m_lengthBufferLevel (peers w p)" "avail (ext w) = bs @ avail x'"
    and more: "\<And>w1. length (avail (ext w1)) < length (avail (ext w)) \<Longrightarrow> rx_inv (peers w1 p) \<Longrightarrow>
      m_lengthBufferLevel (peers w1 p) < 4 \<Longrightarrow> length_outcome w1 (receive_length E p w1)"
  shows "length_outcome w (receive_length E p w)"
proof -
  define w1 where "w1 = upd_peer p (store_length bs) (w\<lparr>ext := x'\<rparr>)"
  have q1: "peers w1 p = store_length bs (peers w p)" and x1: "ext w1 = x'"
    by (simp_all add: w1_def)
  note st = store_length_step [OF inv lt recv(3), folded q1]
  have quiet1: "quiet w w1"
    unfolding w1_def by (rule quiet_store(1) [OF recv(1)])
  note unf = receive_length.simps [of E p w]
  show ?thesis
  proof (cases "m_lengthBufferLevel (peers w1 p) = 4")
    case False
    then have lt1: "m_lengthBufferLevel (peers w1 p) < 4" and inv1: "rx_inv (peers w1 p)"
      using st recv(3) lt by (simp_all add: rx_inv_def)
    have "stream w1 = stream w" and less: "length (avail (ext w1)) < length (avail (ext w))"
      using lt1 st(3) recv(2,4) by (simp_all add: stream_def x1 pending_def)
    moreover have "receive_length E p w = receive_length E p w1"
      using lt recv(1,2) False by (simp add: unf w1_def [symmetric] q1)
    ultimately show ?thesis
      using length_outcome_cong [OF _ quiet1 more [OF less inv1 lt1]] by simp
  next
    case True
    have "stream w = m_bigEndianLengthBuffer (peers w1 p) @ avail (ext w1)"
      using st(1,3) True recv(4) by (simp add: stream_def x1)
    note fin = length_complete [OF st(1) True st(5) this quiet1]
    then show ?thesis
      using lt recv(1,2) True by (simp add: unf w1_def [symmetric] q1)
  qed
qed

lemma receive_length_spec:
  assumes "rx_inv (peers w p)" and "m_lengthBufferLevel (peers w p) < 4"
  shows "length_outcome w (receive_length E p w)"
  using assms
proof (induction "length (avail (ext w))" arbitrary: w rule: less_induct)
  case less
  let ?n = "4 - m_lengthBufferLevel (peers w p)"
  have n: "0 < ?n" using less.prems(2) by simp
  show ?case
  proof (cases "avail (ext w) = []")
    case True
    obtain x' where x': "sock_receive E p ?n (ext w) = (fin, x')" "avail x' = []"
      using recv_end [OF True n] by blast
    have "receive_length E p w = ended E p fin Return (w\<lparr>ext := x'\<rparr>)"
      using x'(1) less.prems(2) end_empty
      by (cases fin) (simp_all add: receive_length.simps [of E p w])
    with less.prems True x'(2) pending_lt [OF less.prems] quiet_receive [OF x'(1)] show ?thesis
      by (auto simp: stream_def length_outcome_def intro!: exI [of _ "w\<lparr>ext := x'\<rparr>"])
  next
    case False
    then show ?thesis
      using recv_bytes [OF False n] length_delivered [OF less.prems] less.hyps by blast
  qed
qed

lemma receive_length_any:
  assumes "rx_inv (peers w p)"
  shows "length_outcome w (receive_length E p w)"
proof (cases "m_lengthBufferLevel (peers w p) < 4")
  case True
  then show ?thesis by (rule receive_length_spec [OF assms])
next
  case False
  with assms have "m_lengthBufferLevel (peers w p) = 4"
      "length (m_bigEndianLengthBuffer (peers w p)) = 4"
      "be_value (m_bigEndianLengthBuffer (peers w p)) \<le> MAX_MESSAGE_SIZE"
    by (auto simp: rx_inv_def message_length_def)
  then show ?thesis
    using assms
    by (simp add: receive_length.simps [of E p w] length_outcome_def stream_def pending_def)
qed

text \<open>The loop over the data bytes.\<close>

lemma store_data_step:
  assumes "rx_inv q" and "m_lengthBufferLevel q = 4"
    and "length bs \<le> length (m_dataBuffer q) - m_dataBufferLevel q"
  shows "rx_inv (store_data bs q)" and "pending (store_data bs q) = pending q @ bs"
    and "m_lengthBufferLevel (store_data bs q) = 4"
    and "length (m_dataBuffer (store_data bs q)) = length (m_dataBuffer q)"
proof -
  have "m_dataBufferLevel q \<le> length (m_dataBuffer q)"
    using assms(1,2) by (simp add: rx_inv_def)
  with assms(3) have "m_dataBufferLevel q + length bs \<le> length (m_dataBuffer q)" by linarith
  note len = length_write_at [OF this] take_write_at [OF this]
  show "rx_inv (store_data bs q)"
    using assms(1,2) \<open>_ + _ \<le> _\<close> by (simp add: store_data_def rx_inv_def message_length_def len(1))
  show "pending (store_data bs q) = pending q @ bs" "m_lengthBufferLevel (store_data bs q) = 4"
      "length (m_dataBuffer (store_data bs q)) = length (m_dataBuffer q)"
    using assms(2) len by (simp_all add: store_data_def pending_def)
qed

definition data_outcome :: "('j, 'u, 'x) world
    \<Rightarrow> (('j exn + flow) \<times> ('j, 'u, 'x) world) option \<Rightarrow> bool" where
  "data_outcome w r \<longleftrightarrow>
     (if length (stream w) < 4 + length (m_dataBuffer (peers w p)) then
        \<exists>w'. r = ended E p fin Return w' \<and> rx_inv (peers w' p) \<and>
          pending (peers w' p) = stream w \<and> avail (ext w') = [] \<and> quiet w w'
      else \<exists>w'. r = Some (Inr Continue, w') \<and> rx_inv (peers w' p) \<and>
          m_lengthBufferLevel (peers w' p) = 4 \<and>
          m_dataBufferLevel (peers w' p) = length (m_dataBuffer (peers w' p)) \<and>
          length (m_dataBuffer (peers w' p)) = length (m_dataBuffer (peers w p)) \<and>
          stream w' = stream w \<and> quiet w w')"

lemma data_delivered:
  assumes inv: "rx_inv (peers w p)" "m_lengthBufferLevel (peers w p) = 4"
    and lt: "m_dataBufferLevel (peers w p) < length (m_dataBuffer (peers w p))"
  defines "n \<equiv> length (m_dataBuffer (peers w p)) - m_dataBufferLevel (peers w p)"
  assumes recv: "sock_receive E p n (ext w) = (Received bs, x')" "bs \<noteq> []" "length bs \<le> n"
      "avail (ext w) = bs @ avail x'"
    and more: "\<And>w1. length (avail (ext w1)) < length (avail (ext w)) \<Longrightarrow> rx_inv (peers w1 p) \<Longrightarrow>
      m_lengthBufferLevel (peers w1 p) = 4 \<Longrightarrow> data_outcome w1 (receive_data E p w1)"
  shows "data_outcome w (receive_data E p w)"
proof -
  define w1 where "w1 = upd_peer p (store_data bs) (w\<lparr>ext := x'\<rparr>)"
  have q1: "peers w1 p = store_data bs (peers w p)" and x1: "ext w1 = x'"
    by (simp_all add: w1_def)
  note st = store_data_step [OF inv recv(3) [unfolded n_def], folded q1]
  have quiet1: "quiet w w1"
    unfolding w1_def by (rule quiet_store(2) [OF recv(1)])
  have str: "stream w1 = stream w" and less: "length (avail (ext w1)) < length (avail (ext w))"
    using st(2) recv(2,4) by (simp_all add: stream_def x1)
  have eq: "receive_data E p w = receive_data E p w1"
    using lt recv(1,2) by (simp add: receive_data.simps [of E p w] w1_def [symmetric] n_def)
  show ?thesis
    using more [OF less st(1,3)] quiet_trans [OF quiet1] unfolding eq data_outcome_def str st(4)
    by (auto split: if_splits)
qed

lemma receive_data_spec:
  assumes "rx_inv (peers w p)" and "m_lengthBufferLevel (peers w p) = 4"
  shows "data_outcome w (receive_data E p w)"
  using assms
proof (induction "length (avail (ext w))" arbitrary: w rule: less_induct)
  case less
  let ?q = "peers w p" and ?n = "length (m_dataBuffer (peers w p)) - m_dataBufferLevel (peers w p)"
  note unf = receive_data.simps [of E p w]
  have pend: "length (pending ?q) = 4 + m_dataBufferLevel ?q"
      "m_dataBufferLevel ?q \<le> length (m_dataBuffer ?q)"
    using less.prems by (simp_all add: pending_def rx_inv_def)
  consider (full) "?n = 0" | (empty) "0 < ?n" "avail (ext w) = []"
    | (more) "0 < ?n" "avail (ext w) \<noteq> []" by (metis neq0_conv)
  then show ?case
  proof cases
    case full
    then show ?thesis using less.prems pend by (simp add: unf stream_def data_outcome_def)
  next
    case empty
    obtain x' where x': "sock_receive E p ?n (ext w) = (fin, x')" "avail x' = []"
      using recv_end [OF empty(2,1)] by blast
    have "receive_data E p w = ended E p fin Return (w\<lparr>ext := x'\<rparr>)"
      using x'(1) empty(1) end_empty by (cases fin) (simp_all add: unf)
    with less.prems empty pend x'(2) quiet_receive [OF x'(1)] show ?thesis
      by (auto simp: stream_def data_outcome_def intro!: exI [of _ "w\<lparr>ext := x'\<rparr>"])
  next
    case more
    from more(1) have lt: "m_dataBufferLevel ?q < length (m_dataBuffer ?q)" by simp
    show ?thesis
      using recv_bytes [OF more(2,1)] data_delivered [OF less.prems lt] less.hyps by blast
  qed
qed

lemma process_package_spec:
  assumes "I w" and "rx_inv (peers w p)" and "ok (m_dataBuffer (peers w p))"
  obtains w' where "process_package E p w = Some (Inr (), w')" and "I w'"
    and "rx_inv (peers w' p)" and "pending (peers w' p) = []"
    and "avail (ext w') = avail (ext w)"
    and "obs w' = on_payload (m_dataBuffer (peers w p)) (obs w)"
proof -
  let ?d = "m_dataBuffer (peers w p)"
  define w1 where "w1 = upd_peer p (\<lambda>q. q\<lparr>m_dataBuffer := m_dataBuffer q @ [0]\<rparr>) w"
  have w1: "I w1" "obs w1 = obs w" "ext w1 = ext w" "m_dataBuffer (peers w1 p) = ?d @ [0]"
      "length (m_bigEndianLengthBuffer (peers w1 p)) = 4"
    using quiet_buffer(1) [of w "\<lambda>q. m_dataBuffer q @ [0]", folded w1_def] assms
    by (simp_all add: quiet_def w1_def rx_inv_def)
  obtain w2 where w2: "(case json_parse E ?d of None \<Rightarrow> ret ()
        | Some data \<Rightarrow> receiveCallback E p data) w1 = Some (Inr (), w2)" "I w2"
      "rx (peers w2 p) = rx (peers w1 p)" "avail (ext w2) = avail (ext w1)"
      "obs w2 = on_payload ?d (obs w1)"
    using w1(1) no_dispatch [of ?d] dispatch [OF w1(1) assms(3)] that
    by (cases "json_parse E ?d") auto
  define w3 where "w3 = upd_peer p reset_buffers w2"
  have "I w3" "obs w3 = obs w2" "ext w3 = ext w2"
    using quiet_buffer(2) [of w2, folded w3_def] w2(2) by (simp_all add: quiet_def w3_def)
  moreover have "rx_inv (peers w3 p)" "pending (peers w3 p) = []"
    using w2(3) w1(5) by (simp_all add: w3_def rx_inv_def pending_def reset_buffers_def rx_def)
  moreover have "process_package E p w = Some (Inr (), w3)"
    using w2(1) w1(4) by (simp add: process_package_def w1_def [symmetric] w3_def)
  ultimately show thesis
    using that w1 w2 by simp
qed

text \<open>
  \<open>receive\<close> dispatches the payloads of the stream in order and keeps the rest; on a length beyond
  the limit it dispatches what comes before, stops the peer and returns \<open>-1\<close>.  When the stream is
  used up, its end decides what happens.
\<close>

definition receive_outcome :: "('j, 'u, 'x) world
    \<Rightarrow> (('j exn + int32) \<times> ('j, 'u, 'x) world) option \<Rightarrow> bool" where
  "receive_outcome w r \<longleftrightarrow>
     (case deframe (stream w) of (payloads, rest, oversized) \<Rightarrow>
        if oversized then
          \<exists>w'. r = seq (stop E p) (ret (- 1)) w' \<and> I w' \<and> obs w' = fold on_payload payloads (obs w)
        else
          \<exists>w'. r = ended E p fin (\<lambda>i. i) w' \<and> rx_inv (peers w' p) \<and> pending (peers w' p) = rest \<and>
            avail (ext w') = [] \<and> I w' \<and> obs w' = fold on_payload payloads (obs w))"

lemma receive_stop:
  assumes "receive_length E p w = seq (stop E p) (ret (Return i)) w'"
  shows "receive E p w = seq (stop E p) (ret i) w'"
proof (cases "stop E p w'")
  case None
  with assms show ?thesis by (simp add: receive.simps [of E p w])
next
  case (Some a)
  with assms show ?thesis by (cases a; cases "fst a") (simp_all add: receive.simps [of E p w])
qed

text \<open>Either loop hands the end of the stream on.\<close>

lemma ended_bind:
  "Option.bind (ended E p fin Return w') (\<lambda>(r, w). case r of Inl e \<Rightarrow> Some (Inl e, w)
     | Inr (Return i) \<Rightarrow> Some (Inr i, w) | Inr Continue \<Rightarrow> k w) = ended E p fin (\<lambda>i. i) w'"
proof (cases "stop E p w'")
  case None
  then show ?thesis by (cases fin) simp_all
next
  case (Some a)
  then show ?thesis by (cases fin; cases a; cases "fst a") simp_all
qed

lemma receive_ended:
  assumes "receive_length E p w = ended E p fin Return w' \<or>
    (\<exists>w1. receive_length E p w = Some (Inr Continue, w1) \<and> receive_data E p w1 = ended E p fin Return w')"
  shows "receive E p w = ended E p fin (\<lambda>i. i) w'"
  using assms by (auto simp: receive.simps [of E p w] ended_bind)

text \<open>One complete payload: it is dispatched, then reception goes on behind it.\<close>

lemma receive_package:
  assumes "I w" and inv: "rx_inv (peers w p)" and lvl: "m_lengthBufferLevel (peers w p) = 4"
    and full: "m_dataBufferLevel (peers w p) = length (m_dataBuffer (peers w p))"
    and rec: "receive_length E p w0 = Some (Inr Continue, w1)"
      "receive_data E p w1 = Some (Inr Continue, w)"
    and oks: "\<forall>bs \<in> set (fst (deframe (stream w))). ok bs"
    and more: "\<And>w'. I w' \<Longrightarrow> rx_inv (peers w' p) \<Longrightarrow> length (stream w') < length (stream w) \<Longrightarrow>
      \<forall>bs \<in> set (fst (deframe (stream w'))). ok bs \<Longrightarrow> receive_outcome w' (receive E p w')"
  shows "receive_outcome w (receive E p w0)"
proof -
  let ?d = "m_dataBuffer (peers w p)"
  have len: "length (m_bigEndianLengthBuffer (peers w p)) = 4"
      "be_value (m_bigEndianLengthBuffer (peers w p)) = length ?d" "length ?d \<le> MAX_MESSAGE_SIZE"
    using inv lvl by (simp_all add: rx_inv_def message_length_def)
  have "stream w = m_bigEndianLengthBuffer (peers w p) @ ?d @ avail (ext w)"
    using lvl full by (simp add: stream_def pending_def)
  then have "ok ?d"
    using oks by (simp add: deframe_payload [OF len] split: prod.splits)
  then obtain w' where w': "process_package E p w = Some (Inr (), w')" "I w'" "rx_inv (peers w' p)"
      "pending (peers w' p) = []" "avail (ext w') = avail (ext w)"
      "obs w' = on_payload ?d (obs w)"
    using process_package_spec [OF assms(1) inv] by blast
  have str: "stream w = m_bigEndianLengthBuffer (peers w p) @ ?d @ stream w'"
    using lvl full w'(4,5) by (simp add: stream_def pending_def)
  have split: "deframe (stream w) = (case deframe (stream w') of
      (payloads, rest, oversized) \<Rightarrow> (?d # payloads, rest, oversized))"
    unfolding str by (rule deframe_payload [OF len])
  have "\<forall>bs \<in> set (fst (deframe (stream w'))). ok bs"
    using oks by (simp add: split split: prod.splits)
  then have "receive_outcome w' (receive E p w')"
    using more [OF w'(2,3)] str len by simp
  moreover have "receive E p w0 = receive E p w'"
    using rec w'(1) by (simp add: receive.simps [of E p w0])
  ultimately show ?thesis
    unfolding receive_outcome_def using w'(6) split
    by (cases "deframe (stream w')") (simp cong: if_cong)
qed

lemma receive_outcome_cong:
  "stream w1 = stream w \<Longrightarrow> quiet w w1 \<Longrightarrow> receive_outcome w1 r \<Longrightarrow> receive_outcome w r"
  unfolding receive_outcome_def quiet_def by (simp cong: if_cong)

text \<open>Reception behind a complete length, given the outcome for shorter streams.\<close>

lemma receive_header:
  assumes "I w" and "\<forall>bs \<in> set (fst (deframe (stream w))). ok bs"
    and w1: "receive_length E p w = Some (Inr Continue, w1)" "rx_inv (peers w1 p)"
      "m_lengthBufferLevel (peers w1 p) = 4" "stream w1 = stream w" "quiet w w1"
    and header: "4 \<le> length (stream w)" "be_value (take 4 (stream w)) \<le> MAX_MESSAGE_SIZE"
    and more: "\<And>w'. I w' \<Longrightarrow> rx_inv (peers w' p) \<Longrightarrow> length (stream w') < length (stream w) \<Longrightarrow>
      \<forall>bs \<in> set (fst (deframe (stream w'))). ok bs \<Longrightarrow> receive_outcome w' (receive E p w')"
  shows "receive_outcome w (receive E p w)"
proof -
  let ?n = "be_value (take 4 (stream w))"
  have n: "length (m_dataBuffer (peers w1 p)) = ?n"
    unfolding w1(4) [symmetric]
    using w1(2,3) by (simp add: rx_inv_def message_length_def stream_def pending_def)
  note dat = receive_data_spec [OF w1(2,3), unfolded data_outcome_def w1(4) n]
  show ?thesis
  proof (cases "length (stream w) < 4 + ?n")
    case True
    with dat w1(1) receive_ended [of w] obtain w' where "receive E p w = ended E p fin (\<lambda>i. i) w'"
        "rx_inv (peers w' p)" "pending (peers w' p) = stream w" "avail (ext w') = []" "quiet w1 w'"
      by auto
    with True header assms(1) w1(5) show ?thesis
      by (auto simp: receive_outcome_def deframe.simps [of "stream w"] quiet_def)
  next
    case False
    with dat obtain w2 where w2: "receive_data E p w1 = Some (Inr Continue, w2)"
        "rx_inv (peers w2 p)" "m_lengthBufferLevel (peers w2 p) = 4"
        "m_dataBufferLevel (peers w2 p) = length (m_dataBuffer (peers w2 p))"
        "stream w2 = stream w" "quiet w1 w2" by auto
    have quiet: "quiet w w2" using w1(5) w2(6) by (rule quiet_trans)
    then have "I w2" using assms(1) by (simp add: quiet_def)
    from receive_package [OF this w2(2-4) w1(1) w2(1), unfolded w2(5), OF assms(2)] more
    have "receive_outcome w2 (receive E p w)" by blast
    then show ?thesis by (rule receive_outcome_cong [OF w2(5) quiet])
  qed
qed

lemma receive_spec:
  assumes "I w" and "rx_inv (peers w p)" and "\<forall>bs \<in> set (fst (deframe (stream w))). ok bs"
  shows "receive_outcome w (receive E p w)"
  using assms
proof (induction "length (stream w)" arbitrary: w rule: less_induct)
  case less
  let ?n = "be_value (take 4 (stream w))"
  note len = receive_length_any [OF less.prems(2), unfolded length_outcome_def]
  consider (short) "length (stream w) < 4"
    | (oversized) "\<not> length (stream w) < 4" "?n > MAX_MESSAGE_SIZE"
    | (header) "\<not> length (stream w) < 4" "\<not> ?n > MAX_MESSAGE_SIZE" by blast
  then show ?case
  proof cases
    case short
    with len receive_ended [of w] obtain w' where "receive E p w = ended E p fin (\<lambda>i. i) w'"
        "rx_inv (peers w' p)" "pending (peers w' p) = stream w" "avail (ext w') = []" "quiet w w'"
      by auto
    with short less.prems show ?thesis
      by (auto simp: receive_outcome_def deframe.simps [of "stream w"] quiet_def)
  next
    case oversized
    with len obtain w' where "receive_length E p w = seq (stop E p) (ret (Return (- 1))) w'"
        "quiet w w'" by auto
    with oversized less.prems receive_stop [OF this(1)] show ?thesis
      by (auto simp: receive_outcome_def deframe.simps [of "stream w"] quiet_def)
  next
    case header
    with len obtain w1 where "receive_length E p w = Some (Inr Continue, w1)"
        "rx_inv (peers w1 p)" "m_lengthBufferLevel (peers w1 p) = 4" "stream w1 = stream w"
        "quiet w w1" by auto
    from receive_header [OF less.prems(1,3) this] header less.hyps show ?thesis by simp
  qed
qed

end

end
