(* ===== verification/Path_Matching.thy ===== *)
theory Path_Matching
  imports Peer_Requests
begin

text \<open>
  The path parameters \<open>PeerAsync::addPathInformation\<close> builds.  \<open>path_members\<close> is what a reader of the
  protocol expects under the key \<open>path\<close>: one member per active rule of the matcher and no other.  The
  rules are assigned one after the other; \<open>says\<close> follows what the parameters say after each step.
\<close>

definition matcher_rules :: "matcher_t \<Rightarrow> (string \<times> string) list" where
  "matcher_rules m = [(CONTAINS, contains m), (STARTSWITH, startsWith m), (ENDSWITH, endsWith m),
     (EQUALS, equals m), (EQUALSNOT, equalsNot m)]"

definition path_members :: "('j, 'z) jsoncpp_scheme \<Rightarrow> matcher_t \<Rightarrow> 'j \<Rightarrow> (string \<times> 'j) list" where
  "path_members J m arr =
     map (\<lambda>(key, x). (key, json_string J x)) (filter (\<lambda>(key, x). x \<noteq> []) (matcher_rules m)) @
     (if containsAllOf m \<noteq> [] then [(CONTAINSALLOF, arr)] else []) @
     (if caseInsensitive m then [(CASEINSENSITIVE, json_bool J True)] else [])"

definition carries_matcher :: "('j, 'z) jsoncpp_scheme \<Rightarrow> matcher_t \<Rightarrow> 'j \<Rightarrow> bool" where
  "carries_matcher J m path \<longleftrightarrow> (\<exists>arr. json_elements J arr = map (json_string J) (containsAllOf m) \<and>
     map_of (json_members J path) = map_of (path_members J m arr))"

definition selective :: "matcher_t \<Rightarrow> bool" where
  "selective m \<longleftrightarrow> (\<exists>(key, x) \<in> set (matcher_rules m). x \<noteq> []) \<or> containsAllOf m \<noteq> [] \<or> caseInsensitive m"

lemma selective_members: "selective m \<longleftrightarrow> path_members J m arr \<noteq> []"
  by (auto simp: selective_def path_members_def filter_empty_conv)

lemma matcher_rules_keys:
  "distinct (keys (matcher_rules m))" "CONTAINSALLOF \<notin> set (keys (matcher_rules m))"
  "CASEINSENSITIVE \<notin> set (keys (matcher_rules m))" "CASEINSENSITIVE \<noteq> CONTAINSALLOF"
  by (simp_all add: matcher_rules_def jet_key_defs)

context jsoncpp
begin

text \<open>
  The parameters \<open>params\<close>, built from \<open>base\<close>, have exactly the members \<open>f\<close> under \<open>path\<close> and all else as
  in \<open>base\<close>.
\<close>

definition says :: "'j \<Rightarrow> 'j \<Rightarrow> (string \<rightharpoonup> 'j) \<Rightarrow> bool" where
  "says base params f \<longleftrightarrow> is_record J params \<and> is_record J (json_child J params PATH) \<and>
     json_isMember J params PATH = Inr (f \<noteq> Map.empty) \<and>
     (\<forall>k. json_isMember J (json_child J params PATH) k = Inr (f k \<noteq> None) \<and>
        json_child J (json_child J params PATH) k = (case f k of Some x \<Rightarrow> x | None \<Rightarrow> json_null J)) \<and>
     (\<forall>k. k \<noteq> PATH \<longrightarrow> json_child J params k = json_child J base k \<and>
        json_isMember J params k = json_isMember J base k)"

lemma says_base:
  assumes "is_record J base" and "json_isMember J base PATH = Inr False"
  shows "says base base Map.empty"
proof -
  have "json_child J base PATH = json_null J" using get_absent [OF assms(2)] by (simp add: json_child_def)
  then show ?thesis using assms by (simp add: says_def record_simps isMember_null)
qed

lemma says_put: "says base params f \<Longrightarrow> says base (json_put2 J params PATH k x) (f(k \<mapsto> x))"
  by (simp add: says_def json_put2_def record_simps)

lemma rule_cases:
  "add_rule J key [] params = params"
  "x \<noteq> [] \<Longrightarrow> add_rule J key x params = json_put2 J params PATH key (json_string J x)"
  by (simp_all add: add_rule_def)

lemma says_rules:
  assumes "says base params f"
  shows "says base (fold (\<lambda>(key, x). add_rule J key x) rules params)
    (f ++ map_of (rev (map (\<lambda>(key, x). (key, json_string J x)) (filter (\<lambda>(key, x). x \<noteq> []) rules))))"
  using assms
proof (induction rules arbitrary: params f)
  case (Cons rule rules)
  obtain key x where "rule = (key, x)" by (cases rule)
  with Cons.IH [OF Cons.prems] Cons.IH [OF says_put [OF Cons.prems, of key "json_string J x"]] show ?case
    by (cases "x = []") (simp_all add: rule_cases del: fun_upd_apply)
qed simp

text \<open>The array of \<open>containsAllOf\<close> is filled string by string.\<close>

lemma says_contained:
  assumes "says base params f"
    and "json_type J (json_child J (json_child J params PATH) CONTAINSALLOF) \<in> {arrayValue, nullValue}"
    and "xs \<noteq> []"
  shows "\<exists>arr. json_elements J arr =
      json_elements J (json_child J (json_child J params PATH) CONTAINSALLOF) @ map (json_string J) xs \<and>
    says base (foldl (add_contained J) params xs) (f(CONTAINSALLOF \<mapsto> arr))"
  using assms
proof (induction xs arbitrary: params f)
  case (Cons x xs)
  let ?arr = "json_append J (json_child J (json_child J params PATH) CONTAINSALLOF) (json_string J x)"
  let ?q = "add_contained J params x"
  have q: "says base ?q (f(CONTAINSALLOF \<mapsto> ?arr))"
    using says_put [OF Cons.prems(1)] by (simp add: add_contained_def)
  then have arr: "json_child J (json_child J ?q PATH) CONTAINSALLOF = ?arr" by (simp add: says_def)
  have elems: "json_type J ?arr = arrayValue" "json_elements J ?arr =
      json_elements J (json_child J (json_child J params PATH) CONTAINSALLOF) @ [json_string J x]"
    using Cons.prems(2) append_type append_elements by auto
  show ?case
  proof (cases "xs = []")
    case True
    with q elems(2) show ?thesis by (intro exI [of _ ?arr]) (simp del: fun_upd_apply)
  next
    case False
    then obtain arr where "json_elements J arr = json_elements J ?arr @ map (json_string J) xs"
        "says base (foldl (add_contained J) ?q xs) (f(CONTAINSALLOF \<mapsto> arr))"
      using Cons.IH [OF q] arr elems(1) by (auto simp del: fun_upd_apply)
    with elems(2) show ?thesis by (intro exI [of _ arr]) (simp del: fun_upd_apply)
  qed
qed simp

lemma addPathInformation_says:
  assumes "is_record J base" and "json_isMember J base PATH = Inr False"
  shows "\<exists>arr. json_elements J arr = map (json_string J) (containsAllOf m) \<and>
    says base (addPathInformation J m base) (map_of (path_members J m arr))"
proof -
  let ?rules = "map (\<lambda>(key, x). (key, json_string J x)) (filter (\<lambda>(key, x). x \<noteq> []) (matcher_rules m))"
  define p1 where "p1 = fold (\<lambda>(key, x). add_rule J key x) (matcher_rules m) base"
  have dist: "distinct (keys ?rules)"
    using matcher_rules_keys(1) [of m] by (simp add: case_prod_beta comp_def distinct_map_filter)
  have "map_of (rev ?rules) = map_of ?rules"
    by (rule map_of_inject_set [THEN iffD2]) (use dist in \<open>simp_all add: rev_map [symmetric]\<close>)
  then have p1: "says base p1 (map_of ?rules)"
    using says_rules [OF says_base [OF assms], of "matcher_rules m"] by (simp add: p1_def)
  have fresh: "map_of ?rules CONTAINSALLOF = None" "map_of ?rules CASEINSENSITIVE = None"
    using matcher_rules_keys(2,3) [of m] by (force intro!: map_of_fresh)+
  define p2 where "p2 = foldl (add_contained J) p1 (containsAllOf m)"
  have flag: "says base (addPathInformation J m base) (if caseInsensitive m then f(CASEINSENSITIVE \<mapsto> json_bool J True) else f)"
    if "says base p2 f" for f
    using says_put [OF that] that
    by (cases "containsAllOf m = []") (simp_all add: addPathInformation_def p2_def p1_def matcher_rules_def Let_def)
  show ?thesis
  proof (cases "containsAllOf m = []")
    case True
    have "path_members J m (json_array J) = ?rules @ (if caseInsensitive m then [(CASEINSENSITIVE, json_bool J True)] else [])"
      by (simp add: path_members_def True)
    with flag [of "map_of ?rules"] p1 fresh True show ?thesis
      by (intro exI [of _ "json_array J"])
        (auto simp: p2_def elements_array map_add_upd_left map_add_def fun_eq_iff says_def split: option.splits)
  next
    case False
    have "json_child J (json_child J p1 PATH) CONTAINSALLOF = json_null J"
      using p1 fresh by (simp add: says_def)
    then obtain arr where arr: "json_elements J arr = map (json_string J) (containsAllOf m)"
        "says base p2 ((map_of ?rules)(CONTAINSALLOF \<mapsto> arr))"
      using says_contained [OF p1 _ False] by (auto simp: p2_def type_null elements_null)
    have "map_of (path_members J m arr) = (if caseInsensitive m
        then (map_of ?rules)(CONTAINSALLOF \<mapsto> arr, CASEINSENSITIVE \<mapsto> json_bool J True)
        else (map_of ?rules)(CONTAINSALLOF \<mapsto> arr))"
      using False fresh matcher_rules_keys(4)
      by (auto simp: path_members_def fun_eq_iff map_add_def split: option.splits)
    with flag [OF arr(2)] arr(1) show ?thesis by auto
  qed
qed

lemma says_carries:
  assumes "says base params (map_of (path_members J m arr))"
    and "json_elements J arr = map (json_string J) (containsAllOf m)"
  shows "carries_matcher J m (json_child J params PATH)"
    and "json_isMember J params PATH = Inr (selective m)"
proof -
  have "map_of (json_members J (json_child J params PATH)) = map_of (path_members J m arr)"
    using assms(1) members_record [of "json_child J params PATH"]
    by (auto simp: says_def fun_eq_iff split: option.splits)
  with assms(2) show "carries_matcher J m (json_child J params PATH)"
    unfolding carries_matcher_def by blast
  show "json_isMember J params PATH = Inr (selective m)"
    using assms(1) selective_members [of m J arr] by (simp add: says_def)
qed

text \<open>Parameters with a matcher: what they carry, and that all other members are those of the base.\<close>

lemma addPathInformation_carries:
  assumes "is_record J base" and "json_isMember J base PATH = Inr False"
  shows "carries_matcher J m (json_child J (addPathInformation J m base) PATH)"
    and "is_record J (json_child J (addPathInformation J m base) PATH)"
    and "json_isMember J (addPathInformation J m base) PATH = Inr (selective m)"
    and "k \<noteq> PATH \<Longrightarrow> json_child J (addPathInformation J m base) k = json_child J base k"
    and "k \<noteq> PATH \<Longrightarrow> json_isMember J (addPathInformation J m base) k = json_isMember J base k"
  using addPathInformation_says [OF assms, of m] says_carries by (auto simp: says_def)

end

end
