(* ===== verification/Sent_Documents.thy ===== *)
theory Sent_Documents
  imports Peer_Dispatch Path_Matching
begin

text \<open>
  The documents the library puts on the wire.  \<open>sent_doc\<close> is the typing judgement: one rule per place
  of lib/peerasync.cpp and lib/asyncrequest.cpp that hands a document to \<open>sendMessage\<close>;
  \<open>request_params\<close> has one rule per way lib/peerasync.cpp and lib/peer.cpp build the parameters of a
  request.  \<open>is_message\<close> is what a reader of the protocol expects of one: a JSON-RPC 2.0 request or
  notification with a name of the jet protocol and the parameters that request needs, a change
  notification, or a response.  The judgement is sound: every document it derives is such a message.
\<close>

section \<open>The judgement\<close>

text \<open>Built from null by assignments to members.\<close>

inductive built :: "('j, 'z) jsoncpp_scheme \<Rightarrow> 'j \<Rightarrow> bool" for J :: "('j, 'z) jsoncpp_scheme" where
  built_null: "built J (json_null J)"
| built_put: "built J v \<Longrightarrow> built J (json_put J v k x)"

definition jet_requests :: "string list" where
  "jet_requests = [INFO, CONFIG, AUTHENTICATE, CALL, SET, GET, ADD, REMOVE, FETCH, UNFETCH]"

inductive request_params :: "('j, 'z) jsonrpc_scheme \<Rightarrow> string \<Rightarrow> 'j \<Rightarrow> bool"
  for J :: "('j, 'z) jsonrpc_scheme" where
  info: "request_params J INFO (json_null J)"
| config: "request_params J CONFIG (json_put J (json_put J (json_null J) NAME (json_string J name))
    DBG (json_bool J debug))"
| authenticate: "request_params J AUTHENTICATE (json_put J (json_put J (json_null J) USER
    (json_string J user)) PASSWORD (json_string J password))"
| call: "built J v \<Longrightarrow> request_params J CALL (json_put J v PATH (json_string J path))"
| call_args: "built J v \<Longrightarrow>
    request_params J CALL (json_put J (json_put J v PATH (json_string J path)) ARGS args)"
| set: "built J v \<Longrightarrow>
    request_params J SET (json_put J (json_put J v PATH (json_string J path)) VALUE value)"
| get: "request_params J GET (addPathInformation J m (json_null J))"
| add_method: "built J v \<Longrightarrow> request_params J ADD (json_put J v PATH (json_string J path))"
| add_state: "built J v \<Longrightarrow>
    request_params J ADD (json_put J (json_put J v PATH (json_string J path)) VALUE value)"
| add_fetch_only: "built J v \<Longrightarrow> request_params J ADD (json_put J (json_put J
    (json_put J v PATH (json_string J path)) VALUE value) FETCHONLY (json_bool J b))"
| remove: "request_params J REMOVE (json_put J (json_null J) PATH (json_string J path))"
| fetch: "request_params J FETCH (fetch_params J i m)"
| unfetch: "request_params J UNFETCH (json_put J (json_null J) (rpc_ID J) (json_int J i))"

inductive answer :: "('j, 'u, 'x, 'z) env_scheme \<Rightarrow> 'j \<Rightarrow> bool" for E :: "('j, 'u, 'x, 'z) env_scheme" where
  state_set: "answer E (state_result E r (json_null E))"
| state_error: "answer E (error_response E e (json_null E))"
| read_only: "answer E (read_only_response E)"
| method_result: "answer E (json_put E (method_response_base E) (rpc_RESULT E) v)"
| method_error: "answer E (error_response E e (method_response_base E))"

inductive sent_doc :: "('j, 'u, 'x, 'z) env_scheme \<Rightarrow> 'j \<Rightarrow> bool" for E :: "('j, 'u, 'x, 'z) env_scheme" where
  notification: "request_params E name params \<Longrightarrow> sent_doc E (AsyncRequest E name params)"
| request: "request_params E name params \<Longrightarrow>
    sent_doc E (json_put E (AsyncRequest E name params) (rpc_ID E) (json_uint E i))"
| change: "sent_doc E (change_doc E path v)"
| response: "answer E r \<Longrightarrow> \<not> isNull E i \<Longrightarrow> sent_doc E (json_put E r (rpc_ID E) i)"

text \<open>What the parameters of requests are built from.\<close>

lemma built_put2: "built J v \<Longrightarrow> built J (json_put2 J v a b x)"
  by (simp add: json_put2_def built_put)

lemma built_paths: "built J v \<Longrightarrow> built J (addPathInformation J m v)"
proof -
  have "built J v \<Longrightarrow> built J (foldl (add_contained J) v xs)" for v xs
    by (induction xs arbitrary: v) (simp_all add: add_contained_def built_put2)
  then show "built J v \<Longrightarrow> built J (addPathInformation J m v)"
    by (simp add: addPathInformation_def add_rule_def Let_def built_put2)
qed

lemma built_groups: "built J v \<Longrightarrow> built J (add_groups J k gs v)"
  by (simp add: add_groups_def built_put2)

lemma built_timeout: "built J (timeout_params J t)"
  by (simp add: timeout_params_def built_null built_put)

lemma request_params_if:
  "request_params J name a \<Longrightarrow> request_params J name b \<Longrightarrow> request_params J name (if c then a else b)"
  by simp

lemmas params_intros = request_params.intros request_params_if built_null built_put built_groups built_timeout

section \<open>Messages of the protocol\<close>

text \<open>What the daemon needs of the parameters of a request.\<close>

definition params_ok :: "('j, 'z) jsonrpc_scheme \<Rightarrow> string \<Rightarrow> 'j \<Rightarrow> bool" where
  "params_ok J name params \<longleftrightarrow> is_record J params \<and>
     (name \<in> {CALL, SET, ADD, REMOVE} \<longrightarrow> json_type J (json_child J params PATH) = stringValue) \<and>
     (name = SET \<longrightarrow> json_isMember J params VALUE = Inr True) \<and>
     (name \<in> {GET, FETCH} \<longrightarrow> (\<exists>m. carries_matcher J m (json_child J params PATH))) \<and>
     (name \<in> {FETCH, UNFETCH} \<longrightarrow> json_type J (json_child J params (rpc_ID J)) = intValue) \<and>
     (name = CONFIG \<longrightarrow> json_type J (json_child J params NAME) = stringValue \<and>
        json_type J (json_child J params DBG) = booleanValue) \<and>
     (name = AUTHENTICATE \<longrightarrow> json_type J (json_child J params USER) = stringValue \<and>
        json_type J (json_child J params PASSWORD) = stringValue)"

definition is_request :: "('j, 'z) jsonrpc_scheme \<Rightarrow> 'j \<Rightarrow> bool" where
  "is_request J v \<longleftrightarrow> isObject J v \<and>
     json_get J v (rpc_JSONRPC J) = Inr (json_string J ''2.0'') \<and>
     (\<exists>name \<in> set jet_requests. json_get J v (rpc_METHOD J) = Inr (json_string J name) \<and>
        params_ok J name (json_child J v (rpc_PARAMS J))) \<and>
     (json_isMember J v (rpc_ID J) = Inr False \<or> json_type J (json_child J v (rpc_ID J)) = uintValue)"

definition is_change :: "('j, 'z) jsonrpc_scheme \<Rightarrow> 'j \<Rightarrow> bool" where
  "is_change J v \<longleftrightarrow> isObject J v \<and>
     json_get J v (rpc_METHOD J) = Inr (json_string J CHANGE) \<and>
     json_isMember J v (rpc_ID J) = Inr False \<and>
     isObject J (json_child J v (rpc_PARAMS J)) \<and>
     json_type J (json_child J (json_child J v (rpc_PARAMS J)) PATH) = stringValue \<and>
     json_isMember J (json_child J v (rpc_PARAMS J)) VALUE = Inr True"

definition has_result :: "('j, 'z) jsonrpc_scheme \<Rightarrow> 'j \<Rightarrow> bool" where
  "has_result J v \<longleftrightarrow> json_isMember J v (rpc_RESULT J) = Inr True"

definition has_error :: "('j, 'z) jsonrpc_scheme \<Rightarrow> 'j \<Rightarrow> bool" where
  "has_error J v \<longleftrightarrow> json_isMember J v (rpc_ERR J) = Inr True \<and>
     json_type J (json_child J (json_child J v (rpc_ERR J)) (rpc_CODE J)) = intValue \<and>
     json_type J (json_child J (json_child J v (rpc_ERR J)) (rpc_MESSAGE J)) = stringValue"

text \<open>A response has an id, no method, and a result or an error.  It has only one of the two, unless
  the compiler evaluates the left side of \<open>response[RESULT] = callback(params)\<close> first.\<close>

definition is_response :: "('j, 'u, 'x, 'z) env_scheme \<Rightarrow> 'j \<Rightarrow> bool" where
  "is_response E v \<longleftrightarrow> isObject E v \<and> \<not> isNull E (json_child E v (rpc_ID E)) \<and>
     json_isMember E v (rpc_METHOD E) = Inr False \<and> (has_result E v \<or> has_error E v) \<and>
     (\<not> lhs_first E \<longrightarrow> \<not> (json_isMember E v (rpc_RESULT E) = Inr True \<and>
        json_isMember E v (rpc_ERR E) = Inr True))"

definition is_message :: "('j, 'u, 'x, 'z) env_scheme \<Rightarrow> 'j \<Rightarrow> bool" where
  "is_message E v \<longleftrightarrow> is_request E v \<or> is_change E v \<or> is_response E v"

lemma change_no_request: "CHANGE \<notin> set jet_requests"
  by (simp add: jet_requests_def jet_request_defs)

section \<open>Soundness\<close>

context jsonrpc
begin

lemma built_record: "built J v \<Longrightarrow> is_record J v"
  by (induction rule: built.induct) (simp_all add: record_simps)

lemma request_params_ok:
  assumes "request_params J name params" and "rpc_ID J \<noteq> PATH \<or> name \<noteq> FETCH"
  shows "name \<in> set jet_requests \<and> params_ok J name params"
  using assms(1)
proof cases
  case (get m)
  have "json_isMember J (json_null J) PATH = Inr False" by (simp add: isMember_null type_null)
  from addPathInformation_carries(1) [OF is_record_null this, where m = m] show ?thesis
    using get built_record [OF built_paths [OF built_null]]
    by (auto simp: params_ok_def jet_requests_def jet_request_defs record_simps isMember_null)
next
  case (fetch i m)
  then have key: "rpc_ID J \<noteq> PATH" using assms(2) by simp
  let ?base = "json_put J (json_null J) (rpc_ID J) (json_int J i)"
  have base: "is_record J ?base" "json_isMember J ?base PATH = Inr False"
    using key by (simp_all add: record_simps isMember_null)
  then show ?thesis
    using fetch addPathInformation_carries(1,4) [OF base, where m = m] key built_record [OF built_paths [OF built_put [OF built_null]]]
    by (auto simp: params_ok_def fetch_params_def jet_requests_def jet_request_defs record_simps)
qed (use built_record in \<open>auto simp: params_ok_def jet_requests_def jet_request_defs jet_key_defs record_simps\<close>)

lemma AsyncRequest_typed:
  assumes "request_params J name params" and "rpc_ID J \<noteq> PATH \<or> name \<noteq> FETCH"
  shows "is_request J (AsyncRequest J name params)"
    and "is_request J (json_put J (AsyncRequest J name params) (rpc_ID J) (json_uint J i))"
  using request_params_ok [OF assms]
  by (auto simp: is_request_def AsyncRequest_def Let_def record_simps rpc_neq isMember_null type_null)

lemma change_doc_typed: "is_change J (change_doc J path v)"
  using param_keys_distinct
  by (auto simp: is_change_def change_doc_def Let_def record_simps rpc_neq isMember_null type_null)

end

text \<open>What every answer has, before its id is assigned.\<close>

definition answer_shape :: "('j, 'u, 'x, 'z) env_scheme \<Rightarrow> 'j \<Rightarrow> bool" where
  "answer_shape E r \<longleftrightarrow> is_record E r \<and> json_isMember E r (rpc_METHOD E) = Inr False \<and>
     (has_result E r \<or> has_error E r) \<and>
     (\<not> lhs_first E \<longrightarrow> \<not> (json_isMember E r (rpc_RESULT E) = Inr True \<and>
        json_isMember E r (rpc_ERR E) = Inr True))"

locale rpc_env = jsonrpc E for E :: "('j, 'u, 'x, 'z) env_scheme"
begin

lemmas answer_simps = answer_shape_def has_result_def has_error_def record_simps rpc_neq
  isMember_null type_null json_put2_def json_put3_def Let_def

lemma put_error_shape:
  "answer_shape E (put_error E (json_null E) c msg)"
  "lhs_first E \<Longrightarrow> answer_shape E (put_error E (json_put E (json_null E) (rpc_RESULT E) v) c msg)"
  by (simp_all add: put_error_def answer_simps)

lemma exn_json_shape: "answer_shape E (exn_json E e)"
  by (simp add: exn_json_def answer_simps)

lemma error_response_shape:
  "answer_shape E (error_response E e (json_null E))"
  "answer_shape E (error_response E e (method_response_base E))"
  by (cases e; simp add: error_response_def method_response_base_def put_error_shape exn_json_shape)+

lemma answer_typed: "answer E r \<Longrightarrow> answer_shape E r"
proof (induction rule: answer.induct)
  case (state_set r)
  show ?case by (simp add: state_result_def answer_simps)
next
  case (method_result v)
  show ?case by (simp add: method_response_base_def answer_simps)
qed (simp_all add: error_response_shape read_only_response_def put_error_shape)

text \<open>Every document of the judgement is a message of the protocol.\<close>

lemma sent_doc_typed:
  assumes "sent_doc E v" and "rpc_ID E \<noteq> PATH"
  shows "is_message E v"
  using assms(1)
proof (induction rule: sent_doc.induct)
  case (response r i)
  from answer_typed [OF response(1)] response(2) have "is_response E (json_put E r (rpc_ID E) i)"
    by (simp add: answer_shape_def is_response_def has_result_def has_error_def record_simps rpc_neq)
  then show ?case by (simp add: is_message_def)
qed (simp_all add: is_message_def AsyncRequest_typed change_doc_typed assms(2))

end

end
