(* ===== verification/Peer_Sync.thy ===== *)
theory Peer_Sync
  imports Peer_Lifecycle
begin

text \<open>
  lib/syncrequest.cpp and lib/peer.cpp: the synchronous \<open>Peer\<close>, an asynchronous peer with a worker
  thread of its own that runs the event loop.  A synchronous request stores a promise as its response
  callback and waits for the worker to fulfil it.  What the worker does is the parameter \<open>L\<close>: one
  round of the event loop, \<open>None\<close> if it does not come back (an exception leaves the thread, or it
  blocks).  Waiting for a promise that is never fulfilled has no result.  \<open>this\<close> identifies the
  request object and with it the promise.
\<close>

type_synonym ('j, 'u, 'x) worker = "('j, 'u, 'x) world \<Rightarrow> ('j, 'u, 'x) world option"

text \<open>\<open>f.get()\<close>\<close>

partial_function (option) await :: "('j, 'u, 'x) worker \<Rightarrow> nat \<Rightarrow> ('j, 'u, 'x) world
    \<Rightarrow> ('j \<times> ('j, 'u, 'x) world) option" where
  "await L this w = (case promises w this of
       Some result \<Rightarrow> Some (result, w)
     | None \<Rightarrow> Option.bind (L w) (await L this))"

text \<open>\<open>SyncRequest::executeSync\<close>; the result carries the id for the destructor.\<close>

definition executeSync :: "('j, 'u, 'x, 'z) env_scheme \<Rightarrow> ('j, 'u, 'x) worker \<Rightarrow> pid \<Rightarrow> nat \<Rightarrow> 'j
    \<Rightarrow> ('j, 'u, 'x, uint32 \<times> 'j) peer_prog" where
  "executeSync E L p this doc =
     seq (modify (\<lambda>w. w\<lparr>promises := (promises w)(this := None)\<rparr>))
    (bnd (execute E p doc (Some (SyncCb this))) (\<lambda>m_id w.
       case await L this w of
         None \<Rightarrow> None
       | Some (result, w') \<Rightarrow> Some (Inr (m_id, result), w')))"

text \<open>\<open>SyncRequest::~SyncRequest\<close>\<close>

definition destroy_SyncRequest :: "uint32 \<Rightarrow> ('j, 'u, 'x, unit) peer_prog" where
  "destroy_SyncRequest m_id =
     locked (modify (\<lambda>w. w\<lparr>m_openRequestCbs := AList.delete m_id (m_openRequestCbs w)\<rparr>))"

text \<open>A local \<open>SyncRequest\<close>: executed, its result used, and destroyed when the scope is left.\<close>

definition sync_scope :: "('j, 'u, 'x, 'z) env_scheme \<Rightarrow> ('j, 'u, 'x) worker \<Rightarrow> pid \<Rightarrow> nat \<Rightarrow> 'j
    \<Rightarrow> ('j \<Rightarrow> ('j, 'u, 'x, 'a) peer_prog) \<Rightarrow> ('j, 'u, 'x, 'a) peer_prog" where
  "sync_scope E L p this doc body =
     bnd (executeSync E L p this doc) (\<lambda>(m_id, result) w.
       case body result w of
         None \<Rightarrow> None
       | Some (r, w') \<Rightarrow> seq (destroy_SyncRequest m_id) (lift r) w')"

text \<open>\<open>throw jsoncpprpcException(result)\<close>\<close>

definition throw_result :: "('j, 'u, 'x, 'z) env_scheme \<Rightarrow> 'j \<Rightarrow> ('j, 'u, 'x, 'a) peer_prog" where
  "throw_result E result = (case jsoncpprpcException_error E result of
       None \<Rightarrow> stuck
     | Some e \<Rightarrow> raise (JsoncppRpcException e))"

text \<open>\<open>if (result.isMember(ERR)) throw \<dots>; return result[RESULT];\<close>\<close>

definition result_or_throw :: "('j, 'u, 'x, 'z) env_scheme \<Rightarrow> 'j \<Rightarrow> ('j, 'u, 'x, 'j) peer_prog" where
  "result_or_throw E result =
     bnd (lift (json_isMember E result (rpc_ERR E))) (\<lambda>err.
     if err then throw_result E result else lift (json_get E result (rpc_RESULT E)))"

section \<open>Peer\<close>

definition Peer_authenticate :: "('j, 'u, 'x, 'z) env_scheme \<Rightarrow> ('j, 'u, 'x) worker \<Rightarrow> pid \<Rightarrow> nat
    \<Rightarrow> string \<Rightarrow> string \<Rightarrow> ('j, 'u, 'x, 'j) peer_prog" where
  "Peer_authenticate E L p this user password =
     (let params = json_put E (json_null E) USER (json_string E user);
          params = json_put E params PASSWORD (json_string E password)
      in sync_scope E L p this (AsyncRequest E AUTHENTICATE params) (result_or_throw E))"

definition Peer_info :: "('j, 'u, 'x, 'z) env_scheme \<Rightarrow> ('j, 'u, 'x) worker \<Rightarrow> pid \<Rightarrow> nat
    \<Rightarrow> ('j, 'u, 'x, 'j) peer_prog" where
  "Peer_info E L p this = sync_scope E L p this (AsyncRequest E INFO (json_null E)) ret"

definition Peer_config :: "('j, 'u, 'x, 'z) env_scheme \<Rightarrow> ('j, 'u, 'x) worker \<Rightarrow> pid \<Rightarrow> nat
    \<Rightarrow> string \<Rightarrow> bool \<Rightarrow> ('j, 'u, 'x, 'j) peer_prog" where
  "Peer_config E L p this name debug =
     (let params = json_put E (json_null E) NAME (json_string E name);
          params = json_put E params DBG (json_bool E debug)
      in sync_scope E L p this (AsyncRequest E CONFIG params) ret)"

definition Peer_callMethodPrivate :: "('j, 'u, 'x, 'z) env_scheme \<Rightarrow> ('j, 'u, 'x) worker \<Rightarrow> pid \<Rightarrow> nat
    \<Rightarrow> string \<Rightarrow> 'j \<Rightarrow> 'j \<Rightarrow> ('j, 'u, 'x, 'j) peer_prog" where
  "Peer_callMethodPrivate E L p this path args params =
     (let params = json_put E params PATH (json_string E path);
          params = (if \<not> isNull E args then json_put E params ARGS args else params)
      in sync_scope E L p this (AsyncRequest E CALL params) (result_or_throw E))"

definition Peer_callMethod :: "('j, 'u, 'x, 'z) env_scheme \<Rightarrow> ('j, 'u, 'x) worker \<Rightarrow> pid \<Rightarrow> nat
    \<Rightarrow> string \<Rightarrow> 'j \<Rightarrow> ('j, 'u, 'x, 'j) peer_prog" where
  "Peer_callMethod E L p this path args = Peer_callMethodPrivate E L p this path args (json_null E)"

definition Peer_callMethod_timeout :: "('j, 'u, 'x, 'z) env_scheme \<Rightarrow> ('j, 'u, 'x) worker \<Rightarrow> pid \<Rightarrow> nat
    \<Rightarrow> string \<Rightarrow> 'j \<Rightarrow> double \<Rightarrow> ('j, 'u, 'x, 'j) peer_prog" where
  "Peer_callMethod_timeout E L p this path args timeout_s =
     Peer_callMethodPrivate E L p this path args (timeout_params E timeout_s)"

text \<open>\<open>pretty\<close> is the text of \<open>__PRETTY_FUNCTION__\<close>, which the compiler chooses.\<close>

definition Peer_addMethodPrivate :: "('j, 'u, 'x, 'z) env_scheme \<Rightarrow> ('j, 'u, 'x) worker \<Rightarrow> pid \<Rightarrow> nat
    \<Rightarrow> string \<Rightarrow> string \<Rightarrow> 'j \<Rightarrow> 'u option \<Rightarrow> ('j, 'u, 'x, unit) peer_prog" where
  "Peer_addMethodPrivate E L p this pretty path params callback =
     (let params = json_put E params PATH (json_string E path) in
      seq (registerMethod p path callback)
        (sync_scope E L p this (AsyncRequest E ADD params) (\<lambda>retVal.
          bnd (lift (json_isMember E retVal (rpc_ERR E))) (\<lambda>err.
          if err then seq (unregisterMethod p path)
            (raise (JsoncppRpcException (jsoncpprpcException_data E (- 1) pretty retVal)))
          else ret ()))))"

definition Peer_addMethod :: "('j, 'u, 'x, 'z) env_scheme \<Rightarrow> ('j, 'u, 'x) worker \<Rightarrow> pid \<Rightarrow> nat
    \<Rightarrow> string \<Rightarrow> string \<Rightarrow> 'u option \<Rightarrow> ('j, 'u, 'x, unit) peer_prog" where
  "Peer_addMethod E L p this pretty path callback =
     Peer_addMethodPrivate E L p this pretty path (json_null E) callback"

definition Peer_addMethod_timeout :: "('j, 'u, 'x, 'z) env_scheme \<Rightarrow> ('j, 'u, 'x) worker \<Rightarrow> pid \<Rightarrow> nat
    \<Rightarrow> string \<Rightarrow> string \<Rightarrow> double \<Rightarrow> 'u option \<Rightarrow> ('j, 'u, 'x, unit) peer_prog" where
  "Peer_addMethod_timeout E L p this pretty path timeout_s callback =
     Peer_addMethodPrivate E L p this pretty path (timeout_params E timeout_s) callback"

definition Peer_addMethod_groups :: "('j, 'u, 'x, 'z) env_scheme \<Rightarrow> ('j, 'u, 'x) worker \<Rightarrow> pid \<Rightarrow> nat
    \<Rightarrow> string \<Rightarrow> string \<Rightarrow> userGroups_t \<Rightarrow> userGroups_t \<Rightarrow> 'u option \<Rightarrow> double
    \<Rightarrow> ('j, 'u, 'x, unit) peer_prog" where
  "Peer_addMethod_groups E L p this pretty path fetchGroups callGroups callback timeout_s =
     (let params = timeout_params E timeout_s;
          params = add_groups E FETCH_GROUPS fetchGroups params;
          params = add_groups E CALL_GROUPS callGroups params
      in Peer_addMethodPrivate E L p this pretty path params callback)"

definition Peer_addStatePrivate :: "('j, 'u, 'x, 'z) env_scheme \<Rightarrow> ('j, 'u, 'x) worker \<Rightarrow> pid \<Rightarrow> nat
    \<Rightarrow> string \<Rightarrow> 'j \<Rightarrow> 'j \<Rightarrow> 'u option \<Rightarrow> ('j, 'u, 'x, unit) peer_prog" where
  "Peer_addStatePrivate E L p this path value params callback =
     (let params = json_put E params PATH (json_string E path);
          params = json_put E params VALUE value
      in seq (registerState p path callback)
        (sync_scope E L p this (AsyncRequest E ADD params) (\<lambda>retVal.
          bnd (lift (json_isMember E retVal (rpc_ERR E))) (\<lambda>err.
          if err then seq (unregisterState p path) (throw_result E retVal) else ret ()))))"

definition Peer_addState :: "('j, 'u, 'x, 'z) env_scheme \<Rightarrow> ('j, 'u, 'x) worker \<Rightarrow> pid \<Rightarrow> nat
    \<Rightarrow> string \<Rightarrow> 'j \<Rightarrow> 'u option \<Rightarrow> ('j, 'u, 'x, unit) peer_prog" where
  "Peer_addState E L p this path value callback =
     Peer_addStatePrivate E L p this path value (json_null E) callback"

definition Peer_addState_timeout :: "('j, 'u, 'x, 'z) env_scheme \<Rightarrow> ('j, 'u, 'x) worker \<Rightarrow> pid \<Rightarrow> nat
    \<Rightarrow> string \<Rightarrow> 'j \<Rightarrow> double \<Rightarrow> 'u option \<Rightarrow> ('j, 'u, 'x, unit) peer_prog" where
  "Peer_addState_timeout E L p this path value timeout_s callback =
     Peer_addStatePrivate E L p this path value (timeout_params E timeout_s) callback"

definition Peer_addState_groups :: "('j, 'u, 'x, 'z) env_scheme \<Rightarrow> ('j, 'u, 'x) worker \<Rightarrow> pid \<Rightarrow> nat
    \<Rightarrow> string \<Rightarrow> userGroups_t \<Rightarrow> userGroups_t \<Rightarrow> 'j \<Rightarrow> double \<Rightarrow> 'u option
    \<Rightarrow> ('j, 'u, 'x, unit) peer_prog" where
  "Peer_addState_groups E L p this path fetchGroups setGroups value timeout_s callback =
     (let params = timeout_params E timeout_s;
          params = add_groups E FETCH_GROUPS fetchGroups params;
          params = add_groups E SET_GROUPS setGroups params
      in Peer_addStatePrivate E L p this path value params callback)"

definition Peer_get :: "('j, 'u, 'x, 'z) env_scheme \<Rightarrow> ('j, 'u, 'x) worker \<Rightarrow> pid \<Rightarrow> nat
    \<Rightarrow> matcher_t \<Rightarrow> ('j, 'u, 'x, 'j) peer_prog" where
  "Peer_get E L p this match =
     sync_scope E L p this (AsyncRequest E GET (addPathInformation E match (json_null E))) ret"

definition Peer_addFetch :: "('j, 'u, 'x, 'z) env_scheme \<Rightarrow> ('j, 'u, 'x) worker \<Rightarrow> pid \<Rightarrow> nat
    \<Rightarrow> matcher_t \<Rightarrow> 'u option \<Rightarrow> ('j, 'u, 'x, fetchId_t) peer_prog" where
  "Peer_addFetch E L p this match callback =
     bnd createFetchId (\<lambda>fetchId.
     seq (registerFetch p fetchId (fetcher_of callback match))
       (sync_scope E L p this (AsyncRequest E FETCH (fetch_params E fetchId match)) (\<lambda>result.
         bnd (lift (json_isMember E result (rpc_ERR E))) (\<lambda>err.
         if err then seq (unregisterFetch p fetchId) (throw_result E result) else ret fetchId))))"

definition read_warning :: "('j, 'z) jsonrpc_scheme \<Rightarrow> 'j \<Rightarrow> 'j exn + SetStateResult" where
  "read_warning J result =
     sum_bind (json_get J result (rpc_RESULT J)) (\<lambda>resultNode.
     sum_bind (json_get2 J resultNode WARNING (rpc_CODE J)) (\<lambda>c.
     if json_isInt J c
     then sum_bind (json_asInt J c) (\<lambda>i. Inr (SetStateResult_default\<lparr>code := i\<rparr>))
     else Inr SetStateResult_default))"

definition Peer_setStateValuePrivate :: "('j, 'u, 'x, 'z) env_scheme \<Rightarrow> ('j, 'u, 'x) worker \<Rightarrow> pid \<Rightarrow> nat
    \<Rightarrow> string \<Rightarrow> 'j \<Rightarrow> 'j \<Rightarrow> ('j, 'u, 'x, SetStateResult) peer_prog" where
  "Peer_setStateValuePrivate E L p this path value params =
     (let params = json_put E params PATH (json_string E path);
          params = json_put E params VALUE value
      in sync_scope E L p this (AsyncRequest E SET params) (\<lambda>result.
          bnd (lift (json_isMember E result (rpc_ERR E))) (\<lambda>err.
          if err then throw_result E result else lift (read_warning E result))))"

definition Peer_setStateValue :: "('j, 'u, 'x, 'z) env_scheme \<Rightarrow> ('j, 'u, 'x) worker \<Rightarrow> pid \<Rightarrow> nat
    \<Rightarrow> string \<Rightarrow> 'j \<Rightarrow> ('j, 'u, 'x, SetStateResult) peer_prog" where
  "Peer_setStateValue E L p this path value =
     Peer_setStateValuePrivate E L p this path value (json_null E)"

definition Peer_setStateValue_timeout :: "('j, 'u, 'x, 'z) env_scheme \<Rightarrow> ('j, 'u, 'x) worker \<Rightarrow> pid \<Rightarrow> nat
    \<Rightarrow> string \<Rightarrow> 'j \<Rightarrow> double \<Rightarrow> ('j, 'u, 'x, SetStateResult) peer_prog" where
  "Peer_setStateValue_timeout E L p this path value timeout_s =
     Peer_setStateValuePrivate E L p this path value (timeout_params E timeout_s)"

text \<open>
  Construction and destruction: the asynchronous peer is constructed before the worker thread starts
  and destroyed after the worker was stopped and joined, so what the worker does in between is not
  part of either.  \<open>local()\<close> constructs its static instance at the first call; \<open>made\<close> says that it
  exists.
\<close>

definition Peer_construct :: "('j, 'u, 'x, 'z) env_scheme \<Rightarrow> pid \<Rightarrow> string \<Rightarrow> uint32 \<Rightarrow> string \<Rightarrow> bool
    \<Rightarrow> byte list \<Rightarrow> ('j, 'u, 'x, unit) peer_prog" where
  "Peer_construct E p address port name debug lengthBuffer =
     PeerAsync E p address port name debug lengthBuffer"

definition Peer_destroy :: "('j, 'u, 'x, 'z) env_scheme \<Rightarrow> pid \<Rightarrow> ('j, 'u, 'x, unit) peer_prog" where
  "Peer_destroy E p = destroy E p"

definition Peer_local :: "('j, 'u, 'x, 'z) env_scheme \<Rightarrow> pid \<Rightarrow> byte list \<Rightarrow> bool
    \<Rightarrow> ('j, 'u, 'x, pid) peer_prog" where
  "Peer_local E p lengthBuffer made =
     (if made then ret p
      else seq (Peer_construct E p JET_UNIX_DOMAIN_SOCKET_NAME 0 [] False lengthBuffer) (ret p))"

text \<open>The operations that only hand on to the asynchronous peer.\<close>

definition Peer_notifyState :: "('j, 'u, 'x, 'z) env_scheme \<Rightarrow> pid \<Rightarrow> string \<Rightarrow> 'j
    \<Rightarrow> ('j, 'u, 'x, int32) peer_prog" where
  "Peer_notifyState E p path value = notifyState E p path value"

definition Peer_resume :: "('j, 'u, 'x, 'z) env_scheme \<Rightarrow> pid \<Rightarrow> ('j, 'u, 'x, bool) peer_prog" where
  "Peer_resume E p = resume E p"

definition Peer_addMethodAsync :: "('j, 'u, 'x, 'z) env_scheme \<Rightarrow> pid \<Rightarrow> string \<Rightarrow> userGroups_t
    \<Rightarrow> userGroups_t \<Rightarrow> 'u option \<Rightarrow> double \<Rightarrow> 'u responseCallback_t \<Rightarrow> ('j, 'u, 'x, unit) peer_prog" where
  "Peer_addMethodAsync E p path fetchGroups callGroups callback timeout_s resultCallback =
     addMethodAsync_groups E p path fetchGroups callGroups callback timeout_s resultCallback"

definition Peer_addStateAsync :: "('j, 'u, 'x, 'z) env_scheme \<Rightarrow> pid \<Rightarrow> string \<Rightarrow> 'j
    \<Rightarrow> 'u responseCallback_t \<Rightarrow> 'u option \<Rightarrow> ('j, 'u, 'x, unit) peer_prog" where
  "Peer_addStateAsync E p path value resultCallback callback =
     addStateAsync E p path value resultCallback callback"

definition Peer_addStateAsync_timeout :: "('j, 'u, 'x, 'z) env_scheme \<Rightarrow> pid \<Rightarrow> string \<Rightarrow> 'j \<Rightarrow> double
    \<Rightarrow> 'u responseCallback_t \<Rightarrow> 'u option \<Rightarrow> ('j, 'u, 'x, unit) peer_prog" where
  "Peer_addStateAsync_timeout E p path value timeout_s resultCallback callback =
     addStateAsync_timeout E p path value timeout_s resultCallback callback"

definition Peer_addStateAsync_groups :: "('j, 'u, 'x, 'z) env_scheme \<Rightarrow> pid \<Rightarrow> string \<Rightarrow> 'j
    \<Rightarrow> userGroups_t \<Rightarrow> userGroups_t \<Rightarrow> double \<Rightarrow> 'u responseCallback_t \<Rightarrow> 'u option
    \<Rightarrow> ('j, 'u, 'x, unit) peer_prog" where
  "Peer_addStateAsync_groups E p path value fetchGroups setGroups timeout_s resultCallback callback =
     addStateAsync_groups E p path fetchGroups setGroups value timeout_s resultCallback callback"

definition Peer_removeFetchAsync :: "('j, 'u, 'x, 'z) env_scheme \<Rightarrow> pid \<Rightarrow> fetchId_t
    \<Rightarrow> 'u responseCallback_t \<Rightarrow> ('j, 'u, 'x, unit) peer_prog" where
  "Peer_removeFetchAsync E p fetchId resultCb = removeFetchAsync E p fetchId resultCb"

definition Peer_removeMethodAsync :: "('j, 'u, 'x, 'z) env_scheme \<Rightarrow> pid \<Rightarrow> string
    \<Rightarrow> 'u responseCallback_t \<Rightarrow> ('j, 'u, 'x, unit) peer_prog" where
  "Peer_removeMethodAsync E p path resultCallback = removeMethodAsync E p path resultCallback"

definition Peer_removeStateAsync :: "('j, 'u, 'x, 'z) env_scheme \<Rightarrow> pid \<Rightarrow> string
    \<Rightarrow> 'u responseCallback_t \<Rightarrow> ('j, 'u, 'x, unit) peer_prog" where
  "Peer_removeStateAsync E p path resultCb = removeStateAsync E p path resultCb"

section \<open>Shared facts\<close>

lemma await_done: "promises w this = Some v \<Longrightarrow> await L this w = Some (v, w)"
  by (subst await.simps) simp

lemma await_step:
  "promises w this = None \<Longrightarrow> L w = Some w' \<Longrightarrow> await L this w = await L this w'"
  by (subst await.simps) simp

text \<open>A worker that receives exactly the given response.\<close>

definition delivers :: "('j, 'u, 'x, 'z) env_scheme \<Rightarrow> 'j \<Rightarrow> ('j, 'u, 'x) worker" where
  "delivers E data w = (case handleResult E data w of None \<Rightarrow> None | Some (_, w') \<Rightarrow> Some w')"

end
