(* ===== verification/Peer_Invariants.thy ===== *)
theory Peer_Invariants
  imports Framing Sent_Documents Peer_Sync
begin

text \<open>
  Invariants of the process state.  The locale \<open>world_invariant\<close> is the contract of an invariant:
  it survives each elementary update the library makes, and the user's callbacks respect it.
  Inside, every operation of the library is shown to keep it, however the operation is left.
  Two invariants are shown to meet the contract: \<open>wf_world\<close> (tables without duplicate keys, buffer
  levels within the buffers) and \<open>mutex_is b\<close> (every operation leaves the mutex of the open requests
  as it found it).  \<open>api_step\<close> is one call of an operation of the library; \<open>reachable\<close> are the states
  of a process after any sequence of them.
\<close>

text \<open>The inner loops of \<open>receive\<close> go on only with a complete length.\<close>

lemma seq_ret_Continue: "seq m (ret (Return i)) w \<noteq> Some (Inr Continue, w')"
  by (auto simp: seq_def bnd_def split: option.splits prod.splits sum.splits)

lemma receive_length_level:
  assumes "receive_length E p w = Some (Inr Continue, w')"
  shows "\<not> m_lengthBufferLevel (peers w' p) < 4"
proof -
  have "y = (Inr Continue, w') \<longrightarrow> \<not> m_lengthBufferLevel (peers w' p) < 4"
    if "receive_length E p w = Some y" for E p w y w'
  proof (rule receive_length.raw_induct [where P = "\<lambda>E p w y. y = (Inr Continue, w') \<longrightarrow>
      \<not> m_lengthBufferLevel (peers w' p) < 4", OF _ that], goal_cases)
    case (1 rec E p w y)
    show ?case
      using 1(2) by (auto simp: Let_def seq_ret_Continue
          split: if_splits prod.splits recv_result.splits dest: 1(1))
  qed
  with assms show ?thesis by blast
qed

lemma receive_data_level:
  assumes "receive_data E p w = Some (Inr Continue, w')"
  shows "m_lengthBufferLevel (peers w' p) = m_lengthBufferLevel (peers w p)"
proof -
  have "y = (Inr Continue, w') \<longrightarrow> m_lengthBufferLevel (peers w' p) = m_lengthBufferLevel (peers w p)"
    if "receive_data E p w = Some y" for E p w y w'
  proof (rule receive_data.raw_induct [where P = "\<lambda>E p w y. y = (Inr Continue, w') \<longrightarrow>
      m_lengthBufferLevel (peers w' p) = m_lengthBufferLevel (peers w p)", OF _ that], goal_cases)
    case (1 rec E p w y)
    show ?case
      using 1(2) by (auto simp: seq_ret_Continue store_data_def
          split: if_splits prod.splits recv_result.splits dest!: 1(1))
  qed
  with assms show ?thesis by blast
qed

locale world_invariant =
  fixes E :: "('j, 'u, 'x, 'z) env_scheme"
    and I :: "('j, 'u, 'x) world \<Rightarrow> bool"
  assumes ext_tcp: "I w \<Longrightarrow> sock_connect_tcp E p a s (ext w) = (i, x) \<Longrightarrow> I (w\<lparr>ext := x\<rparr>)"
    and ext_unix: "I w \<Longrightarrow> sock_connect_unix E p a (ext w) = (i, x) \<Longrightarrow> I (w\<lparr>ext := x\<rparr>)"
    and ext_disconnect: "I w \<Longrightarrow> I (w\<lparr>ext := sock_disconnect E p (ext w)\<rparr>)"
    and ext_receive: "I w \<Longrightarrow> sock_receive E p len (ext w) = (rr, x) \<Longrightarrow> I (w\<lparr>ext := x\<rparr>)"
    and ext_send: "I w \<Longrightarrow> sent_doc E v \<Longrightarrow> length (json_writeString E v) \<le> MAX_MESSAGE_SIZE \<Longrightarrow>
      sock_sendBlocks E p [be_bytes (length (json_writeString E v)), json_writeString E v] (ext w)
        = (i, x) \<Longrightarrow> I (w\<lparr>ext := x\<rparr>)"
    and upd_fetchId: "I w \<Longrightarrow> I (w\<lparr>m_sfetchId := i\<rparr>)"
    and upd_sid: "I w \<Longrightarrow> I (w\<lparr>m_sid := n\<rparr>)"
    and upd_promises: "I w \<Longrightarrow> I (w\<lparr>promises := ps\<rparr>)"
    and upd_request:
      "I w \<Longrightarrow> I (w\<lparr>m_openRequestCbs := AList.update n req (m_openRequestCbs w)\<rparr>)"
    and del_request:
      "I w \<Longrightarrow> I (w\<lparr>m_openRequestCbs := AList.delete n (m_openRequestCbs w)\<rparr>)"
    and no_requests: "I w \<Longrightarrow> I (w\<lparr>m_openRequestCbs := []\<rparr>)"
    and lock_unlock: "I w \<Longrightarrow> \<not> m_mtx_openRequestCbs w \<Longrightarrow>
      (I (w\<lparr>m_mtx_openRequestCbs := True\<rparr>) \<Longrightarrow> I w1) \<Longrightarrow> I (w1\<lparr>m_mtx_openRequestCbs := False\<rparr>)"
    and upd_states: "I w \<Longrightarrow> I (upd_peer p (\<lambda>q. q\<lparr>m_stateCallbacks := sc q\<rparr>) w)"
    and upd_methods: "I w \<Longrightarrow> I (upd_peer p (\<lambda>q. q\<lparr>m_methodCallbacks := mc q\<rparr>) w)"
    and upd_fetcher:
      "I w \<Longrightarrow> I (upd_peer p (\<lambda>q. q\<lparr>m_fetchers := AList.update i f (m_fetchers q)\<rparr>) w)"
    and del_fetcher:
      "I w \<Longrightarrow> I (upd_peer p (\<lambda>q. q\<lparr>m_fetchers := AList.delete i (m_fetchers q)\<rparr>) w)"
    and no_fetchers: "I w \<Longrightarrow> I (upd_peer p (\<lambda>q. q\<lparr>m_fetchers := []\<rparr>) w)"
    and upd_dataCb: "I w \<Longrightarrow> I (upd_peer p (\<lambda>q. q\<lparr>m_dataCb := b\<rparr>) w)"
    and upd_stopped: "I w \<Longrightarrow> I (upd_peer p (\<lambda>q. q\<lparr>m_stopped := b\<rparr>) w)"
    and upd_reset: "I w \<Longrightarrow> I (upd_peer p reset_buffers w)"
    and new_peer: "I w \<Longrightarrow> length lb = 4 \<Longrightarrow> I (upd_peer p (\<lambda>_. \<lparr>m_address = a, m_port = n,
        m_name = s, m_debug = d, m_dataCb = False, m_stopped = False,
        m_bigEndianLengthBuffer = lb, m_lengthBufferLevel = 0, m_stateCallbacks = Map.empty,
        m_methodCallbacks = Map.empty, m_fetchers = [], m_dataBuffer = [],
        m_dataBufferLevel = 0\<rparr>) w)"
    and got_length: "I w \<Longrightarrow> m_lengthBufferLevel (peers w p) < 4 \<Longrightarrow>
      sock_receive E p (4 - m_lengthBufferLevel (peers w p)) (ext w) = (Received bs, x) \<Longrightarrow>
      I (upd_peer p (store_length bs) (w\<lparr>ext := x\<rparr>))"
    and sized_data: "I w \<Longrightarrow> m_lengthBufferLevel (peers w p) < 4 \<Longrightarrow>
      sock_receive E p (4 - m_lengthBufferLevel (peers w p)) (ext w) = (Received bs, x) \<Longrightarrow>
      m_lengthBufferLevel (store_length bs (peers w p)) = 4 \<Longrightarrow>
      I (upd_peer p (\<lambda>q. q\<lparr>m_dataBuffer := resize (message_length q) (m_dataBuffer q)\<rparr>)
          (upd_peer p (store_length bs) (w\<lparr>ext := x\<rparr>)))"
    and got_data: "I w \<Longrightarrow> m_dataBufferLevel (peers w p) < length (m_dataBuffer (peers w p)) \<Longrightarrow>
      sock_receive E p (length (m_dataBuffer (peers w p)) - m_dataBufferLevel (peers w p)) (ext w)
        = (Received bs, x) \<Longrightarrow>
      I (upd_peer p (store_data bs) (w\<lparr>ext := x\<rparr>))"
    and zero_byte: "I w \<Longrightarrow> \<not> m_lengthBufferLevel (peers w p) < 4 \<Longrightarrow>
      I (upd_peer p (\<lambda>q. q\<lparr>m_dataBuffer := m_dataBuffer q @ [0]\<rparr>) w)"
    and cb_response: "keeps I (run_response E u v)"
    and cb_fetch: "keeps I (run_fetch E u v st)"
    and cb_state: "keeps I (run_state E u v path)"
    and cb_method: "keeps I (run_method E u v)"
begin

lemmas keeps_updates = ext_disconnect upd_fetchId upd_sid upd_promises upd_request del_request no_requests
  upd_states upd_methods upd_fetcher del_fetcher no_fetchers upd_dataCb upd_stopped upd_reset

lemmas keeps_cbs = cb_response cb_fetch cb_state cb_method

text \<open>The elementary programs.\<close>

lemma keeps_locked: "keeps I m \<Longrightarrow> keeps I (locked m)"
  by (rule keepsI)
    (auto simp: locked_def split: if_splits option.splits prod.splits
      intro: lock_unlock dest: keepsD)

lemma keeps_registries:
  "keeps I (registerFetch p i f)" "keeps I (registerMethod p path cb)"
  "keeps I (registerState p path cb)" "keeps I (unregisterFetch p i)"
  "keeps I (unregisterMethod p path)" "keeps I (unregisterState p path)"
  unfolding registry_defs by (rule keeps_modify; rule keeps_updates; assumption)+

lemma add_request_ok: "I w \<Longrightarrow> I (add_request cb w)"
  using upd_request [OF upd_sid, of w "m_sid w + 1"] by (simp add: add_request_def Let_def)

lemma set_notifier_ok: "I w \<Longrightarrow> I (set_notifier i c msg w)"
  by (simp add: set_notifier_def Let_def upd_request)

lemma keeps_sendMessage: "sent_doc E v \<Longrightarrow> keeps I (sendMessage E p v)"
  by (rule keepsI)
    (auto simp: sendMessage_def Let_def split: if_splits prod.splits intro: ext_send)

lemma keeps_createFetchId: "keeps I createFetchId"
  unfolding createFetchId_def by (intro keeps_intros keeps_modify upd_fetchId)

lemma keeps_resultCbs:
  "keeps I (addMethodResultCb E p v path)" "keeps I (addStateResultCb E p v path)"
  "keeps I (addFetchResultCb E p v i)"
  unfolding addMethodResultCb_def addStateResultCb_def addFetchResultCb_def
  by (intro keeps_intros keeps_registries)+

lemma keeps_call_response: "keeps I (call_response E cb v)"
proof (induction cb)
  case (SyncCb n)
  show ?case by (rule keepsI) (auto simp: upd_promises split: if_splits)
qed (auto intro!: keeps_intros keeps_resultCbs keeps_cbs)

lemma keeps_call_fetch: "keeps I (call_fetch E cb v st)"
  unfolding call_fetch_def by (intro keeps_intros keeps_cbs)

lemma keeps_call_method: "keeps I (call_method E cb v)"
  unfolding call_method_def by (intro keeps_intros keeps_cbs)

lemma keeps_notifyState: "keeps I (notifyState E p path v)"
  unfolding notifyState_def by (intro keeps_intros keeps_sendMessage sent_doc.change)

text \<open>Requests and their results.\<close>

lemma keeps_execute:
  assumes "request_params E name params"
  shows "keeps I (execute E p (AsyncRequest E name params) cb)"
  unfolding execute_def
  by (intro keeps_intros keeps_sendMessage keeps_locked keeps_modify add_request_ok
      sent_doc.notification sent_doc.request assms)
    (auto intro!: keeps_intros keeps_modify set_notifier_ok split: option.splits)

lemma keeps_execute_notification:
  "request_params E name params \<Longrightarrow>
   keeps I (execute_notification E p (AsyncRequest E name params))"
  unfolding execute_notification_def
  by (intro keeps_intros keeps_sendMessage sent_doc.notification)

lemma keeps_take_request: "keeps I (take_request i)"
  unfolding take_request_def by (intro keeps_intros keeps_locked keeps_modify del_request)

lemma keeps_handleResult: "keeps I (handleResult E v)"
  unfolding handleResult_def by (intro keeps_intros keeps_take_request keeps_call_response)

lemma keeps_fire_errorNotifier: "keeps I (fire_errorNotifier E i)"
  unfolding fire_errorNotifier_def
  by (intro keeps_intros) (auto intro!: keeps_intros keeps_modify upd_request keeps_handleResult)

lemma keeps_cancel_request: "keeps I (cancel_request E reqs i)"
  unfolding cancel_request_def by (intro keeps_intros keeps_call_response)

lemma keeps_clear: "keeps I (clear E)"
  unfolding clear_def
  by (intro keeps_locked keeps_intros keeps_cancel_request keeps_modify no_requests)

lemmas keeps_requests = keeps_execute keeps_execute_notification keeps_registries
  keeps_createFetchId params_intros

lemma keeps_simple_requests:
  "keeps I (infoAsync E p cb)" "keeps I (configAsync E p name debug cb)"
  "keeps I (callMethodAsync E p path v cb)" "keeps I (callMethodAsync_timeout E p path v t cb)"
  "keeps I (setStateValueAsync E p path v cb)" "keeps I (setStateValueAsync_timeout E p path v t cb)"
  "keeps I (authenticateAsync E p user password cb)" "keeps I (getAsync E p m cb)"
  unfolding infoAsync_def configAsync_def callMethodAsync_def callMethodAsync_timeout_def
    callMethodAsyncPrivate_def setStateValueAsync_def setStateValueAsync_timeout_def
    setStateValueAsyncPrivate_def authenticateAsync_def getAsync_def Let_def
  by (intro keeps_intros keeps_requests)+

lemma keeps_method_requests:
  "keeps I (addMethodAsync E p path rcb cb)" "keeps I (addMethodAsync_timeout E p path t rcb cb)"
  "keeps I (addMethodAsync_groups E p path fg cg cb t rcb)" "keeps I (removeMethodAsync E p path rcb)"
  unfolding addMethodAsync_def addMethodAsync_timeout_def addMethodAsync_groups_def
    addMethodAsyncPrivate_def removeMethodAsync_def Let_def
  by (intro keeps_intros keeps_requests)+

lemma keeps_state_requests:
  "keeps I (addStateAsync E p path v rcb cb)" "keeps I (addStateAsync_timeout E p path v t rcb cb)"
  "keeps I (addStateAsync_groups E p path fg sg v t rcb cb)" "keeps I (removeStateAsync E p path rcb)"
  unfolding addStateAsync_def addStateAsync_timeout_def addStateAsync_groups_def
    addStateAsyncPrivate_def removeStateAsync_def Let_def
  by (intro keeps_intros keeps_requests)+

lemma keeps_fetch_requests:
  "keeps I (addFetchAsync E p m cb rcb)" "keeps I (restoreFetch E p m i)"
  "keeps I (removeFetchAsync E p i rcb)"
  unfolding addFetchAsync_def restoreFetch_def removeFetchAsync_def Let_def
  by (intro keeps_intros keeps_requests)+

text \<open>Start, stop and destruction.\<close>

lemma keeps_for_fetchers: "(\<And>i f. keeps I (body i f)) \<Longrightarrow> keeps I (for_fetchers E p body)"
  unfolding for_fetchers_def
  by (intro keeps_intros) (auto intro!: keepsI split: if_splits)

lemma keeps_connect: "keeps I (connect E p)"
  by (rule keepsI) (auto simp: connect_def Let_def split: if_splits prod.splits intro: ext_tcp ext_unix)

lemma keeps_start: "keeps I (start E p)"
  unfolding start_def
  by (intro keeps_intros keeps_modify keeps_for_fetchers keeps_connect keeps_simple_requests
      keeps_fetch_requests keeps_updates)

lemma keeps_stop: "keeps I (stop E p)"
  unfolding stop_def
  by (intro keeps_intros keeps_modify keeps_for_fetchers keeps_call_fetch keeps_clear keeps_updates)

lemma keeps_resume: "keeps I (resume E p)"
  unfolding resume_def by (intro keeps_intros keeps_start)

lemma keeps_PeerAsync: "keeps I (PeerAsync E p a n s d lb)"
  unfolding PeerAsync_def
  by (intro keeps_intros keeps_start keeps_modify new_peer) (simp_all add: min_def)

lemma keeps_destroy: "keeps I (destroy E p)"
  unfolding destroy_def by (intro keeps_intros keeps_stop keeps_modify keeps_updates)

text \<open>Dispatch of a message.\<close>

lemma keeps_set_state: "keeps I (set_state E p u v path)"
  unfolding set_state_def by (intro keeps_intros keeps_cbs keeps_sendMessage sent_doc.change)

lemma keeps_send_response: "answer E v \<Longrightarrow> keeps I (send_response E p data v)"
  unfolding send_response_def by (intro keeps_intros keeps_sendMessage sent_doc.response)

lemma keeps_handle_state: "keeps I (handle_state E p cb path data)"
proof -
  have "yields (answer E) (try_catch (set_state E p u v path) (\<lambda>e. ret (error_response E e (json_null E))))"
    for u v
    unfolding set_state_def by (intro yields_intros answer.intros)
  then have "yields (answer E) (case cb of None \<Rightarrow> ret (read_only_response E)
      | Some u \<Rightarrow> try_catch (set_state E p u v path) (\<lambda>e. ret (error_response E e (json_null E))))" for v
    by (cases cb) (simp_all add: yields_ret answer.read_only)
  then show ?thesis
    unfolding handle_state_def
    by (intro keeps_lift keeps_bnd keeps_if keeps_ret keeps_yields [where P = "answer E"]
        keeps_send_response) (intro keeps_intros keeps_set_state)
qed

lemma keeps_handle_method: "keeps I (handle_method E p cb data)"
  unfolding handle_method_def
  by (rule keeps_yields [where P = "answer E"])
    (intro keeps_intros keeps_call_method keeps_send_response yields_intros answer.intros | assumption)+

lemma keeps_handle_notification: "keeps I (handle_notification E p f data)"
  unfolding handle_notification_def by (intro keeps_intros keeps_call_fetch)

lemma keeps_case_type:
  "keeps I a \<Longrightarrow> keeps I b \<Longrightarrow> keeps I c \<Longrightarrow> keeps I d \<Longrightarrow> keeps I e \<Longrightarrow>
   keeps I (case t of nullValue \<Rightarrow> a | intValue \<Rightarrow> b | stringValue \<Rightarrow> c | arrayValue \<Rightarrow> d
     | objectValue \<Rightarrow> e | _ \<Rightarrow> ret ())"
  by (cases t) (simp_all add: keeps_ret)

lemma keeps_handleMessage: "keeps I (handleMessage E p data)"
  unfolding handleMessage_def
  by (rule keeps_bnd [OF keeps_lift keeps_case_type])
    (intro keeps_intros keeps_handleResult keeps_handle_notification keeps_handle_state
      keeps_handle_method)+

lemma keeps_receiveCallback: "keeps I (receiveCallback E p data)"
  unfolding receiveCallback_def
  by (rule keeps_case_type) (intro keeps_intros keeps_handleMessage)+

text \<open>Reception.\<close>

lemma keeps_seq_stop: "seq (stop E p) (ret a) w = Some y \<Longrightarrow> I w \<Longrightarrow> I (snd y)"
  using keepsD [OF keeps_seq [OF keeps_stop keeps_ret], of w p a "fst y" "snd y"] by simp

lemma keeps_receive_length: "keeps I (receive_length E p)"
proof (rule keepsI)
  have "E' = E \<longrightarrow> I w \<longrightarrow> I (snd y)" if "receive_length E' p w = Some y" for E' p w y
  proof (rule receive_length.raw_induct
      [where P = "\<lambda>E' p w y. E' = E \<longrightarrow> I w \<longrightarrow> I (snd y)", OF _ that],
      goal_cases)
    case (1 rec E' p w y)
    show ?case
    proof (intro impI)
      assume eq: "E' = E" and I: "I w"
      show "I (snd y)"
        using 1(2) I got_length [OF I, of p] sized_data [OF I, of p] ext_receive [OF I, of p]
        by (auto simp: eq Let_def split: if_splits prod.splits recv_result.splits
            dest: 1(1) intro: keeps_seq_stop)
    qed
  qed
  then show "I w'" if "I w" "receive_length E p w = Some (r, w')" for w r w'
    using that by fastforce
qed

lemma keeps_receive_data: "keeps I (receive_data E p)"
proof (rule keepsI)
  have "E' = E \<longrightarrow> I w \<longrightarrow> I (snd y)" if "receive_data E' p w = Some y" for E' p w y
  proof (rule receive_data.raw_induct
      [where P = "\<lambda>E' p w y. E' = E \<longrightarrow> I w \<longrightarrow> I (snd y)", OF _ that],
      goal_cases)
    case (1 rec E' p w y)
    show ?case
    proof (intro impI)
      assume eq: "E' = E" and I: "I w"
      show "I (snd y)"
        using 1(2) I got_data [OF I, of p] ext_receive [OF I, of p]
        by (auto simp: eq split: if_splits prod.splits recv_result.splits
            dest: 1(1) intro: keeps_seq_stop)
    qed
  qed
  then show "I w'" if "I w" "receive_data E p w = Some (r, w')" for w r w'
    using that by fastforce
qed

lemma process_package_keeps:
  assumes "process_package E p w = Some y" and "I w"
    and "\<not> m_lengthBufferLevel (peers w p) < 4"
  shows "I (snd y)"
proof -
  define w1 where "w1 = upd_peer p (\<lambda>q. q\<lparr>m_dataBuffer := m_dataBuffer q @ [0]\<rparr>) w"
  have I1: "I w1" unfolding w1_def by (rule zero_byte [OF assms(2,3)])
  let ?rest = "seq (bnd (gets (\<lambda>w. json_parse E (butlast (m_dataBuffer (peers w p))))) (\<lambda>parsed.
      case parsed of None \<Rightarrow> ret () | Some data \<Rightarrow> receiveCallback E p data))
    (modify (upd_peer p reset_buffers))"
  have "?rest w1 = Some y"
    using assms(1) by (simp add: process_package_def w1_def)
  moreover have "keeps I ?rest"
    by (intro keeps_intros keeps_receiveCallback keeps_modify upd_reset)
  ultimately show ?thesis using I1 by (cases y) (auto dest: keepsD)
qed

lemma keeps_receive: "keeps I (receive E p)"
proof (rule keepsI)
  have "E' = E \<longrightarrow> I w \<longrightarrow> I (snd y)" if "receive E' p w = Some y" for E' p w y
  proof (rule receive.raw_induct
      [where P = "\<lambda>E' p w y. E' = E \<longrightarrow> I w \<longrightarrow> I (snd y)", OF _ that],
      goal_cases)
    case (1 rec E' p w y)
    have more: "I (snd y)" if "rec E p w2 = Some y" "I w2" for w2
      using 1(1) [OF that(1)] that(2) by simp
    have package: "I (snd y)" if "Option.bind (process_package E p w2) (\<lambda>(r, w). case r of
        Inl e \<Rightarrow> Some (Inl e, w) | Inr _ \<Rightarrow> rec E p w) = Some y"
        "I w2" "\<not> m_lengthBufferLevel (peers w2 p) < 4" for w2
    proof -
      from that(1) obtain r w3 where r: "process_package E p w2 = Some (r, w3)"
        by (auto simp: bind_eq_Some_conv)
      then have "I w3" using process_package_keeps [OF r that(2,3)] by simp
      with that r show ?thesis by (cases r) (auto intro: more)
    qed
    have data: "I (snd y)" if "Option.bind (receive_data E p w1) (\<lambda>(r, w). case r of
        Inl e \<Rightarrow> Some (Inl e, w) | Inr (Return i) \<Rightarrow> Some (Inr i, w)
      | Inr Continue \<Rightarrow> Option.bind (process_package E p w) (\<lambda>(r, w). case r of
          Inl e \<Rightarrow> Some (Inl e, w) | Inr _ \<Rightarrow> rec E p w)) = Some y"
        "I w1" "\<not> m_lengthBufferLevel (peers w1 p) < 4" for w1
    proof -
      from that(1) obtain r w2 where r: "receive_data E p w1 = Some (r, w2)"
        by (auto simp: bind_eq_Some_conv)
      then have "I w2" using that(2) keepsD [OF keeps_receive_data] by blast
      with that r show ?thesis
        using receive_data_level [of E p w1 w2]
        by (cases r) (auto split: flow.split_asm intro: package)
    qed
    show ?case
    proof (intro impI)
      assume eq: "E' = E" and I: "I w"
      from 1(2) obtain r w1 where r: "receive_length E p w = Some (r, w1)"
        by (auto simp: eq bind_eq_Some_conv)
      then have "I w1" using I keepsD [OF keeps_receive_length] by blast
      with 1(2) [unfolded eq] r show "I (snd y)"
        using receive_length_level [of E p w w1]
        by (cases r) (auto split: flow.split_asm intro: data)
    qed
  qed
  then show "I w'" if "I w" "receive E p w = Some (r, w')" for w r w'
    using that by fastforce
qed

text \<open>Synchronous requests: the invariant survives the wait if the rounds of the worker keep it.\<close>

lemma await_keeps:
  assumes "await L this w = Some y" and "\<forall>v v'. L v = Some v' \<longrightarrow> I v \<longrightarrow> I v'" and "I w"
  shows "I (snd y)"
proof -
  have "L' = L \<longrightarrow> I w \<longrightarrow> I (snd y)" if "await L' this w = Some y" for L' this w y
  proof (rule await.raw_induct [where P = "\<lambda>L' this w y. L' = L \<longrightarrow> I w \<longrightarrow> I (snd y)", OF _ that], goal_cases)
    case (1 rec L' this w y)
    then show ?case using assms(2)
      by (cases "promises w this") (auto simp: bind_eq_Some_conv dest!: 1(1))
  qed
  with assms(1,3) show ?thesis by blast
qed

lemma keeps_executeSync:
  assumes "request_params E name params" and "\<forall>v v'. L v = Some v' \<longrightarrow> I v \<longrightarrow> I v'"
  shows "keeps I (executeSync E L p this (AsyncRequest E name params))"
proof -
  have "keeps I (\<lambda>w. case await L this w of None \<Rightarrow> None | Some (result, w') \<Rightarrow> Some (Inr (i, result), w'))"
    for i :: uint32
    by (rule keepsI) (auto split: option.splits dest: await_keeps [OF _ assms(2)])
  then show ?thesis
    unfolding executeSync_def by (intro keeps_intros keeps_modify upd_promises keeps_execute assms(1))
qed

lemma keeps_sync_scope:
  assumes "request_params E name params" and "\<forall>v v'. L v = Some v' \<longrightarrow> I v \<longrightarrow> I v'"
    and body: "\<And>result. keeps I (body result)"
  shows "keeps I (sync_scope E L p this (AsyncRequest E name params) body)"
proof -
  have "keeps I (seq (destroy_SyncRequest i) (lift r))" for i and r :: "'j exn + 'a"
    unfolding destroy_SyncRequest_def by (intro keeps_intros keeps_locked keeps_modify del_request)
  then have "keeps I (\<lambda>w. case body result w of None \<Rightarrow> None
      | Some (r, w') \<Rightarrow> seq (destroy_SyncRequest i) (lift r) w')" for i result
    by (rule keeps_finally [OF body])
  then show ?thesis
    unfolding sync_scope_def
    by (intro keeps_bnd [OF keeps_executeSync [OF assms(1,2)]]) (subst prod.case_eq_if, blast)
qed

lemma keeps_results:
  "keeps I (throw_result E result)" "keeps I (result_or_throw E result)"
  unfolding result_or_throw_def throw_result_def by (intro keeps_intros)+

lemma keeps_Peer:
  assumes "\<forall>v v'. L v = Some v' \<longrightarrow> I v \<longrightarrow> I v'"
  shows "keeps I (Peer_authenticate E L p this user password)" "keeps I (Peer_info E L p this)"
    "keeps I (Peer_config E L p this name debug)" "keeps I (Peer_callMethod E L p this path v)"
    "keeps I (Peer_callMethod_timeout E L p this path v t)"
    "keeps I (Peer_addMethod E L p this pretty path cb)"
    "keeps I (Peer_addMethod_timeout E L p this pretty path t cb)"
    "keeps I (Peer_addMethod_groups E L p this pretty path fg cg cb t)"
    "keeps I (Peer_addState E L p this path v cb)" "keeps I (Peer_addState_timeout E L p this path v t cb)"
    "keeps I (Peer_addState_groups E L p this path fg sg v t cb)" "keeps I (Peer_get E L p this m)"
    "keeps I (Peer_addFetch E L p this m cb)" "keeps I (Peer_setStateValue E L p this path v)"
    "keeps I (Peer_setStateValue_timeout E L p this path v t)"
  unfolding Peer_authenticate_def Peer_info_def Peer_config_def Peer_callMethod_def
    Peer_callMethod_timeout_def Peer_callMethodPrivate_def Peer_addMethod_def Peer_addMethod_timeout_def
    Peer_addMethod_groups_def Peer_addMethodPrivate_def Peer_addState_def Peer_addState_timeout_def
    Peer_addState_groups_def Peer_addStatePrivate_def Peer_get_def Peer_addFetch_def
    Peer_setStateValue_def Peer_setStateValue_timeout_def Peer_setStateValuePrivate_def Let_def
  by (intro keeps_intros keeps_sync_scope keeps_results keeps_requests assms)+

end

end
