(* ===== verification/Peer_Machine.thy ===== *)
theory Peer_Machine
  imports Peer_Invariants
begin

text \<open>
  The library as a state machine: \<open>initial\<close> is a process before the first peer is constructed,
  \<open>api_step\<close> one call of an operation of the library (by the application or by the event loop),
  \<open>reachable\<close> the states after any sequence of calls on any number of peers.  A call of the
  synchronous \<open>Peer\<close> spans the rounds of the event loop it waits for; each round is itself any sequence
  of calls, also of other threads and of other synchronous operations.  What \<open>Peer\<close> only hands on
  (\<open>Peer_construct\<close>, \<open>Peer_destroy\<close>, \<open>Peer_notifyState\<close>, \<open>Peer_resume\<close> and its \<open>Async\<close> operations) is the
  call of the asynchronous peer.  \<open>well_behaved\<close> is
  the contract of the world outside: the socket delivers no more bytes than asked for, and callbacks
  keep the representation invariant and leave the mutex of the open requests as they found it (they
  have no access to either but through the operations of the library).
\<close>

definition wf_peer :: "'u peer \<Rightarrow> bool" where
  "wf_peer q \<longleftrightarrow> distinct (keys (m_fetchers q)) \<and> length (m_bigEndianLengthBuffer q) = 4 \<and>
     m_lengthBufferLevel q \<le> 4 \<and> (m_lengthBufferLevel q < 4 \<longrightarrow> m_dataBuffer q = []) \<and>
     m_dataBufferLevel q \<le> length (m_dataBuffer q)"

definition wf_world :: "('j, 'u, 'x) world \<Rightarrow> bool" where
  "wf_world w \<longleftrightarrow> distinct (keys (m_openRequestCbs w)) \<and> (\<forall>p. wf_peer (peers w p))"

definition mutex_is :: "bool \<Rightarrow> ('j, 'u, 'x) world \<Rightarrow> bool" where
  "mutex_is b w \<longleftrightarrow> m_mtx_openRequestCbs w = b"

locale well_behaved =
  fixes E :: "('j, 'u, 'x, 'z) env_scheme"
  assumes recv_room: "sock_receive E p n x = (Received bs, x') \<Longrightarrow> length bs \<le> n"
    and wf_response: "keeps wf_world (run_response E u v)"
    and wf_fetch: "keeps wf_world (run_fetch E u v st)"
    and wf_state: "keeps wf_world (run_state E u v path)"
    and wf_method: "keeps wf_world (run_method E u v)"
    and mutex_response: "keeps (mutex_is b) (run_response E u v)"
    and mutex_fetch: "keeps (mutex_is b) (run_fetch E u v st)"
    and mutex_state: "keeps (mutex_is b) (run_state E u v path)"
    and mutex_method: "keeps (mutex_is b) (run_method E u v)"

lemma wf_world_upd_peer:
  "wf_world w \<Longrightarrow> (wf_peer (peers w p) \<Longrightarrow> wf_peer (f (peers w p))) \<Longrightarrow> wf_world (upd_peer p f w)"
  by (simp add: wf_world_def)

lemma wf_peer_store_length:
  assumes "wf_peer q" and "m_lengthBufferLevel q < 4" and "length bs \<le> 4 - m_lengthBufferLevel q"
  shows "wf_peer (store_length bs q)"
    and "m_lengthBufferLevel (store_length bs q) = 4 \<Longrightarrow>
      wf_peer (store_length bs q\<lparr>m_dataBuffer := resize n db\<rparr>)"
proof -
  have "m_lengthBufferLevel q + length bs \<le> 4"
    using assms(2,3) by linarith
  with assms(1,2) show "wf_peer (store_length bs q)"
    by (auto simp: wf_peer_def store_length_def)
  show "wf_peer (store_length bs q\<lparr>m_dataBuffer := resize n db\<rparr>)"
    if "m_lengthBufferLevel (store_length bs q) = 4"
    using assms(1,2) that by (auto simp: wf_peer_def store_length_def)
qed

lemma wf_peer_store_data:
  assumes "wf_peer q" and "m_dataBufferLevel q < length (m_dataBuffer q)"
    and "length bs \<le> length (m_dataBuffer q) - m_dataBufferLevel q"
  shows "wf_peer (store_data bs q)"
proof -
  have "m_dataBufferLevel q + length bs \<le> length (m_dataBuffer q)"
    using assms(2,3) by linarith
  moreover have "\<not> m_lengthBufferLevel q < 4"
    using assms(1,2) by (auto simp: wf_peer_def)
  ultimately show ?thesis
    using assms(1) by (simp add: wf_peer_def store_data_def)
qed

lemmas wf_peer_updates = wf_peer_def reset_buffers_def

sublocale well_behaved \<subseteq> wf: world_invariant E wf_world
proof
  show "wf_world w \<Longrightarrow> m_lengthBufferLevel (peers w p) < 4 \<Longrightarrow>
      sock_receive E p (4 - m_lengthBufferLevel (peers w p)) (ext w) = (Received bs, x) \<Longrightarrow>
      wf_world (upd_peer p (store_length bs) (w\<lparr>ext := x\<rparr>))" for w p bs x
    using recv_room by (auto simp: wf_world_def intro!: wf_peer_store_length(1))
  show "wf_world w \<Longrightarrow> m_lengthBufferLevel (peers w p) < 4 \<Longrightarrow>
      sock_receive E p (4 - m_lengthBufferLevel (peers w p)) (ext w) = (Received bs, x) \<Longrightarrow>
      m_lengthBufferLevel (store_length bs (peers w p)) = 4 \<Longrightarrow>
      wf_world (upd_peer p (\<lambda>q. q\<lparr>m_dataBuffer := resize (message_length q) (m_dataBuffer q)\<rparr>)
        (upd_peer p (store_length bs) (w\<lparr>ext := x\<rparr>)))" for w p bs x
    using recv_room by (auto simp: wf_world_def intro!: wf_peer_store_length(2))
  show "wf_world w \<Longrightarrow> m_dataBufferLevel (peers w p) < length (m_dataBuffer (peers w p)) \<Longrightarrow>
      sock_receive E p (length (m_dataBuffer (peers w p)) - m_dataBufferLevel (peers w p)) (ext w)
        = (Received bs, x) \<Longrightarrow>
      wf_world (upd_peer p (store_data bs) (w\<lparr>ext := x\<rparr>))" for w p bs x
    using recv_room by (auto simp: wf_world_def intro!: wf_peer_store_data)
  show "wf_world w \<Longrightarrow> \<not> m_lengthBufferLevel (peers w p) < 4 \<Longrightarrow>
      wf_world (upd_peer p (\<lambda>q. q\<lparr>m_dataBuffer := m_dataBuffer q @ [0]\<rparr>) w)" for w p
    by (rule wf_world_upd_peer) (simp_all add: wf_peer_def)
qed (auto simp: wf_world_def wf_peer_updates
    intro: wf_response wf_fetch wf_state wf_method)

sublocale well_behaved \<subseteq> mutex: world_invariant E "mutex_is b" for b
  by unfold_locales (auto simp: mutex_is_def
    intro: mutex_response mutex_fetch mutex_state mutex_method)

section \<open>The state machine\<close>

definition no_peer :: "'u peer" where
  "no_peer = \<lparr>m_address = [], m_port = 0, m_name = [], m_debug = False, m_dataCb = False,
     m_stopped = True, m_bigEndianLengthBuffer = [0, 0, 0, 0], m_lengthBufferLevel = 0,
     m_stateCallbacks = Map.empty, m_methodCallbacks = Map.empty, m_fetchers = [],
     m_dataBuffer = [], m_dataBufferLevel = 0\<rparr>"

definition initial :: "'x \<Rightarrow> ('j, 'u, 'x) world" where
  "initial x = \<lparr>m_sfetchId = 0, m_sid = 0, m_openRequestCbs = [], m_mtx_openRequestCbs = False,
     promises = Map.empty, peers = (\<lambda>_. no_peer), ext = x\<rparr>"

inductive api_step :: "('j, 'u, 'x, 'z) env_scheme \<Rightarrow> ('j, 'u, 'x) world \<Rightarrow> ('j, 'u, 'x) world \<Rightarrow> bool"
  for E :: "('j, 'u, 'x, 'z) env_scheme" where
  construct: "PeerAsync E p a n s d lb w = Some (r, w') \<Longrightarrow> api_step E w w'"
| destruct: "destroy E p w = Some (r, w') \<Longrightarrow> api_step E w w'"
| stop: "Peer_Lifecycle.stop E p w = Some (r, w') \<Longrightarrow> api_step E w w'"
| resume: "Peer_Lifecycle.resume E p w = Some (r1, w') \<Longrightarrow> api_step E w w'"
| receive: "Peer_Receive.receive E p w = Some (r2, w') \<Longrightarrow> api_step E w w'"
| notifier: "fire_errorNotifier E i w = Some (r, w') \<Longrightarrow> api_step E w w'"
| info: "infoAsync E p rcb w = Some (r, w') \<Longrightarrow> api_step E w w'"
| config: "configAsync E p s d rcb w = Some (r, w') \<Longrightarrow> api_step E w w'"
| authenticate: "authenticateAsync E p user pwd rcb w = Some (r, w') \<Longrightarrow> api_step E w w'"
| call: "callMethodAsync E p path v rcb w = Some (r, w') \<Longrightarrow> api_step E w w'"
| call_timeout: "callMethodAsync_timeout E p path v t rcb w = Some (r, w') \<Longrightarrow> api_step E w w'"
| set: "setStateValueAsync E p path v rcb w = Some (r, w') \<Longrightarrow> api_step E w w'"
| set_timeout: "setStateValueAsync_timeout E p path v t rcb w = Some (r, w') \<Longrightarrow> api_step E w w'"
| get: "getAsync E p m rcb w = Some (r, w') \<Longrightarrow> api_step E w w'"
| add_method: "addMethodAsync E p path rcb cb w = Some (r, w') \<Longrightarrow> api_step E w w'"
| add_method_timeout: "addMethodAsync_timeout E p path t rcb cb w = Some (r, w') \<Longrightarrow> api_step E w w'"
| add_method_groups:
    "addMethodAsync_groups E p path fg cg cb t rcb w = Some (r, w') \<Longrightarrow> api_step E w w'"
| remove_method: "removeMethodAsync E p path rcb w = Some (r, w') \<Longrightarrow> api_step E w w'"
| add_state: "addStateAsync E p path v rcb cb w = Some (r, w') \<Longrightarrow> api_step E w w'"
| add_state_timeout: "addStateAsync_timeout E p path v t rcb cb w = Some (r, w') \<Longrightarrow> api_step E w w'"
| add_state_groups:
    "addStateAsync_groups E p path fg sg v t rcb cb w = Some (r, w') \<Longrightarrow> api_step E w w'"
| remove_state: "removeStateAsync E p path rcb w = Some (r, w') \<Longrightarrow> api_step E w w'"
| notify_state: "notifyState E p path v w = Some (r2, w') \<Longrightarrow> api_step E w w'"
| add_fetch: "addFetchAsync E p m cb rcb w = Some (r2, w') \<Longrightarrow> api_step E w w'"
| remove_fetch: "removeFetchAsync E p i rcb w = Some (r, w') \<Longrightarrow> api_step E w w'"
| sync_authenticate: "\<forall>v v'. L v = Some v' \<longrightarrow> (api_step E)\<^sup>*\<^sup>* v v' \<Longrightarrow>
    Peer_authenticate E L p this user pwd w = Some (r3, w') \<Longrightarrow> api_step E w w'"
| sync_info: "\<forall>v v'. L v = Some v' \<longrightarrow> (api_step E)\<^sup>*\<^sup>* v v' \<Longrightarrow>
    Peer_info E L p this w = Some (r3, w') \<Longrightarrow> api_step E w w'"
| sync_config: "\<forall>v v'. L v = Some v' \<longrightarrow> (api_step E)\<^sup>*\<^sup>* v v' \<Longrightarrow>
    Peer_config E L p this s d w = Some (r3, w') \<Longrightarrow> api_step E w w'"
| sync_call: "\<forall>v v'. L v = Some v' \<longrightarrow> (api_step E)\<^sup>*\<^sup>* v v' \<Longrightarrow>
    Peer_callMethod E L p this path v w = Some (r3, w') \<Longrightarrow> api_step E w w'"
| sync_call_timeout: "\<forall>v v'. L v = Some v' \<longrightarrow> (api_step E)\<^sup>*\<^sup>* v v' \<Longrightarrow>
    Peer_callMethod_timeout E L p this path v t w = Some (r3, w') \<Longrightarrow> api_step E w w'"
| sync_get: "\<forall>v v'. L v = Some v' \<longrightarrow> (api_step E)\<^sup>*\<^sup>* v v' \<Longrightarrow>
    Peer_get E L p this m w = Some (r3, w') \<Longrightarrow> api_step E w w'"
| sync_set: "\<forall>v v'. L v = Some v' \<longrightarrow> (api_step E)\<^sup>*\<^sup>* v v' \<Longrightarrow>
    Peer_setStateValue E L p this path v w = Some (r4, w') \<Longrightarrow> api_step E w w'"
| sync_set_timeout: "\<forall>v v'. L v = Some v' \<longrightarrow> (api_step E)\<^sup>*\<^sup>* v v' \<Longrightarrow>
    Peer_setStateValue_timeout E L p this path v t w = Some (r4, w') \<Longrightarrow> api_step E w w'"
| sync_add_method: "\<forall>v v'. L v = Some v' \<longrightarrow> (api_step E)\<^sup>*\<^sup>* v v' \<Longrightarrow>
    Peer_addMethod E L p this pretty path cb w = Some (r, w') \<Longrightarrow> api_step E w w'"
| sync_add_method_timeout: "\<forall>v v'. L v = Some v' \<longrightarrow> (api_step E)\<^sup>*\<^sup>* v v' \<Longrightarrow>
    Peer_addMethod_timeout E L p this pretty path t cb w = Some (r, w') \<Longrightarrow> api_step E w w'"
| sync_add_method_groups: "\<forall>v v'. L v = Some v' \<longrightarrow> (api_step E)\<^sup>*\<^sup>* v v' \<Longrightarrow>
    Peer_addMethod_groups E L p this pretty path fg cg cb t w = Some (r, w') \<Longrightarrow> api_step E w w'"
| sync_add_state: "\<forall>v v'. L v = Some v' \<longrightarrow> (api_step E)\<^sup>*\<^sup>* v v' \<Longrightarrow>
    Peer_addState E L p this path v cb w = Some (r, w') \<Longrightarrow> api_step E w w'"
| sync_add_state_timeout: "\<forall>v v'. L v = Some v' \<longrightarrow> (api_step E)\<^sup>*\<^sup>* v v' \<Longrightarrow>
    Peer_addState_timeout E L p this path v t cb w = Some (r, w') \<Longrightarrow> api_step E w w'"
| sync_add_state_groups: "\<forall>v v'. L v = Some v' \<longrightarrow> (api_step E)\<^sup>*\<^sup>* v v' \<Longrightarrow>
    Peer_addState_groups E L p this path fg sg v t cb w = Some (r, w') \<Longrightarrow> api_step E w w'"
| sync_add_fetch: "\<forall>v v'. L v = Some v' \<longrightarrow> (api_step E)\<^sup>*\<^sup>* v v' \<Longrightarrow>
    Peer_addFetch E L p this m cb w = Some (r5, w') \<Longrightarrow> api_step E w w'"

inductive reachable :: "('j, 'u, 'x, 'z) env_scheme \<Rightarrow> ('j, 'u, 'x) world \<Rightarrow> bool"
  for E :: "('j, 'u, 'x, 'z) env_scheme" where
  init: "reachable E (initial x)"
| step: "reachable E w \<Longrightarrow> api_step E w w' \<Longrightarrow> reachable E w'"

context world_invariant
begin

lemmas api_keeps = keeps_PeerAsync keeps_destroy keeps_stop keeps_resume keeps_receive
  keeps_fire_errorNotifier keeps_simple_requests keeps_method_requests keeps_state_requests
  keeps_notifyState keeps_fetch_requests

lemma worker_keeps:
  assumes "\<forall>v v'. L v = Some v' \<longrightarrow> (\<lambda>v v'. api_step E v v' \<and> (I v \<longrightarrow> I v'))\<^sup>*\<^sup>* v v'"
  shows "\<forall>v v'. L v = Some v' \<longrightarrow> I v \<longrightarrow> I v'"
proof -
  have "I v \<longrightarrow> I v'" if "(\<lambda>v v'. api_step E v v' \<and> (I v \<longrightarrow> I v'))\<^sup>*\<^sup>* v v'" for v v'
    using that by (induction rule: rtranclp_induct) simp_all
  with assms show ?thesis by blast
qed

lemmas sync_keeps = keeps_Peer [OF worker_keeps, THEN keepsD]

lemma api_step_keeps: "api_step E w w' \<Longrightarrow> I w \<Longrightarrow> I w'"
  by (induction rule: api_step.induct)
    (erule api_keeps [THEN keepsD, rotated], assumption | erule sync_keeps; assumption)+

lemma api_steps_keep: "(api_step E)\<^sup>*\<^sup>* w w' \<Longrightarrow> I w \<Longrightarrow> I w'"
  by (induction rule: rtranclp_induct) (auto intro: api_step_keeps)

lemma reachable_keeps:
  assumes "\<And>x. I (initial x)" and "reachable E w"
  shows "I w"
  using assms(2) by (induction rule: reachable.induct) (auto intro: assms(1) api_step_keeps)

end

lemma initial_wf: "wf_world (initial x)" and initial_mutex: "mutex_is False (initial x)"
  by (simp_all add: initial_def wf_world_def wf_peer_def no_peer_def mutex_is_def)

context well_behaved
begin

lemma reachable_safe: "reachable E w \<Longrightarrow> wf_world w \<and> mutex_is False w"
  by (rule conjI) (rule wf.reachable_keeps [OF initial_wf] mutex.reachable_keeps [OF initial_mutex],
      assumption)+

end

end
