(* ===== verification/Fetch_Stream.thy ===== *)
theory Fetch_Stream
  imports Framing
begin

text \<open>
  The contract of \<open>Framing\<close> met by the dispatcher itself, for a peer that consumes notifications: the
  payloads are single notifications or batches of them, and all that is assumed is the behaviour of
  the code outside, the socket and the fetch callbacks of the application (each returns or throws,
  leaves the fetches and the reception of the peer alone, and extends a log by what \<open>ev\<close> says).  Then
  \<open>receiveCallback\<close> satisfies the dispatch law: every notification reaches the callback of its fetch.
\<close>

text \<open>The id a notification is for, and what makes a document one.\<close>

definition note_id :: "('j, 'z) jsonrpc_scheme \<Rightarrow> 'j \<Rightarrow> fetchId_t" where
  "note_id J data = (case json_asInt J (json_child J data (rpc_METHOD J)) of Inl _ \<Rightarrow> 0 | Inr i \<Rightarrow> i)"

definition is_note :: "('j, 'z) jsonrpc_scheme \<Rightarrow> 'j \<Rightarrow> bool" where
  "is_note J data \<longleftrightarrow> is_record J data \<and>
     json_type J (json_child J data (rpc_METHOD J)) = intValue \<and>
     \<not> isl (json_asInt J (json_child J data (rpc_METHOD J)))"

text \<open>The notifications in a payload: none if it does not parse or is no message, one, or a batch.\<close>

definition payload_notes :: "('j, 'z) jsonrpc_scheme \<Rightarrow> byte list \<Rightarrow> 'j list" where
  "payload_notes J bs = (case json_parse J bs of
       None \<Rightarrow> []
     | Some data \<Rightarrow> (case json_type J data of
           arrayValue \<Rightarrow> json_elements J data
         | objectValue \<Rightarrow> [data]
         | _ \<Rightarrow> []))"

text \<open>What the callback calls for a notification add to the log, given the registered fetches.\<close>

definition note_calls :: "('j, 'z) jsonrpc_scheme \<Rightarrow> (fetchId_t \<times> 'u fetcher_t) list
    \<Rightarrow> ('u \<Rightarrow> 'j \<Rightarrow> 'o list) \<Rightarrow> 'j \<Rightarrow> 'o list" where
  "note_calls J F ev data =
     (case Option.bind (map_of F (note_id J data)) fetch_callback of
        None \<Rightarrow> []
      | Some u \<Rightarrow> ev u (json_child J data (rpc_PARAMS J)))"

definition payload_calls :: "('j, 'z) jsonrpc_scheme \<Rightarrow> (fetchId_t \<times> 'u fetcher_t) list
    \<Rightarrow> ('u \<Rightarrow> 'j \<Rightarrow> 'o list) \<Rightarrow> byte list \<Rightarrow> 'o list" where
  "payload_calls J F ev bs = concat (map (note_calls J F ev) (payload_notes J bs))"

locale fetch_consumer = stream_socket E p avail fin + jsonrpc E
  for E :: "('j, 'u, 'x, 'z) env_scheme" and p :: pid and avail :: "'x \<Rightarrow> byte list"
    and fin :: recv_result +
  fixes F :: "(fetchId_t \<times> 'u fetcher_t) list"
    and log :: "'x \<Rightarrow> 'o list"
    and ev :: "'u \<Rightarrow> 'j \<Rightarrow> 'o list"
  assumes recv_log: "log (snd (sock_receive E p n x)) = log x"
    and fetch_cb: "(i, f) \<in> set F \<Longrightarrow> fetch_callback f = Some u \<Longrightarrow> m_fetchers (peers w p) = F \<Longrightarrow>
      \<exists>r w'. run_fetch E u v 0 w = Some (r, w') \<and> m_fetchers (peers w' p) = F \<and>
        rx (peers w' p) = rx (peers w p) \<and> avail (ext w') = avail (ext w) \<and>
        log (ext w') = log (ext w) @ ev u v"
begin

text \<open>What one notification does, and what a batch does.\<close>

definition consumed :: "'o list \<Rightarrow> ('j, 'u, 'x) world \<Rightarrow> ('j, 'u, 'x) world \<Rightarrow> bool" where
  "consumed evs w w' \<longleftrightarrow> m_fetchers (peers w' p) = F \<and> rx (peers w' p) = rx (peers w p) \<and>
     avail (ext w') = avail (ext w) \<and> log (ext w') = log (ext w) @ evs"

lemma consumed_trans: "consumed es w w1 \<Longrightarrow> consumed es' w1 w2 \<Longrightarrow> consumed (es @ es') w w2"
  by (simp add: consumed_def)

lemma handle_note:
  assumes "is_note E data" and "m_fetchers (peers w p) = F"
  shows "\<exists>w'. handleMessage E p data w = Some (Inr (), w') \<and> consumed (note_calls E F ev data) w w'"
proof -
  have msg: "handleMessage E p data w = (case map_of F (note_id E data) of
      None \<Rightarrow> Some (Inr (), w) | Some f \<Rightarrow> handle_notification E p f data w)"
    using assms by (auto simp: handleMessage_def is_note_def note_id_def get_child
        split: sum.splits option.splits)
  show ?thesis
  proof (cases "Option.bind (map_of F (note_id E data)) fetch_callback")
    case None
    then show ?thesis using assms msg
      by (auto simp: note_calls_def consumed_def handle_notification_def call_fetch_def is_note_def
          get_child bind_eq_None_conv split: option.splits)
  next
    case (Some u)
    then obtain f where f: "map_of F (note_id E data) = Some f" "fetch_callback f = Some u"
      by (auto simp: bind_eq_Some_conv)
    obtain r w' where w': "run_fetch E u (json_child E data (rpc_PARAMS E)) 0 w = Some (r, w')"
        "consumed (ev u (json_child E data (rpc_PARAMS E))) w w'"
      using fetch_cb [OF map_of_SomeD [OF f(1)] f(2) assms(2)] unfolding consumed_def by blast
    have "try_catch (run_fetch E u (json_child E data (rpc_PARAMS E)) 0) (\<lambda>_. ret ()) w = Some (Inr (), w')"
      using w'(1) by (rule try_catch_ret_total)
    with w'(2) assms(1) f msg show ?thesis
      by (simp add: note_calls_def handle_notification_def call_fetch_def is_note_def get_child)
  qed
qed

lemma handle_batch:
  assumes "\<forall>data \<in> set ds. is_note E data" and "m_fetchers (peers w p) = F"
  shows "\<exists>w'. for_each ds (handleMessage E p) w = Some (Inr (), w') \<and>
    consumed (concat (map (note_calls E F ev) ds)) w w'"
  using assms
proof (induction ds arbitrary: w)
  case Nil
  then show ?case by (simp add: consumed_def)
next
  case (Cons d ds)
  then obtain w1 where w1: "handleMessage E p d w = Some (Inr (), w1)"
      "consumed (note_calls E F ev d) w w1" using handle_note [of d w] by auto
  moreover obtain w2 where "for_each ds (handleMessage E p) w1 = Some (Inr (), w2)"
      "consumed (concat (map (note_calls E F ev) ds)) w1 w2"
    using Cons.IH [of w1] Cons.prems(1) w1(2) by (auto simp: consumed_def)
  ultimately show ?case
    using consumed_trans by (auto simp: seq_def)
qed

lemma consume_payload:
  assumes "m_fetchers (peers w p) = F" and "\<forall>data \<in> set (payload_notes E bs). is_note E data"
    and "json_parse E bs = Some data"
  shows "\<exists>w'. receiveCallback E p data w = Some (Inr (), w') \<and> consumed (payload_calls E F ev bs) w w'"
proof (cases "json_type E data = objectValue \<or> json_type E data = arrayValue")
  case True
  then show ?thesis
    using assms handle_note [of data w] handle_batch [of "json_elements E data" w]
    by (auto simp: receiveCallback_def payload_calls_def payload_notes_def)
next
  case False
  then have "receiveCallback E p data w = Some (Inr (), w)" "payload_notes E bs = []"
    using assms(3) by (simp_all add: receiveCallback_def payload_notes_def split: ValueType.split)
  with assms(1) show ?thesis by (simp add: payload_calls_def consumed_def)
qed

end

sublocale fetch_consumer \<subseteq> framed_stream E p avail fin "\<lambda>w. m_fetchers (peers w p) = F"
  "\<lambda>bs. \<forall>data \<in> set (payload_notes E bs). is_note E data" "\<lambda>w. log (ext w)"
  "\<lambda>bs l. l @ payload_calls E F ev bs"
proof
  show "\<exists>w'. receiveCallback E p data w = Some (Inr (), w') \<and> m_fetchers (peers w' p) = F \<and>
      rx (peers w' p) = rx (peers w p) \<and> avail (ext w') = avail (ext w) \<and>
      log (ext w') = log (ext w) @ payload_calls E F ev bs"
    if "m_fetchers (peers w p) = F" "\<forall>data \<in> set (payload_notes E bs). is_note E data"
      "json_parse E bs = Some data" for w bs data
    using consume_payload [OF that] by (simp add: consumed_def)
qed (simp_all add: recv_log set_rx_def payload_calls_def payload_notes_def)

context fetch_consumer
begin

lemmas fetch_consumer_framed = framed_stream_axioms

end

lemmas fetch_consumer_framed = fetch_consumer.fetch_consumer_framed

lemma fold_append_calls: "fold (\<lambda>bs l. l @ f bs) payloads l = l @ concat (map f payloads)"
  by (induction payloads arbitrary: l) simp_all

end
