(* ===== verification/Demo_World.thy ===== *)
theory Demo_World
  imports Json_Model Peer_Machine Fetch_Stream
begin

text \<open>
  A concrete world outside the library: a loop-back stream socket that delivers at most \<open>Suc chunk\<close>
  bytes per call and records what is sent, callbacks that record their calls, and the JSON values of
  \<open>Json_Model\<close> with a simple wire format.  It instantiates every interface the development is
  parameterised with, so the hypotheses of the properties can be met on the library's own operations.
\<close>

record demo_ext =
  incoming :: "byte list"
  chunk :: nat
  sent :: "byte list"
  send_result :: int32
  calls :: "(nat \<times> json) list"

text \<open>A user callback: it records its number and its argument, then returns or throws.\<close>

datatype demo_cb = Log nat | Throw nat "json exn"

definition record_call :: "nat \<Rightarrow> json \<Rightarrow> (json, demo_cb, demo_ext) world
    \<Rightarrow> (json, demo_cb, demo_ext) world" where
  "record_call n v w = w\<lparr>ext := (ext w)\<lparr>calls := calls (ext w) @ [(n, v)]\<rparr>\<rparr>"

fun demo_run :: "demo_cb \<Rightarrow> json \<Rightarrow> 'a \<Rightarrow> (json, demo_cb, demo_ext, 'a) peer_prog" where
  "demo_run (Log n) v a = seq (modify (record_call n v)) (ret a)"
| "demo_run (Throw n e) v a = seq (modify (record_call n v)) (raise e)"

fun jwrite :: "json \<Rightarrow> byte list" where
  "jwrite JNull = [0]"
| "jwrite (JInt i) = [1, word_of_int i]"
| "jwrite (JUInt n) = [2, word_of_nat n]"
| "jwrite (JReal d) = [3, ucast d]"
| "jwrite (JString s) = [4, word_of_nat (length s)] @ map of_char s"
| "jwrite (JBool b) = [5, of_bool b]"
| "jwrite (JArray xs) = [6, word_of_nat (length xs)] @ concat (map jwrite xs)"
| "jwrite (JObject m) =
     [7, word_of_nat (length m)] @ concat (map (\<lambda>(k, v). map of_char k @ [0] @ jwrite v) m)"

text \<open>Every non-empty text is a notification of fetch 7 with the bytes as its parameters.\<close>

definition demo_params :: "byte list \<Rightarrow> json" where
  "demo_params bs = JArray (map (\<lambda>b. JUInt (unat b)) bs)"

definition demo_read :: "byte list \<Rightarrow> json option" where
  "demo_read bs = (if bs = [] then None else
     Some (JObject [(''method'', JInt 7), (''params'', demo_params bs)]))"

definition demo_receive :: "pid \<Rightarrow> nat \<Rightarrow> demo_ext \<Rightarrow> recv_result \<times> demo_ext" where
  "demo_receive p n x =
     (if incoming x = [] then (WouldBlock, x)
      else (let k = min n (Suc (chunk x)) in
        (Received (take k (incoming x)), x\<lparr>incoming := drop k (incoming x)\<rparr>)))"

definition demo_send :: "pid \<Rightarrow> byte list list \<Rightarrow> demo_ext \<Rightarrow> int32 \<times> demo_ext" where
  "demo_send p blocks x =
     (send_result x, if sint (send_result x) < 0 then x else x\<lparr>sent := sent x @ concat blocks\<rparr>)"

definition demo_fields :: "(json, demo_cb, demo_ext, unit) env_ext" where
  "demo_fields = env.fields
     (\<lambda>p a s x. (0, x)) (\<lambda>p a x. (0, x)) (\<lambda>p x. x) demo_receive demo_send
     (\<lambda>x. ''broken pipe'') (\<lambda>ks. ks) (\<lambda>i. i) True
     (\<lambda>u v. demo_run u v ()) (\<lambda>u v st. demo_run u v ())
     (\<lambda>u v path. demo_run u v (SetStateCbResult_value v)) (\<lambda>u v. demo_run u v v)"

definition demo_env :: "(json, demo_cb, demo_ext) env" where
  "demo_env = rpc_model jwrite demo_read (\<lambda>_. ''{}'') demo_fields"

lemma demo_env_sock [simp]:
  "sock_connect_tcp demo_env p a s x = (0, x)" "sock_connect_unix demo_env p a x = (0, x)"
  "sock_disconnect demo_env p x = x" "sock_receive demo_env = demo_receive"
  "sock_sendBlocks demo_env = demo_send" "strerror_errno demo_env x = ''broken pipe''"
  "hash_order demo_env ks = ks" "captured_id demo_env i = i" "lhs_first demo_env"
  "run_response demo_env u v = demo_run u v ()" "run_fetch demo_env u v st = demo_run u v ()"
  "run_state demo_env u v path = demo_run u v (SetStateCbResult_value v)"
  "run_method demo_env u v = demo_run u v v"
  by (simp_all add: demo_env_def demo_fields_def rpc_model_def env.defs)

lemmas demo_env_json [simp] =
  rpc_model_simps [of jwrite demo_read "\<lambda>_. ''{}''" demo_fields, folded demo_env_def]

interpretation dj: jsonrpc demo_env
  unfolding demo_env_def by (rule jm.jsonrpc_axioms)

text \<open>Variants of the world that differ in what lies outside the JSON library.\<close>

lemma demo_variants:
  "jsonrpc (demo_env\<lparr>captured_id := ci\<rparr>)" "jsonrpc (demo_env\<lparr>run_response := rr\<rparr>)"
  "jsonrpc (demo_env\<lparr>lhs_first := lf\<rparr>)" "jsonrpc (demo_env\<lparr>sock_sendBlocks := sb\<rparr>)"
  "jsonrpc (demo_env\<lparr>sock_receive := sr\<rparr>)"
proof -
  have "demo_env\<lparr>captured_id := ci\<rparr> =
      rpc_model jwrite demo_read (\<lambda>_. ''{}'') (jsonrpc.more (demo_env\<lparr>captured_id := ci\<rparr>))"
    and "demo_env\<lparr>run_response := rr\<rparr> =
      rpc_model jwrite demo_read (\<lambda>_. ''{}'') (jsonrpc.more (demo_env\<lparr>run_response := rr\<rparr>))"
    and "demo_env\<lparr>lhs_first := lf\<rparr> =
      rpc_model jwrite demo_read (\<lambda>_. ''{}'') (jsonrpc.more (demo_env\<lparr>lhs_first := lf\<rparr>))"
    and "demo_env\<lparr>sock_sendBlocks := sb\<rparr> =
      rpc_model jwrite demo_read (\<lambda>_. ''{}'') (jsonrpc.more (demo_env\<lparr>sock_sendBlocks := sb\<rparr>))"
    and "demo_env\<lparr>sock_receive := sr\<rparr> =
      rpc_model jwrite demo_read (\<lambda>_. ''{}'') (jsonrpc.more (demo_env\<lparr>sock_receive := sr\<rparr>))"
    by (simp_all add: demo_env_def rpc_model_def demo_fields_def env.defs)
  then show "jsonrpc (demo_env\<lparr>captured_id := ci\<rparr>)" "jsonrpc (demo_env\<lparr>run_response := rr\<rparr>)"
      "jsonrpc (demo_env\<lparr>lhs_first := lf\<rparr>)" "jsonrpc (demo_env\<lparr>sock_sendBlocks := sb\<rparr>)"
      "jsonrpc (demo_env\<lparr>sock_receive := sr\<rparr>)"
    using jm.jsonrpc_axioms by metis+
qed

lemma record_call_fields [simp]:
  "m_openRequestCbs (record_call n v w) = m_openRequestCbs w"
  "m_mtx_openRequestCbs (record_call n v w) = m_mtx_openRequestCbs w"
  "peers (record_call n v w) = peers w" "promises (record_call n v w) = promises w"
  "m_sid (record_call n v w) = m_sid w" "m_sfetchId (record_call n v w) = m_sfetchId w"
  "ext (record_call n v w) = (ext w)\<lparr>calls := calls (ext w) @ [(n, v)]\<rparr>"
  by (simp_all add: record_call_def)

lemma demo_run_result:
  "\<exists>r. demo_run u v a w = Some (r, record_call (case u of Log n \<Rightarrow> n | Throw n e \<Rightarrow> n) v w)"
  by (cases u) auto

lemma demo_run_keeps: "(\<And>w n v. I w \<Longrightarrow> I (record_call n v w)) \<Longrightarrow> keeps I (demo_run u v a)"
  by (cases u) (auto intro!: keeps_intros keeps_modify)

interpretation demo: well_behaved demo_env
  by unfold_locales
    (auto simp: demo_receive_def Let_def wf_world_def mutex_is_def split: if_splits
      intro!: demo_run_keeps)

interpretation demo_socket: stream_socket demo_env p incoming WouldBlock for p
proof
  show "incoming x = [] \<Longrightarrow> 0 < n \<Longrightarrow>
      \<exists>x'. sock_receive demo_env p n x = (WouldBlock, x') \<and> incoming x' = []" for x n
    by (simp add: demo_receive_def)
  show "\<exists>bs x'. sock_receive demo_env p n x = (Received bs, x') \<and> bs \<noteq> [] \<and> length bs \<le> n \<and>
      incoming x = bs @ incoming x'" if "incoming x \<noteq> []" "0 < n" for x n
    using that by (auto simp: demo_receive_def Let_def min_def)
qed simp

lemma demo_receive_ext:
  "calls (snd (demo_receive p n x)) = calls x" "sent (snd (demo_receive p n x)) = sent x"
  by (simp_all add: demo_receive_def Let_def)

text \<open>The callbacks meet the contract of a consumer of notifications, for any table of fetches.\<close>

definition cb_number :: "demo_cb \<Rightarrow> nat" where
  "cb_number u = (case u of Log n \<Rightarrow> n | Throw n e \<Rightarrow> n)"

interpretation demo_fetch: fetch_consumer demo_env p incoming WouldBlock F calls
    "\<lambda>u v. [(cb_number u, v)]" for p F
proof
  show "calls (snd (sock_receive demo_env p n x)) = calls x" for n x
    by (simp add: demo_receive_ext)
  show "\<exists>r w'. run_fetch demo_env u v 0 w = Some (r, w') \<and> m_fetchers (peers w' p) = F \<and>
      rx (peers w' p) = rx (peers w p) \<and> incoming (ext w') = incoming (ext w) \<and>
      calls (ext w') = calls (ext w) @ [(cb_number u, v)]"
    if "m_fetchers (peers w p) = F" for u v w
    using that by (cases u) (simp_all add: cb_number_def)
qed

text \<open>The same world with a connection that ends once the bytes have been read.\<close>

definition demo_ending :: "recv_result \<Rightarrow> (json, demo_cb, demo_ext) env" where
  "demo_ending fin = demo_env\<lparr>sock_receive := \<lambda>p n x.
     if incoming x = [] then (fin, x) else demo_receive p n x\<rparr>"

lemma demo_ending_consumer:
  assumes "fin \<in> {Received [], ReceiveError}"
  shows "fetch_consumer (demo_ending fin) p incoming fin F calls (\<lambda>u v. [(cb_number u, v)])"
proof (intro fetch_consumer.intro)
  show "jsonrpc (demo_ending fin)"
    unfolding demo_ending_def by (rule demo_variants(5))
  show "stream_socket (demo_ending fin) p incoming fin"
    using assms demo_socket.recv_bytes [of _ _ p] by unfold_locales (auto simp: demo_ending_def)
  show "fetch_consumer_axioms (demo_ending fin) p incoming F calls (\<lambda>u v. [(cb_number u, v)])"
    using demo_fetch.fetch_cb [of _ _ F _ _ p] demo_receive_ext(1)
    by unfold_locales (auto simp: demo_ending_def)
qed

interpretation demo_closed: fetch_consumer "demo_ending (Received [])" p incoming "Received []" F calls
    "\<lambda>u v. [(cb_number u, v)]" for p F
  by (rule demo_ending_consumer) simp

interpretation demo_failed: fetch_consumer "demo_ending ReceiveError" p incoming ReceiveError F calls
    "\<lambda>u v. [(cb_number u, v)]" for p F
  by (rule demo_ending_consumer) simp

text \<open>A peer whose only registration is fetch 7: every non-empty text is one notification for it.\<close>

definition demo_F :: "(fetchId_t \<times> demo_cb fetcher_t) list" where
  "demo_F = [(7, \<lparr>fetch_callback = Some (Log 1), fetch_matcher = matcher_default\<rparr>)]"

lemma demo_payload:
  "\<forall>data \<in> set (payload_notes demo_env bs). is_note demo_env data"
  "payload_calls demo_env demo_F (\<lambda>u v. [(cb_number u, v)]) bs =
     (if bs = [] then [] else [(1, demo_params bs)])"
  "\<forall>data \<in> set (payload_notes (demo_env\<lparr>sock_sendBlocks := sb\<rparr>) bs). is_note (demo_env\<lparr>sock_sendBlocks := sb\<rparr>) data"
  "payload_calls (demo_env\<lparr>sock_sendBlocks := sb\<rparr>) demo_F (\<lambda>u v. [(cb_number u, v)]) bs =
     (if bs = [] then [] else [(1, demo_params bs)])"
  "\<forall>data \<in> set (payload_notes (demo_ending fin) bs). is_note (demo_ending fin) data"
  "payload_calls (demo_ending fin) demo_F (\<lambda>u v. [(cb_number u, v)]) bs =
     (if bs = [] then [] else [(1, demo_params bs)])"
  by (simp_all add: payload_calls_def payload_notes_def demo_read_def is_note_def is_record_def
      note_calls_def note_id_def json_child_def in_int32_def demo_F_def cb_number_def demo_ending_def)

end
