(* ===== verification/Wire_Properties.thy ===== *)
theory Wire_Properties
  imports Demo_World
begin

text \<open>
  The properties of the wire: reception refines \<open>deframe\<close> for every way the socket cuts the stream
  and for every way the stream ends, across calls; what \<open>sendMessage\<close> puts on the wire is read back by \<open>deframe\<close>.  \<open>wire_socket\<close> is the
  sender's side of the socket contract: blocks that were sent successfully are on the wire.
\<close>

section \<open>Shared facts\<close>

lemma deframe_append:
  assumes "deframe a = (payloads, rest, False)"
  shows "deframe (a @ b) = (case deframe (rest @ b) of
    (later, rest', oversized) \<Rightarrow> (payloads @ later, rest', oversized))"
  using assms
proof (induction a arbitrary: payloads rule: deframe.induct)
  case (1 a)
  let ?n = "be_value (take 4 a)"
  consider (short) "length a < 4 \<or> ?n \<le> MAX_MESSAGE_SIZE \<and> length a < 4 + ?n"
    | (big) "4 \<le> length a" "MAX_MESSAGE_SIZE < ?n"
    | (full) "4 \<le> length a" "?n \<le> MAX_MESSAGE_SIZE" "4 + ?n \<le> length a" by linarith
  then show ?case
  proof cases
    case short
    with 1(2) have "payloads = []" "rest = a"
      by (auto simp: deframe.simps [of a] Let_def split: if_splits prod.splits)
    then show ?thesis by (simp split: prod.splits)
  next
    case big
    with 1(2) show ?thesis by (simp add: deframe.simps [of a])
  next
    case full
    obtain ps where ps: "deframe (drop (4 + ?n) a) = (ps, rest, False)"
        "payloads = take ?n (drop 4 a) # ps"
      using 1(2) full by (auto simp: deframe.simps [of a] Let_def split: prod.splits)
    have "deframe (drop (4 + ?n) a @ b) = (case deframe (rest @ b) of
        (later, rest', oversized) \<Rightarrow> (ps @ later, rest', oversized))"
      using 1(1) ps(1) full by simp
    then show ?thesis
      using full ps(2) by (simp add: deframe.simps [of "a @ b"] Let_def split: prod.splits)
  qed
qed

locale wire_socket =
  fixes E :: "('j, 'u, 'x, 'z) env_scheme"
    and p :: pid
    and wire :: "'x \<Rightarrow> byte list"
  assumes sent_blocks: "sock_sendBlocks E p blocks x = (res, x') \<Longrightarrow> 0 \<le> sint res \<Longrightarrow>
    wire x' = wire x @ concat blocks"
begin

lemma sendMessage_ok:
  assumes "sendMessage E p v w = Some (Inr (), w')"
  shows "w' = w\<lparr>ext := ext w'\<rparr>" and "length (json_writeString E v) \<le> MAX_MESSAGE_SIZE"
    and "wire (ext w') = wire (ext w) @ frame (json_writeString E v)"
  using assms sent_blocks
  by (fastforce simp: sendMessage_def Let_def frame_def split: if_splits prod.splits)+

lemma send_all:
  assumes "for_each vs (sendMessage E p) w = Some (Inr (), w')"
  shows "wire (ext w') = wire (ext w) @ concat (map (frame \<circ> json_writeString E) vs) \<and>
    (\<forall>v \<in> set vs. length (json_writeString E v) \<le> MAX_MESSAGE_SIZE)"
  using assms
proof (induction vs arbitrary: w)
  case Nil
  then show ?case by simp
next
  case (Cons v vs)
  then obtain w1 where w1: "sendMessage E p v w = Some (Inr (), w1)"
      "for_each vs (sendMessage E p) w1 = Some (Inr (), w')"
    by (auto simp: seq_def bnd_def split: option.splits prod.splits sum.splits)
  then show ?case using Cons.IH [OF w1(2)] sendMessage_ok [OF w1(1)] by simp
qed

end

interpretation demo_wire: wire_socket demo_env p sent for p
  by unfold_locales (auto simp: demo_send_def split: if_splits)

text \<open>A process with one peer that has fetch 7 and 20 bytes waiting: two payloads and a rest.\<close>

definition demo_start :: demo_ext where
  "demo_start = \<lparr>incoming = [], chunk = 2, sent = [], send_result = 0, calls = []\<rparr>"

definition demo_fetching :: "byte list \<Rightarrow> (json, demo_cb, demo_ext) world" where
  "demo_fetching bs = upd_peer 0 (\<lambda>q. q\<lparr>m_fetchers := demo_F\<rparr>) (initial (demo_start\<lparr>incoming := bs\<rparr>))"

lemma demo_fetching_ok:
  "m_fetchers (peers (demo_fetching bs) 0) = demo_F" "rx_inv (peers (demo_fetching bs) 0)"
  "pending (peers (demo_fetching bs) 0) = []" "incoming (ext (demo_fetching bs)) = bs"
  "calls (ext (demo_fetching bs)) = []"
  by (simp_all add: demo_fetching_def initial_def no_peer_def rx_inv_def pending_def
      demo_start_def)

lemma demo_sendMessage:
  "length (jwrite v) \<le> MAX_MESSAGE_SIZE \<Longrightarrow> send_result (ext w) = 0 \<Longrightarrow>
   sendMessage demo_env p v w =
     Some (Inr (), w\<lparr>ext := (ext w)\<lparr>sent := sent (ext w) @ frame (jwrite v)\<rparr>\<rparr>)"
  "length (jwrite v) \<le> MAX_MESSAGE_SIZE \<Longrightarrow> send_result (ext w) = - 1 \<Longrightarrow>
   sendMessage demo_env p v w = Some (Inl (send_error ''broken pipe''), w)"
  by (simp_all add: sendMessage_def demo_send_def frame_def Let_def)

section \<open>Properties\<close>

text \<open>
  C1: \<open>receive\<close> implements \<open>deframe\<close>.  However the non-blocking socket cuts the stream into chunks,
  one call consumes all bytes that have arrived, dispatches exactly the complete payloads, in order
  and each once, and keeps the unfinished rest buffered.  Then the end of the stream decides: on
  \<open>EWOULDBLOCK\<close> it returns 0, on a connection closed by the daemon it stops the peer and returns 0, on
  a failed one it stops the peer and returns -1.
\<close>

theorem receive_refines_deframe:
  assumes "framed_stream E p avail fin I ok obs on_payload"
    and "I w" and "rx_inv (peers w p)"
    and "deframe (pending (peers w p) @ avail (ext w)) = (payloads, rest, False)"
    and "\<forall>bs \<in> set payloads. ok bs"
  shows "\<exists>w'. receive E p w = (case fin of
        WouldBlock \<Rightarrow> ret 0
      | Received _ \<Rightarrow> seq (stop E p) (ret 0)
      | ReceiveError \<Rightarrow> seq (stop E p) (ret (- 1))) w' \<and>
    rx_inv (peers w' p) \<and> pending (peers w' p) = rest \<and> avail (ext w') = [] \<and> I w' \<and>
    obs w' = fold on_payload payloads (obs w)"
  using framed_stream.receive_spec [OF assms(1-3)] assms(4,5)
  by (simp add: framed_stream.receive_outcome_def [OF assms(1)] ended_def
      framed_stream.stream_def [OF assms(1)])

theorem receive_refines_deframe_witness:
  "(\<exists>w'. receive demo_env 0 (demo_fetching [0, 0, 0, 1, 9, 0, 0, 0, 2, 5, 6, 0, 0]) = Some (Inr 0, w') \<and>
     pending (peers w' 0) = [0, 0] \<and> calls (ext w') = [(1, demo_params [9]), (1, demo_params [5, 6])]) \<and>
   (\<exists>w'. receive (demo_ending (Received [])) 0 (demo_fetching [0, 0, 0, 1, 9, 0, 0]) =
       seq (stop (demo_ending (Received [])) 0) (ret 0) w' \<and>
     pending (peers w' 0) = [0, 0] \<and> calls (ext w') = [(1, demo_params [9])]) \<and>
   (\<exists>w'. receive (demo_ending ReceiveError) 0 (demo_fetching [0, 0, 0, 1, 9, 0, 0]) =
       seq (stop (demo_ending ReceiveError) 0) (ret (- 1)) w' \<and>
     pending (peers w' 0) = [0, 0] \<and> calls (ext w') = [(1, demo_params [9])])"
proof (intro conjI)
qed (use receive_refines_deframe [OF demo_fetch.framed_stream_axioms [of 0 demo_F] demo_fetching_ok(1,2),
        of "[0, 0, 0, 1, 9, 0, 0, 0, 2, 5, 6, 0, 0]" "[[9], [5, 6]]" "[0, 0]"]
      receive_refines_deframe [OF demo_closed.framed_stream_axioms [of 0 demo_F] demo_fetching_ok(1,2),
        of "[0, 0, 0, 1, 9, 0, 0]" "[[9]]" "[0, 0]"]
      receive_refines_deframe [OF demo_failed.framed_stream_axioms [of 0 demo_F] demo_fetching_ok(1,2),
        of "[0, 0, 0, 1, 9, 0, 0]" "[[9]]" "[0, 0]"] in
    \<open>fastforce simp: demo_fetching_ok deframe.simps be_value_def MAX_MESSAGE_SIZE_def demo_payload\<close>)+

text \<open>
  C35: a length prefix beyond \<open>MAX_MESSAGE_SIZE\<close> stops the peer: the payloads before it have been
  dispatched, nothing behind it is read as a message, \<open>stop\<close> runs and the result is -1.
\<close>

theorem receive_oversized:
  assumes "framed_stream E p avail fin I ok obs on_payload"
    and "I w" and "rx_inv (peers w p)"
    and "deframe (pending (peers w p) @ avail (ext w)) = (payloads, rest, True)"
    and "\<forall>bs \<in> set payloads. ok bs"
  shows "\<exists>w'. receive E p w = seq (stop E p) (ret (- 1)) w' \<and> I w' \<and>
    obs w' = fold on_payload payloads (obs w)"
  using framed_stream.receive_spec [OF assms(1-3)] assms(4,5)
  by (simp add: framed_stream.receive_outcome_def [OF assms(1)]
      framed_stream.stream_def [OF assms(1)])

theorem receive_oversized_witness:
  "\<exists>w'. receive demo_env 0 (demo_fetching [0, 0, 0, 1, 9, 0, 4, 0, 1, 5]) =
       seq (stop demo_env 0) (ret (- 1)) w' \<and> calls (ext w') = [(1, demo_params [9])]"
  using receive_oversized [OF demo_fetch.framed_stream_axioms [of 0 demo_F] demo_fetching_ok(1,2),
      of "[0, 0, 0, 1, 9, 0, 4, 0, 1, 5]" "[[9]]" "[0, 4, 0, 1, 5]"]
  by (fastforce simp: demo_fetching_ok deframe.simps be_value_def MAX_MESSAGE_SIZE_def demo_payload)

text \<open>
  A message may arrive over several calls.  If the bytes \<open>a\<close> were there for one call and the
  bytes \<open>b\<close> arrive before the next, the two calls together dispatch the payloads of \<open>a @ b\<close>.
\<close>

lemma receive_resumes:
  assumes fs: "framed_stream E p avail WouldBlock I ok obs on_payload"
    and w: "I w" "rx_inv (peers w p)" "pending (peers w p) = []" "avail (ext w) = a"
    and a: "deframe a = (payloads1, rest1, False)"
    and ab: "deframe (a @ b) = (payloads, rest, False)" "\<forall>bs \<in> set payloads. ok bs"
  shows "\<exists>w1. receive E p w = Some (Inr 0, w1) \<and>
    (\<forall>w2. I w2 \<and> peers w2 p = peers w1 p \<and> obs w2 = obs w1 \<and> avail (ext w2) = b \<longrightarrow>
      (\<exists>w3. receive E p w2 = Some (Inr 0, w3) \<and> pending (peers w3 p) = rest \<and>
        obs w3 = fold on_payload payloads (obs w)))"
proof -
  obtain later where later: "deframe (rest1 @ b) = (later, rest, False)" "payloads = payloads1 @ later"
    using deframe_append [OF a, of b] ab(1) by (auto split: prod.splits)
  note spec = framed_stream.receive_spec [OF fs, unfolded framed_stream.receive_outcome_def [OF fs]
      framed_stream.stream_def [OF fs]]
  obtain w1 where w1: "receive E p w = Some (Inr 0, w1)" "rx_inv (peers w1 p)"
      "pending (peers w1 p) = rest1" "obs w1 = fold on_payload payloads1 (obs w)"
    using spec [OF w(1,2)] w(3,4) a ab(2) later(2) by auto
  have "\<exists>w3. receive E p w2 = Some (Inr 0, w3) \<and> pending (peers w3 p) = rest \<and>
      obs w3 = fold on_payload payloads (obs w)"
    if "I w2" "peers w2 p = peers w1 p" "obs w2 = obs w1" "avail (ext w2) = b" for w2
    using spec [of w2] that w1 later ab(2) by auto
  with w1(1) show ?thesis by blast
qed

text \<open>
  C17: what a peer sends is what its counterpart reads.  A sequence of messages for which
  \<open>sendMessage\<close> did not throw puts a byte sequence on the wire from which \<open>deframe\<close> recovers exactly
  their texts, nothing left over and none over the size limit.
\<close>

theorem sent_deframed:
  assumes "wire_socket E p wire" and "for_each vs (sendMessage E p) w = Some (Inr (), w')"
  shows "\<exists>bs. wire (ext w') = wire (ext w) @ bs \<and>
    deframe bs = (map (json_writeString E) vs, [], False)"
proof -
  have all: "wire (ext w') = wire (ext w) @ concat (map frame (map (json_writeString E) vs))"
      "\<forall>msg \<in> set (map (json_writeString E) vs). length msg \<le> MAX_MESSAGE_SIZE"
    using wire_socket.send_all [OF assms] by auto
  with deframe_frames [OF all(2)] show ?thesis by blast
qed

theorem sent_deframed_witness:
  "\<exists>w'. for_each [JNull, JBool True] (sendMessage demo_env 0) (demo_fetching []) = Some (Inr (), w') \<and>
    (\<exists>bs. sent (ext w') = bs \<and> deframe bs = ([[0], [5, 1]], [], False))"
proof -
  define w' :: "(json, demo_cb, demo_ext) world" where
    "w' = (demo_fetching [])\<lparr>ext := demo_start\<lparr>sent := [0, 0, 0, 1, 0, 0, 0, 0, 2, 5, 1]\<rparr>\<rparr>"
  have "for_each [JNull, JBool True] (sendMessage demo_env 0) (demo_fetching []) = Some (Inr (), w')"
    by (simp add: w'_def demo_sendMessage demo_fetching_def demo_start_def initial_def
        MAX_MESSAGE_SIZE_def be_bytes_def frame_def upd_peer_def)
  with sent_deframed [OF demo_wire.wire_socket_axioms this] show ?thesis
    by (simp add: demo_fetching_def demo_start_def initial_def)
qed

text \<open>A text longer than \<open>MAX_MESSAGE_SIZE\<close> is refused before anything reaches the socket.\<close>

lemma sendMessage_oversized:
  assumes "length (json_writeString E v) > MAX_MESSAGE_SIZE"
  shows "\<exists>msg. sendMessage E p v w = Some (Inl (JsonrpcException (- 1) msg), w)"
  using assms by (simp add: sendMessage_def Let_def size_error_def)

lemma consumer_receives:
  assumes "fetch_consumer E p avail WouldBlock F log ev"
    and "m_fetchers (peers w p) = F" and "rx_inv (peers w p)"
    and "deframe (pending (peers w p) @ avail (ext w)) = (payloads, rest, False)"
    and "\<forall>bs \<in> set payloads. \<forall>data \<in> set (payload_notes E bs). is_note E data"
  shows "\<exists>w'. receive E p w = Some (Inr 0, w') \<and> pending (peers w' p) = rest \<and> avail (ext w') = [] \<and>
    m_fetchers (peers w' p) = F \<and>
    log (ext w') = log (ext w) @ concat (map (payload_calls E F ev) payloads)"
  using framed_stream.receive_spec [OF fetch_consumer_framed [OF assms(1)] assms(2,3)] assms(4,5)
  by (auto simp: framed_stream.receive_outcome_def [OF fetch_consumer_framed [OF assms(1)]]
      framed_stream.stream_def [OF fetch_consumer_framed [OF assms(1)]] fold_append_calls)

text \<open>
  C2: from the bytes to the application.  A peer that consumes notifications, single or in batches,
  calls for each of them the callback of the fetch it names with its parameters, in the order of
  the stream, each once, whatever the callbacks throw and however the socket cuts the stream;
  notifications for fetches that are not registered are skipped.
\<close>

theorem fetch_stream_delivered:
  assumes "fetch_consumer E p avail WouldBlock F log ev"
    and "m_fetchers (peers w p) = F" and "rx_inv (peers w p)"
    and "deframe (pending (peers w p) @ avail (ext w)) = (payloads, rest, False)"
    and "\<forall>bs \<in> set payloads. \<forall>data \<in> set (payload_notes E bs). is_note E data"
  shows "\<exists>w'. receive E p w = Some (Inr 0, w') \<and> pending (peers w' p) = rest \<and> avail (ext w') = [] \<and>
    m_fetchers (peers w' p) = F \<and>
    log (ext w') = log (ext w) @ concat (map (payload_calls E F ev) payloads)"
  by (rule consumer_receives [OF assms])

theorem fetch_stream_delivered_witness:
  "\<exists>w'. receive demo_env 0 (demo_fetching [0, 0, 0, 1, 9, 0, 0, 0, 2, 5, 6, 0, 0]) = Some (Inr 0, w') \<and>
     pending (peers w' 0) = [0, 0] \<and> calls (ext w') = [(1, demo_params [9]), (1, demo_params [5, 6])]"
  using fetch_stream_delivered [OF demo_fetch.fetch_consumer_axioms [of 0 demo_F] demo_fetching_ok(1,2),
      of "[0, 0, 0, 1, 9, 0, 0, 0, 2, 5, 6, 0, 0]" "[[9], [5, 6]]" "[0, 0]"]
  by (fastforce simp: demo_fetching_ok deframe.simps be_value_def MAX_MESSAGE_SIZE_def demo_payload)

end
