(* ===== verification/Request_Properties.thy ===== *)
theory Request_Properties
  imports Wire_Properties
begin

text \<open>
  The properties of requests and responses (lib/asyncrequest.cpp): every request is answered through
  its own callback at most once, a request that could not be sent is answered by its error notifier,
  and clearing answers all open requests; and where the code falls short of that.
\<close>

section \<open>Shared facts\<close>

lemma sendMessage_cases:
  obtains (sent) x where "sendMessage E p v w = Some (Inr (), w\<lparr>ext := x\<rparr>)"
  | (failed) x msg where "sendMessage E p v w = Some (Inl (JsonrpcException (- 1) msg), w\<lparr>ext := x\<rparr>)"
proof (cases "length (json_writeString E v) > MAX_MESSAGE_SIZE")
  case True
  then have "sendMessage E p v w = Some (Inl (size_error (length (json_writeString E v))), w\<lparr>ext := ext w\<rparr>)"
    by (simp add: sendMessage_def Let_def)
  then show thesis using failed unfolding size_error_def by blast
next
  case False
  obtain res x where "sock_sendBlocks E p [be_bytes (length (json_writeString E v)),
      json_writeString E v] (ext w) = (res, x)" by fastforce
  with False have "sendMessage E p v w = Some (if sint res < 0
      then Inl (send_error (strerror_errno E x)) else Inr (), w\<lparr>ext := x\<rparr>)"
    by (simp add: sendMessage_def Let_def)
  then show thesis using sent failed by (cases "sint res < 0") (auto simp: send_error_def)
qed

lemma locked_free:
  "\<not> m_mtx_openRequestCbs w \<Longrightarrow> m (w\<lparr>m_mtx_openRequestCbs := True\<rparr>) = Some (r, w') \<Longrightarrow>
   locked m w = Some (r, w'\<lparr>m_mtx_openRequestCbs := False\<rparr>)"
  by (simp add: locked_def)

lemma free_mutex: "\<not> m_mtx_openRequestCbs w \<Longrightarrow> w\<lparr>m_mtx_openRequestCbs := False\<rparr> = w"
  by (cases w) simp

lemma add_request_fields [simp]:
  "m_sid (add_request cb w) = m_sid w + 1" "peers (add_request cb w) = peers w"
  "ext (add_request cb w) = ext w" "promises (add_request cb w) = promises w"
  "m_mtx_openRequestCbs (add_request cb w) = m_mtx_openRequestCbs w"
  "map_of (m_openRequestCbs (add_request cb w)) (m_sid w + 1) =
     Some ((request_at (m_sid w + 1) (m_openRequestCbs w))\<lparr>responseCallback := Some cb\<rparr>)"
  "k \<noteq> m_sid w + 1 \<Longrightarrow>
     map_of (m_openRequestCbs (add_request cb w)) k = map_of (m_openRequestCbs w) k"
  by (simp_all add: add_request_def Let_def)

lemma add_request_mutex:
  "add_request cb (w\<lparr>m_mtx_openRequestCbs := b\<rparr>) = add_request cb w\<lparr>m_mtx_openRequestCbs := b\<rparr>"
  by (simp add: add_request_def Let_def)

lemma register_request:
  assumes "\<not> m_mtx_openRequestCbs w"
  shows "locked (seq (modify (add_request cb)) (gets m_sid)) w =
    Some (Inr (m_sid w + 1), add_request cb w)"
  using assms locked_free [OF assms, of "seq (modify (add_request cb)) (gets m_sid)"
      "Inr (m_sid w + 1)"] by (simp add: add_request_mutex free_mutex)

text \<open>The whole of \<open>execute\<close> with a callback, for both outcomes of sending.\<close>

abbreviation send_request :: "('j, 'u, 'x, 'z) env_scheme \<Rightarrow> pid \<Rightarrow> 'j \<Rightarrow> 'u responseCb
    \<Rightarrow> ('j, 'u, 'x, unit) peer_prog" where
  "send_request E p doc cb \<equiv> \<lambda>w.
     sendMessage E p (json_put E doc (rpc_ID E) (json_uint E (m_sid w + 1))) (add_request cb w)"

lemma execute_callback:
  assumes free: "\<not> m_mtx_openRequestCbs w"
  shows "send_request E p doc cb w = Some (Inr (), w1) \<Longrightarrow>
      execute E p doc (Some cb) w = Some (Inr (m_sid w + 1), w1)"
    and "send_request E p doc cb w = Some (Inl (JsonrpcException c msg), w1) \<Longrightarrow>
      execute E p doc (Some cb) w = Some (Inr (m_sid w + 1), set_notifier (m_sid w + 1) c msg w1)"
  using register_request [OF free, of cb] by (simp_all add: execute_def)

lemma take_request_absent:
  "\<not> m_mtx_openRequestCbs w \<Longrightarrow> map_of (m_openRequestCbs w) i = None \<Longrightarrow>
   take_request i w = Some (Inr None, w)"
  by (simp add: take_request_def locked_def free_mutex)

lemma take_request_open:
  "\<not> m_mtx_openRequestCbs w \<Longrightarrow> map_of (m_openRequestCbs w) i = Some req \<Longrightarrow>
   take_request i w =
     Some (Inr (Some req), w\<lparr>m_openRequestCbs := AList.delete i (m_openRequestCbs w)\<rparr>)"
  by (cases w) (simp add: take_request_def locked_def)

text \<open>The id of a response document.\<close>

definition response_id :: "('j, 'z) jsonrpc_scheme \<Rightarrow> 'j \<Rightarrow> uint32 \<Rightarrow> bool" where
  "response_id J data i \<longleftrightarrow> sum_bind (json_get J data (rpc_ID J)) (json_asUInt J) = Inr i"

lemma handleResult_open:
  assumes "response_id E data i" and "\<not> m_mtx_openRequestCbs w"
    and "map_of (m_openRequestCbs w) i = Some req" and "responseCallback req = Some cb"
  shows "handleResult E data w = try_catch (call_response E cb data) (\<lambda>_. ret ())
    (w\<lparr>m_openRequestCbs := AList.delete i (m_openRequestCbs w)\<rparr>)"
  using assms by (simp add: handleResult_def response_id_def take_request_open)

lemma handleResult_absent:
  assumes "response_id E data i" and "\<not> m_mtx_openRequestCbs w"
    and "map_of (m_openRequestCbs w) i = None"
  shows "handleResult E data w = Some (Inr (), w)"
  using assms by (simp add: handleResult_def response_id_def take_request_absent)

context jsonrpc
begin

lemma error_doc_id: "response_id J (error_doc J i c msg) i"
  by (simp add: response_id_def error_doc_def Let_def json_put2_def record_simps rpc_neq asUInt_uint)

lemma error_doc_error: "json_isMember J (error_doc J i c msg) (rpc_ERR J) = Inr True"
  by (simp add: error_doc_def Let_def json_put2_def record_simps rpc_neq)

end

lemma fold_snoc_map: "fold (\<lambda>i l. l @ [f i]) ks l = l @ map f ks"
  by (induction ks arbitrary: l) simp_all

context well_behaved
begin

lemma mutex_cancel: "keeps (mutex_is b) (cancel_request E reqs i)"
  by (rule mutex.keeps_cancel_request)

end

text \<open>
  \<open>execute\<close> with a result callback returns whether or not the message could be sent; it uses the next
  id, stores the callback under that id, and touches no other open request and no peer.
\<close>

lemma execute_registers:
  assumes "\<not> m_mtx_openRequestCbs w"
  shows "\<exists>w' req. execute E p doc (Some cb) w = Some (Inr (m_sid w + 1), w') \<and>
    map_of (m_openRequestCbs w') (m_sid w + 1) = Some req \<and> responseCallback req = Some cb \<and>
    (\<forall>k. k \<noteq> m_sid w + 1 \<longrightarrow> map_of (m_openRequestCbs w') k = map_of (m_openRequestCbs w) k) \<and>
    m_sid w' = m_sid w + 1 \<and> peers w' = peers w \<and> promises w' = promises w \<and>
    \<not> m_mtx_openRequestCbs w'"
proof (cases rule: sendMessage_cases [of E p
    "json_put E doc (rpc_ID E) (json_uint E (m_sid w + 1))" "add_request cb w"])
  case sent
  with execute_callback(1) [OF assms sent] assms show ?thesis by simp
next
  case failed
  with execute_callback(2) [OF assms failed] assms show ?thesis
    by (simp add: set_notifier_def Let_def request_at_def)
qed

section \<open>Properties\<close>

text \<open>
  A request without a result callback is a notification: it always returns, uses up no id and
  leaves the table of open requests and the peers alone, whether or not sending worked.
\<close>

lemma notification_keeps_table:
  "(\<exists>x. execute E p doc None w = Some (Inr 0, w\<lparr>ext := x\<rparr>)) \<and>
   (\<exists>x. execute_notification E p doc w = Some (Inr (), w\<lparr>ext := x\<rparr>))"
  by (cases rule: sendMessage_cases [of E p doc w])
    (auto simp: execute_def execute_notification_def)

text \<open>
  C9: a response with the id of an open request removes the request and calls its callback, with the
  response, after the lock is released; whatever the callback throws is swallowed.  Once the request
  is gone, a further response with the same id does nothing.
\<close>

theorem response_once:
  assumes "response_id E data i" and "\<not> m_mtx_openRequestCbs w"
    and "map_of (m_openRequestCbs w) i = Some req" and "responseCallback req = Some cb"
    and "call_response E cb data (w\<lparr>m_openRequestCbs := AList.delete i (m_openRequestCbs w)\<rparr>) = Some (r, w')"
    and "map_of (m_openRequestCbs w') i = None" and "\<not> m_mtx_openRequestCbs w'"
  shows "seq (handleResult E data) (handleResult E data) w = Some (Inr (), w') \<and>
    handleResult E data w = Some (Inr (), w')"
  using handleResult_open [OF assms(1-4)] try_catch_ret_total [where m = "call_response E cb data", OF assms(5)]
    handleResult_absent [OF assms(1,7,6)] by simp

definition demo_open :: "(json, demo_cb, demo_ext) world" where
  "demo_open = (initial demo_start)\<lparr>m_sid := 5, m_openRequestCbs :=
     [(4, \<lparr>responseCallback = Some (UserCb (Log 40)), errorNotifier = None\<rparr>),
      (5, \<lparr>responseCallback = Some (UserCb (Throw 50 OtherException)), errorNotifier = None\<rparr>)]\<rparr>"

theorem response_once_witness:
  "\<exists>w'. seq (handleResult demo_env (JObject [(''id'', JUInt 5)]))
         (handleResult demo_env (JObject [(''id'', JUInt 5)])) demo_open = Some (Inr (), w') \<and>
     calls (ext w') = [(50, JObject [(''id'', JUInt 5)])]"
proof -
  define w1 where "w1 = demo_open\<lparr>m_openRequestCbs :=
     [(4, \<lparr>responseCallback = Some (UserCb (Log 40)), errorNotifier = None\<rparr>)]\<rparr>"
  show ?thesis
    using response_once [of demo_env "JObject [(''id'', JUInt 5)]" 5 demo_open _
        "UserCb (Throw 50 OtherException)" "Inl OtherException"
        "record_call 50 (JObject [(''id'', JUInt 5)]) w1"]
    by (simp add: demo_open_def initial_def response_id_def w1_def demo_start_def)
qed

text \<open>
  C36: a request that could not be sent is answered all the same: once the event loop runs its error
  notifier, the request is removed and its callback gets an error response with the request's id and
  the code and message of the failure.  This needs the id that the notifier reads through its
  captured object to be the id of the request; the next property is about the other case.
\<close>

theorem send_failure_reported:
  assumes "jsonrpc E" and free: "\<not> m_mtx_openRequestCbs w"
    and fail: "send_request E p doc cb w = Some (Inl (JsonrpcException c msg), w1)"
    and cap: "captured_id E (m_sid w + 1) = m_sid w + 1"
  shows "\<exists>w2. execute E p doc (Some cb) w = Some (Inr (m_sid w + 1), w2) \<and>
    fire_errorNotifier E (m_sid w + 1) w2 =
      try_catch (call_response E cb (error_doc E (m_sid w + 1) c msg)) (\<lambda>_. ret ())
        (w1\<lparr>m_openRequestCbs := AList.delete (m_sid w + 1) (m_openRequestCbs w1)\<rparr>)"
proof -
  let ?i = "m_sid w + 1"
  obtain x where w1: "w1 = add_request cb w\<lparr>ext := x\<rparr>"
    by (cases rule: sendMessage_cases [of E p
          "json_put E doc (rpc_ID E) (json_uint E (m_sid w + 1))" "add_request cb w"])
      (use fail in auto)
  obtain req where req: "map_of (m_openRequestCbs w1) ?i = Some req" "responseCallback req = Some cb"
    using w1 by simp
  have free1: "\<not> m_mtx_openRequestCbs w1" using w1 free by simp
  define req' where "req' = req\<lparr>errorNotifier := Some (c, msg)\<rparr>"
  define w3 where "w3 = w1\<lparr>m_openRequestCbs := AList.update ?i
    (req'\<lparr>errorNotifier := None\<rparr>) (AList.update ?i req'
      (m_openRequestCbs w1))\<rparr>"
  have "handleResult E (error_doc E ?i c msg) w3 =
      try_catch (call_response E cb (error_doc E ?i c msg)) (\<lambda>_. ret ())
        (w3\<lparr>m_openRequestCbs := AList.delete ?i (m_openRequestCbs w3)\<rparr>)"
    using free1 req(2)
    by (intro handleResult_open [OF jsonrpc.error_doc_id [OF assms(1)],
          where req = "req'\<lparr>errorNotifier := None\<rparr>"]) (simp_all add: w3_def req'_def)
  moreover have "fire_errorNotifier E ?i (set_notifier ?i c msg w1) =
      handleResult E (error_doc E ?i c msg) w3"
    using req cap by (simp add: fire_errorNotifier_def set_notifier_def Let_def request_at_def w3_def req'_def)
  moreover have "w3\<lparr>m_openRequestCbs := AList.delete ?i (m_openRequestCbs w3)\<rparr> =
      w1\<lparr>m_openRequestCbs := AList.delete ?i (m_openRequestCbs w1)\<rparr>"
    by (simp add: w3_def delete_update_same)
  ultimately show ?thesis
    using execute_callback(2) [OF free fail] by auto
qed

definition demo_broken :: "(json, demo_cb, demo_ext) world" where
  "demo_broken = initial (demo_start\<lparr>send_result := - 1\<rparr>)"

lemma demo_broken_send:
  "send_request demo_env 0 JNull (UserCb (Log 3)) demo_broken =
     Some (Inl (JsonrpcException (- 1) (''could not send message: '' @ [CHR 0x27] @ ''broken pipe'' @
       [CHR 0x27])), add_request (UserCb (Log 3)) demo_broken)"
  by (simp add: demo_broken_def demo_sendMessage send_error_def MAX_MESSAGE_SIZE_def initial_def)

theorem send_failure_reported_witness:
  "\<exists>w2 w3. execute demo_env 0 JNull (Some (UserCb (Log 3))) demo_broken = Some (Inr 1, w2) \<and>
    fire_errorNotifier demo_env 1 w2 = Some (Inr (), w3) \<and> m_openRequestCbs w3 = [] \<and>
    map fst (calls (ext w3)) = [3]"
  using send_failure_reported [OF dj.jsonrpc_axioms _ demo_broken_send]
  by (fastforce simp: demo_broken_def initial_def demo_start_def add_request_def request_at_def)

text \<open>
  The error notifier reads the request id through a pointer to an object that is gone by then.
  When this read yields an id that is not open, the failed request is not answered: its entry stays
  in the table, now without notifier, and no callback runs.
\<close>

lemma send_failure_lost:
  assumes "jsonrpc E" and free: "\<not> m_mtx_openRequestCbs w"
    and req: "map_of (m_openRequestCbs w) i = Some req" "errorNotifier req = Some (c, msg)"
    and cap: "captured_id E i = k" "map_of (m_openRequestCbs w) k = None"
  shows "fire_errorNotifier E i w = Some (Inr (), w\<lparr>m_openRequestCbs :=
    AList.update i (req\<lparr>errorNotifier := None\<rparr>) (m_openRequestCbs w)\<rparr>)"
proof -
  define w1 where
    "w1 = w\<lparr>m_openRequestCbs := AList.update i (req\<lparr>errorNotifier := None\<rparr>) (m_openRequestCbs w)\<rparr>"
  have "k \<noteq> i" using req(1) cap(2) by auto
  then have "handleResult E (error_doc E k c msg) w1 = Some (Inr (), w1)"
    using free cap(2)
    by (intro handleResult_absent [OF jsonrpc.error_doc_id [OF assms(1)]]) (simp_all add: w1_def)
  then show ?thesis
    using req cap(1) by (simp add: fire_errorNotifier_def w1_def)
qed

text \<open>
  Ids are 32 bit and wrap around.  If the next id is still open, the new request takes its place
  in the table: the earlier callback is dropped without having been called.
\<close>

lemma id_collision:
  assumes "\<not> m_mtx_openRequestCbs w" and "map_of (m_openRequestCbs w) (m_sid w + 1) = Some req0"
    and "execute E p doc (Some cb) w = Some (r, w')"
  shows "length (m_openRequestCbs w') = length (m_openRequestCbs w) \<and>
    (\<exists>req. map_of (m_openRequestCbs w') (m_sid w + 1) = Some req \<and> responseCallback req = Some cb)"
proof (cases rule: sendMessage_cases [of E p
    "json_put E doc (rpc_ID E) (json_uint E (m_sid w + 1))" "add_request cb w"])
  case sent
  with execute_callback(1) [OF assms(1) sent] assms(2,3) show ?thesis
    by (auto simp: add_request_def Let_def length_update_present)
next
  case failed
  with execute_callback(2) [OF assms(1) failed] assms(2,3) show ?thesis
    by (auto simp: add_request_def set_notifier_def Let_def length_update_present request_at_def)
qed

text \<open>
  C10: \<open>AsyncRequest::clear\<close> answers every open request exactly once, in an unspecified order, with a
  cancel error that carries its id, swallows what callbacks throw, empties the table, and returns the
  number of requests.  The table is shared: this includes the requests of all peers of the process.
\<close>

theorem clear_answers_all:
  fixes log :: "'x \<Rightarrow> 'o list"
  assumes free: "\<not> m_mtx_openRequestCbs w"
    and order: "mset (hash_order E (keys (m_openRequestCbs w))) = mset (keys (m_openRequestCbs w))"
    and wf: "distinct (keys (m_openRequestCbs w))"
    and cbs: "\<And>i req v. (i, req) \<in> set (m_openRequestCbs w) \<Longrightarrow> m_mtx_openRequestCbs v \<Longrightarrow>
      \<exists>cb res v'. responseCallback req = Some cb \<and>
        call_response E cb (error_doc E i (- 1) cancel_text) v = Some (res, v') \<and>
        m_mtx_openRequestCbs v' \<and> log (ext v') = log (ext v) @ [ev i]"
  shows "\<exists>w'. clear E w = Some (Inr (length (m_openRequestCbs w)), w') \<and> m_openRequestCbs w' = [] \<and>
    \<not> m_mtx_openRequestCbs w' \<and>
    mset (log (ext w')) = mset (log (ext w)) + image_mset ev (mset (keys (m_openRequestCbs w)))"
proof -
  let ?reqs = "m_openRequestCbs w" and ?ks = "hash_order E (keys (m_openRequestCbs w))"
  have body: "\<exists>v'. cancel_request E ?reqs i v = Some (Inr (), v') \<and> m_mtx_openRequestCbs v' \<and>
      log (ext v') = log (ext v) @ [ev i]"
    if "i \<in> set ?ks" "m_mtx_openRequestCbs v" for i v
  proof -
    have "i \<in> set (keys ?reqs)" using that(1) order by (metis set_mset_mset)
    then obtain req where req: "map_of ?reqs i = Some req" "(i, req) \<in> set ?reqs"
      using wf by (auto simp: map_of_eq_Some_iff)
    from cbs [OF req(2) that(2)] obtain cb res v' where cb: "responseCallback req = Some cb"
        "call_response E cb (error_doc E i (- 1) cancel_text) v = Some (res, v')"
        "m_mtx_openRequestCbs v'" "log (ext v') = log (ext v) @ [ev i]" by blast
    have "try_catch (call_response E cb (error_doc E i (- 1) cancel_text)) (\<lambda>_. ret ()) v =
        Some (Inr (), v')"
      using cb(2) by (rule try_catch_ret_total)
    with req(1) cb show ?thesis by (simp add: cancel_request_def)
  qed
  obtain w' where w': "for_each ?ks (cancel_request E ?reqs) (w\<lparr>m_mtx_openRequestCbs := True\<rparr>) =
      Some (Inr (), w')" "log (ext w') = fold (\<lambda>i l. l @ [ev i]) ?ks (log (ext w))"
    using for_each_fold [of ?ks m_mtx_openRequestCbs "cancel_request E ?reqs" "\<lambda>v. log (ext v)"
        "\<lambda>i l. l @ [ev i]" "w\<lparr>m_mtx_openRequestCbs := True\<rparr>", OF body] by auto
  have "log (ext w') = log (ext w) @ map ev ?ks"
    unfolding w'(2) by (rule fold_snoc_map)
  then have "mset (log (ext w')) = mset (log (ext w)) + image_mset ev (mset (keys ?reqs))"
    by (simp add: order)
  moreover have "clear E w = Some (Inr (length ?reqs),
      w'\<lparr>m_openRequestCbs := [], m_mtx_openRequestCbs := False\<rparr>)"
    using w'(1) free by (simp add: clear_def locked_def)
  ultimately show ?thesis by simp
qed

theorem clear_answers_all_witness:
  "\<exists>w'. clear demo_env demo_open = Some (Inr 2, w') \<and> m_openRequestCbs w' = [] \<and>
     mset (map fst (calls (ext w'))) = {#40, 50#}"
  using clear_answers_all [of demo_open demo_env "\<lambda>x. map fst (calls x)" "\<lambda>i. unat i * 10"]
  by (fastforce simp: demo_open_def initial_def demo_start_def)

text \<open>
  \<open>clear\<close> calls the callbacks while it holds the mutex of the open requests, which is not
  recursive.  If the callback of any open request starts by issuing a request of its own, \<open>clear\<close>
  never returns.
\<close>

lemma clear_deadlock:
  assumes "well_behaved E"
    and "i \<in> set (hash_order E (keys (m_openRequestCbs w)))"
    and "map_of (m_openRequestCbs w) i = Some req" and "responseCallback req = Some (UserCb u)"
    and again: "\<And>v. run_response E u v = bnd (execute E p doc (Some cb)) k"
  shows "clear E w = None"
proof -
  let ?reqs = "m_openRequestCbs w"
  have body: "cancel_request E ?reqs j v = None \<or>
      (\<exists>v'. cancel_request E ?reqs j v = Some (Inr (), v') \<and> mutex_is True v')"
    if "mutex_is True v" for j v
  proof (cases "cancel_request E ?reqs j v")
    case (Some a)
    obtain r v' where a: "a = (r, v')" by fastforce
    have "mutex_is True v'"
      using keepsD [OF well_behaved.mutex_cancel [OF assms(1)] that] Some a by blast
    moreover have "r = Inr ()"
      using Some a by (auto simp: cancel_request_def try_catch_def
          split: option.splits prod.splits sum.splits)
    ultimately show ?thesis using Some a by blast
  qed simp
  have "cancel_request E ?reqs i v = None" if "mutex_is True v" for v
    using that assms(3,4) by (simp add: cancel_request_def again execute_def mutex_is_def locked_def)
  then have "for_each (hash_order E (keys ?reqs)) (cancel_request E ?reqs)
      (w\<lparr>m_mtx_openRequestCbs := True\<rparr>) = None"
    using for_each_stuck [of _ "mutex_is True" "cancel_request E ?reqs" i, OF body assms(2)]
    by (simp add: mutex_is_def)
  then show ?thesis by (simp add: clear_def locked_def)
qed

end
