(* ===== verification/Dispatch_Properties.thy ===== *)
theory Dispatch_Properties
  imports Request_Properties
begin

text \<open>
  What a received message does (\<open>PeerAsync::handleMessage\<close>): set requests for states, calls of
  methods, fetch notifications, and messages that fit none of these.
\<close>

section \<open>Shared facts\<close>

text \<open>A set request or method call as it arrives: the path is the \<open>method\<close> member.\<close>

definition path_message :: "('j, 'z) jsonrpc_scheme \<Rightarrow> 'j \<Rightarrow> string \<Rightarrow> bool" where
  "path_message J data path \<longleftrightarrow> is_record J data \<and>
     json_type J (json_child J data (rpc_METHOD J)) = stringValue \<and>
     json_asString J (json_child J data (rpc_METHOD J)) = Inr path"

definition set_message :: "('j, 'z) jsonrpc_scheme \<Rightarrow> 'j \<Rightarrow> string \<Rightarrow> 'j \<Rightarrow> bool" where
  "set_message J data path value \<longleftrightarrow> path_message J data path \<and>
     is_record J (json_child J data (rpc_PARAMS J)) \<and>
     json_child J (json_child J data (rpc_PARAMS J)) VALUE = value"

text \<open>Answer a request with the given id; a null id asks for no answer.\<close>

definition reply :: "('j, 'u, 'x, 'z) env_scheme \<Rightarrow> pid \<Rightarrow> 'j \<Rightarrow> 'j \<Rightarrow> ('j, 'u, 'x, unit) peer_prog" where
  "reply E p idNode response =
     (if isNull E idNode then ret ()
      else try_catch (sendMessage E p (json_put E response (rpc_ID E) idNode)) (\<lambda>_. ret ()))"

lemma catch_sendMessage:
  "try_catch (sendMessage E p v) (\<lambda>e. if as_jsonrpc e = None then raise e else ret ()) w =
   try_catch (sendMessage E p v) (\<lambda>_. ret ()) w"
  by (cases rule: sendMessage_cases [of E p v w]) simp_all

text \<open>What the broker should read in an error response.\<close>

fun exn_code :: "('j, 'z) jsonrpc_scheme \<Rightarrow> 'j exn \<Rightarrow> int32" where
  "exn_code J (JsoncppRpcException e) = m_code e"
| "exn_code J (JsonrpcException c msg) = c"
| "exn_code J _ = rpc_internalError J"

fun exn_text :: "'j exn \<Rightarrow> string" where
  "exn_text (JsoncppRpcException e) = m_message e"
| "exn_text (JsonrpcException c msg) = msg"
| "exn_text (RuntimeError msg) = msg"
| "exn_text (LogicError msg) = msg"
| "exn_text BadFunctionCall = ''bad_function_call''"
| "exn_text (StdException msg) = msg"
| "exn_text OtherException = ''caught exception!''"

definition is_error :: "('j, 'z) jsonrpc_scheme \<Rightarrow> 'j \<Rightarrow> int32 \<Rightarrow> string \<Rightarrow> bool" where
  "is_error J response c msg \<longleftrightarrow>
     json_get2 J response (rpc_ERR J) (rpc_CODE J) = Inr (json_int J c) \<and>
     json_get2 J response (rpc_ERR J) (rpc_MESSAGE J) = Inr (json_string J msg) \<and>
     json_isMember J response (rpc_RESULT J) = Inr False"

context jsonrpc
begin

lemma put_error_null: "is_error J (put_error J (json_null J) c msg) c msg"
  by (simp add: is_error_def put_error_def json_put2_def json_get2_def record_simps rpc_neq isMember_null)

lemma exn_json_is_error: "is_error J (exn_json J e) (m_code e) (m_message e)"
  by (simp add: is_error_def exn_json_def json_put2_def json_get2_def record_simps rpc_neq Let_def
      isMember_null)

lemma error_response_null: "is_error J (error_response J e (json_null J)) (exn_code J e) (exn_text e)"
  by (cases e) (simp_all add: error_response_def put_error_null exn_json_is_error)

lemma error_response_record: "is_record J v \<Longrightarrow> is_record J (error_response J e v)"
  by (cases e) (simp_all add: error_response_def put_error_def json_put2_def is_record_put
      error_json_record)

lemma state_result_record: "is_record J (state_result J r (json_null J))"
  by (simp add: state_result_def json_put3_def record_simps Let_def)

lemma state_result_member:
  "json_isMember J (state_result J r (json_null J)) (rpc_RESULT J) = Inr True"
  "json_isMember J (state_result J r (json_null J)) (rpc_ERR J) = Inr False"
  by (simp_all add: state_result_def json_put3_def record_simps Let_def rpc_neq isMember_null type_null)

lemma method_base:
  "json_get J (json_put J (json_put J (json_null J) (rpc_RESULT J) v) (rpc_RESULT J) x) (rpc_RESULT J) = Inr x"
  "json_get J (json_put J (json_null J) (rpc_RESULT J) x) (rpc_RESULT J) = Inr x"
  "json_isMember J (json_put J (json_put J (json_null J) (rpc_RESULT J) v) (rpc_RESULT J) x) (rpc_ERR J) = Inr False"
  "json_isMember J (json_put J (json_null J) (rpc_RESULT J) x) (rpc_ERR J) = Inr False"
  by (simp_all add: record_simps rpc_neq isMember_null type_null)

lemma error_keeps_result:
  assumes "\<And>x. e \<noteq> JsoncppRpcException x"
  shows "json_isMember J (error_response J e (json_put J (json_null J) (rpc_RESULT J) v)) (rpc_ERR J) = Inr True"
    and "json_isMember J (error_response J e (json_put J (json_null J) (rpc_RESULT J) v)) (rpc_RESULT J) = Inr True"
  using assms by (cases e; simp add: error_response_def put_error_def json_put2_def record_simps rpc_neq)+

end

context rpc_env
begin

lemma send_response_reply:
  "is_record E data \<Longrightarrow> send_response E p data response w =
   reply E p (json_child E data (rpc_ID E)) response w"
  by (simp add: send_response_def reply_def get_child catch_sendMessage)

lemma handleMessage_path:
  assumes "path_message E data path"
  shows "handleMessage E p data w = (case m_stateCallbacks (peers w p) path of
      Some cb \<Rightarrow> handle_state E p cb path data w
    | None \<Rightarrow> (case m_methodCallbacks (peers w p) path of
        Some cb \<Rightarrow> handle_method E p cb data w
      | None \<Rightarrow> Some (Inr (), w)))"
  using assms by (simp add: path_message_def handleMessage_def get_child split: option.splits)

lemma handle_state_set:
  assumes "set_message E data path value" and "\<not> isNull E value"
  shows "handle_state E p cb path data w =
    bnd (case cb of
        None \<Rightarrow> ret (read_only_response E)
      | Some u \<Rightarrow> try_catch (set_state E p u value path) (\<lambda>e. ret (error_response E e (json_null E))))
      (reply E p (json_child E data (rpc_ID E))) w"
proof -
  have "send_response E p data = reply E p (json_child E data (rpc_ID E))"
    using assms by (intro HOL.ext send_response_reply) (simp add: set_message_def path_message_def)
  moreover have "json_get2 E data (rpc_PARAMS E) VALUE = Inr value"
    using assms by (simp add: set_message_def path_message_def get2_record get_child)
  ultimately show ?thesis using assms(2) by (simp add: handle_state_def)
qed

lemma state_accepted:
  assumes msg: "set_message E data path value" "\<not> isNull E value"
    and reg: "m_stateCallbacks (peers w p) path = Some (Some u)"
    and cb: "run_state E u value path w = Some (Inr res, w1)"
    and sent: "(if isNull E (cb_value res) then ret ()
      else sendMessage E p (change_doc E path (cb_value res))) w1 = Some (Inr (), w2)"
  shows "handleMessage E p data w = reply E p (json_child E data (rpc_ID E))
      (state_result E (cb_result res) (json_null E)) w2"
proof -
  have "set_state E p u value path w = Some (Inr (state_result E (cb_result res) (json_null E)), w2)"
    using cb sent by (cases "isNull E (cb_value res)") (simp_all add: set_state_def)
  then show ?thesis
    using handleMessage_path [of data path p w] reg msg handle_state_set [OF msg, of p "Some u" w]
    by (simp add: set_message_def)
qed

lemma state_rejected:
  assumes msg: "set_message E data path value" "\<not> isNull E value"
    and reg: "m_stateCallbacks (peers w p) path = Some (Some u)"
    and cb: "run_state E u value path w = Some (Inl e, w1)"
  shows "handleMessage E p data w = reply E p (json_child E data (rpc_ID E))
      (error_response E e (json_null E)) w1"
proof -
  have "set_state E p u value path w = Some (Inl e, w1)"
    using cb by (simp add: set_state_def)
  then show ?thesis
    using handleMessage_path [of data path p w] reg msg handle_state_set [OF msg, of p "Some u" w]
    by (simp add: set_message_def)
qed

text \<open>A method call, for every outcome of the callback.\<close>

lemma method_outcome:
  assumes msg: "path_message E data path"
    and reg: "m_stateCallbacks (peers w p) path = None"
      "m_methodCallbacks (peers w p) path = Some (Some u)"
    and cb: "run_method E u (json_child E data (rpc_PARAMS E)) w = Some (r, w1)"
  shows "handleMessage E p data w = reply E p (json_child E data (rpc_ID E)) (case r of
      Inl e \<Rightarrow> error_response E e (method_response_base E)
    | Inr result \<Rightarrow> json_put E (method_response_base E) (rpc_RESULT E) result) w1"
proof -
  have "handle_method E p (Some u) data w = reply E p (json_child E data (rpc_ID E)) (case r of
      Inl e \<Rightarrow> error_response E e (method_response_base E)
    | Inr result \<Rightarrow> json_put E (method_response_base E) (rpc_RESULT E) result) w1"
    using msg cb by (cases r) (simp_all add: handle_method_def path_message_def call_method_def
        get_child send_response_reply)
  then show ?thesis using handleMessage_path [OF msg, of p w] reg by simp
qed

lemma method_result_doc:
  "json_get E (json_put E (method_response_base E) (rpc_RESULT E) v) (rpc_RESULT E) = Inr v"
  "json_isMember E (json_put E (method_response_base E) (rpc_RESULT E) v) (rpc_ERR E) = Inr False"
  using method_base by (simp_all add: method_response_base_def)

end

interpretation rpc_model_env: rpc_env "rpc_model wr rd st ext" for wr rd st ext
  by unfold_locales

interpretation demo_rpc: rpc_env demo_env
  by unfold_locales

section \<open>Properties\<close>

text \<open>A peer with a state, a read-only state and a method, and messages for them.\<close>

definition demo_states :: "(json, demo_cb, demo_ext) world" where
  "demo_states = upd_peer 0 (\<lambda>q. q\<lparr>
     m_stateCallbacks := [''s'' \<mapsto> Some (Log 9), ''t'' \<mapsto> Some (Throw 8 (RuntimeError ''no'')), ''r'' \<mapsto> None],
     m_methodCallbacks := [''m'' \<mapsto> Some (Log 7), ''n'' \<mapsto> Some (Throw 6 (JsonrpcException 5 ''no''))]\<rparr>)
     (initial demo_start)"

definition demo_set :: "string \<Rightarrow> json \<Rightarrow> json" where
  "demo_set path v = JObject [(''method'', JString path), (''params'', JObject [(''value'', v)]),
     (''id'', JUInt 3)]"

lemma demo_set_message:
  "path_message demo_env (demo_set path v) path"
  "set_message demo_env (demo_set path v) path v"
  "json_child demo_env (demo_set path v) ''id'' = JUInt 3"
  "json_child demo_env (demo_set path v) ''params'' = JObject [(''value'', v)]"
  by (simp_all add: demo_set_def set_message_def path_message_def is_record_def json_child_def VALUE_def)

lemma demo_states_fields:
  "m_stateCallbacks (peers demo_states 0) ''s'' = Some (Some (Log 9))"
  "m_stateCallbacks (peers demo_states 0) ''t'' = Some (Some (Throw 8 (RuntimeError ''no'')))"
  "m_stateCallbacks (peers demo_states 0) ''r'' = Some None"
  "m_stateCallbacks (peers demo_states 0) ''m'' = None"
  "m_stateCallbacks (peers demo_states 0) ''n'' = None"
  "m_methodCallbacks (peers demo_states 0) ''m'' = Some (Some (Log 7))"
  "m_methodCallbacks (peers demo_states 0) ''n'' = Some (Some (Throw 6 (JsonrpcException 5 ''no'')))"
  "ext demo_states = demo_start"
  by (simp_all add: demo_states_def initial_def)

text \<open>
  C14: a set request for a registered state calls its callback with the value.  If the callback
  reports a changed value, the change notification is sent first; then the request is answered (if it
  has an id) with a result and no error.  A method registered under the same path is not called.
\<close>

theorem set_state_accepted:
  assumes "jsonrpc E" and msg: "set_message E data path value" "\<not> isNull E value"
    and reg: "m_stateCallbacks (peers w p) path = Some (Some u)"
    and cb: "run_state E u value path w = Some (Inr res, w1)"
    and sent: "(if isNull E (cb_value res) then ret ()
      else sendMessage E p (change_doc E path (cb_value res))) w1 = Some (Inr (), w2)"
  shows "handleMessage E p data w = reply E p (json_child E data (rpc_ID E))
      (state_result E (cb_result res) (json_null E)) w2 \<and>
    json_isMember E (state_result E (cb_result res) (json_null E)) (rpc_RESULT E) = Inr True \<and>
    json_isMember E (state_result E (cb_result res) (json_null E)) (rpc_ERR E) = Inr False"
  using rpc_env.state_accepted [OF rpc_env.intro [OF assms(1)] msg reg cb sent]
    jsonrpc.state_result_member [OF assms(1)] by simp

theorem set_state_accepted_witness:
  "\<exists>w'. handleMessage demo_env 0 (demo_set ''s'' (JBool True)) demo_states = Some (Inr (), w') \<and>
    calls (ext w') = [(9, JBool True)] \<and>
    (\<exists>resp. sent (ext w') = frame (jwrite (change_doc demo_env ''s'' (JBool True))) @ frame (jwrite resp) \<and>
       resp = JObject [(''result'', JObject []), (''id'', JUInt 3)])"
proof -
  define w2 where "w2 = demo_states\<lparr>ext := demo_start\<lparr>calls := [(9, JBool True)],
    sent := frame (jwrite (change_doc demo_env ''s'' (JBool True)))\<rparr>\<rparr>"
  have "handleMessage demo_env 0 (demo_set ''s'' (JBool True)) demo_states =
      reply demo_env 0 (JUInt 3) (JObject [(''result'', JObject [])]) w2"
    using set_state_accepted [OF dj.jsonrpc_axioms demo_set_message(2), of "JBool True" demo_states 0
        "''s''" "Log 9" "SetStateCbResult_value (JBool True)" "record_call 9 (JBool True) demo_states" w2]
    by (simp add: demo_states_fields demo_set_message SetStateCbResult_value_def state_result_def
        SetStateResult_default_def WARN_NONE_def demo_sendMessage demo_start_def w2_def
        record_call_def MAX_MESSAGE_SIZE_def change_doc_def jet_key_defs jet_request_defs)
  then show ?thesis
    by (simp add: reply_def demo_sendMessage w2_def demo_start_def MAX_MESSAGE_SIZE_def)
qed

text \<open>
  C15: if the callback of a state throws, no change is notified, and the request is answered with an
  error whose code and message are those of the exception: its own for JSON-RPC exceptions, internal
  error with the text of \<open>what()\<close> for other standard exceptions and a fixed text for the rest.
\<close>

theorem set_state_rejected:
  assumes "jsonrpc E" and msg: "set_message E data path value" "\<not> isNull E value"
    and reg: "m_stateCallbacks (peers w p) path = Some (Some u)"
    and cb: "run_state E u value path w = Some (Inl e, w1)"
  shows "handleMessage E p data w = reply E p (json_child E data (rpc_ID E))
      (error_response E e (json_null E)) w1 \<and>
    is_error E (error_response E e (json_null E)) (exn_code E e) (exn_text e)"
  using rpc_env.state_rejected [OF rpc_env.intro [OF assms(1)] msg reg cb]
    jsonrpc.error_response_null [OF assms(1)] by simp

theorem set_state_rejected_witness:
  "\<exists>w'. handleMessage demo_env 0 (demo_set ''t'' (JInt 1)) demo_states = Some (Inr (), w') \<and>
    calls (ext w') = [(8, JInt 1)]"
proof -
  have "handleMessage demo_env 0 (demo_set ''t'' (JInt 1)) demo_states =
      reply demo_env 0 (JUInt 3) (error_response demo_env (RuntimeError ''no'') JNull)
        (record_call 8 (JInt 1) demo_states)"
    using set_state_rejected [OF dj.jsonrpc_axioms demo_set_message(2) _ demo_states_fields(2),
        of "JInt 1" "RuntimeError ''no''" "record_call 8 (JInt 1) demo_states"]
    by (simp add: demo_set_message)
  then show ?thesis
    by (simp add: reply_def demo_sendMessage demo_states_fields demo_start_def MAX_MESSAGE_SIZE_def
        error_response_def put_error_def json_put2_def json_child_def)
qed

text \<open>A set request for a read-only state is answered with an error; nothing else happens.\<close>

lemma set_state_read_only:
  assumes "jsonrpc E" and msg: "set_message E data path value" "\<not> isNull E value"
    and reg: "m_stateCallbacks (peers w p) path = Some None"
  shows "handleMessage E p data w =
      reply E p (json_child E data (rpc_ID E)) (read_only_response E) w \<and>
    is_error E (read_only_response E) (rpc_internalError E) ''state is read only!''"
proof -
  have E: "rpc_env E" using assms(1) by (rule rpc_env.intro)
  show ?thesis
    using rpc_env.handleMessage_path [OF E, of data path p w] reg msg
      rpc_env.handle_state_set [OF E msg, of p None w] jsonrpc.put_error_null [OF assms(1)]
    by (simp add: set_message_def read_only_response_def)
qed

text \<open>
  A set request with a null value (or none) is dropped: the callback is not called, and the
  request is not answered even if it has an id.
\<close>

lemma set_null_ignored:
  assumes "jsonrpc E" and "set_message E data path value" and "isNull E value"
    and "m_stateCallbacks (peers w p) path = Some cb"
  shows "handleMessage E p data w = Some (Inr (), w)"
proof -
  have E: "rpc_env E" using assms(1) by (rule rpc_env.intro)
  have "json_get2 E data (rpc_PARAMS E) VALUE = Inr value"
    using assms(2) jsoncpp.get2_record [of E] jsoncpp.get_child [of E] jsonrpc.axioms(1) [OF assms(1)]
    by (simp add: set_message_def path_message_def)
  then show ?thesis
    using rpc_env.handleMessage_path [OF E, of data path p w] assms(2-4)
    by (simp add: set_message_def handle_state_def)
qed

text \<open>
  C16: a call of a registered method runs its callback with the parameters and answers with its
  result and no error.
\<close>

theorem method_answered:
  assumes "jsonrpc E" and msg: "path_message E data path"
    and reg: "m_stateCallbacks (peers w p) path = None"
      "m_methodCallbacks (peers w p) path = Some (Some u)"
    and cb: "run_method E u (json_child E data (rpc_PARAMS E)) w = Some (Inr result, w1)"
  shows "\<exists>response. handleMessage E p data w = reply E p (json_child E data (rpc_ID E)) response w1 \<and>
    json_get E response (rpc_RESULT E) = Inr result \<and> json_isMember E response (rpc_ERR E) = Inr False"
  using rpc_env.method_outcome [OF rpc_env.intro [OF assms(1)] msg reg cb]
    rpc_env.method_result_doc [OF rpc_env.intro [OF assms(1)]]
  by (intro exI [of _ "json_put E (method_response_base E) (rpc_RESULT E) result"]) simp

theorem method_answered_witness:
  "\<exists>response. handleMessage demo_env 0 (demo_set ''m'' (JInt 1)) demo_states =
       reply demo_env 0 (JUInt 3) response (record_call 7 (JObject [(''value'', JInt 1)]) demo_states) \<and>
     jget response ''result'' = Inr (JObject [(''value'', JInt 1)])"
  using method_answered [OF dj.jsonrpc_axioms demo_set_message(1) demo_states_fields(4,6),
      of "JInt 1" "JObject [(''value'', JInt 1)]"
      "record_call 7 (JObject [(''value'', JInt 1)]) demo_states"]
  by (auto simp: demo_set_message)

text \<open>
  C37: if a method callback throws and the call of the callback is evaluated before the left side of
  the assignment, the call is answered with an error that has the code and text of the exception.
\<close>

theorem method_rejected:
  assumes "jsonrpc E" and msg: "path_message E data path"
    and reg: "m_stateCallbacks (peers w p) path = None"
      "m_methodCallbacks (peers w p) path = Some (Some u)"
    and cb: "run_method E u (json_child E data (rpc_PARAMS E)) w = Some (Inl e, w1)"
    and order: "\<not> lhs_first E"
  shows "\<exists>response. handleMessage E p data w = reply E p (json_child E data (rpc_ID E)) response w1 \<and>
    is_error E response (exn_code E e) (exn_text e)"
  using rpc_env.method_outcome [OF rpc_env.intro [OF assms(1)] msg reg cb] order
    jsonrpc.error_response_null [OF assms(1)] by (auto simp: method_response_base_def)

theorem method_rejected_witness:
  "\<exists>response. handleMessage (demo_env\<lparr>lhs_first := False\<rparr>) 0 (demo_set ''n'' (JInt 1)) demo_states =
       reply (demo_env\<lparr>lhs_first := False\<rparr>) 0 (JUInt 3) response
         (record_call 6 (JObject [(''value'', JInt 1)]) demo_states) \<and>
     is_error (demo_env\<lparr>lhs_first := False\<rparr>) response 5 ''no''"
proof -
  let ?E = "demo_env\<lparr>lhs_first := False\<rparr>" and ?d = "demo_set ''n'' (JInt 1)"
  have "path_message ?E ?d ''n''" "json_child ?E ?d (rpc_PARAMS ?E) = JObject [(''value'', JInt 1)]"
      "json_child ?E ?d (rpc_ID ?E) = JUInt 3"
    by (simp_all add: path_message_def is_record_def json_child_def demo_set_def)
  then show ?thesis
    using method_rejected [OF demo_variants(3) _ demo_states_fields(5,7), of False ?d
        "JsonrpcException 5 ''no''" "record_call 6 (JObject [(''value'', JInt 1)]) demo_states"]
    by simp
qed

text \<open>
  If the left side of \<open>response[RESULT] = callback(params)\<close> is evaluated first, which C++11
  allows, a method that throws (anything but \<open>jsoncpprpcException\<close>) is answered with a document that
  has both an error and a (null) result.
\<close>

lemma method_error_with_result:
  assumes "jsonrpc E" and msg: "path_message E data path"
    and reg: "m_stateCallbacks (peers w p) path = None"
      "m_methodCallbacks (peers w p) path = Some (Some u)"
    and cb: "run_method E u (json_child E data (rpc_PARAMS E)) w = Some (Inl e, w1)"
    and order: "lhs_first E" and e: "\<And>x. e \<noteq> JsoncppRpcException x"
  shows "\<exists>response. handleMessage E p data w = reply E p (json_child E data (rpc_ID E)) response w1 \<and>
    json_isMember E response (rpc_ERR E) = Inr True \<and> json_isMember E response (rpc_RESULT E) = Inr True"
  using rpc_env.method_outcome [OF rpc_env.intro [OF assms(1)] msg reg cb]
    jsonrpc.error_keeps_result [OF assms(1), of e] e order
  by (auto simp: method_response_base_def)

text \<open>
  A notification with the id of a registered fetch calls the callback of that fetch, and no
  other, with the parameters and status 0; nothing is sent and what the callback throws is swallowed.
\<close>

lemma notification_delivered:
  assumes "jsonrpc E" and "is_record E data"
    and "json_type E (json_child E data (rpc_METHOD E)) = intValue"
    and "json_asInt E (json_child E data (rpc_METHOD E)) = Inr fetchId"
    and "map_of (m_fetchers (peers w p)) fetchId = Some fetcher" and "fetch_callback fetcher = Some u"
    and "run_fetch E u (json_child E data (rpc_PARAMS E)) 0 w = Some (r, w1)"
  shows "handleMessage E p data w = Some (Inr (), w1)"
proof -
  have "try_catch (run_fetch E u (json_child E data (rpc_PARAMS E)) 0) (\<lambda>_. ret ()) w = Some (Inr (), w1)"
    using assms(7) by (rule try_catch_ret_total)
  with assms(2-6) show ?thesis
    by (simp add: handleMessage_def handle_notification_def call_fetch_def
        jsoncpp.get_child [OF jsonrpc.axioms(1) [OF assms(1)]])
qed

text \<open>
  A message for a path that is neither a state nor a method, for a fetch id that is not
  registered, or whose method is neither text nor number nor missing, changes nothing, and nothing is
  sent.
\<close>

lemma unmatched_ignored:
  assumes "jsonrpc E"
    and "path_message E data path \<and> m_stateCallbacks (peers w p) path = None \<and>
        m_methodCallbacks (peers w p) path = None \<or>
      is_record E data \<and> json_type E (json_child E data (rpc_METHOD E)) = intValue \<and>
        json_asInt E (json_child E data (rpc_METHOD E)) = Inr fetchId \<and>
        map_of (m_fetchers (peers w p)) fetchId = None \<or>
      is_record E data \<and> json_type E (json_child E data (rpc_METHOD E)) \<in>
        {uintValue, realValue, booleanValue, arrayValue, objectValue}"
  shows "handleMessage E p data w = Some (Inr (), w)"
  using assms(2)
  by (auto simp: handleMessage_def jsoncpp.get_child [OF jsonrpc.axioms(1) [OF assms(1)]]
      path_message_def)

text \<open>
  A message that is valid JSON but of the wrong shape desynchronises the connection.  If a batch
  starts with an element that is no object, the exception of the access leaves \<open>receive\<close>, with the
  length and data buffers still full and an extra zero byte behind the data: the next byte of the
  stream is taken as part of the old message.
\<close>

lemma mistyped_batch_escapes:
  assumes J: "jsonrpc E" and w: "rx_inv (peers w p)" "m_lengthBufferLevel (peers w p) = 4"
      "m_dataBufferLevel (peers w p) = length (m_dataBuffer (peers w p))"
    and parse: "json_parse E (m_dataBuffer (peers w p)) = Some data"
    and data: "json_type E data = arrayValue" "json_elements E data = x # xs" "\<not> is_record E x"
  shows "\<exists>msg w'. receive E p w = Some (Inl (LogicError msg), w') \<and>
    m_lengthBufferLevel (peers w' p) = 4 \<and> m_dataBuffer (peers w' p) = m_dataBuffer (peers w p) @ [0] \<and>
    m_dataBufferLevel (peers w' p) = length (m_dataBuffer (peers w p))"
proof -
  obtain msg where msg: "json_get E x (rpc_METHOD E) = Inl (LogicError msg)"
    using jsoncpp.get_mistyped [OF jsonrpc.axioms(1) [OF J] data(3)] by blast
  define w1 where "w1 = upd_peer p (\<lambda>q. q\<lparr>m_dataBuffer := m_dataBuffer q @ [0]\<rparr>) w"
  have "receiveCallback E p data v = Some (Inl (LogicError msg), v)" for v
    using data msg by (simp add: receiveCallback_def handleMessage_def)
  then have "process_package E p w = Some (Inl (LogicError msg), w1)"
    using parse by (simp add: process_package_def w1_def)
  moreover have "receive_length E p w = Some (Inr Continue, w)" "receive_data E p w = Some (Inr Continue, w)"
    using w(2,3) by (simp_all add: receive_length.simps [of E p w] receive_data.simps [of E p w])
  ultimately have "receive E p w = Some (Inl (LogicError msg), w1)"
    by (simp add: receive.simps [of E p w])
  then show ?thesis using w(2,3) by (simp add: w1_def)
qed

end
