(* ===== verification/Peer_Mock.thy ===== *)
theory Peer_Mock
  imports Dispatch_Properties
begin

text \<open>
  include/jet/peerasyncmock.hpp: a stand-in for \<open>PeerAsync\<close> in unit tests that calls state and method
  callbacks directly.  \<open>std::map\<close> lookups through \<open>operator[]\<close> insert a default element, also when an
  operation only means to look.  Callbacks act on a state \<open>'x\<close> of their own.
\<close>

record ('j, 'u) MockedState =
  stateCallback :: "'u option"
  mock_value :: 'j

record ('j, 'u, 'x) mock =
  m_states :: "string \<rightharpoonup> ('j, 'u) MockedState"
  m_methods :: "string \<rightharpoonup> 'u option"
  mock_id :: uint32                       \<comment> \<open>static, shared by all mocks\<close>
  cb_world :: 'x

type_synonym ('j, 'u, 'x, 'a) mock_prog = "(('j, 'u, 'x) mock, 'j exn, 'a) prog"

text \<open>What the user's callbacks do.\<close>

record ('j, 'u, 'x) mock_cbs =
  cbs_response :: "'u \<Rightarrow> 'j \<Rightarrow> 'x \<Rightarrow> ('j exn + unit) \<times> 'x"
  cbs_state :: "'u \<Rightarrow> 'j \<Rightarrow> string \<Rightarrow> 'x \<Rightarrow> ('j exn + 'j SetStateCbResult) \<times> 'x"
  cbs_method :: "'u \<Rightarrow> 'j \<Rightarrow> 'x \<Rightarrow> ('j exn + 'j) \<times> 'x"

definition on_ext :: "('x \<Rightarrow> ('j exn + 'a) \<times> 'x) \<Rightarrow> ('j, 'u, 'x, 'a) mock_prog" where
  "on_ext f = (\<lambda>m. case f (cb_world m) of (r, x) \<Rightarrow> Some (r, m\<lparr>cb_world := x\<rparr>))"

text \<open>The block that reports success of adding, with the next id.\<close>

definition mock_added :: "('j, 'z) jsonrpc_scheme \<Rightarrow> ('j, 'u, 'x) mock_cbs \<Rightarrow> 'u option
    \<Rightarrow> ('j, 'u, 'x, unit) mock_prog" where
  "mock_added J C resultCallback = (case resultCallback of
       None \<Rightarrow> ret ()
     | Some cb \<Rightarrow>
         seq (modify (\<lambda>m. m\<lparr>mock_id := mock_id m + 1\<rparr>))
        (bnd (gets mock_id) (\<lambda>i.
           on_ext (cbs_response C cb (json_put J (json_put J (json_null J) (rpc_ID J) (json_uint J i))
             (rpc_RESULT J) (json_object J))))))"

definition mock_addStateAsync :: "('j, 'z) jsonrpc_scheme \<Rightarrow> ('j, 'u, 'x) mock_cbs \<Rightarrow> string \<Rightarrow> 'j
    \<Rightarrow> 'u option \<Rightarrow> 'u option \<Rightarrow> ('j, 'u, 'x, unit) mock_prog" where
  "mock_addStateAsync J C path value resultCallback callback =
     seq (modify (\<lambda>m. m\<lparr>m_states := (m_states m)(path \<mapsto>
            \<lparr>stateCallback = callback, mock_value = value\<rparr>)\<rparr>))
       (mock_added J C resultCallback)"

definition mock_addMethodAsync :: "('j, 'z) jsonrpc_scheme \<Rightarrow> ('j, 'u, 'x) mock_cbs \<Rightarrow> string
    \<Rightarrow> 'u option \<Rightarrow> 'u option \<Rightarrow> ('j, 'u, 'x, unit) mock_prog" where
  "mock_addMethodAsync J C path resultCallback callback =
     seq (modify (\<lambda>m. m\<lparr>m_methods := (m_methods m)(path \<mapsto> callback)\<rparr>))
       (mock_added J C resultCallback)"

definition mock_addMethodAsync_timeout :: "('j, 'z) jsonrpc_scheme \<Rightarrow> ('j, 'u, 'x) mock_cbs \<Rightarrow> string
    \<Rightarrow> double \<Rightarrow> 'u option \<Rightarrow> 'u option \<Rightarrow> ('j, 'u, 'x, unit) mock_prog" where
  "mock_addMethodAsync_timeout J C path timeout_s resultCallback callback =
     mock_addMethodAsync J C path resultCallback callback"

definition mock_removeStateAsync :: "string \<Rightarrow> ('j, 'u, 'x, unit) mock_prog" where
  "mock_removeStateAsync path = modify (\<lambda>m. m\<lparr>m_states := (m_states m)(path := None)\<rparr>)"

definition mock_removeMethodAsync :: "string \<Rightarrow> ('j, 'u, 'x, unit) mock_prog" where
  "mock_removeMethodAsync path = modify (\<lambda>m. m\<lparr>m_methods := (m_methods m)(path := None)\<rparr>)"

text \<open>\<open>m_states[path]\<close>\<close>

definition state_at :: "('j, 'z) jsonrpc_scheme \<Rightarrow> string \<Rightarrow> ('j, 'u, 'x) mock \<Rightarrow> ('j, 'u) MockedState" where
  "state_at J path m = (case m_states m path of
     Some st \<Rightarrow> st | None \<Rightarrow> \<lparr>stateCallback = None, mock_value = json_null J\<rparr>)"

definition touch_state :: "('j, 'z) jsonrpc_scheme \<Rightarrow> string \<Rightarrow> ('j, 'u, 'x, ('j, 'u) MockedState) mock_prog" where
  "touch_state J path = bnd (gets (state_at J path)) (\<lambda>st.
     seq (modify (\<lambda>m. m\<lparr>m_states := (m_states m)(path \<mapsto> st)\<rparr>)) (ret st))"

definition mock_response :: "('j, 'z) jsonrpc_scheme \<Rightarrow> SetStateResult \<Rightarrow> 'j" where
  "mock_response J r =
     (let response = json_null J in
      if code r \<noteq> 0 then
        (let response = json_put3 J response (rpc_RESULT J) WARNING (rpc_CODE J) (json_int J (code r))
         in if message r \<noteq> [] then
              json_put3 J response (rpc_RESULT J) WARNING (rpc_MESSAGE J) (json_string J (message r))
            else response)
      else json_put J response (rpc_RESULT J) (json_object J))"

definition mock_setStateValueAsync :: "('j, 'z) jsonrpc_scheme \<Rightarrow> ('j, 'u, 'x) mock_cbs \<Rightarrow> string \<Rightarrow> 'j
    \<Rightarrow> 'u option \<Rightarrow> ('j, 'u, 'x, unit) mock_prog" where
  "mock_setStateValueAsync J C path value resultCallback =
     bnd (touch_state J path) (\<lambda>st.
     bnd (case stateCallback st of
            None \<Rightarrow> raise BadFunctionCall
          | Some u \<Rightarrow> on_ext (cbs_state C u value path)) (\<lambda>cbResult.
     case resultCallback of
       None \<Rightarrow> ret ()
     | Some cb \<Rightarrow>
         seq (modify (\<lambda>m. m\<lparr>m_states := (m_states m)(path \<mapsto> (state_at J path m)\<lparr>mock_value := value\<rparr>)\<rparr>))
           (on_ext (cbs_response C cb (mock_response J (cb_result cbResult))))))"

definition mock_setStateValueAsync_timeout :: "('j, 'z) jsonrpc_scheme \<Rightarrow> ('j, 'u, 'x) mock_cbs \<Rightarrow> string
    \<Rightarrow> 'j \<Rightarrow> double \<Rightarrow> 'u option \<Rightarrow> ('j, 'u, 'x, unit) mock_prog" where
  "mock_setStateValueAsync_timeout J C path value timeout_s resultCallback =
     mock_setStateValueAsync J C path value resultCallback"

definition mock_callMethodAsync_timeout :: "('j, 'z) jsonrpc_scheme \<Rightarrow> ('j, 'u, 'x) mock_cbs \<Rightarrow> string
    \<Rightarrow> 'j \<Rightarrow> double \<Rightarrow> 'u option \<Rightarrow> ('j, 'u, 'x, unit) mock_prog" where
  "mock_callMethodAsync_timeout J C path args timeout_s resultCallback =
     seq (modify (\<lambda>m. m\<lparr>m_methods := (m_methods m)(path \<mapsto>
            (case m_methods m path of Some cb \<Rightarrow> cb | None \<Rightarrow> None))\<rparr>))
    (bnd (gets (\<lambda>m. case m_methods m path of Some cb \<Rightarrow> cb | None \<Rightarrow> None)) (\<lambda>cb.
     bnd (case cb of None \<Rightarrow> raise BadFunctionCall | Some u \<Rightarrow> on_ext (cbs_method C u args)) (\<lambda>result.
     case resultCallback of
       None \<Rightarrow> ret ()
     | Some rcb \<Rightarrow> on_ext (cbs_response C rcb
         (json_put J (json_null J) (rpc_RESULT J) result)))))"

text \<open>The overload without a timeout uses two seconds.\<close>

definition mock_callMethodAsync :: "('j, 'z) jsonrpc_scheme \<Rightarrow> ('j, 'u, 'x) mock_cbs \<Rightarrow> string \<Rightarrow> 'j
    \<Rightarrow> 'u option \<Rightarrow> ('j, 'u, 'x, unit) mock_prog" where
  "mock_callMethodAsync J C path args resultCallback =
     mock_callMethodAsync_timeout J C path args 0x4000000000000000 resultCallback"

section \<open>Properties\<close>

text \<open>
  Setting a state through the mock, if the state callback returns: the result callback gets what a peer
  would answer, with warning code and message, but without the request id that defines.h documents.
\<close>

lemma mock_answers_like_peer:
  assumes "m_states m path = Some st" and "stateCallback st = Some u"
    and "cbs_state C u value path (cb_world m) = (Inr res, x)"
    and "cbs_response C cb (state_result J (cb_result res) (json_null J)) x = (r, x')"
  shows "\<exists>m'. mock_setStateValueAsync J C path value (Some cb) m = Some (r, m') \<and> cb_world m' = x' \<and>
    map_option mock_value (m_states m' path) = Some value"
proof -
  have "mock_response J (cb_result res) = state_result J (cb_result res) (json_null J)"
    by (simp add: mock_response_def state_result_def Let_def)
  with assms show ?thesis
    by (simp add: mock_setStateValueAsync_def touch_state_def state_at_def on_ext_def bnd_def seq_def)
qed

text \<open>
  If the state callback throws, the exception leaves \<open>setStateValueAsync\<close> of the mock and the result
  callback is not called; a peer would answer with an error.
\<close>

lemma mock_lets_exception_escape:
  assumes "m_states m path = Some st" and "stateCallback st = Some u"
    and "cbs_state C u value path (cb_world m) = (Inl e, x)"
  shows "mock_setStateValueAsync J C path value (Some cb) m = Some (Inl e, m\<lparr>cb_world := x\<rparr>)"
proof -
  have "m\<lparr>m_states := (m_states m)(path \<mapsto> st)\<rparr> = m"
    using assms(1) by (cases m) (simp add: fun_upd_idem)
  with assms show ?thesis
    by (simp add: mock_setStateValueAsync_def touch_state_def state_at_def on_ext_def bnd_def seq_def)
qed

text \<open>
  The mock stores the new value only if a result callback is given: without one the state
  callback runs, but the stored value stays the old one.
\<close>

lemma mock_forgets_value:
  assumes "m_states m path = Some st" and "stateCallback st = Some u"
    and "cbs_state C u value path (cb_world m) = (Inr res, x)"
  shows "mock_setStateValueAsync J C path value None m = Some (Inr (), m\<lparr>cb_world := x\<rparr>)"
proof -
  have "m\<lparr>m_states := (m_states m)(path \<mapsto> st)\<rparr> = m"
    using assms(1) by (cases m) (simp add: fun_upd_idem)
  with assms show ?thesis
    by (simp add: mock_setStateValueAsync_def touch_state_def state_at_def on_ext_def bnd_def seq_def)
qed

end
