(* ===== verification/Simulation.thy ===== *)
theory Simulation
  imports Peer_State
begin

text \<open>
  lib_simulation/peerasync.cpp and lib_simulation/peer.cpp: the library to link against where there is
  no jet daemon.  Every request that has a result callback is answered at once with the result 1;
  registrations, messages and the connection do nothing.
\<close>

section \<open>lib_simulation/peerasync.cpp\<close>

definition sim_sendResult :: "('j, 'u, 'x, 'z) env_scheme \<Rightarrow> 'u option \<Rightarrow> ('j, 'u, 'x, unit) peer_prog" where
  "sim_sendResult E resultCb = (case resultCb of
       None \<Rightarrow> ret ()
     | Some u \<Rightarrow> run_response E u (json_put E (json_null E) (rpc_RESULT E) (json_int E 1)))"

text \<open>Construction fills the members but does not connect; destruction does nothing.\<close>

definition sim_PeerAsync :: "pid \<Rightarrow> string \<Rightarrow> uint32 \<Rightarrow> string \<Rightarrow> bool \<Rightarrow> byte list
    \<Rightarrow> ('j, 'u, 'x, unit) peer_prog" where
  "sim_PeerAsync p address port name debug lengthBuffer =
     modify (upd_peer p (\<lambda>_. \<lparr>m_address = address, m_port = port, m_name = name,
        m_debug = debug, m_dataCb = False, m_stopped = False,
        m_bigEndianLengthBuffer = take 4 (lengthBuffer @ replicate 4 0),
        m_lengthBufferLevel = 0, m_stateCallbacks = Map.empty, m_methodCallbacks = Map.empty,
        m_fetchers = [], m_dataBuffer = [], m_dataBufferLevel = 0\<rparr>))"

definition sim_destroy :: "('j, 'u, 'x, unit) peer_prog" where "sim_destroy = ret ()"

definition sim_fetcher_default :: "'u fetcher_t" where
  "sim_fetcher_default = \<lparr>fetch_callback = None, fetch_matcher = matcher_default\<rparr>"

definition sim_fetcher_of :: "'u option \<Rightarrow> matcher_t \<Rightarrow> 'u fetcher_t" where
  "sim_fetcher_of cb m = \<lparr>fetch_callback = cb, fetch_matcher = m\<rparr>"

definition sim_start :: "('j, 'u, 'x, unit) peer_prog" where "sim_start = ret ()"
definition sim_stop :: "('j, 'u, 'x, unit) peer_prog" where "sim_stop = ret ()"
definition sim_resume :: "('j, 'u, 'x, bool) peer_prog" where "sim_resume = ret True"
definition sim_receive :: "('j, 'u, 'x, int32) peer_prog" where "sim_receive = ret 0"

definition sim_configAsync :: "('j, 'u, 'x, 'z) env_scheme \<Rightarrow> string \<Rightarrow> bool \<Rightarrow> 'u option
    \<Rightarrow> ('j, 'u, 'x, unit) peer_prog" where
  "sim_configAsync E name debug resultCb = sim_sendResult E resultCb"

definition sim_callMethodAsync :: "('j, 'u, 'x, 'z) env_scheme \<Rightarrow> string \<Rightarrow> 'j \<Rightarrow> 'u option
    \<Rightarrow> ('j, 'u, 'x, unit) peer_prog" where
  "sim_callMethodAsync E path args resultCb = sim_sendResult E resultCb"

definition sim_addMethodAsync :: "('j, 'u, 'x, 'z) env_scheme \<Rightarrow> string \<Rightarrow> 'u option \<Rightarrow> 'u option
    \<Rightarrow> ('j, 'u, 'x, unit) peer_prog" where
  "sim_addMethodAsync E path resultCb callback = sim_sendResult E resultCb"

definition sim_addMethodAsync_timeout :: "('j, 'u, 'x, 'z) env_scheme \<Rightarrow> string \<Rightarrow> double \<Rightarrow> 'u option
    \<Rightarrow> 'u option \<Rightarrow> ('j, 'u, 'x, unit) peer_prog" where
  "sim_addMethodAsync_timeout E path timeout_s resultCb callback = sim_sendResult E resultCb"

definition sim_removeMethodAsync :: "('j, 'u, 'x, 'z) env_scheme \<Rightarrow> string \<Rightarrow> 'u option
    \<Rightarrow> ('j, 'u, 'x, unit) peer_prog" where
  "sim_removeMethodAsync E path resultCb = sim_sendResult E resultCb"

definition sim_addStateAsync :: "('j, 'u, 'x, 'z) env_scheme \<Rightarrow> string \<Rightarrow> 'j \<Rightarrow> 'u option \<Rightarrow> 'u option
    \<Rightarrow> ('j, 'u, 'x, unit) peer_prog" where
  "sim_addStateAsync E path value resultCb callback = sim_sendResult E resultCb"

definition sim_addStateAsync_timeout :: "('j, 'u, 'x, 'z) env_scheme \<Rightarrow> string \<Rightarrow> 'j \<Rightarrow> double
    \<Rightarrow> 'u option \<Rightarrow> 'u option \<Rightarrow> ('j, 'u, 'x, unit) peer_prog" where
  "sim_addStateAsync_timeout E path value timeout_s resultCb callback = sim_sendResult E resultCb"

definition sim_removeStateAsync :: "('j, 'u, 'x, 'z) env_scheme \<Rightarrow> string \<Rightarrow> 'u option
    \<Rightarrow> ('j, 'u, 'x, unit) peer_prog" where
  "sim_removeStateAsync E path resultCb = sim_sendResult E resultCb"

definition sim_registration :: "('j, 'u, 'x, unit) peer_prog" where
  "sim_registration = ret ()" \<comment> \<open>\<open>register*\<close>, \<open>unregister*\<close> and \<open>add*ResultCb\<close>\<close>

definition sim_setStateValueAsync :: "('j, 'u, 'x, 'z) env_scheme \<Rightarrow> string \<Rightarrow> 'j \<Rightarrow> 'u option
    \<Rightarrow> ('j, 'u, 'x, unit) peer_prog" where
  "sim_setStateValueAsync E path value responseCb = sim_sendResult E responseCb"

definition sim_getAsync :: "('j, 'u, 'x, 'z) env_scheme \<Rightarrow> matcher_t \<Rightarrow> 'u option
    \<Rightarrow> ('j, 'u, 'x, unit) peer_prog" where
  "sim_getAsync E match resultCb = sim_sendResult E resultCb"

definition sim_createFetchId :: "('j, 'u, 'x, fetchId_t) peer_prog" where
  "sim_createFetchId =
     seq (modify (\<lambda>w. w\<lparr>m_sfetchId := m_sfetchId w + 1\<rparr>)) (gets m_sfetchId)"

definition sim_addFetchAsync :: "('j, 'u, 'x, 'z) env_scheme \<Rightarrow> matcher_t \<Rightarrow> 'u option \<Rightarrow> 'u option
    \<Rightarrow> ('j, 'u, 'x, fetchId_t) peer_prog" where
  "sim_addFetchAsync E match callback responseCb = seq (sim_sendResult E responseCb) sim_createFetchId"

definition sim_restoreFetch :: "matcher_t \<Rightarrow> fetchId_t \<Rightarrow> ('j, 'u, 'x, unit) peer_prog" where
  "sim_restoreFetch match fetchId = ret ()"

definition sim_removeFetchAsync :: "('j, 'u, 'x, 'z) env_scheme \<Rightarrow> fetchId_t \<Rightarrow> 'u option
    \<Rightarrow> ('j, 'u, 'x, unit) peer_prog" where
  "sim_removeFetchAsync E fetchId responseCb = sim_sendResult E responseCb"

definition sim_sendMessage :: "'j \<Rightarrow> ('j, 'u, 'x, unit) peer_prog" where "sim_sendMessage value = ret ()"
definition sim_handleMessage :: "'j \<Rightarrow> ('j, 'u, 'x, unit) peer_prog" where "sim_handleMessage data = ret ()"

text \<open>The template \<open>notifyState\<close> of peerasync.hpp, linked with the \<open>sendMessage\<close> above, and its two
  specialisations for 64 bit numbers.\<close>

definition sim_notifyState :: "('j, 'z) jsonrpc_scheme \<Rightarrow> string \<Rightarrow> 'j \<Rightarrow> ('j, 'u, 'x, int32) peer_prog" where
  "sim_notifyState J path value =
     try_catch (seq (sim_sendMessage (change_doc J path value)) (ret 0)) (\<lambda>_. ret (- 1))"

definition sim_notifyState_uint64 :: "('j, 'z) jsonrpc_scheme \<Rightarrow> string \<Rightarrow> 64 word
    \<Rightarrow> ('j, 'u, 'x, int32) peer_prog" where
  "sim_notifyState_uint64 J path value = sim_notifyState J path (json_u64 J value)"

definition sim_notifyState_int64 :: "('j, 'z) jsonrpc_scheme \<Rightarrow> string \<Rightarrow> 64 word
    \<Rightarrow> ('j, 'u, 'x, int32) peer_prog" where
  "sim_notifyState_int64 J path value = sim_notifyState J path (json_i64 J value)"

definition sim_receiveCallback :: "('j, 'u, 'x, 'z) env_scheme \<Rightarrow> 'j \<Rightarrow> ('j, 'u, 'x, unit) peer_prog" where
  "sim_receiveCallback E data =
     (case json_type E data of
        arrayValue \<Rightarrow> for_each (json_elements E data) sim_handleMessage
      | objectValue \<Rightarrow> sim_handleMessage data
      | _ \<Rightarrow> ret ())"

section \<open>lib_simulation/peer.cpp\<close>

definition sim_Peer_construct :: "pid \<Rightarrow> string \<Rightarrow> uint32 \<Rightarrow> string \<Rightarrow> bool \<Rightarrow> byte list
    \<Rightarrow> ('j, 'u, 'x, unit) peer_prog" where
  "sim_Peer_construct p address port name debug lengthBuffer =
     sim_PeerAsync p address port name debug lengthBuffer"

definition sim_Peer_destroy :: "('j, 'u, 'x, unit) peer_prog" where "sim_Peer_destroy = sim_destroy"

text \<open>Unlike that of the library, the local instance of the simulation names a TCP address.\<close>

definition sim_Peer_local :: "pid \<Rightarrow> byte list \<Rightarrow> bool \<Rightarrow> ('j, 'u, 'x, pid) peer_prog" where
  "sim_Peer_local p lengthBuffer made =
     (if made then ret p
      else seq (sim_Peer_construct p ''127.0.0.1'' JETD_TCP_PORT [] False lengthBuffer) (ret p))"

definition sim_Peer_resume :: "('j, 'u, 'x, bool) peer_prog" where "sim_Peer_resume = ret True"

definition sim_info :: "('j, 'z) jsonrpc_scheme \<Rightarrow> ('j, 'u, 'x, 'j) peer_prog" where
  "sim_info J = ret (json_null J)"

text \<open>\<open>return response[RESULT] = 0\<close> returns the assigned number, not the response.\<close>

definition sim_config :: "('j, 'z) jsonrpc_scheme \<Rightarrow> string \<Rightarrow> bool \<Rightarrow> ('j, 'u, 'x, 'j) peer_prog" where
  "sim_config J name debug = ret (json_int J 0)"

definition sim_callMethod :: "('j, 'z) jsonrpc_scheme \<Rightarrow> string \<Rightarrow> 'j \<Rightarrow> ('j, 'u, 'x, 'j) peer_prog" where
  "sim_callMethod J path args = ret (json_int J 0)"

definition sim_callMethod_timeout :: "('j, 'z) jsonrpc_scheme \<Rightarrow> string \<Rightarrow> 'j \<Rightarrow> double
    \<Rightarrow> ('j, 'u, 'x, 'j) peer_prog" where
  "sim_callMethod_timeout J path args timeout_s = ret (json_int J 0)"

definition sim_addMethod :: "string \<Rightarrow> 'u option \<Rightarrow> ('j, 'u, 'x, unit) peer_prog" where
  "sim_addMethod path callback = ret ()"

definition sim_addState :: "string \<Rightarrow> 'j \<Rightarrow> 'u option \<Rightarrow> ('j, 'u, 'x, unit) peer_prog" where
  "sim_addState path value callback = ret ()"

definition sim_Peer_addStateAsync :: "('j, 'u, 'x, 'z) env_scheme \<Rightarrow> string \<Rightarrow> 'j \<Rightarrow> 'u option \<Rightarrow> 'u option
    \<Rightarrow> ('j, 'u, 'x, unit) peer_prog" where
  "sim_Peer_addStateAsync E path value responseCb stateCb =
     sim_addStateAsync E path value responseCb stateCb"

definition sim_Peer_removeFetchAsync :: "('j, 'u, 'x, 'z) env_scheme \<Rightarrow> fetchId_t \<Rightarrow> 'u option
    \<Rightarrow> ('j, 'u, 'x, unit) peer_prog" where
  "sim_Peer_removeFetchAsync E fetchId responseCb = sim_removeFetchAsync E fetchId responseCb"

definition sim_Peer_removeMethodAsync :: "('j, 'u, 'x, 'z) env_scheme \<Rightarrow> string \<Rightarrow> 'u option
    \<Rightarrow> ('j, 'u, 'x, unit) peer_prog" where
  "sim_Peer_removeMethodAsync E path responseCb = sim_removeMethodAsync E path responseCb"

definition sim_Peer_removeStateAsync :: "('j, 'u, 'x, 'z) env_scheme \<Rightarrow> string \<Rightarrow> 'u option
    \<Rightarrow> ('j, 'u, 'x, unit) peer_prog" where
  "sim_Peer_removeStateAsync E path responseCb = sim_removeStateAsync E path responseCb"

definition sim_Peer_setStateValueAsync :: "('j, 'u, 'x, 'z) env_scheme \<Rightarrow> string \<Rightarrow> 'j \<Rightarrow> 'u option
    \<Rightarrow> ('j, 'u, 'x, unit) peer_prog" where
  "sim_Peer_setStateValueAsync E path value responseCb = sim_setStateValueAsync E path value responseCb"

definition sim_m_fetchId :: uint32 where "sim_m_fetchId = 0" \<comment> \<open>its initial value\<close>

definition sim_addFetch :: "uint32 \<Rightarrow> fetchId_t \<times> uint32" where
  "sim_addFetch m_fetchId = (let m_fetchId = m_fetchId + 1 in (m_fetchId, m_fetchId))"

section \<open>Properties\<close>

text \<open>A batch or a single message of any shape is taken without an exception or effect.\<close>

lemma sim_receive_ignores: "sim_receiveCallback E data w = Some (Inr (), w)"
proof -
  have "for_each xs sim_handleMessage w = Some (Inr (), w)" for xs :: "'a list"
    by (induction xs) (simp_all add: sim_handleMessage_def)
  then show ?thesis
    by (cases "json_type E data") (simp_all add: sim_receiveCallback_def sim_handleMessage_def)
qed

text \<open>
  One call of an operation of the simulation.  The operations that hand on to another one of the list
  (those of \<open>Peer\<close>) are covered by it.
\<close>

inductive sim_step :: "('j, 'u, 'x, 'z) env_scheme \<Rightarrow> ('j, 'u, 'x) world \<Rightarrow> ('j, 'u, 'x) world \<Rightarrow> bool"
  for E :: "('j, 'u, 'x, 'z) env_scheme" where
  construct: "sim_PeerAsync p a n s d lb w = Some (r, w') \<Longrightarrow> sim_step E w w'"
| config: "sim_configAsync E s d cb w = Some (r, w') \<Longrightarrow> sim_step E w w'"
| call: "sim_callMethodAsync E path v cb w = Some (r, w') \<Longrightarrow> sim_step E w w'"
| add_method: "sim_addMethodAsync E path cb mcb w = Some (r, w') \<Longrightarrow> sim_step E w w'"
| add_method_timeout: "sim_addMethodAsync_timeout E path t cb mcb w = Some (r, w') \<Longrightarrow> sim_step E w w'"
| remove_method: "sim_removeMethodAsync E path cb w = Some (r, w') \<Longrightarrow> sim_step E w w'"
| add_state: "sim_addStateAsync E path v cb scb w = Some (r, w') \<Longrightarrow> sim_step E w w'"
| add_state_timeout: "sim_addStateAsync_timeout E path v t cb scb w = Some (r, w') \<Longrightarrow> sim_step E w w'"
| remove_state: "sim_removeStateAsync E path cb w = Some (r, w') \<Longrightarrow> sim_step E w w'"
| set: "sim_setStateValueAsync E path v cb w = Some (r, w') \<Longrightarrow> sim_step E w w'"
| get: "sim_getAsync E m cb w = Some (r, w') \<Longrightarrow> sim_step E w w'"
| add_fetch: "sim_addFetchAsync E m fcb cb w = Some (r1, w') \<Longrightarrow> sim_step E w w'"
| remove_fetch: "sim_removeFetchAsync E i cb w = Some (r, w') \<Longrightarrow> sim_step E w w'"
| notify: "sim_notifyState E path v w = Some (r2, w') \<Longrightarrow> sim_step E w w'"
| receive: "sim_receiveCallback E v w = Some (r, w') \<Longrightarrow> sim_step E w w'"

text \<open>Nothing is registered and nothing is open.\<close>

definition inert :: "('j, 'u, 'x) world \<Rightarrow> bool" where
  "inert w \<longleftrightarrow> m_openRequestCbs w = [] \<and> (\<forall>p. m_stateCallbacks (peers w p) = Map.empty \<and>
     m_methodCallbacks (peers w p) = Map.empty \<and> m_fetchers (peers w p) = [])"

lemma sim_sendResult_inert:
  assumes "\<And>u v. keeps inert (run_response E u v)"
  shows "keeps inert (sim_sendResult E cb)"
  unfolding sim_sendResult_def by (intro keeps_intros assms)

lemmas sim_request_defs = sim_configAsync_def sim_callMethodAsync_def sim_addMethodAsync_def
  sim_addMethodAsync_timeout_def sim_removeMethodAsync_def sim_addStateAsync_def
  sim_addStateAsync_timeout_def sim_removeStateAsync_def sim_setStateValueAsync_def sim_getAsync_def
  sim_removeFetchAsync_def

text \<open>
  Whatever a program does with the simulation, nothing is ever registered and no request stays open,
  provided its response callbacks only use the simulation as well: no state, method or fetch callback
  is ever called.
\<close>

lemma simulation_inert:
  assumes cb: "\<And>u v. keeps inert (run_response E u v)" and "(sim_step E)\<^sup>*\<^sup>* w w'" and "inert w"
  shows "inert w'"
  using assms(2,3)
proof (induction rule: rtranclp_induct)
  case (step w1 w2)
  have sent: "inert w2" if "sim_sendResult E cb w1 = Some (r, w2)" for cb r
    using keepsD [OF sim_sendResult_inert [OF cb]] step that by blast
  have fetch: "keeps inert (seq (sim_sendResult E cb) sim_createFetchId)" for cb
    unfolding sim_createFetchId_def
    by (intro keeps_intros sim_sendResult_inert keeps_modify cb) (simp add: inert_def)
  from step(2) show ?case
  proof cases
    case construct
    with step(3,4) show ?thesis by (auto simp: sim_PeerAsync_def inert_def)
  next
    case add_fetch
    then show ?thesis
      using keepsD [OF fetch] step(3,4) unfolding sim_addFetchAsync_def by blast
  next
    case notify
    with step(3,4) show ?thesis by (auto simp: sim_notifyState_def sim_sendMessage_def)
  next
    case receive
    with step(3,4) show ?thesis by (auto simp: sim_receive_ignores)
  qed (use sent in \<open>simp add: sim_request_defs\<close>)+
qed

end
