(* ===== verification/Fetch_Cache.thy ===== *)
theory Fetch_Cache
  imports Demo_World
begin

text \<open>
  tool/cache.cpp and tool/notifier.cpp: two users of a fetch.  \<open>cache\<close> keeps the last value of every
  matching state under a mutex and calls back while it holds the mutex; \<open>notifier\<close> only calls back.
  The specification of both is \<open>apply_event\<close> on a map from paths to values.  A callback is a token
  whose effect is the parameter \<open>run\<close>; it may use the cache again.  What is printed to the console is
  not modelled.
\<close>

section \<open>tool/cache.cpp\<close>

record ('j, 'u, 'x) cache_state =
  m_cache :: "string \<rightharpoonup> 'j"
  m_cacheMtx :: bool
  m_fetchId :: fetchId_t
  m_addCb :: "'u option"
  m_changeCb :: "'u option"
  m_removeCb :: "'u option"
  cache_ext :: 'x

type_synonym ('j, 'u, 'x, 'a) cache_prog = "(('j, 'u, 'x) cache_state, 'j exn, 'a) prog"
type_synonym ('j, 'u, 'x) cache_run = "'u \<Rightarrow> string \<Rightarrow> 'j \<Rightarrow> ('j, 'u, 'x, unit) cache_prog"

definition cache_locked :: "('j, 'u, 'x, 'a) cache_prog \<Rightarrow> ('j, 'u, 'x, 'a) cache_prog" where
  "cache_locked m = (\<lambda>c. if m_cacheMtx c then None
     else case m (c\<lparr>m_cacheMtx := True\<rparr>) of
         None \<Rightarrow> None
       | Some (r, c') \<Rightarrow> Some (r, c'\<lparr>m_cacheMtx := False\<rparr>))"

text \<open>The constructor fetches with the cache's own callback \<open>u\<close>; the destructor unfetches.\<close>

definition cache_construct :: "('j, 'u, 'x, 'z) env_scheme \<Rightarrow> pid \<Rightarrow> matcher_t \<Rightarrow> 'u
    \<Rightarrow> ('j, 'u, 'x, ('j, 'v, 'y) cache_state \<Rightarrow> ('j, 'v, 'y) cache_state) peer_prog" where
  "cache_construct E p match u =
     bnd (addFetchAsync E p match (Some u) None) (\<lambda>fetchId.
     ret (\<lambda>c. c\<lparr>m_cache := Map.empty, m_cacheMtx := False, m_fetchId := fetchId,
       m_addCb := None, m_changeCb := None, m_removeCb := None\<rparr>))"

definition cache_destroy :: "('j, 'u, 'x, 'z) env_scheme \<Rightarrow> pid \<Rightarrow> ('j, 'v, 'y) cache_state
    \<Rightarrow> ('j, 'u, 'x, unit) peer_prog" where
  "cache_destroy E p c = removeFetchAsync E p (m_fetchId c) None"

definition setCbs :: "'u option \<Rightarrow> 'u option \<Rightarrow> 'u option \<Rightarrow> ('j, 'u, 'x, unit) cache_prog" where
  "setCbs addCb changeCb removeCb =
     modify (\<lambda>c. c\<lparr>m_addCb := addCb, m_changeCb := changeCb, m_removeCb := removeCb\<rparr>)"

definition getEntry :: "('j, 'z) jsoncpp_scheme \<Rightarrow> string \<Rightarrow> ('j, 'u, 'x, 'j) cache_prog" where
  "getEntry J path = cache_locked (gets (\<lambda>c. case m_cache c path of
       Some value \<Rightarrow> value | None \<Rightarrow> json_null J))"

definition call_if_set :: "('j, 'u, 'x) cache_run \<Rightarrow> 'u option \<Rightarrow> string \<Rightarrow> 'j
    \<Rightarrow> ('j, 'u, 'x, unit) cache_prog" where
  "call_if_set run cb path value = (case cb of None \<Rightarrow> ret () | Some u \<Rightarrow> run u path value)"

definition get_string :: "('j, 'z) jsoncpp_scheme \<Rightarrow> 'j \<Rightarrow> string \<Rightarrow> 'j exn + string" where
  "get_string J v key = sum_bind (json_get J v key) (json_asString J)"

definition cache_fetchCb :: "('j, 'z) jsoncpp_scheme \<Rightarrow> ('j, 'u, 'x) cache_run \<Rightarrow> 'j \<Rightarrow> int32
    \<Rightarrow> ('j, 'u, 'x, unit) cache_prog" where
  "cache_fetchCb J run params status =
     (if sint status < 0 then ret ()
      else if isObject J params then
        bnd (lift (get_string J params EVENT)) (\<lambda>event.
        bnd (lift (get_string J params PATH)) (\<lambda>path.
        bnd (lift (json_get J params VALUE)) (\<lambda>value.
        if event = CHANGE then
          cache_locked (seq (modify (\<lambda>c. c\<lparr>m_cache := (m_cache c)(path \<mapsto> value)\<rparr>))
            (bnd (gets m_changeCb) (\<lambda>cb. call_if_set run cb path value)))
        else if event = ADD then
          cache_locked (seq (modify (\<lambda>c. c\<lparr>m_cache := (m_cache c)(path \<mapsto> value)\<rparr>))
            (bnd (gets m_addCb) (\<lambda>cb. call_if_set run cb path value)))
        else if event = REMOVE then
          cache_locked (seq (modify (\<lambda>c. c\<lparr>m_cache := (m_cache c)(path := None)\<rparr>))
            (bnd (gets m_removeCb) (\<lambda>cb. call_if_set run cb path value)))
        else ret ())))
      else ret ())"

section \<open>tool/notifier.cpp\<close>

record 'u notifier_state =
  n_fetchId :: fetchId_t
  n_addCb :: "'u option"
  n_changeCb :: "'u option"
  n_removeCb :: "'u option"

text \<open>The constructor leaves the id of the fetch indeterminate; \<open>garbage_id\<close> is what it happens to be.\<close>

definition notifier_construct :: "fetchId_t \<Rightarrow> 'v notifier_state" where
  "notifier_construct garbage_id =
     \<lparr>n_fetchId = garbage_id, n_addCb = None, n_changeCb = None, n_removeCb = None\<rparr>"

text \<open>\<open>start\<close> only complains about empty callbacks; \<open>u\<close> is the notifier's own fetch callback.\<close>

definition notifier_start :: "('j, 'u, 'x, 'z) env_scheme \<Rightarrow> pid \<Rightarrow> 'v option \<Rightarrow> 'v option \<Rightarrow> 'v option
    \<Rightarrow> matcher_t \<Rightarrow> 'u \<Rightarrow> ('j, 'u, 'x, 'v notifier_state) peer_prog" where
  "notifier_start E p addCb changeCb removeCb match u =
     bnd (addFetchAsync E p match (Some u) None) (\<lambda>fetchId.
     ret \<lparr>n_fetchId = fetchId, n_addCb = addCb, n_changeCb = changeCb, n_removeCb = removeCb\<rparr>)"

definition notifier_stop :: "('j, 'u, 'x, 'z) env_scheme \<Rightarrow> pid \<Rightarrow> 'v notifier_state
    \<Rightarrow> ('j, 'u, 'x, unit) peer_prog" where
  "notifier_stop E p n = removeFetchAsync E p (n_fetchId n) None"

definition notifier_destroy :: "('j, 'u, 'x, 'z) env_scheme \<Rightarrow> pid \<Rightarrow> 'v notifier_state
    \<Rightarrow> ('j, 'u, 'x, unit) peer_prog" where
  "notifier_destroy E p n = removeFetchAsync E p (n_fetchId n) None"

definition call_unchecked :: "('u \<Rightarrow> string \<Rightarrow> 'j \<Rightarrow> ('w, 'j exn, unit) prog) \<Rightarrow> 'u option \<Rightarrow> string \<Rightarrow> 'j
    \<Rightarrow> ('w, 'j exn, unit) prog" where
  "call_unchecked run cb path value =
     (case cb of None \<Rightarrow> raise BadFunctionCall | Some u \<Rightarrow> run u path value)"

definition notifier_fetchCb :: "('j, 'z) jsoncpp_scheme
    \<Rightarrow> ('u \<Rightarrow> string \<Rightarrow> 'j \<Rightarrow> ('w, 'j exn, unit) prog) \<Rightarrow> 'u notifier_state \<Rightarrow> 'j \<Rightarrow> int32
    \<Rightarrow> ('w, 'j exn, unit) prog" where
  "notifier_fetchCb J run n params status =
     (if sint status < 0 then ret ()
      else if \<not> isObject J params then ret ()
      else
        bnd (lift (get_string J params EVENT)) (\<lambda>event.
        bnd (lift (get_string J params PATH)) (\<lambda>path.
        bnd (lift (json_get J params VALUE)) (\<lambda>value.
        if event = CHANGE then call_unchecked run (n_changeCb n) path value
        else if event = ADD then call_unchecked run (n_addCb n) path value
        else if event = REMOVE then call_unchecked run (n_removeCb n) path value
        else ret ()))))"

section \<open>Specification\<close>

datatype 'j event = Added string 'j | Changed string 'j | Removed string 'j

primrec apply_event :: "'j event \<Rightarrow> (string \<rightharpoonup> 'j) \<Rightarrow> (string \<rightharpoonup> 'j)" where
  "apply_event (Added path v) m = m(path \<mapsto> v)"
| "apply_event (Changed path v) m = m(path \<mapsto> v)"
| "apply_event (Removed path v) m = m(path := None)"

primrec event_name :: "'j event \<Rightarrow> string" where
  "event_name (Added path v) = ADD"
| "event_name (Changed path v) = CHANGE"
| "event_name (Removed path v) = REMOVE"

primrec event_path :: "'j event \<Rightarrow> string" where
  "event_path (Added path v) = path"
| "event_path (Changed path v) = path"
| "event_path (Removed path v) = path"

primrec event_value :: "'j event \<Rightarrow> 'j" where
  "event_value (Added path v) = v"
| "event_value (Changed path v) = v"
| "event_value (Removed path v) = v"

text \<open>The parameters of a notification of the event, as the broker sends them.\<close>

definition notifies :: "('j, 'z) jsoncpp_scheme \<Rightarrow> 'j event \<Rightarrow> 'j \<Rightarrow> bool" where
  "notifies J ev params \<longleftrightarrow> isObject J params \<and> get_string J params EVENT = Inr (event_name ev) \<and>
     get_string J params PATH = Inr (event_path ev) \<and> json_get J params VALUE = Inr (event_value ev)"

primrec cache_cb :: "'j event \<Rightarrow> ('j, 'u, 'x) cache_state \<Rightarrow> 'u option" where
  "cache_cb (Added path v) c = m_addCb c"
| "cache_cb (Changed path v) c = m_changeCb c"
| "cache_cb (Removed path v) c = m_removeCb c"

primrec notifier_cb :: "'j event \<Rightarrow> 'u notifier_state \<Rightarrow> 'u option" where
  "notifier_cb (Added path v) n = n_addCb n"
| "notifier_cb (Changed path v) n = n_changeCb n"
| "notifier_cb (Removed path v) n = n_removeCb n"

lemma cache_cb_fun: "cache_cb (Added path v) = m_addCb" "cache_cb (Changed path v) = m_changeCb"
  "cache_cb (Removed path v) = m_removeCb"
  by (simp_all add: fun_eq_iff)

lemma event_names_differ: "CHANGE \<noteq> ADD" "ADD \<noteq> CHANGE" "REMOVE \<noteq> CHANGE" "REMOVE \<noteq> ADD"
  by (simp_all add: jet_request_defs)

lemma cache_fetchCb_event:
  assumes "notifies J ev params" and "0 \<le> sint status"
  shows "cache_fetchCb J run params status =
    cache_locked (seq (modify (\<lambda>c. c\<lparr>m_cache := apply_event ev (m_cache c)\<rparr>))
      (bnd (gets (cache_cb ev)) (\<lambda>cb. call_if_set run cb (event_path ev) (event_value ev))))"
  using assms by (cases ev) (simp_all add: notifies_def cache_fetchCb_def event_names_differ cache_cb_fun)

text \<open>Callbacks that leave the cache and its mutex alone, whether they return or throw.\<close>

locale cache_clients =
  fixes J :: "('j, 'z) jsoncpp_scheme"
    and run :: "('j, 'u, 'x) cache_run"
  assumes run_client: "\<exists>r x. run u path v c = Some (r, c\<lparr>cache_ext := x\<rparr>)"
begin

lemma one_event:
  assumes "notifies J ev params" and "0 \<le> sint status" and "\<not> m_cacheMtx c"
  shows "\<exists>c'. try_catch (cache_fetchCb J run params status) (\<lambda>_. ret ()) c = Some (Inr (), c') \<and>
    m_cache c' = apply_event ev (m_cache c) \<and> \<not> m_cacheMtx c'"
proof -
  define c1 where "c1 = c\<lparr>m_cacheMtx := True, m_cache := apply_event ev (m_cache c)\<rparr>"
  have "\<exists>r c2. call_if_set run cb (event_path ev) (event_value ev) c1 = Some (r, c2) \<and> m_cache c2 = m_cache c1"
    for cb
  proof (cases cb)
    case None
    then show ?thesis by (simp add: call_if_set_def)
  next
    case (Some u)
    then show ?thesis using run_client [of u "event_path ev" "event_value ev" c1]
      by (auto simp: call_if_set_def)
  qed
  then obtain r c2 where r: "call_if_set run (cache_cb ev c1) (event_path ev) (event_value ev) c1 = Some (r, c2)"
      "m_cache c2 = m_cache c1" by blast
  have "cache_fetchCb J run params status c = Some (r, c2\<lparr>m_cacheMtx := False\<rparr>)"
    unfolding cache_fetchCb_event [OF assms(1,2)] using assms(3) r(1)
    by (simp add: cache_locked_def c1_def)
  then have "try_catch (cache_fetchCb J run params status) (\<lambda>_. ret ()) c =
      Some (Inr (), c2\<lparr>m_cacheMtx := False\<rparr>)"
    by (cases r) simp_all
  then show ?thesis using r(2) by (simp add: c1_def)
qed

lemma all_events:
  assumes "list_all2 (notifies J) evs params" and "\<not> m_cacheMtx c"
  shows "\<exists>c'. for_each params (\<lambda>q. try_catch (cache_fetchCb J run q 0) (\<lambda>_. ret ())) c = Some (Inr (), c') \<and>
    m_cache c' = fold apply_event evs (m_cache c) \<and> \<not> m_cacheMtx c'"
  using assms
proof (induction evs params arbitrary: c rule: list_all2_induct)
  case Nil
  then show ?case by simp
next
  case (Cons ev evs q qs)
  obtain c1 where "try_catch (cache_fetchCb J run q 0) (\<lambda>_. ret ()) c = Some (Inr (), c1)"
      "m_cache c1 = apply_event ev (m_cache c)" "\<not> m_cacheMtx c1"
    using one_event [OF Cons.hyps(1), of 0 c] Cons.prems by auto
  moreover obtain c2 where "for_each qs (\<lambda>q. try_catch (cache_fetchCb J run q 0) (\<lambda>_. ret ())) c1 = Some (Inr (), c2)"
      "m_cache c2 = fold apply_event evs (m_cache c1)" "\<not> m_cacheMtx c2"
    using Cons.IH [OF calculation(3)] by blast
  ultimately show ?case by (intro exI [of _ c2]) (simp del: ret_apply)
qed

end

definition demo_client :: "(json, nat, (nat \<times> string) list) cache_run" where
  "demo_client u path v = seq (modify (\<lambda>c. c\<lparr>cache_ext := cache_ext c @ [(u, path)]\<rparr>))
     (if u = 13 then raise OtherException else ret ())"

interpretation demo_clients: cache_clients demo_env demo_client
  by unfold_locales (auto simp: demo_client_def)

section \<open>Properties\<close>

lemma getEntry_free: "\<not> m_cacheMtx c \<Longrightarrow> getEntry J path c =
    Some (Inr (case m_cache c path of Some v \<Rightarrow> v | None \<Rightarrow> json_null J), c)"
  by (cases c) (simp add: getEntry_def cache_locked_def)

definition demo_event :: "string \<Rightarrow> string \<Rightarrow> json \<Rightarrow> json" where
  "demo_event name path v = JObject [(''event'', JString name), (''path'', JString path), (''value'', v)]"

lemma demo_event_notifies:
  "notifies demo_env (Added path v) (demo_event ''add'' path v)"
  "notifies demo_env (Changed path v) (demo_event ''change'' path v)"
  "notifies demo_env (Removed path v) (demo_event ''remove'' path v)"
  by (simp_all add: notifies_def demo_event_def get_string_def jet_key_defs jet_request_defs)

definition demo_cache :: "nat option \<Rightarrow> (json, nat, (nat \<times> string) list) cache_state" where
  "demo_cache cb = \<lparr>m_cache = Map.empty, m_cacheMtx = False, m_fetchId = 1, m_addCb = None,
     m_changeCb = cb, m_removeCb = None, cache_ext = []\<rparr>"

text \<open>
  C31: the cache is the fold of its notifications.  After any sequence of add, change and remove
  notifications, whatever the callbacks throw, the paths in the cache are exactly those whose last
  notification was an add or a change, with its value, and \<open>getEntry\<close> returns that value and changes
  nothing.
\<close>

theorem cache_follows_events:
  assumes "cache_clients run" and "list_all2 (notifies J) evs params" and "\<not> m_cacheMtx c"
  shows "\<exists>c'. for_each params (\<lambda>q. try_catch (cache_fetchCb J run q 0) (\<lambda>_. ret ())) c = Some (Inr (), c') \<and>
    m_cache c' = fold apply_event evs (m_cache c) \<and>
    (\<forall>path v. fold apply_event evs (m_cache c) path = Some v \<longrightarrow> getEntry J path c' = Some (Inr v, c'))"
proof -
  obtain c' where c': "for_each params (\<lambda>q. try_catch (cache_fetchCb J run q 0) (\<lambda>_. ret ())) c = Some (Inr (), c')"
      "m_cache c' = fold apply_event evs (m_cache c)" "\<not> m_cacheMtx c'"
    using cache_clients.all_events [OF assms] by blast
  then show ?thesis by (intro exI [of _ c']) (simp add: getEntry_free)
qed

theorem cache_follows_events_witness:
  "\<exists>c'. for_each [demo_event ''add'' ''a'' (JInt 1), demo_event ''change'' ''a'' (JInt 2),
        demo_event ''add'' ''b'' (JInt 3), demo_event ''remove'' ''b'' JNull]
      (\<lambda>q. try_catch (cache_fetchCb demo_env demo_client q 0) (\<lambda>_. ret ())) (demo_cache (Some 13)) =
      Some (Inr (), c') \<and> m_cache c' = [''a'' \<mapsto> JInt 2] \<and> getEntry demo_env ''a'' c' = Some (Inr (JInt 2), c')"
  using cache_follows_events [OF demo_clients.cache_clients_axioms, of demo_env
      "[Added ''a'' (JInt 1), Changed ''a'' (JInt 2), Added ''b'' (JInt 3), Removed ''b'' JNull]"
      "[demo_event ''add'' ''a'' (JInt 1), demo_event ''change'' ''a'' (JInt 2),
        demo_event ''add'' ''b'' (JInt 3), demo_event ''remove'' ''b'' JNull]" "demo_cache (Some 13)"]
  by (fastforce simp: demo_event_notifies demo_cache_def fun_eq_iff)

text \<open>
  For a path that is not in the cache \<open>getEntry\<close> returns a null value, not the empty object that
  tool/cache.h announces.
\<close>

lemma getEntry_unknown:
  "\<not> m_cacheMtx c \<Longrightarrow> m_cache c path = None \<Longrightarrow> getEntry J path c = Some (Inr (json_null J), c)"
  by (simp add: getEntry_free)

text \<open>
  The callbacks of the cache run while its mutex is held.  A callback that reads the cache it
  belongs to never returns.
\<close>

lemma cache_callback_deadlock:
  assumes "notifies J ev params" and "cache_cb ev c = Some u"
    and "run u (event_path ev) (event_value ev) = bnd (getEntry J path) k"
  shows "cache_fetchCb J run params 0 c = None"
  unfolding cache_fetchCb_event [OF assms(1), of 0 run, simplified] using assms(2,3)
  by (cases ev) (simp_all add: cache_locked_def call_if_set_def getEntry_def)

text \<open>
  The notifier hands every notification to the callback for its kind of event, with path and
  value; if that callback was left empty, \<open>std::bad_function_call\<close> is thrown instead.
\<close>

lemma notifier_dispatches:
  assumes "notifies J ev params" and "0 \<le> sint status"
  shows "notifier_fetchCb J run n params status =
    (case notifier_cb ev n of
       Some u \<Rightarrow> run u (event_path ev) (event_value ev)
     | None \<Rightarrow> raise BadFunctionCall)"
  using assms by (cases ev)
    (simp_all add: notifies_def notifier_fetchCb_def event_names_differ call_unchecked_def
      split: option.split del: raise_apply)

end
