(* ===== verification/Routing.thy ===== *)
theory Routing
  imports Fetch_Cache
begin

text \<open>
  tool/qxrouting: a test tool that connects to a device, connects to every device routed through it
  (\<open>Device\<close>, one \<open>RoutedDevice\<close> with its own peer each), and restarts all of them in cycles
  (\<open>checkAndReboot\<close>).  The state of the tool is a record around the process state of the library;
  a \<open>RoutedDevice\<close> is its peer and the device its service callback is bound to.

  Parameters beside those of the library: \<open>hbk::string::split\<close> of libhbk, the clock (\<open>steady_now\<close>, the
  value of the n-th reading), the traversal order of tables keyed by strings, the content of memory
  that is not initialised, and the tokens under which the tool's closures are registered at the peers.
  The event loop runs these closures one after the other: each is an operation here, and a step of the
  tool in \<open>routing_step\<close>.  Console output is left out but for the complaint of \<open>checkAndReboot\<close>, which
  is what the tool is for; readings of the clock for it are counted.
\<close>

record appearanceInfo_t =
  appearanceCount :: uint32
  appearanceTimePoint :: int
  restartTimePoint :: int
  disappearTimePoint :: int
  hbkProtocolAvailable :: bool

definition appearanceInfo_default :: appearanceInfo_t where
  "appearanceInfo_default = \<lparr>appearanceCount = 0, appearanceTimePoint = 0, restartTimePoint = 0,
     disappearTimePoint = 0, hbkProtocolAvailable = False\<rparr>"

record RoutedDevice =
  rd_peer :: pid
  rd_serviceCb :: "string option"        \<comment> \<open>\<open>Device::serviceCb\<close> bound to this uuid\<close>

record ('j, 'u, 'x) routing =
  process :: "('j, 'u, 'x) world"
  d_address :: string
  d_peer :: pid
  m_routedDevices :: "(string \<times> RoutedDevice) list"
  m_appearanceInfos :: "(string \<times> appearanceInfo_t) list"
  m_fetchDone :: bool
  restartCycleCount :: uint32
  s_timer :: "(nat \<times> bool) option"     \<comment> \<open>period in milliseconds, repeated\<close>
  next_peer :: pid                       \<comment> \<open>the next peer to be constructed\<close>
  readings :: nat                        \<comment> \<open>how often the clock was read\<close>
  complaints :: "string list"            \<comment> \<open>devices reported as not restarted\<close>

record ('j, 'u, 'x) routing_env = "('j, 'u, 'x) env" +
  str_split :: "string \<Rightarrow> char \<Rightarrow> string list"
  steady_now :: "nat \<Rightarrow> int"
  str_order :: "string list \<Rightarrow> string list"
  garbage :: "byte list"
  tok_fetchRoutedCb :: 'u
  tok_fetchResponseCb :: 'u
  tok_fetchServicesCb :: "pid \<Rightarrow> 'u"

type_synonym ('j, 'u, 'x, 'a) routing_prog = "(('j, 'u, 'x) routing, 'j exn, 'a) prog"

text \<open>An operation of the library, run inside the tool.\<close>

definition on_process :: "('j, 'u, 'x, 'a) peer_prog \<Rightarrow> ('j, 'u, 'x, 'a) routing_prog" where
  "on_process m = (\<lambda>s. case m (process s) of
       None \<Rightarrow> None
     | Some (r, w) \<Rightarrow> Some (r, s\<lparr>process := w\<rparr>))"

definition now :: "('j, 'u, 'x, 'z) routing_env_scheme \<Rightarrow> ('j, 'u, 'x, int) routing_prog" where
  "now E = bnd (gets readings) (\<lambda>n. seq (modify (\<lambda>s. s\<lparr>readings := Suc n\<rparr>)) (ret (steady_now E n)))"

section \<open>RoutedDevice\<close>

text \<open>The constructor: a peer of its own; it may throw, then there is no object.\<close>

definition RoutedDevice_construct :: "('j, 'u, 'x, 'z) routing_env_scheme \<Rightarrow> string \<Rightarrow> uint32
    \<Rightarrow> ('j, 'u, 'x, RoutedDevice) routing_prog" where
  "RoutedDevice_construct E address jetPort =
     bnd (gets next_peer) (\<lambda>p.
     seq (modify (\<lambda>s. s\<lparr>next_peer := Suc p\<rparr>))
    (seq (on_process (PeerAsync E p address jetPort [] False (garbage E)))
         (ret \<lparr>rd_peer = p, rd_serviceCb = None\<rparr>)))"

definition RoutedDevice_destroy :: "('j, 'u, 'x, 'z) routing_env_scheme \<Rightarrow> RoutedDevice
    \<Rightarrow> ('j, 'u, 'x, unit) routing_prog" where
  "RoutedDevice_destroy E d = on_process (destroy E (rd_peer d))"

text \<open>\<open>setServiceCb\<close> binds the callback and fetches the services.\<close>

definition services_matcher :: matcher_t where
  "services_matcher = matcher_default\<lparr>startsWith := ''net/services''\<rparr>"

definition setServiceCb :: "('j, 'u, 'x, 'z) routing_env_scheme \<Rightarrow> string
    \<Rightarrow> ('j, 'u, 'x, unit) routing_prog" where
  "setServiceCb E uuid =
     bnd (gets (\<lambda>s. map_of (m_routedDevices s) uuid)) (\<lambda>iter.
     case iter of
       None \<Rightarrow> stuck
     | Some d \<Rightarrow>
         seq (modify (\<lambda>s. s\<lparr>m_routedDevices :=
                AList.update uuid (d\<lparr>rd_serviceCb := Some uuid\<rparr>) (m_routedDevices s)\<rparr>))
        (seq (on_process (addFetchAsync E (rd_peer d) services_matcher
                (Some (tok_fetchServicesCb E (rd_peer d))) None))
             (ret ())))"

definition RoutedDevice_restart :: "('j, 'u, 'x, 'z) routing_env_scheme \<Rightarrow> RoutedDevice
    \<Rightarrow> ('j, 'u, 'x, unit) routing_prog" where
  "RoutedDevice_restart E d =
     on_process (callMethodAsync E (rd_peer d) ''system/restart'' (json_null E) None)"

section \<open>Device\<close>

text \<open>\<open>m_appearanceInfos[uuid]\<close>: an entry that is missing is created.\<close>

definition info_at :: "string \<Rightarrow> (string \<times> appearanceInfo_t) list \<Rightarrow> appearanceInfo_t" where
  "info_at uuid infos = (case map_of infos uuid of None \<Rightarrow> appearanceInfo_default | Some i \<Rightarrow> i)"

definition upd_info :: "string \<Rightarrow> (appearanceInfo_t \<Rightarrow> appearanceInfo_t)
    \<Rightarrow> ('j, 'u, 'x) routing \<Rightarrow> ('j, 'u, 'x) routing" where
  "upd_info uuid f s = s\<lparr>m_appearanceInfos :=
     AList.update uuid (f (info_at uuid (m_appearanceInfos s))) (m_appearanceInfos s)\<rparr>"

text \<open>The constructor up to the wait for the response of the fetch.\<close>

definition routed_matcher :: matcher_t where
  "routed_matcher = matcher_default\<lparr>startsWith := ''devices/routed''\<rparr>"

definition Device_construct :: "('j, 'u, 'x, 'z) routing_env_scheme \<Rightarrow> string \<Rightarrow> pid
    \<Rightarrow> ('j, 'u, 'x, unit) routing_prog" where
  "Device_construct E address p =
     seq (modify (\<lambda>s. s\<lparr>d_address := address, d_peer := p, m_routedDevices := [],
            m_appearanceInfos := [], m_fetchDone := False\<rparr>))
    (seq (on_process (addFetchAsync E p routed_matcher (Some (tok_fetchRoutedCb E))
            (Some (UserCb (tok_fetchResponseCb E)))))
         (ret ()))"

text \<open>\<open>while (m_fetchDone==false) m_fetchDoneCond.wait(lock);\<close> \<open>L\<close> is one round of the event loop.\<close>

partial_function (option) wait_fetchDone :: "(('j, 'u, 'x) routing \<Rightarrow> ('j, 'u, 'x) routing option)
    \<Rightarrow> ('j, 'u, 'x) routing \<Rightarrow> ('j, 'u, 'x) routing option" where
  "wait_fetchDone L s = (if m_fetchDone s then Some s else Option.bind (L s) (wait_fetchDone L))"

text \<open>\<open>for (auto &iter: m_routedDevices)\<close>\<close>

definition restartRoutedDevices :: "('j, 'u, 'x, 'z) routing_env_scheme
    \<Rightarrow> ('j, 'u, 'x, unit) routing_prog" where
  "restartRoutedDevices E =
     bnd (gets m_routedDevices) (\<lambda>devices.
     for_each (str_order E (keys devices)) (\<lambda>uuid.
       case map_of devices uuid of
         None \<Rightarrow> ret ()
       | Some d \<Rightarrow>
           bnd (now E) (\<lambda>t.
           seq (modify (upd_info uuid (\<lambda>i. i\<lparr>restartTimePoint := t\<rparr>)))
               (RoutedDevice_restart E d))))"

text \<open>\<open>syslogConfig[0]["level"] = 7; syslogConfig[0]["destination"] = destination;\<close>\<close>

definition setSyslog :: "('j, 'u, 'x, 'z) routing_env_scheme \<Rightarrow> string
    \<Rightarrow> ('j, 'u, 'x, int32) routing_prog" where
  "setSyslog E destination =
     (let item = json_put E (json_null E) ''level'' (json_int E 7);
          item = json_put E item ''destination'' (json_string E destination);
          syslogConfig = json_append E (json_null E) item
      in bnd (gets d_peer) (\<lambda>p.
         seq (on_process (setStateValueAsync E p ''system/syslog'' syslogConfig None)) (ret 0)))"

text \<open>The port of the first service of type jetd in an announcement, 0 if there is none.\<close>

fun jet_port :: "('j, 'z) jsoncpp_scheme \<Rightarrow> 'j list \<Rightarrow> 'j exn + uint32" where
  "jet_port J [] = Inr 0"
| "jet_port J (entry # entries) =
     sum_bind (get_string J entry ''type'') (\<lambda>type.
     if type = ''jetd'' then sum_bind (json_get J entry ''port'') (json_asUInt J)
     else jet_port J entries)"

text \<open>\<open>announcement["device"]["uuid"].asString()\<close>\<close>

definition announced_uuid :: "('j, 'z) jsoncpp_scheme \<Rightarrow> 'j \<Rightarrow> 'j exn + string" where
  "announced_uuid J announcement =
     sum_bind (json_get2 J announcement ''device'' ''uuid'') (json_asString J)"

text \<open>A new device: construct it, store it, bind and fetch its services, count its appearance.\<close>

definition add_routed :: "('j, 'u, 'x, 'z) routing_env_scheme \<Rightarrow> string \<Rightarrow> uint32
    \<Rightarrow> ('j, 'u, 'x, unit) routing_prog" where
  "add_routed E uuid port =
     bnd (gets d_address) (\<lambda>address.
     bnd (RoutedDevice_construct E address port) (\<lambda>d.
     seq (modify (\<lambda>s. s\<lparr>m_routedDevices := AList.update uuid d (m_routedDevices s)\<rparr>))
    (seq (setServiceCb E uuid)
         (modify (\<lambda>s. case map_of (m_appearanceInfos s) uuid of
            None \<Rightarrow> upd_info uuid (\<lambda>i. i\<lparr>appearanceCount := 1\<rparr>) s
          | Some _ \<Rightarrow> upd_info uuid (\<lambda>i. i\<lparr>appearanceCount := appearanceCount i + 1\<rparr>) s)))))"

definition remove_routed :: "('j, 'u, 'x, 'z) routing_env_scheme \<Rightarrow> string
    \<Rightarrow> ('j, 'u, 'x, unit) routing_prog" where
  "remove_routed E uuid =
     bnd (gets (\<lambda>s. map_of (m_routedDevices s) uuid)) (\<lambda>iter.
     case iter of
       None \<Rightarrow> ret ()
     | Some d \<Rightarrow>
         seq (modify (\<lambda>s. s\<lparr>m_routedDevices := AList.delete uuid (m_routedDevices s)\<rparr>))
             (RoutedDevice_destroy E d))"

definition fetchRoutedCb :: "('j, 'u, 'x, 'z) routing_env_scheme \<Rightarrow> 'j \<Rightarrow> int32
    \<Rightarrow> ('j, 'u, 'x, unit) routing_prog" where
  "fetchRoutedCb E notification status =
     (if status = - 1 then ret ()
      else
        bnd (lift (json_get E notification VALUE)) (\<lambda>announcement.
        bnd (lift (get_string E notification EVENT)) (\<lambda>event.
        bnd (lift (announced_uuid E announcement)) (\<lambda>uuid.
        if event = ADD \<or> event = CHANGE then
          if uuid = [] then ret ()
          else bnd (gets (\<lambda>s. map_of (m_routedDevices s) uuid)) (\<lambda>iter.
            if iter \<noteq> None then ret ()
            else
              bnd (lift (json_get E announcement ''services'')) (\<lambda>services.
              bnd (lift (jet_port E (json_elements E services))) (\<lambda>port.
              if port = 0 then ret () else add_routed E uuid port)))
        else if event = REMOVE then remove_routed E uuid
        else ret ()))))"

text \<open>An error in the response is only printed (reading it may throw before the flag is set).\<close>

definition fetchResponseCb :: "('j, 'u, 'x, 'z) routing_env_scheme \<Rightarrow> 'j
    \<Rightarrow> ('j, 'u, 'x, unit) routing_prog" where
  "fetchResponseCb E result =
     bnd (lift (json_get E result (rpc_ERR E))) (\<lambda>errorObject.
     seq (if isObject E errorObject then
            bnd (lift (sum_bind (json_get E errorObject (rpc_CODE E)) (json_asInt E))) (\<lambda>_.
            bnd (lift (get_string E errorObject (rpc_MESSAGE E))) (\<lambda>_. ret ()))
          else ret ())
         (modify (\<lambda>s. s\<lparr>m_fetchDone := True\<rparr>)))"

text \<open>All known devices have the HBK protocol.\<close>

definition restart_complete :: "(string \<times> appearanceInfo_t) list \<Rightarrow> bool" where
  "restart_complete infos = (\<forall>(uuid, i) \<in> set infos. hbkProtocolAvailable i)"

text \<open>\<open>complete\<close> is the callback \<open>m_restartCompleteCb\<close>.\<close>

definition serviceCb :: "('j, 'u, 'x, 'z) routing_env_scheme \<Rightarrow> ('j, 'u, 'x, unit) routing_prog
    \<Rightarrow> string \<Rightarrow> bool \<Rightarrow> string \<Rightarrow> ('j, 'u, 'x, unit) routing_prog" where
  "serviceCb E complete name appears uuid =
     (if name = ''jetd'' then
        if appears then
          seq (bnd (now E) (\<lambda>t. modify (upd_info uuid (\<lambda>i. i\<lparr>appearanceTimePoint := t\<rparr>))))
            (bnd (gets m_appearanceInfos) (\<lambda>infos.
             if disappearTimePoint (info_at uuid infos) \<noteq> 0 then seq (now E) (ret ()) else ret ()))
        else ret ()
      else if name = ''hbkProtocol'' then
        seq (modify (upd_info uuid (\<lambda>i. i\<lparr>hbkProtocolAvailable := appears\<rparr>)))
          (if appears then
             bnd (gets m_appearanceInfos) (\<lambda>infos.
             if disappearTimePoint (info_at uuid infos) \<noteq> 0
             then seq (now E) (seq (now E) (if restart_complete infos then complete else ret ()))
             else ret ())
           else seq (now E) (ret ()))
      else if name = [] then
        seq (now E) (bnd (now E) (\<lambda>t. modify (upd_info uuid (\<lambda>i. i\<lparr>disappearTimePoint := t\<rparr>))))
      else ret ())"

text \<open>\<open>RoutedDevice::fetchServicesCb\<close> of the routed device \<open>uuid\<close>, with its \<open>m_serviceCb\<close>.\<close>

definition fetchServicesCb :: "('j, 'u, 'x, 'z) routing_env_scheme \<Rightarrow> ('j, 'u, 'x, unit) routing_prog
    \<Rightarrow> RoutedDevice \<Rightarrow> 'j \<Rightarrow> int32 \<Rightarrow> ('j, 'u, 'x, unit) routing_prog" where
  "fetchServicesCb E complete d notification status =
     (let m_serviceCb = (\<lambda>name appears. case rd_serviceCb d of
            None \<Rightarrow> ret () | Some uuid \<Rightarrow> serviceCb E complete name appears uuid)
      in if sint status < 0 then m_serviceCb [] False
      else
        bnd (lift (get_string E notification PATH)) (\<lambda>path.
        let pathTokens = str_split E path CHR ''/'' in
        if length pathTokens = 3 then
          bnd (lift (get_string E notification EVENT)) (\<lambda>event.
          if event = ADD then m_serviceCb (pathTokens ! 2) True
          else if event = REMOVE then m_serviceCb (pathTokens ! 2) False
          else ret ())
        else ret ()))"

text \<open>\<open>Device::getRoutedDevicesAppearance\<close> and \<open>Device::getRoutedDeviceCount\<close>\<close>

definition getRoutedDevicesAppearance :: "('j, 'u, 'x, (string \<times> appearanceInfo_t) list) routing_prog" where
  [simp]: "getRoutedDevicesAppearance = gets m_appearanceInfos"

definition getRoutedDeviceCount :: "('j, 'u, 'x, nat) routing_prog" where
  [simp]: "getRoutedDeviceCount = gets (\<lambda>s. length (m_routedDevices s))"

section \<open>The restart cycle (Routing.cpp)\<close>

definition rebootTimeInSeconds :: nat where
  "rebootTimeInSeconds = 120"

definition checkAndReboot :: "('j, 'u, 'x, 'z) routing_env_scheme
    \<Rightarrow> ('j, 'u, 'x, unit) routing_prog" where
  "checkAndReboot E =
     seq (bnd getRoutedDevicesAppearance (\<lambda>appearanceCounts.
          modify (\<lambda>s. s\<lparr>complaints := complaints s @
            filter (\<lambda>uuid. appearanceCount (info_at uuid appearanceCounts)
                      \<noteq> restartCycleCount s + 1)
              (str_order E (keys appearanceCounts))\<rparr>)))
    (seq (modify (\<lambda>s. s\<lparr>restartCycleCount := restartCycleCount s + 1,
            s_timer := Some (1000 * rebootTimeInSeconds, True)\<rparr>))
         (restartRoutedDevices E))"

definition restartTimerCb :: "('j, 'u, 'x, 'z) routing_env_scheme \<Rightarrow> bool
    \<Rightarrow> ('j, 'u, 'x, unit) routing_prog" where
  "restartTimerCb E fired = (if fired then checkAndReboot E else ret ())"

definition restartCompleteCb :: "('j, 'u, 'x, 'z) routing_env_scheme
    \<Rightarrow> ('j, 'u, 'x, unit) routing_prog" where
  "restartCompleteCb E = checkAndReboot E"

text \<open>
  \<open>main\<close> with the arguments behind the program name \<open>name\<close> (its base name): connect, construct the
  device, wait for the fetch, then start the first cycle; \<open>False\<close>: the event loop is stopped.
\<close>

definition routing_main :: "('j, 'u, 'x, 'z) routing_env_scheme
    \<Rightarrow> (('j, 'u, 'x) routing \<Rightarrow> ('j, 'u, 'x) routing option) \<Rightarrow> string \<Rightarrow> string list
    \<Rightarrow> ('j, 'u, 'x, bool) routing_prog" where
  "routing_main E L name args =
     (case args of
        [] \<Rightarrow> ret False
      | address # rest \<Rightarrow>
          (let syslogDestination = (case rest of [] \<Rightarrow> [] | x # _ \<Rightarrow> x) in
           bnd (gets next_peer) (\<lambda>p.
           seq (modify (\<lambda>s. s\<lparr>next_peer := Suc p\<rparr>))
          (seq (on_process (PeerAsync E p address JETD_TCP_PORT name False (garbage E)))
          (seq (Device_construct E address p)
          (seq (\<lambda>s. case wait_fetchDone L s of None \<Rightarrow> None | Some s' \<Rightarrow> Some (Inr (), s'))
          (bnd getRoutedDeviceCount (\<lambda>routedDeviceCount.
           if routedDeviceCount = 0 then ret False
           else seq (setSyslog E syslogDestination) (seq (checkAndReboot E) (ret True))))))))))"

end
