(* ===== verification/Lifecycle_Properties.thy ===== *)
theory Lifecycle_Properties
  imports Dispatch_Properties
begin

text \<open>
  Registration of states, methods and fetches with the broker's answer, the parameters of requests,
  and the life cycle of a peer: start, stop and resume.
\<close>

section \<open>Registration and the broker's answer\<close>

text \<open>
  A closure that undoes a registration runs before the user's callback; the outer handler of
  \<open>handleResult\<close> then has nothing left to catch.
\<close>

lemma try_catch_undo:
  assumes "undo w = Some (Inr (), w')"
  shows "try_catch (seq undo (try_catch m (\<lambda>_. ret ()))) (\<lambda>_. ret ()) w = try_catch m (\<lambda>_. ret ()) w'"
  using assms by (auto simp: try_catch_def split: option.splits prod.splits sum.splits)

text \<open>
  The answer to a request that was executed with one of the registering closures: \<open>undo\<close> is the
  update that the closure makes for an error.
\<close>

lemma answered_registration:
  assumes free: "\<not> m_mtx_openRequestCbs w"
    and closure: "\<And>data. call_response E closure data =
      seq (bnd (lift (json_isMember E data (rpc_ERR E))) (\<lambda>err. if err then modify undo else ret ()))
        (try_catch (call_response E cb data) (\<lambda>_. ret ()))"
    and undo: "\<And>w. m_openRequestCbs (undo w) = m_openRequestCbs w"
  shows "\<exists>w1. execute E p doc (Some closure) w = Some (Inr (m_sid w + 1), w1) \<and> peers w1 = peers w \<and>
    (\<forall>data err. response_id E data (m_sid w + 1) \<and> json_isMember E data (rpc_ERR E) = Inr err \<longrightarrow>
      (\<exists>w2. handleResult E data w1 = try_catch (call_response E cb data) (\<lambda>_. ret ()) w2 \<and>
        map_of (m_openRequestCbs w2) (m_sid w + 1) = None \<and>
        (\<exists>v. peers v = peers w \<and> w2 = (if err then undo v else v))))"
proof -
  let ?i = "m_sid w + 1"
  obtain w1 req where w1: "execute E p doc (Some closure) w = Some (Inr ?i, w1)"
      "map_of (m_openRequestCbs w1) ?i = Some req" "responseCallback req = Some closure"
      "peers w1 = peers w" "\<not> m_mtx_openRequestCbs w1"
    using execute_registers [OF free] by blast
  define v where "v = w1\<lparr>m_openRequestCbs := AList.delete ?i (m_openRequestCbs w1)\<rparr>"
  have "handleResult E data w1 = try_catch (call_response E cb data) (\<lambda>_. ret ()) (if err then undo v else v)"
    if "response_id E data ?i" "json_isMember E data (rpc_ERR E) = Inr err" for data err
  proof -
    have "handleResult E data w1 = try_catch (call_response E closure data) (\<lambda>_. ret ()) v"
      unfolding v_def by (rule handleResult_open [OF that(1) w1(5,2,3)])
    then show ?thesis unfolding closure by (subst (asm) try_catch_undo) (use that(2) in auto)
  qed
  moreover have "map_of (m_openRequestCbs (if err then undo v else v)) ?i = None" for err
    by (simp add: undo v_def)
  moreover have "peers v = peers w" using w1(4) by (simp add: v_def)
  ultimately show ?thesis using w1(1,4) by blast
qed

lemma registering_closures:
  "call_response E (AddStateCb p path cb) data =
     seq (bnd (lift (json_isMember E data (rpc_ERR E))) (\<lambda>err. if err then modify (upd_peer p
         (\<lambda>q. q\<lparr>m_stateCallbacks := (m_stateCallbacks q)(path := None)\<rparr>)) else ret ()))
       (try_catch (call_response E cb data) (\<lambda>_. ret ()))"
  "call_response E (AddMethodCb p path cb) data =
     seq (bnd (lift (json_isMember E data (rpc_ERR E))) (\<lambda>err. if err then modify (upd_peer p
         (\<lambda>q. q\<lparr>m_methodCallbacks := (m_methodCallbacks q)(path := None)\<rparr>)) else ret ()))
       (try_catch (call_response E cb data) (\<lambda>_. ret ()))"
  "call_response E (AddFetchCb p i cb) data =
     seq (bnd (lift (json_isMember E data (rpc_ERR E))) (\<lambda>err. if err then modify (upd_peer p
         (\<lambda>q. q\<lparr>m_fetchers := AList.delete i (m_fetchers q)\<rparr>)) else ret ()))
       (try_catch (call_response E cb data) (\<lambda>_. ret ()))"
  by (simp_all add: addStateResultCb_def unregisterState_def addMethodResultCb_def
      unregisterMethod_def addFetchResultCb_def unregisterFetch_def cong: if_cong)

lemma register_then_execute:
  assumes "execute E p doc (Some closure) (upd_peer p f w) = Some (Inr i, w1)"
  shows "seq (modify (upd_peer p f)) (seq (execute E p doc (Some closure)) (ret ())) w = Some (Inr (), w1)"
  using assms by simp

text \<open>
  C20: a state that is added with a result callback is registered at once; when the broker answers,
  it stays registered if the answer has no error and is unregistered if it has one, before the
  callback runs.  (An earlier registration under the same path is lost in the error case: see the
  witness.)
\<close>

theorem add_state_answered:
  assumes free: "\<not> m_mtx_openRequestCbs w"
  shows "\<exists>w1. addStateAsync E p path value (Some cb) callback w = Some (Inr (), w1) \<and>
    m_stateCallbacks (peers w1 p) path = Some callback \<and>
    (\<forall>data err. response_id E data (m_sid w + 1) \<and> json_isMember E data (rpc_ERR E) = Inr err \<longrightarrow>
      (\<exists>w2. handleResult E data w1 = try_catch (call_response E cb data) (\<lambda>_. ret ()) w2 \<and>
        map_of (m_openRequestCbs w2) (m_sid w + 1) = None \<and>
        m_stateCallbacks (peers w2 p) =
          (m_stateCallbacks (peers w p))(path := if err then None else Some callback)))"
proof -
  let ?w = "upd_peer p (\<lambda>q. q\<lparr>m_stateCallbacks := (m_stateCallbacks q)(path \<mapsto> callback)\<rparr>) w"
  let ?undo = "upd_peer p (\<lambda>q. q\<lparr>m_stateCallbacks := (m_stateCallbacks q)(path := None)\<rparr>)"
  define doc where "doc = AsyncRequest E ADD (if callback = None
    then json_put E (json_put E (json_put E (json_null E) PATH (json_string E path)) VALUE value)
      FETCHONLY (json_bool E True)
    else json_put E (json_put E (json_null E) PATH (json_string E path)) VALUE value)"
  obtain w1 where w1: "execute E p doc (Some (AddStateCb p path cb)) ?w = Some (Inr (m_sid w + 1), w1)"
      "peers w1 = peers ?w"
    and ans: "\<forall>data err. response_id E data (m_sid w + 1) \<and> json_isMember E data (rpc_ERR E) = Inr err \<longrightarrow>
      (\<exists>w2. handleResult E data w1 = try_catch (call_response E cb data) (\<lambda>_. ret ()) w2 \<and>
        map_of (m_openRequestCbs w2) (m_sid w + 1) = None \<and>
        (\<exists>v. peers v = peers ?w \<and> w2 = (if err then ?undo v else v)))"
    using answered_registration [OF _ registering_closures(1) [where p = p and path = path and cb = cb and E = E],
        of ?w p doc] free by auto
  have "addStateAsync E p path value (Some cb) callback w = Some (Inr (), w1)"
    using register_then_execute [OF w1(1)]
    by (simp add: addStateAsync_def addStateAsyncPrivate_def registerState_def doc_def Let_def)
  moreover have "m_stateCallbacks (peers w1 p) path = Some callback"
    by (simp add: w1(2))
  moreover have "\<exists>w2. handleResult E data w1 = try_catch (call_response E cb data) (\<lambda>_. ret ()) w2 \<and>
      map_of (m_openRequestCbs w2) (m_sid w + 1) = None \<and> m_stateCallbacks (peers w2 p) =
        (m_stateCallbacks (peers w p))(path := if err then None else Some callback)"
    if d: "response_id E data (m_sid w + 1)" "json_isMember E data (rpc_ERR E) = Inr err" for data err
    using ans [rule_format, OF conjI, OF d] by (cases err) fastforce+
  ultimately show ?thesis by blast
qed

theorem add_state_answered_witness:
  "\<exists>w1 w2. addStateAsync demo_env 0 ''s'' (JInt 1) (Some (UserCb (Log 2))) None demo_states = Some (Inr (), w1) \<and>
    handleResult demo_env (JObject [(''id'', JUInt 1), (''error'', JNull)]) w1 = Some (Inr (), w2) \<and>
    calls (ext w2) \<noteq> [] \<and> m_stateCallbacks (peers w2 0) ''s'' = None"
proof -
  have free: "\<not> m_mtx_openRequestCbs demo_states" and sid: "m_sid demo_states = 0"
    by (simp_all add: demo_states_def initial_def)
  obtain w1 where w1: "addStateAsync demo_env 0 ''s'' (JInt 1) (Some (UserCb (Log 2))) None demo_states = Some (Inr (), w1)"
      "\<forall>data err. response_id demo_env data 1 \<and> jisMember data ''error'' = Inr err \<longrightarrow>
        (\<exists>w2. handleResult demo_env data w1 = try_catch (demo_run (Log 2) data ()) (\<lambda>_. ret ()) w2 \<and>
          (err \<longrightarrow> m_stateCallbacks (peers w2 0) ''s'' = None))"
    using add_state_answered [OF free, of demo_env 0 "''s''" "JInt 1" "UserCb (Log 2)" None] unfolding sid by fastforce
  obtain w2 where "handleResult demo_env (JObject [(''id'', JUInt 1), (''error'', JNull)]) w1 =
      try_catch (demo_run (Log 2) (JObject [(''id'', JUInt 1), (''error'', JNull)]) ()) (\<lambda>_. ret ()) w2"
      "m_stateCallbacks (peers w2 0) ''s'' = None"
    using w1(2) [rule_format, of "JObject [(''id'', JUInt 1), (''error'', JNull)]" True]
    by (auto simp: response_id_def)
  with w1(1) show ?thesis by auto
qed

text \<open>The same for a method.\<close>

lemma add_method_answered:
  assumes free: "\<not> m_mtx_openRequestCbs w"
  shows "\<exists>w1. addMethodAsync E p path (Some cb) callback w = Some (Inr (), w1) \<and>
    m_methodCallbacks (peers w1 p) path = Some callback \<and>
    (\<forall>data err. response_id E data (m_sid w + 1) \<and> json_isMember E data (rpc_ERR E) = Inr err \<longrightarrow>
      (\<exists>w2. handleResult E data w1 = try_catch (call_response E cb data) (\<lambda>_. ret ()) w2 \<and>
        map_of (m_openRequestCbs w2) (m_sid w + 1) = None \<and>
        m_methodCallbacks (peers w2 p) =
          (m_methodCallbacks (peers w p))(path := if err then None else Some callback)))"
proof -
  let ?w = "upd_peer p (\<lambda>q. q\<lparr>m_methodCallbacks := (m_methodCallbacks q)(path \<mapsto> callback)\<rparr>) w"
  let ?undo = "upd_peer p (\<lambda>q. q\<lparr>m_methodCallbacks := (m_methodCallbacks q)(path := None)\<rparr>)"
  define doc where "doc = AsyncRequest E ADD (json_put E (json_null E) PATH (json_string E path))"
  obtain w1 where w1: "execute E p doc (Some (AddMethodCb p path cb)) ?w = Some (Inr (m_sid w + 1), w1)"
      "peers w1 = peers ?w"
    and ans: "\<forall>data err. response_id E data (m_sid w + 1) \<and> json_isMember E data (rpc_ERR E) = Inr err \<longrightarrow>
      (\<exists>w2. handleResult E data w1 = try_catch (call_response E cb data) (\<lambda>_. ret ()) w2 \<and>
        map_of (m_openRequestCbs w2) (m_sid w + 1) = None \<and>
        (\<exists>v. peers v = peers ?w \<and> w2 = (if err then ?undo v else v)))"
    using answered_registration [OF _ registering_closures(2) [where p = p and path = path and cb = cb and E = E],
        of ?w p doc] free by auto
  have "addMethodAsync E p path (Some cb) callback w = Some (Inr (), w1)"
    using register_then_execute [OF w1(1)]
    by (simp add: addMethodAsync_def addMethodAsyncPrivate_def registerMethod_def doc_def Let_def)
  moreover have "m_methodCallbacks (peers w1 p) path = Some callback"
    by (simp add: w1(2))
  moreover have "\<exists>w2. handleResult E data w1 = try_catch (call_response E cb data) (\<lambda>_. ret ()) w2 \<and>
      map_of (m_openRequestCbs w2) (m_sid w + 1) = None \<and> m_methodCallbacks (peers w2 p) =
        (m_methodCallbacks (peers w p))(path := if err then None else Some callback)"
    if d: "response_id E data (m_sid w + 1)" "json_isMember E data (rpc_ERR E) = Inr err" for data err
    using ans [rule_format, OF conjI, OF d] by (cases err) fastforce+
  ultimately show ?thesis by blast
qed

lemma note_delivered:
  assumes "jsonrpc E" and "is_note E data" and "map_of (m_fetchers (peers w p)) (note_id E data) = Some f"
  shows "handleMessage E p data w =
    try_catch (call_fetch E (fetch_callback f) (json_child E data (rpc_PARAMS E)) 0) (\<lambda>_. ret ()) w"
  using assms(2,3) jsoncpp.get_child [OF jsonrpc.axioms(1) [OF assms(1)]]
  by (auto simp: handleMessage_def handle_notification_def is_note_def note_id_def split: sum.splits)

text \<open>
  C21: a fetch gets the next fetch id (32 bit, wrapping), which is returned.  When \<open>addFetchAsync\<close>
  returns it is registered with its callback and matcher, without waiting for the answer: notifications
  for the id that are handled before the answer reach the callback.  The answer is handed to the result
  callback; if it is an error, the fetch is unregistered first, otherwise it stays.
\<close>

theorem add_fetch_answered:
  assumes rpc: "jsonrpc E" and free: "\<not> m_mtx_openRequestCbs w"
  shows "\<exists>w1. addFetchAsync E p match callback (Some cb) w = Some (Inr (m_sfetchId w + 1), w1) \<and>
    m_fetchers (peers w1 p) = AList.update (m_sfetchId w + 1)
      \<lparr>fetch_callback = callback, fetch_matcher = match\<rparr> (m_fetchers (peers w p)) \<and>
    (\<forall>v data. m_fetchers (peers v p) = m_fetchers (peers w1 p) \<and> is_note E data \<and>
        note_id E data = m_sfetchId w + 1 \<longrightarrow>
      handleMessage E p data v =
        try_catch (call_fetch E callback (json_child E data (rpc_PARAMS E)) 0) (\<lambda>_. ret ()) v) \<and>
    (\<forall>data err. response_id E data (m_sid w + 1) \<and> json_isMember E data (rpc_ERR E) = Inr err \<longrightarrow>
      (\<exists>w2. handleResult E data w1 = try_catch (call_response E cb data) (\<lambda>_. ret ()) w2 \<and>
        map_of (m_openRequestCbs w2) (m_sid w + 1) = None \<and>
        map_of (m_fetchers (peers w2 p)) = (map_of (m_fetchers (peers w p)))(m_sfetchId w + 1 :=
          if err then None else Some \<lparr>fetch_callback = callback, fetch_matcher = match\<rparr>)))"
proof -
  let ?i = "m_sfetchId w + 1" and ?f = "\<lparr>fetch_callback = callback, fetch_matcher = match\<rparr>"
  define w0 where "w0 = w\<lparr>m_sfetchId := ?i\<rparr>"
  let ?w = "upd_peer p (\<lambda>q. q\<lparr>m_fetchers := AList.update ?i ?f (m_fetchers q)\<rparr>) w0"
  let ?undo = "upd_peer p (\<lambda>q. q\<lparr>m_fetchers := AList.delete ?i (m_fetchers q)\<rparr>)"
  define doc where "doc = AsyncRequest E FETCH (fetch_params E ?i match)"
  obtain w1 where w1: "execute E p doc (Some (AddFetchCb p ?i cb)) ?w = Some (Inr (m_sid w + 1), w1)"
      "peers w1 = peers ?w"
    and ans: "\<forall>data err. response_id E data (m_sid w + 1) \<and> json_isMember E data (rpc_ERR E) = Inr err \<longrightarrow>
      (\<exists>w2. handleResult E data w1 = try_catch (call_response E cb data) (\<lambda>_. ret ()) w2 \<and>
        map_of (m_openRequestCbs w2) (m_sid w + 1) = None \<and>
        (\<exists>v. peers v = peers ?w \<and> w2 = (if err then ?undo v else v)))"
    using answered_registration [OF _ registering_closures(3) [where p = p and i = ?i and cb = cb and E = E],
        of ?w p doc] free unfolding w0_def by auto
  have "addFetchAsync E p match callback (Some cb) w = Some (Inr ?i, w1)"
    using w1(1) by (simp add: addFetchAsync_def createFetchId_def registerFetch_def doc_def w0_def)
  moreover have reg: "m_fetchers (peers w1 p) = AList.update ?i ?f (m_fetchers (peers w p))"
    by (simp add: w1(2) w0_def)
  moreover have "handleMessage E p data v =
      try_catch (call_fetch E callback (json_child E data (rpc_PARAMS E)) 0) (\<lambda>_. ret ()) v"
    if "m_fetchers (peers v p) = m_fetchers (peers w1 p)" "is_note E data" "note_id E data = ?i" for v data
    using note_delivered [OF rpc that(2), of v p ?f] that(1,3) reg by (simp add: update_conv')
  moreover have "\<exists>w2. handleResult E data w1 = try_catch (call_response E cb data) (\<lambda>_. ret ()) w2 \<and>
      map_of (m_openRequestCbs w2) (m_sid w + 1) = None \<and> map_of (m_fetchers (peers w2 p)) =
        (map_of (m_fetchers (peers w p)))(?i := if err then None else Some ?f)"
    if d: "response_id E data (m_sid w + 1)" "json_isMember E data (rpc_ERR E) = Inr err" for data err
    using ans [rule_format, OF conjI, OF d] by (cases err) (fastforce simp: w0_def)+
  ultimately show ?thesis by blast
qed

theorem add_fetch_answered_witness:
  "\<exists>w1 w2. addFetchAsync demo_env 0 matcher_default (Some (Log 9)) (Some (UserCb (Log 2))) demo_states = Some (Inr 1, w1) \<and>
    handleMessage demo_env 0 (JObject [(''method'', JInt 1), (''params'', JBool True)]) w1 =
      Some (Inr (), record_call 9 (JBool True) w1) \<and>
    handleResult demo_env (JObject [(''id'', JUInt 1), (''error'', JNull)]) w1 = Some (Inr (), w2) \<and>
    calls (ext w2) \<noteq> [] \<and> map_of (m_fetchers (peers w2 0)) 1 = None"
proof -
  have free: "\<not> m_mtx_openRequestCbs demo_states" and sid: "m_sid demo_states = 0" and fid: "m_sfetchId demo_states = 0"
    by (simp_all add: demo_states_def initial_def)
  obtain w1 where w1: "addFetchAsync demo_env 0 matcher_default (Some (Log 9)) (Some (UserCb (Log 2))) demo_states = Some (Inr 1, w1)"
      "\<forall>v data. m_fetchers (peers v 0) = m_fetchers (peers w1 0) \<and> is_note demo_env data \<and>
        note_id demo_env data = 1 \<longrightarrow> handleMessage demo_env 0 data v = try_catch
          (call_fetch demo_env (Some (Log 9)) (json_child demo_env data (rpc_PARAMS demo_env)) 0) (\<lambda>_. ret ()) v"
      "\<forall>data err. response_id demo_env data 1 \<and> jisMember data ''error'' = Inr err \<longrightarrow>
        (\<exists>w2. handleResult demo_env data w1 = try_catch (demo_run (Log 2) data ()) (\<lambda>_. ret ()) w2 \<and>
          (err \<longrightarrow> map_of (m_fetchers (peers w2 0)) 1 = None))"
    using add_fetch_answered [OF dj.jsonrpc_axioms free, of 0 matcher_default "Some (Log 9)" "UserCb (Log 2)"]
    unfolding sid fid by fastforce
  have "handleMessage demo_env 0 (JObject [(''method'', JInt 1), (''params'', JBool True)]) w1 =
      Some (Inr (), record_call 9 (JBool True) w1)"
    using w1(2) [rule_format, of w1 "JObject [(''method'', JInt 1), (''params'', JBool True)]"]
    by (simp add: is_note_def note_id_def is_record_def json_child_def in_int32_def call_fetch_def)
  moreover obtain w2 where "handleResult demo_env (JObject [(''id'', JUInt 1), (''error'', JNull)]) w1 =
      try_catch (demo_run (Log 2) (JObject [(''id'', JUInt 1), (''error'', JNull)]) ()) (\<lambda>_. ret ()) w2"
      "map_of (m_fetchers (peers w2 0)) 1 = None"
    using w1(3) [rule_format, of "JObject [(''id'', JUInt 1), (''error'', JNull)]" True]
    by (auto simp: response_id_def)
  ultimately show ?thesis using w1(1) by auto
qed

section \<open>The parameters of requests\<close>

text \<open>
  C30: the parameters of get and fetch requests carry the matcher and nothing else.  Under \<open>path\<close> they
  have exactly one member per active rule: each of the five string rules under its name if it is not
  empty, \<open>containsAllOf\<close> as the array of its strings in order if there are any, and the flag for case
  insensitivity if it is set.  If no rule is active there is no \<open>path\<close>.  The only other member is the
  fetch id of a fetch request.
\<close>

theorem matcher_parameters:
  assumes "jsonrpc J" and "rpc_ID J \<noteq> PATH"
  shows "carries_matcher J m (json_child J (addPathInformation J m (json_null J)) PATH) \<and>
    (\<forall>k. json_isMember J (addPathInformation J m (json_null J)) k = Inr (k = PATH \<and> selective m)) \<and>
    carries_matcher J m (json_child J (fetch_params J i m) PATH) \<and>
    (\<forall>k. json_isMember J (fetch_params J i m) k = Inr (k = rpc_ID J \<or> k = PATH \<and> selective m)) \<and>
    json_child J (fetch_params J i m) (rpc_ID J) = json_int J i"
proof -
  note cpp = jsonrpc.axioms(1) [OF assms(1)]
  note simps = jsoncpp.record_simps [OF cpp] jsoncpp.isMember_null [OF cpp]
  have base: "is_record J (json_null J)" "json_isMember J (json_null J) k = Inr False"
      "is_record J (json_put J (json_null J) (rpc_ID J) (json_int J i))"
      "json_isMember J (json_put J (json_null J) (rpc_ID J) (json_int J i)) k = Inr (k = rpc_ID J)"
      "json_child J (json_put J (json_null J) (rpc_ID J) (json_int J i)) (rpc_ID J) = json_int J i" for k
    by (simp_all add: simps)
  have fetch: "json_isMember J (json_put J (json_null J) (rpc_ID J) (json_int J i)) PATH = Inr False"
    using base(4) [of PATH] assms(2) by simp
  note get = jsoncpp.addPathInformation_carries [OF cpp base(1,2), where m = m]
    and put = jsoncpp.addPathInformation_carries [OF cpp base(3) fetch, where m = m, folded fetch_params_def]
  have "json_isMember J (addPathInformation J m (json_null J)) k = Inr (k = PATH \<and> selective m)"
    and "json_isMember J (fetch_params J i m) k = Inr (k = rpc_ID J \<or> k = PATH \<and> selective m)" for k
    using get(3) get(5) [of k] put(3) put(5) [of k] base(2,4) [of k] assms(2) by (cases "k = PATH"; simp)+
  with get(1) put(1) put(4) [OF assms(2)] base(5) show ?thesis by simp
qed

theorem matcher_parameters_witness:
  "selective (matcher_default\<lparr>contains := ''x'', containsAllOf := [''a'', ''b'']\<rparr>) \<and>
   carries_matcher demo_env (matcher_default\<lparr>contains := ''x'', containsAllOf := [''a'', ''b'']\<rparr>)
     (json_child demo_env (fetch_params demo_env 5
       (matcher_default\<lparr>contains := ''x'', containsAllOf := [''a'', ''b'']\<rparr>)) PATH) \<and>
   json_child demo_env (fetch_params demo_env 5 (matcher_default\<lparr>contains := ''x'',
     containsAllOf := [''a'', ''b'']\<rparr>)) ''id'' = JInt 5"
  using matcher_parameters [OF dj.jsonrpc_axioms, of "matcher_default\<lparr>contains := ''x'',
      containsAllOf := [''a'', ''b'']\<rparr>" 5]
  by (auto simp: PATH_def selective_def matcher_default_def)

section \<open>Stop and resume\<close>

text \<open>Callbacks that only touch what is theirs: they return or throw, and change only \<open>ext\<close>.\<close>

locale calm_callbacks = jsonrpc E for E :: "('j, 'u, 'x, 'z) env_scheme" +
  assumes calm_response: "\<exists>r x. run_response E u v w = Some (r, w\<lparr>ext := x\<rparr>)"
    and calm_fetch: "\<exists>r x. run_fetch E u v st w = Some (r, w\<lparr>ext := x\<rparr>)"
    and order: "mset (hash_order E ks) = mset ks"
begin

text \<open>What a response callback leaves alone, and what it may only shrink.\<close>

definition shrinks :: "('j, 'u, 'x) world \<Rightarrow> ('j, 'u, 'x) world \<Rightarrow> bool" where
  "shrinks w w' \<longleftrightarrow> m_openRequestCbs w' = m_openRequestCbs w \<and>
     m_mtx_openRequestCbs w' = m_mtx_openRequestCbs w \<and>
     (\<forall>p. m_stateCallbacks (peers w' p) \<subseteq>\<^sub>m m_stateCallbacks (peers w p) \<and>
        m_methodCallbacks (peers w' p) \<subseteq>\<^sub>m m_methodCallbacks (peers w p) \<and>
        m_stopped (peers w' p) = m_stopped (peers w p) \<and>
        set (m_fetchers (peers w' p)) \<subseteq> set (m_fetchers (peers w p)))"

lemma shrinks_refl: "shrinks w w"
  by (simp add: shrinks_def)

lemma shrinks_trans: "shrinks w w1 \<Longrightarrow> shrinks w1 w2 \<Longrightarrow> shrinks w w2"
  unfolding shrinks_def by (simp, blast intro: map_le_trans)

lemma shrinks_ext: "shrinks w (w\<lparr>ext := x\<rparr>)"
  by (simp add: shrinks_def)

lemma shrinks_undo:
  "shrinks w (upd_peer p (\<lambda>q. q\<lparr>m_stateCallbacks := (m_stateCallbacks q)(path := None)\<rparr>) w)"
  "shrinks w (upd_peer p (\<lambda>q. q\<lparr>m_methodCallbacks := (m_methodCallbacks q)(path := None)\<rparr>) w)"
  "shrinks w (upd_peer p (\<lambda>q. q\<lparr>m_fetchers := AList.delete i (m_fetchers q)\<rparr>) w)"
  using set_delete_subset by (fastforce simp: shrinks_def map_le_def)+

lemma calm_undo:
  assumes "\<And>w. \<exists>r w'. m w = Some (r, w') \<and> shrinks w w'" and "\<And>w. shrinks w (undo w)"
    and "json_isMember E v (rpc_ERR E) = Inr True"
  shows "\<exists>r w'. seq (bnd (lift (json_isMember E v (rpc_ERR E)))
    (\<lambda>err. if err then modify undo else ret ())) (try_catch m (\<lambda>_. ret ())) w = Some (r, w') \<and> shrinks w w'"
proof -
  obtain r w' where "m (undo w) = Some (r, w')" "shrinks (undo w) w'" using assms(1) by blast
  moreover from this(1) have "try_catch m (\<lambda>_. ret ()) (undo w) = Some (Inr (), w')"
    by (rule try_catch_ret_total)
  ultimately show ?thesis using assms(2,3) by (auto intro: shrinks_trans)
qed

lemma calm_call_response:
  assumes v: "json_isMember E v (rpc_ERR E) = Inr True"
  shows "\<exists>r w'. call_response E cb v w = Some (r, w') \<and> shrinks w w'"
proof (induction cb arbitrary: w)
  case (UserCb u)
  then show ?case using calm_response [of u v w] shrinks_ext by auto
next
  case (SyncCb n)
  then show ?case by (simp add: shrinks_def)
next
  case (AddMethodCb p path cb)
  then show ?case unfolding registering_closures by (rule calm_undo [OF _ shrinks_undo(2) v])
next
  case (AddStateCb p path cb)
  then show ?case unfolding registering_closures by (rule calm_undo [OF _ shrinks_undo(1) v])
next
  case (AddFetchCb p i cb)
  then show ?case unfolding registering_closures by (rule calm_undo [OF _ shrinks_undo(3) v])
qed

lemma calm_cancel: "\<exists>w'. cancel_request E reqs i w = Some (Inr (), w') \<and> shrinks w w'"
proof -
  have "\<exists>w'. try_catch (call_response E cb (error_doc E i (- 1) cancel_text)) (\<lambda>_. ret ()) w =
      Some (Inr (), w') \<and> shrinks w w'" for cb
    using calm_call_response [OF error_doc_error, of cb i "- 1" cancel_text w] try_catch_ret_total
    by metis
  then show ?thesis by (auto simp: cancel_request_def shrinks_refl split: option.splits)
qed

lemma calm_clear:
  assumes "\<not> m_mtx_openRequestCbs w"
  shows "\<exists>w'. clear E w = Some (Inr (length (m_openRequestCbs w)), w'\<lparr>m_openRequestCbs := [],
    m_mtx_openRequestCbs := False\<rparr>) \<and> shrinks (w\<lparr>m_mtx_openRequestCbs := True\<rparr>) w'"
proof -
  have "\<exists>w'. for_each ks (cancel_request E reqs) w = Some (Inr (), w') \<and> shrinks w w'" for ks reqs w
  proof (induction ks arbitrary: w)
    case Nil
    then show ?case by (simp add: shrinks_refl)
  next
    case (Cons k ks)
    obtain w1 where "cancel_request E reqs k w = Some (Inr (), w1)" "shrinks w w1"
      using calm_cancel by blast
    with Cons.IH [of w1] show ?case by (auto intro: shrinks_trans)
  qed
  then obtain w' where "for_each (hash_order E (keys (m_openRequestCbs w)))
      (cancel_request E (m_openRequestCbs w)) (w\<lparr>m_mtx_openRequestCbs := True\<rparr>) = Some (Inr (), w')"
      "shrinks (w\<lparr>m_mtx_openRequestCbs := True\<rparr>) w'" by blast
  with assms show ?thesis by (intro exI [of _ w']) (simp add: clear_def locked_def)
qed

lemma calm_stop_fetches:
  "\<exists>x. for_fetchers E p (\<lambda>fetchId fetcher.
     try_catch (call_fetch E (fetch_callback fetcher) (json_null E) (- 1)) (\<lambda>_. ret ())) w =
     Some (Inr (), w\<lparr>ext := x\<rparr>)"
proof -
  let ?body = "\<lambda>fetchers k. seq (case map_of fetchers k of None \<Rightarrow> ret ()
      | Some fetcher \<Rightarrow> try_catch (call_fetch E (fetch_callback fetcher) (json_null E) (- 1)) (\<lambda>_. ret ()))
    (\<lambda>w. if m_fetchers (peers w p) = fetchers then ret () w else stuck w)"
  have call: "\<exists>x. try_catch (call_fetch E cb (json_null E) (- 1)) (\<lambda>_. ret ()) v = Some (Inr (), v\<lparr>ext := x\<rparr>)"
    for cb v
  proof (cases cb)
    case None
    then show ?thesis by (simp add: call_fetch_def) (metis world.surjective world.update_convs(7))
  next
    case (Some u)
    then show ?thesis using calm_fetch [of u "json_null E" "- 1" v] try_catch_ret_total
      by (fastforce simp: call_fetch_def)
  qed
  have one: "\<exists>x. ?body (m_fetchers (peers v p)) k v = Some (Inr (), v\<lparr>ext := x\<rparr>)" for v k
  proof (cases "map_of (m_fetchers (peers v p)) k")
    case None
    then show ?thesis by simp (metis world.surjective world.update_convs(7))
  next
    case (Some f)
    then show ?thesis using call [of "fetch_callback f" v] by fastforce
  qed
  have "\<exists>x. for_each ks (?body (m_fetchers (peers v p))) v = Some (Inr (), v\<lparr>ext := x\<rparr>)" for ks v
  proof (induction ks arbitrary: v)
    case Nil
    then show ?case by simp (metis world.surjective world.update_convs(7))
  next
    case (Cons k ks)
    obtain x where "?body (m_fetchers (peers v p)) k v = Some (Inr (), v\<lparr>ext := x\<rparr>)" using one by blast
    with Cons.IH [of "v\<lparr>ext := x\<rparr>"] show ?case by auto
  qed
  then show ?thesis by (simp add: for_fetchers_def)
qed

lemma calm_stop:
  assumes "\<not> m_mtx_openRequestCbs w"
  shows "\<exists>w'. stop E p w = Some (Inr (), w') \<and> m_openRequestCbs w' = [] \<and>
    \<not> m_mtx_openRequestCbs w' \<and> m_stopped (peers w' p) \<and>
    m_stateCallbacks (peers w' p) = Map.empty \<and> m_methodCallbacks (peers w' p) = Map.empty \<and>
    (\<forall>q. set (m_fetchers (peers w' q)) \<subseteq> set (m_fetchers (peers w q)))"
proof -
  define w1 where "w1 = (upd_peer p (\<lambda>q. q\<lparr>m_stopped := True\<rparr>) w)\<lparr>ext := sock_disconnect E p (ext w)\<rparr>"
  obtain x where x: "for_fetchers E p (\<lambda>fetchId fetcher.
      try_catch (call_fetch E (fetch_callback fetcher) (json_null E) (- 1)) (\<lambda>_. ret ())) w1 =
      Some (Inr (), w1\<lparr>ext := x\<rparr>)"
    using calm_stop_fetches by blast
  define w2 where "w2 = upd_peer p (\<lambda>q. q\<lparr>m_methodCallbacks := Map.empty\<rparr>)
    (upd_peer p (\<lambda>q. q\<lparr>m_stateCallbacks := Map.empty\<rparr>) (w1\<lparr>ext := x\<rparr>))"
  have free: "\<not> m_mtx_openRequestCbs w2" using assms by (simp add: w2_def w1_def)
  obtain w3 where w3: "clear E w2 = Some (Inr (length (m_openRequestCbs w2)),
      w3\<lparr>m_openRequestCbs := [], m_mtx_openRequestCbs := False\<rparr>)"
      "shrinks (w2\<lparr>m_mtx_openRequestCbs := True\<rparr>) w3"
    using calm_clear [OF free] by blast
  have "stop E p w = Some (Inr (), w3\<lparr>m_openRequestCbs := [], m_mtx_openRequestCbs := False\<rparr>)"
    using x w3(1) by (simp add: stop_def w1_def w2_def)
  moreover have "m_stateCallbacks (peers w3 p) = Map.empty" "m_methodCallbacks (peers w3 p) = Map.empty"
      "m_stopped (peers w3 p)" "\<forall>q. set (m_fetchers (peers w3 q)) \<subseteq> set (m_fetchers (peers w q))"
    using w3(2) by (auto simp: shrinks_def w2_def w1_def dest: map_le_emptyD split: if_splits)
  ultimately show ?thesis by auto
qed

end

interpretation demo_calm: calm_callbacks demo_env
proof
  show "\<exists>r x. run_response demo_env u v w = Some (r, w\<lparr>ext := x\<rparr>)" for u v w
    using demo_run_result [of u v "()" w] by (auto simp: record_call_def)
  show "\<exists>r x. run_fetch demo_env u v st w = Some (r, w\<lparr>ext := x\<rparr>)" for u v st w
    using demo_run_result [of u v "()" w] by (auto simp: record_call_def)
qed simp

text \<open>
  C19: with callbacks that do not use the peer themselves, \<open>stop\<close> returns, whatever the callbacks
  throw.  Afterwards no request is open in the process, of this peer or any other; the peer has no
  states and no methods; no fetch was added (a fetch is only lost when its own request was open).
\<close>

theorem stop_clears:
  assumes "calm_callbacks E" and "\<not> m_mtx_openRequestCbs w"
  shows "\<exists>w'. stop E p w = Some (Inr (), w') \<and> m_openRequestCbs w' = [] \<and>
    \<not> m_mtx_openRequestCbs w' \<and> m_stopped (peers w' p) \<and>
    m_stateCallbacks (peers w' p) = Map.empty \<and> m_methodCallbacks (peers w' p) = Map.empty \<and>
    (\<forall>q. set (m_fetchers (peers w' q)) \<subseteq> set (m_fetchers (peers w q)))"
  by (rule calm_callbacks.calm_stop [OF assms])

theorem stop_clears_witness:
  "\<exists>w'. stop demo_env 3 demo_open = Some (Inr (), w') \<and> m_openRequestCbs w' = []"
  using stop_clears [OF demo_calm.calm_callbacks_axioms, of demo_open 3]
  by (auto simp: demo_open_def initial_def)

section \<open>Resume\<close>

definition config_doc :: "('j, 'z) jsonrpc_scheme \<Rightarrow> 'u peer \<Rightarrow> 'j" where
  "config_doc J q = AsyncRequest J CONFIG (json_put J (json_put J (json_null J) NAME
     (json_string J (m_name q))) DBG (json_bool J (m_debug q)))"

definition fetch_doc :: "('j, 'z) jsonrpc_scheme \<Rightarrow> (fetchId_t \<times> 'u fetcher_t) list \<Rightarrow> fetchId_t \<Rightarrow> 'j" where
  "fetch_doc J fetchers i = AsyncRequest J FETCH (fetch_params J i (case map_of fetchers i of
     Some f \<Rightarrow> fetch_matcher f | None \<Rightarrow> matcher_default))"

context wire_socket
begin

lemma send_now:
  assumes "length (json_writeString E v) \<le> MAX_MESSAGE_SIZE"
    and "\<And>blocks x. 0 \<le> sint (fst (sock_sendBlocks E p blocks x))"
  shows "\<exists>x. sendMessage E p v w = Some (Inr (), w\<lparr>ext := x\<rparr>) \<and>
    wire x = wire (ext w) @ frame (json_writeString E v)"
proof -
  let ?bs = "[be_bytes (length (json_writeString E v)), json_writeString E v]"
  obtain r x where rx: "sock_sendBlocks E p ?bs (ext w) = (r, x)" by fastforce
  then have "0 \<le> sint r" using assms(2) [of ?bs "ext w"] by simp
  with rx assms(1) sent_blocks [OF rx] show ?thesis
    by (auto simp: sendMessage_def Let_def frame_def)
qed

lemma execute_now:
  assumes "length (json_writeString E v) \<le> MAX_MESSAGE_SIZE"
    and "\<And>blocks x. 0 \<le> sint (fst (sock_sendBlocks E p blocks x))"
  shows "\<exists>x. execute E p v None w = Some (Inr 0, w\<lparr>ext := x\<rparr>) \<and>
    wire x = wire (ext w) @ frame (json_writeString E v)"
  using send_now [OF assms, of w] by (auto simp: execute_def)

lemma restore_all:
  assumes small: "\<And>i. i \<in> set ks \<Longrightarrow>
      length (json_writeString E (fetch_doc E fetchers i)) \<le> MAX_MESSAGE_SIZE"
    and ok: "\<And>blocks x. 0 \<le> sint (fst (sock_sendBlocks E p blocks x))"
    and ks: "set ks \<subseteq> set (keys fetchers)"
  shows "m_fetchers (peers w p) = fetchers \<Longrightarrow> \<exists>x. for_each ks (\<lambda>k. seq (case map_of fetchers k of
      None \<Rightarrow> ret ()
    | Some f \<Rightarrow> try_catch (restoreFetch E p (fetch_matcher f) k) (\<lambda>_. ret ()))
    (\<lambda>w. if m_fetchers (peers w p) = fetchers then ret () w else stuck w)) w = Some (Inr (), w\<lparr>ext := x\<rparr>) \<and>
    wire x = wire (ext w) @ concat (map (\<lambda>i. frame (json_writeString E (fetch_doc E fetchers i))) ks)"
  using small ks
proof (induction ks arbitrary: w)
  case Nil
  then show ?case by simp (metis world.surjective world.update_convs(7))
next
  case (Cons k ks)
  obtain f where f: "map_of fetchers k = Some f"
    using Cons.prems(3) map_of_None_keys [of fetchers k] by auto
  obtain x where x: "execute E p (fetch_doc E fetchers k) None w = Some (Inr 0, w\<lparr>ext := x\<rparr>)"
      "wire x = wire (ext w) @ frame (json_writeString E (fetch_doc E fetchers k))"
    using execute_now [OF Cons.prems(2) ok, of k w] by auto
  have "restoreFetch E p (fetch_matcher f) k w = Some (Inr (), w\<lparr>ext := x\<rparr>)"
    using x(1) f by (simp add: restoreFetch_def fetch_doc_def)
  with f Cons.IH [of "w\<lparr>ext := x\<rparr>"] Cons.prems x(2) show ?case by auto
qed

end

lemma connect_ok:
  assumes "connect E p w = Some (Inr (), w')"
  obtains x where "w' = w\<lparr>ext := x\<rparr>"
  using assms by (auto simp: connect_def Let_def split: if_splits prod.splits)

text \<open>The state after a successful \<open>resume\<close>: only the reception buffers, the registration with the
  event loop and the world outside have changed.\<close>

definition resumed :: "pid \<Rightarrow> ('j, 'u, 'x) world \<Rightarrow> 'x \<Rightarrow> ('j, 'u, 'x) world" where
  "resumed p w x = (upd_peer p (\<lambda>q. (reset_buffers q)\<lparr>m_dataCb := True\<rparr>) w)\<lparr>ext := x\<rparr>"

lemma resumed_fields [simp]:
  "m_fetchers (peers (resumed p w x) p) = m_fetchers (peers w p)"
  "m_name (peers (resumed p w x) p) = m_name (peers w p)"
  "m_debug (peers (resumed p w x) p) = m_debug (peers w p)"
  "m_openRequestCbs (resumed p w x) = m_openRequestCbs w" "m_dataCb (peers (resumed p w x) p)"
  "ext (resumed p w x) = x" "(resumed p w x)\<lparr>ext := y\<rparr> = resumed p w y"
  "pending (peers (resumed p w x) p) = []"
  by (simp_all add: resumed_def reset_buffers_def pending_def)

lemma resume_world:
  assumes sock: "wire_socket E p wire" and ok: "\<And>blocks x. 0 \<le> sint (fst (sock_sendBlocks E p blocks x))"
    and conn: "connect E p (upd_peer p reset_buffers w) = Some (Inr (), w1)"
    and small: "length (json_writeString E (config_doc E (peers w p))) \<le> MAX_MESSAGE_SIZE"
      "\<And>i. i \<in> set (keys (m_fetchers (peers w p))) \<Longrightarrow>
        length (json_writeString E (fetch_doc E (m_fetchers (peers w p)) i)) \<le> MAX_MESSAGE_SIZE"
    and order: "\<And>ks. mset (hash_order E ks) = mset ks"
  shows "\<exists>x ks. resume E p w = Some (Inr True, resumed p w x) \<and>
    mset ks = mset (keys (m_fetchers (peers w p))) \<and>
    wire x = wire (ext w1) @ concat (map (\<lambda>d. frame (json_writeString E d))
      (config_doc E (peers w p) # map (fetch_doc E (m_fetchers (peers w p))) ks))"
proof -
  let ?fs = "m_fetchers (peers w p)" and ?ks = "hash_order E (keys (m_fetchers (peers w p)))"
  obtain x where w1: "w1 = upd_peer p reset_buffers w\<lparr>ext := x\<rparr>" using connect_ok [OF conn] .
  have w2: "upd_peer p (\<lambda>q. q\<lparr>m_dataCb := True\<rparr>) w1 = resumed p w x"
    by (simp add: w1 resumed_def upd_peer_def)
  obtain y where y: "execute E p (config_doc E (peers w p)) None (resumed p w x) = Some (Inr 0, resumed p w y)"
      "wire y = wire x @ frame (json_writeString E (config_doc E (peers w p)))"
    using wire_socket.execute_now [OF sock small(1) ok, of "resumed p w x"] by auto
  have conf: "configAsync E p (m_name (peers w p)) (m_debug (peers w p)) None (resumed p w x) =
      Some (Inr (), resumed p w y)"
    using y(1) by (simp add: configAsync_def config_doc_def Let_def)
  have ks: "set ?ks = set (keys ?fs)" using order by (metis set_mset_mset)
  obtain z where z: "for_fetchers E p (\<lambda>fetchId fetcher.
        try_catch (restoreFetch E p (fetch_matcher fetcher) fetchId) (\<lambda>_. ret ())) (resumed p w y) =
        Some (Inr (), resumed p w z)"
      "wire z = wire y @ concat (map (\<lambda>i. frame (json_writeString E (fetch_doc E ?fs i))) ?ks)"
    using wire_socket.restore_all [OF sock _ ok, of ?ks ?fs "resumed p w y"] small(2) ks
    by (auto simp: for_fetchers_def)
  have "resume E p w = Some (Inr True, resumed p w z)"
    using conn conf z(1) by (simp add: resume_def start_def w2)
  moreover have "wire z = wire (ext w1) @ concat (map (\<lambda>d. frame (json_writeString E d))
      (config_doc E (peers w p) # map (fetch_doc E ?fs) ?ks))"
    using y(2) z(2) by (simp add: comp_def w1)
  ultimately show ?thesis using order by blast
qed

text \<open>
  C18: fetches survive a lost connection.  When the connection can be established again, \<open>resume\<close>
  announces the peer and then requests every registered fetch once, under its old fetch id and with
  its matcher; the registrations and the open requests are unchanged and reception starts afresh.
\<close>

theorem resume_restores:
  assumes sock: "wire_socket E p wire" and ok: "\<And>blocks x. 0 \<le> sint (fst (sock_sendBlocks E p blocks x))"
    and conn: "connect E p (upd_peer p reset_buffers w) = Some (Inr (), w1)"
    and small: "length (json_writeString E (config_doc E (peers w p))) \<le> MAX_MESSAGE_SIZE"
      "\<And>i. i \<in> set (keys (m_fetchers (peers w p))) \<Longrightarrow>
        length (json_writeString E (fetch_doc E (m_fetchers (peers w p)) i)) \<le> MAX_MESSAGE_SIZE"
    and order: "\<And>ks. mset (hash_order E ks) = mset ks"
  shows "\<exists>w' ks. resume E p w = Some (Inr True, w') \<and> mset ks = mset (keys (m_fetchers (peers w p))) \<and>
    wire (ext w') = wire (ext w1) @ concat (map (\<lambda>d. frame (json_writeString E d))
      (config_doc E (peers w p) # map (fetch_doc E (m_fetchers (peers w p))) ks)) \<and>
    m_fetchers (peers w' p) = m_fetchers (peers w p) \<and> m_openRequestCbs w' = m_openRequestCbs w \<and>
    m_dataCb (peers w' p) \<and> pending (peers w' p) = []"
  using resume_world [OF sock ok conn small order] by fastforce

text \<open>A world whose socket never fails.\<close>

definition steady_env :: "(json, demo_cb, demo_ext) env" where
  "steady_env = demo_env\<lparr>sock_sendBlocks := (\<lambda>p blocks x. (0, x\<lparr>sent := sent x @ concat blocks\<rparr>))\<rparr>"

interpretation steady_wire: wire_socket steady_env p sent for p
  by unfold_locales (auto simp: steady_env_def)

theorem resume_restores_witness:
  "\<exists>w' ks. resume steady_env 0 (demo_fetching []) = Some (Inr True, w') \<and> mset ks = {#7#} \<and>
     sent (ext w') = frame (jwrite (config_doc steady_env (peers (demo_fetching []) 0))) @
       frame (jwrite (fetch_doc steady_env (m_fetchers (peers (demo_fetching []) 0)) 7))"
proof -
  have conn: "connect steady_env 0 (upd_peer 0 reset_buffers (demo_fetching [])) =
      Some (Inr (), upd_peer 0 reset_buffers (demo_fetching []))"
    by (simp add: connect_def Let_def demo_fetching_def demo_F_def initial_def steady_env_def no_peer_def
        reset_buffers_def upd_peer_def)
  have f: "m_fetchers (peers (demo_fetching []) 0) =
      [(7, \<lparr>fetch_callback = Some (Log 1), fetch_matcher = matcher_default\<rparr>)]"
    by (simp add: demo_fetching_def demo_F_def)
  obtain w' ks where "resume steady_env 0 (demo_fetching []) = Some (Inr True, w')" "mset ks = {#7#}"
      "sent (ext w') = concat (map (\<lambda>d. frame (jwrite d))
        (config_doc steady_env (peers (demo_fetching []) 0) #
          map (fetch_doc steady_env (m_fetchers (peers (demo_fetching []) 0))) ks))"
    using resume_restores [OF steady_wire.wire_socket_axioms _ conn]
    by (fastforce simp: steady_env_def config_doc_def fetch_doc_def AsyncRequest_def fetch_params_def
        addPathInformation_def add_rule_def matcher_default_def f demo_fetching_def demo_F_def no_peer_def
        initial_def MAX_MESSAGE_SIZE_def jet_key_defs jet_request_defs demo_start_def)
  moreover from this(2) have "ks = [7]" by simp
  ultimately show ?thesis by auto
qed

section \<open>All reachable states\<close>

text \<open>
  C8: in every state a process reaches by any sequence of operations on any number of peers, the
  tables of open requests and fetches have no duplicate keys, the reception levels lie within their
  buffers (nothing is ever stored outside them), data are only buffered behind a complete length,
  and the mutex of the open requests is free between operations.
\<close>

theorem reachable_wf:
  assumes "well_behaved E" and "reachable E w"
  shows "wf_world w \<and> \<not> m_mtx_openRequestCbs w"
  using well_behaved.reachable_safe [OF assms] by (simp add: mutex_is_def)

theorem reachable_wf_witness:
  "\<exists>w'. addFetchAsync demo_env 0 matcher_default (Some (Log 1)) None (initial demo_start) = Some (Inr 1, w') \<and>
     m_fetchers (peers w' 0) \<noteq> [] \<and> wf_world w' \<and> \<not> m_mtx_openRequestCbs w'"
proof -
  define w0 :: "(json, demo_cb, demo_ext) world" where
    "w0 = upd_peer 0 (\<lambda>q. q\<lparr>m_fetchers := [(1, \<lparr>fetch_callback = Some (Log 1), fetch_matcher = matcher_default\<rparr>)]\<rparr>)
      ((initial demo_start)\<lparr>m_sfetchId := 1\<rparr>)"
  obtain x where "execute_notification demo_env 0
      (AsyncRequest demo_env FETCH (fetch_params demo_env 1 matcher_default)) w0 = Some (Inr (), w0\<lparr>ext := x\<rparr>)"
    by (cases rule: sendMessage_cases [of demo_env 0
          "AsyncRequest demo_env FETCH (fetch_params demo_env 1 matcher_default)" w0])
      (auto simp: execute_notification_def)
  then have step: "addFetchAsync demo_env 0 matcher_default (Some (Log 1)) None (initial demo_start) =
      Some (Inr 1, w0\<lparr>ext := x\<rparr>)"
    by (simp add: addFetchAsync_def createFetchId_def registerFetch_def w0_def initial_def no_peer_def
        upd_peer_def)
  then have "reachable demo_env (w0\<lparr>ext := x\<rparr>)"
    by (rule reachable.step [OF reachable.init api_step.add_fetch])
  from reachable_wf [OF demo.well_behaved_axioms this] step show ?thesis
    by (simp add: w0_def)
qed

end
