(* ===== verification/Routing_Properties.thy ===== *)
theory Routing_Properties
  imports Routing Lifecycle_Properties
begin

text \<open>
  The properties of the routing tool: the tool as a state machine over the closures that its event
  loop runs and the operations of the library, its invariant together with that of the library, what
  an announcement does, what a restart cycle does, and when a cycle counts as complete.
\<close>

section \<open>Running library operations inside the tool\<close>

lemma on_process_simps [simp]:
  "m (process s) = None \<Longrightarrow> on_process m s = None"
  "m (process s) = Some (r, w) \<Longrightarrow> on_process m s = Some (r, s\<lparr>process := w\<rparr>)"
  by (simp_all add: on_process_def)

lemma keeps_on_process:
  "keeps I m \<Longrightarrow> keeps (\<lambda>s. I (process s)) (on_process m)"
  by (auto simp: keeps_def on_process_def split: option.splits)

lemma keeps_around_process:
  "(\<And>s w. J s \<Longrightarrow> J (s\<lparr>process := w\<rparr>)) \<Longrightarrow> keeps J (on_process m)"
  by (auto simp: keeps_def on_process_def split: option.splits)

lemma upd_info_simps [simp]:
  "process (upd_info uuid f s) = process s" "m_routedDevices (upd_info uuid f s) = m_routedDevices s"
  "next_peer (upd_info uuid f s) = next_peer s" "readings (upd_info uuid f s) = readings s"
  "restartCycleCount (upd_info uuid f s) = restartCycleCount s" "s_timer (upd_info uuid f s) = s_timer s"
  "complaints (upd_info uuid f s) = complaints s" "m_fetchDone (upd_info uuid f s) = m_fetchDone s"
  "info_at uuid' (m_appearanceInfos (upd_info uuid f s)) =
     (if uuid' = uuid then f (info_at uuid (m_appearanceInfos s)) else info_at uuid' (m_appearanceInfos s))"
  "map_of (m_appearanceInfos (upd_info uuid f s)) = (map_of (m_appearanceInfos s))
     (uuid \<mapsto> f (info_at uuid (m_appearanceInfos s)))"
  by (simp_all add: upd_info_def info_at_def)

lemma now_apply [simp]: "now E s = Some (Inr (steady_now E (readings s)), s\<lparr>readings := Suc (readings s)\<rparr>)"
  by (simp add: now_def)

text \<open>A fetch without result callback always succeeds.\<close>

lemma addFetch_unanswered:
  "\<exists>x. addFetchAsync E p match callback None w = Some (Inr (m_sfetchId w + 1),
     upd_peer p (\<lambda>q. q\<lparr>m_fetchers := AList.update (m_sfetchId w + 1)
       \<lparr>fetch_callback = callback, fetch_matcher = match\<rparr> (m_fetchers q)\<rparr>)
       (w\<lparr>m_sfetchId := m_sfetchId w + 1\<rparr>)\<lparr>ext := x\<rparr>)"
proof -
  define doc where "doc = AsyncRequest E FETCH (fetch_params E (m_sfetchId w + 1) match)"
  define w1 where "w1 = upd_peer p (\<lambda>q. q\<lparr>m_fetchers := AList.update (m_sfetchId w + 1)
       \<lparr>fetch_callback = callback, fetch_matcher = match\<rparr> (m_fetchers q)\<rparr>)
       (w\<lparr>m_sfetchId := m_sfetchId w + 1\<rparr>)"
  obtain x where "execute_notification E p doc w1 = Some (Inr (), w1\<lparr>ext := x\<rparr>)"
    by (cases rule: sendMessage_cases [of E p doc w1]) (auto simp: execute_notification_def)
  then have "addFetchAsync E p match callback None w = Some (Inr (m_sfetchId w + 1), w1\<lparr>ext := x\<rparr>)"
    by (simp add: addFetchAsync_def createFetchId_def registerFetch_def doc_def w1_def Let_def)
  then show ?thesis unfolding w1_def by blast
qed

lemma info_count:
  "(case map_of (m_appearanceInfos s) uuid of
      None \<Rightarrow> upd_info uuid (\<lambda>i. i\<lparr>appearanceCount := 1\<rparr>) s
    | Some _ \<Rightarrow> upd_info uuid (\<lambda>i. i\<lparr>appearanceCount := appearanceCount i + 1\<rparr>) s) =
   upd_info uuid (\<lambda>i. i\<lparr>appearanceCount := appearanceCount i + 1\<rparr>) s"
  by (simp add: upd_info_def info_at_def appearanceInfo_default_def split: option.split)

text \<open>The state after a device was added, by the state of the library behind it.\<close>

definition routed_added :: "string \<Rightarrow> ('j, 'u, 'x) world \<Rightarrow> ('j, 'u, 'x) routing \<Rightarrow> ('j, 'u, 'x) routing" where
  "routed_added uuid w s = upd_info uuid (\<lambda>i. i\<lparr>appearanceCount := appearanceCount i + 1\<rparr>)
     (s\<lparr>next_peer := Suc (next_peer s), m_routedDevices := AList.update uuid
        \<lparr>rd_peer = next_peer s, rd_serviceCb = Some uuid\<rparr> (m_routedDevices s), process := w\<rparr>)"

lemma add_routed_cases:
  fixes E s port
  defines "r \<equiv> PeerAsync E (next_peer s) (d_address s) port [] False (garbage E) (process s)"
  shows "r = None \<Longrightarrow> add_routed E uuid port s = None"
    and "r = Some (Inl e, w) \<Longrightarrow>
      add_routed E uuid port s = Some (Inl e, s\<lparr>next_peer := Suc (next_peer s), process := w\<rparr>)"
    and "r = Some (Inr (), w) \<Longrightarrow>
      addFetchAsync E (next_peer s) services_matcher
        (Some (tok_fetchServicesCb E (next_peer s))) None w = Some (Inr i, w') \<Longrightarrow>
      add_routed E uuid port s = Some (Inr (), routed_added uuid w' s)"
  unfolding r_def
  by (simp_all add: add_routed_def RoutedDevice_construct_def setServiceCb_def info_count
      routed_added_def update_update_same)


section \<open>The tool as a state machine\<close>

inductive routing_step :: "('j, 'u, 'x, 'z) routing_env_scheme \<Rightarrow> ('j, 'u, 'x) routing
    \<Rightarrow> ('j, 'u, 'x) routing \<Rightarrow> bool" for E :: "('j, 'u, 'x, 'z) routing_env_scheme" where
  routed: "fetchRoutedCb E n st s = Some (r, s') \<Longrightarrow> routing_step E s s'"
| services: "map_of (m_routedDevices s) uuid = Some d \<Longrightarrow>
    fetchServicesCb E (restartCompleteCb E) d n st s = Some (r, s') \<Longrightarrow> routing_step E s s'"
| response: "fetchResponseCb E n s = Some (r, s') \<Longrightarrow> routing_step E s s'"
| timer: "restartTimerCb E fired s = Some (r, s') \<Longrightarrow> routing_step E s s'"
| syslog: "setSyslog E destination s = Some (r1, s') \<Longrightarrow> routing_step E s s'"
| library: "api_step E (process s) w \<Longrightarrow> routing_step E s (s\<lparr>process := w\<rparr>)"

inductive routing_reachable :: "('j, 'u, 'x, 'z) routing_env_scheme \<Rightarrow> ('j, 'u, 'x) routing \<Rightarrow> bool"
  for E :: "('j, 'u, 'x, 'z) routing_env_scheme" where
  init: "reachable E (process s) \<Longrightarrow> p < next_peer s \<Longrightarrow>
    Device_construct E address p s = Some (r, s') \<Longrightarrow> routing_reachable E s'"
| step: "routing_reachable E s \<Longrightarrow> routing_step E s s' \<Longrightarrow> routing_reachable E s'"

text \<open>
  Every routed device is known under its own non-empty uuid, has a peer of its own that is not the
  tool's, its services are reported for it, and it has an appearance record.
\<close>

definition routing_inv :: "('j, 'u, 'x) routing \<Rightarrow> bool" where
  "routing_inv s \<longleftrightarrow> distinct (keys (m_routedDevices s)) \<and> distinct (keys (m_appearanceInfos s)) \<and>
     d_peer s < next_peer s \<and>
     (\<forall>uuid d. map_of (m_routedDevices s) uuid = Some d \<longrightarrow> uuid \<noteq> [] \<and> rd_serviceCb d = Some uuid \<and>
        rd_peer d < next_peer s \<and> rd_peer d \<noteq> d_peer s \<and> map_of (m_appearanceInfos s) uuid \<noteq> None) \<and>
     (\<forall>u1 u2 d1 d2. map_of (m_routedDevices s) u1 = Some d1 \<longrightarrow> map_of (m_routedDevices s) u2 = Some d2 \<longrightarrow>
        rd_peer d1 = rd_peer d2 \<longrightarrow> u1 = u2)"

lemma routing_inv_process [simp]: "routing_inv (s\<lparr>process := w\<rparr>) = routing_inv s"
  "routing_inv (s\<lparr>readings := n\<rparr>) = routing_inv s" "routing_inv (s\<lparr>complaints := cs\<rparr>) = routing_inv s"
  "routing_inv (s\<lparr>restartCycleCount := c, s_timer := t\<rparr>) = routing_inv s"
  "routing_inv (s\<lparr>m_fetchDone := b\<rparr>) = routing_inv s"
  by (simp_all add: routing_inv_def)

lemma d_peer_upd_info [simp]: "d_peer (upd_info uuid f s) = d_peer s"
  by (simp add: upd_info_def)

lemma routing_inv_upd_info: "routing_inv s \<Longrightarrow> routing_inv (upd_info uuid f s)"
  by (auto simp: routing_inv_def) (simp add: upd_info_def)

lemma routing_inv_next: "routing_inv s \<Longrightarrow> routing_inv (s\<lparr>next_peer := Suc (next_peer s)\<rparr>)"
  by (fastforce simp: routing_inv_def)

lemma routing_inv_delete:
  "routing_inv s \<Longrightarrow> routing_inv (s\<lparr>m_routedDevices := AList.delete uuid (m_routedDevices s)\<rparr>)"
  by (auto simp: routing_inv_def split: if_splits)

lemma routing_invD:
  assumes "routing_inv s" and "map_of (m_routedDevices s) uuid = Some d"
  shows "uuid \<noteq> []" "rd_serviceCb d = Some uuid" "rd_peer d < next_peer s" "rd_peer d \<noteq> d_peer s"
    "map_of (m_appearanceInfos s) uuid \<noteq> None"
  using assms unfolding routing_inv_def by blast+

lemma routing_inv_inj:
  assumes "routing_inv s" and "map_of (m_routedDevices s) u1 = Some d1"
    and "map_of (m_routedDevices s) u2 = Some d2" and "rd_peer d1 = rd_peer d2"
  shows "u1 = u2"
  using assms unfolding routing_inv_def by blast

lemma routing_inv_added:
  assumes inv: "routing_inv s" and "uuid \<noteq> []"
  shows "routing_inv (routed_added uuid w s)"
proof -
  let ?s = "routed_added uuid w s"
  have fields: "m_routedDevices ?s = AList.update uuid
      \<lparr>rd_peer = next_peer s, rd_serviceCb = Some uuid\<rparr> (m_routedDevices s)"
      "next_peer ?s = Suc (next_peer s)" "d_peer ?s = d_peer s"
      "map_of (m_appearanceInfos ?s) u \<noteq> None \<longleftrightarrow> u = uuid \<or> map_of (m_appearanceInfos s) u \<noteq> None" for u
    by (simp_all add: routed_added_def)
  have dist: "distinct (keys (m_appearanceInfos ?s))" "distinct (keys (m_routedDevices ?s))"
      "d_peer s < next_peer s"
    using inv by (simp_all add: routed_added_def routing_inv_def upd_info_def)
  have dev: "u \<noteq> [] \<and> rd_serviceCb d = Some u \<and> rd_peer d < Suc (next_peer s) \<and> rd_peer d \<noteq> d_peer s \<and>
      (u = uuid \<or> map_of (m_appearanceInfos s) u \<noteq> None) \<and> (rd_peer d = next_peer s \<longrightarrow> u = uuid)"
    if "map_of (m_routedDevices ?s) u = Some d" for u d
    using that assms dist(3) routing_invD [OF inv, of u d]
    by (cases "u = uuid") (auto simp: fields(1) simp del: map_of_eq_Some_iff)
  have inj: "u1 = u2" if "map_of (m_routedDevices ?s) u1 = Some d1"
      "map_of (m_routedDevices ?s) u2 = Some d2" "rd_peer d1 = rd_peer d2" for u1 u2 d1 d2
    using that routing_inv_inj [OF inv, of u1 d1 u2 d2] dev [OF that(1)] dev [OF that(2)]
      routing_invD(3) [OF inv, of u1 d1] routing_invD(3) [OF inv, of u2 d2]
    by (cases "u1 = uuid"; cases "u2 = uuid") (auto simp: fields(1))
  show ?thesis
    unfolding routing_inv_def
  proof (intro conjI allI impI)
    show "d_peer ?s < next_peer ?s" using dist(3) by (simp add: fields(2,3))
    show "u \<noteq> []" "rd_serviceCb d = Some u" "rd_peer d < next_peer ?s" "rd_peer d \<noteq> d_peer ?s"
        "map_of (m_appearanceInfos ?s) u \<noteq> None"
      if "map_of (m_routedDevices ?s) u = Some d" for u d
      unfolding fields(2-4) using dev [OF that] by blast+
  qed (fact dist(2) dist(1) | erule (2) inj)+
qed

lemmas keeps_routing_inv = keeps_intros keeps_around_process keeps_modify routing_inv_upd_info
  routing_inv_next routing_inv_delete

lemma keeps_now: "(\<And>s n. J s \<Longrightarrow> J (s\<lparr>readings := n\<rparr>)) \<Longrightarrow> keeps J (now E)"
  by (auto simp: keeps_def)

lemma result_cases:
  obtains (none) "r = None" | (throws) e w where "r = Some (Inl e, w)" | (returns) a w where "r = Some (Inr a, w)"
proof (cases r)
  case (Some y)
  then show thesis using that by (cases "fst y") (metis prod.collapse)+
qed (use that in blast)

lemma routing_inv_add: "uuid \<noteq> [] \<Longrightarrow> keeps routing_inv (add_routed E uuid port)"
proof (rule keepsI)
  fix s r s'
  assume *: "uuid \<noteq> []" "routing_inv s" "add_routed E uuid port s = Some (r, s')"
  show "routing_inv s'"
  proof (cases rule: result_cases [of "PeerAsync E (next_peer s) (d_address s) port [] False (garbage E) (process s)"])
    case (returns u w)
    then have "PeerAsync E (next_peer s) (d_address s) port [] False (garbage E) (process s) = Some (Inr (), w)"
      by simp
    note 3 = this
    obtain w' where "addFetchAsync E (next_peer s) services_matcher
        (Some (tok_fetchServicesCb E (next_peer s))) None w = Some (Inr (m_sfetchId w + 1), w')"
      using addFetch_unanswered [of E "next_peer s" services_matcher
          "Some (tok_fetchServicesCb E (next_peer s))" w] by blast
    from add_routed_cases(3) [OF 3 this, of uuid] * show ?thesis by (auto simp: routing_inv_added)
  next
    case none
    from add_routed_cases(1) [OF this] * show ?thesis by simp
  next
    case (throws e w)
    from add_routed_cases(2) [OF this] * show ?thesis by (auto dest: routing_inv_next)
  qed
qed

lemma routing_inv_restart: "keeps routing_inv (restartRoutedDevices E)"
  unfolding restartRoutedDevices_def RoutedDevice_restart_def
  by (intro keeps_routing_inv keeps_now) simp_all

lemma routing_inv_reboot: "keeps routing_inv (checkAndReboot E)"
  unfolding checkAndReboot_def getRoutedDevicesAppearance_def
  by (intro keeps_routing_inv routing_inv_restart) simp_all

lemma routing_inv_handlers:
  "keeps routing_inv (fetchRoutedCb E n st)" "keeps routing_inv (fetchResponseCb E n)"
  "keeps routing_inv (restartTimerCb E fired)" "keeps routing_inv (setSyslog E destination)"
  "keeps routing_inv (fetchServicesCb E (restartCompleteCb E) d n st)"
  unfolding fetchRoutedCb_def remove_routed_def RoutedDevice_destroy_def fetchResponseCb_def
    restartTimerCb_def setSyslog_def fetchServicesCb_def serviceCb_def restartCompleteCb_def Let_def
  by (intro keeps_routing_inv keeps_now routing_inv_add routing_inv_reboot; simp)+

text \<open>The library below the tool: its invariants survive every step of the tool.\<close>

locale routing_world = well_behaved E for E :: "('j, 'u, 'x, 'z) routing_env_scheme"
begin

lemma process_handlers:
  assumes "world_invariant E I"
  shows "keeps (\<lambda>s. I (process s)) (fetchRoutedCb E n st)"
    "keeps (\<lambda>s. I (process s)) (fetchResponseCb E n)"
    "keeps (\<lambda>s. I (process s)) (restartTimerCb E fired)"
    "keeps (\<lambda>s. I (process s)) (setSyslog E destination)"
    "keeps (\<lambda>s. I (process s)) (fetchServicesCb E (restartCompleteCb E) d n st)"
    "keeps (\<lambda>s. I (process s)) (Device_construct E address p)"
proof -
  note lib = world_invariant.keeps_PeerAsync [OF assms] world_invariant.keeps_destroy [OF assms]
    world_invariant.keeps_simple_requests [OF assms] world_invariant.keeps_fetch_requests [OF assms]
  note rules = keeps_intros keeps_modify keeps_now keeps_on_process lib
  have reboot: "keeps (\<lambda>s. I (process s)) (checkAndReboot E)"
    unfolding checkAndReboot_def getRoutedDevicesAppearance_def restartRoutedDevices_def RoutedDevice_restart_def
    by (intro rules) simp_all
  have add: "keeps (\<lambda>s. I (process s)) (add_routed E uuid port)" for uuid port
    unfolding add_routed_def RoutedDevice_construct_def setServiceCb_def info_count
    by (intro rules) simp_all
  show "keeps (\<lambda>s. I (process s)) (fetchRoutedCb E n st)"
    "keeps (\<lambda>s. I (process s)) (fetchResponseCb E n)"
    "keeps (\<lambda>s. I (process s)) (restartTimerCb E fired)"
    "keeps (\<lambda>s. I (process s)) (setSyslog E destination)"
    "keeps (\<lambda>s. I (process s)) (fetchServicesCb E (restartCompleteCb E) d n st)"
    "keeps (\<lambda>s. I (process s)) (Device_construct E address p)"
    unfolding fetchRoutedCb_def remove_routed_def RoutedDevice_destroy_def fetchResponseCb_def
      restartTimerCb_def setSyslog_def fetchServicesCb_def serviceCb_def restartCompleteCb_def
      Device_construct_def Let_def
    by (intro rules reboot add; simp)+
qed

lemma step_keeps_process:
  assumes "world_invariant E I" and "routing_step E s s'" and "I (process s)"
  shows "I (process s')"
  using assms(2,3)
  by (induction rule: routing_step.induct)
    (auto dest: keepsD [OF process_handlers(1) [OF assms(1)]] keepsD [OF process_handlers(2) [OF assms(1)]]
      keepsD [OF process_handlers(3) [OF assms(1)]] keepsD [OF process_handlers(4) [OF assms(1)]]
      keepsD [OF process_handlers(5) [OF assms(1)]] world_invariant.api_step_keeps [OF assms(1)])

lemma routing_reachable_process:
  assumes "world_invariant E I" and "\<And>w. reachable E w \<Longrightarrow> I w" and "routing_reachable E s"
  shows "I (process s)"
  using assms(3)
proof (induction rule: routing_reachable.induct)
  case (init s p address r s')
  then show ?case using keepsD [OF process_handlers(6) [OF assms(1)] _ init(3)] assms(2) by blast
next
  case (step s s')
  then show ?case by (blast intro: step_keeps_process [OF assms(1)])
qed

lemma reachable_library: "routing_reachable E s \<Longrightarrow> wf_world (process s) \<and> mutex_is False (process s)"
  using reachable_safe
  by (blast intro: routing_reachable_process [OF wf.world_invariant_axioms]
      routing_reachable_process [OF mutex.world_invariant_axioms])

end

lemma routing_step_inv: "routing_step E s s' \<Longrightarrow> routing_inv s \<Longrightarrow> routing_inv s'"
  by (induction rule: routing_step.induct) (auto dest: routing_inv_handlers [THEN keepsD, rotated])

lemma Device_construct_inv:
  "p < next_peer s \<Longrightarrow> Device_construct E address p s = Some (r, s') \<Longrightarrow> routing_inv s'"
  by (auto simp: Device_construct_def on_process_def seq_def bnd_def routing_inv_def
      split: option.splits prod.splits sum.splits)

section \<open>A restart cycle\<close>

definition restart_doc :: "('j, 'z) jsonrpc_scheme \<Rightarrow> 'j" where
  "restart_doc J = AsyncRequest J CALL (json_put J (json_null J) PATH (json_string J ''system/restart''))"

text \<open>
  What the cycle relies on: every peer has a wire of its own, blocks that were sent are on the wire of
  their peer and on no other, and sending works.
\<close>

locale peer_wires = jsonrpc E for E :: "('j, 'u, 'x, 'z) routing_env_scheme" +
  fixes wire :: "pid \<Rightarrow> 'x \<Rightarrow> byte list"
  assumes sent_on: "sock_sendBlocks E p blocks x = (res, x') \<Longrightarrow>
      0 \<le> sint res \<and> wire q x' = wire q x @ (if q = p then concat blocks else [])"
    and any_order: "mset (str_order E ks) = mset ks"
    and restart_small: "length (json_writeString E (restart_doc E)) \<le> MAX_MESSAGE_SIZE"
begin

lemma send_restart:
  "\<exists>x. RoutedDevice_restart E d s = Some (Inr (), s\<lparr>process := (process s)\<lparr>ext := x\<rparr>\<rparr>) \<and>
    (\<forall>q. wire q x = wire q (ext (process s)) @
      (if q = rd_peer d then frame (json_writeString E (restart_doc E)) else []))"
proof -
  let ?bs = "[be_bytes (length (json_writeString E (restart_doc E))), json_writeString E (restart_doc E)]"
  obtain r x where rx: "sock_sendBlocks E (rd_peer d) ?bs (ext (process s)) = (r, x)" by fastforce
  have "0 \<le> sint r" using sent_on [OF rx] by blast
  then have "sendMessage E (rd_peer d) (restart_doc E) (process s) = Some (Inr (), (process s)\<lparr>ext := x\<rparr>)"
    using restart_small rx by (simp add: sendMessage_def Let_def)
  then have "callMethodAsync E (rd_peer d) ''system/restart'' (json_null E) None (process s) =
      Some (Inr (), (process s)\<lparr>ext := x\<rparr>)"
    by (simp add: callMethodAsync_def callMethodAsyncPrivate_def type_null execute_def
        restart_doc_def [symmetric])
  then show ?thesis
    using sent_on [OF rx] by (auto simp: RoutedDevice_restart_def frame_def)
qed

text \<open>The loop over the devices: each wire gets the restart call exactly once.\<close>

definition restarted :: "string set \<Rightarrow> ('j, 'u, 'x) routing \<Rightarrow> ('j, 'u, 'x) routing \<Rightarrow> bool" where
  "restarted uuids s s' \<longleftrightarrow> m_routedDevices s' = m_routedDevices s \<and>
     complaints s' = complaints s \<and> restartCycleCount s' = restartCycleCount s \<and> s_timer s' = s_timer s \<and>
     (\<forall>q. wire q (ext (process s')) = wire q (ext (process s)) @
       (if \<exists>u \<in> uuids. \<exists>d. map_of (m_routedDevices s) u = Some d \<and> rd_peer d = q
        then frame (json_writeString E (restart_doc E)) else []))"

lemma restart_loop:
  assumes "distinct us"
    and "\<forall>u1 u2 d1 d2. map_of devices u1 = Some d1 \<longrightarrow> map_of devices u2 = Some d2 \<longrightarrow>
      rd_peer d1 = rd_peer d2 \<longrightarrow> u1 = u2"
  shows "m_routedDevices s = devices \<Longrightarrow> \<exists>s'. for_each us (\<lambda>uuid. case map_of devices uuid of
      None \<Rightarrow> ret ()
    | Some d \<Rightarrow> bnd (now E) (\<lambda>t. seq (modify (upd_info uuid (\<lambda>i. i\<lparr>restartTimePoint := t\<rparr>)))
        (RoutedDevice_restart E d))) s = Some (Inr (), s') \<and> restarted (set us) s s'"
  using assms(1)
proof (induction us arbitrary: s)
  case Nil
  then show ?case by (simp add: restarted_def)
next
  case (Cons u us)
  show ?case
  proof (cases "map_of devices u")
    case None
    with Cons show ?thesis by (simp add: restarted_def)
  next
    case (Some d)
    define s1 where "s1 = upd_info u (\<lambda>i. i\<lparr>restartTimePoint := steady_now E (readings s)\<rparr>)
      (s\<lparr>readings := Suc (readings s)\<rparr>)"
    obtain x where x: "RoutedDevice_restart E d s1 = Some (Inr (), s1\<lparr>process := (process s1)\<lparr>ext := x\<rparr>\<rparr>)"
        "\<And>q. wire q x = wire q (ext (process s1)) @
          (if q = rd_peer d then frame (json_writeString E (restart_doc E)) else [])"
      using send_restart by blast
    define s2 where "s2 = s1\<lparr>process := (process s1)\<lparr>ext := x\<rparr>\<rparr>"
    have s1: "process s1 = process s" "m_routedDevices s2 = devices" "ext (process s2) = x"
        "complaints s2 = complaints s" "restartCycleCount s2 = restartCycleCount s" "s_timer s2 = s_timer s"
      using Cons.prems(1) by (simp_all add: s1_def s2_def)
    obtain s' where s': "for_each us (\<lambda>uuid. case map_of devices uuid of
          None \<Rightarrow> ret ()
        | Some d \<Rightarrow> bnd (now E) (\<lambda>t. seq (modify (upd_info uuid (\<lambda>i. i\<lparr>restartTimePoint := t\<rparr>)))
            (RoutedDevice_restart E d))) s2 = Some (Inr (), s')" "restarted (set us) s2 s'"
      using Cons.IH [OF s1(2)] Cons.prems(2) by auto
    have other: "\<not> (\<exists>u' \<in> set us. \<exists>d'. map_of devices u' = Some d' \<and> rd_peer d' = rd_peer d)"
      using assms(2) [rule_format, OF _ Some] Cons.prems(2) by auto
    have "restarted (set (u # us)) s s'"
      using s'(2) x(2) s1 Some Cons.prems(1) other unfolding restarted_def by auto
    moreover have "(case map_of devices u of None \<Rightarrow> ret ()
        | Some d \<Rightarrow> bnd (now E) (\<lambda>t. seq (modify (upd_info u (\<lambda>i. i\<lparr>restartTimePoint := t\<rparr>)))
            (RoutedDevice_restart E d))) s = Some (Inr (), s2)"
      using Some x(1) by (simp add: s1_def [symmetric] s2_def)
    ultimately show ?thesis using s'(1) by auto
  qed
qed

end

section \<open>A concrete tool\<close>

text \<open>Sockets that always work, one wire per peer, callbacks that do nothing.\<close>

fun split_on :: "char \<Rightarrow> string \<Rightarrow> string list" where
  "split_on c [] = [[]]"
| "split_on c (x # xs) = (if x = c then [] # split_on c xs
     else case split_on c xs of [] \<Rightarrow> [[x]] | y # ys \<Rightarrow> (x # y) # ys)"

definition wires_base :: "(json, nat, pid \<Rightarrow> byte list) env" where
  "wires_base = rpc_model jwrite demo_read (\<lambda>_. ''{}'') (env.fields
     (\<lambda>p a s x. (0, x)) (\<lambda>p a x. (0, x)) (\<lambda>p x. x) (\<lambda>p n x. (WouldBlock, x))
     (\<lambda>p blocks x. (0, x(p := x p @ concat blocks))) (\<lambda>x. []) (\<lambda>ks. ks) (\<lambda>i. i) False
     (\<lambda>u v. ret ()) (\<lambda>u v st. ret ()) (\<lambda>u v path. ret (SetStateCbResult_value v)) (\<lambda>u v. ret v))"

definition wires_env :: "(json, nat, pid \<Rightarrow> byte list) routing_env" where
  "wires_env = env.extend wires_base
     (routing_env.fields (\<lambda>path c. split_on c path) (\<lambda>n. int n + 1) (\<lambda>ks. ks) [] 1 2 (\<lambda>p. p))"

lemmas wires_defs = wires_env_def wires_base_def rpc_model_def env.defs routing_env.defs

lemma wires_env_model: "wires_env = rpc_model jwrite demo_read (\<lambda>_. ''{}'') (jsonrpc.more wires_env)"
  by (simp add: wires_defs)

lemma wires_env_fields [simp]:
  "sock_connect_tcp wires_env p a s x = (0, x)" "sock_connect_unix wires_env p a x = (0, x)"
  "sock_disconnect wires_env p x = x" "sock_receive wires_env p n x = (WouldBlock, x)"
  "sock_sendBlocks wires_env p blocks x = (0, x(p := x p @ concat blocks))"
  "strerror_errno wires_env x = []" "hash_order wires_env ks = ks"
  "run_response wires_env u v = ret ()" "run_fetch wires_env u v st = ret ()"
  "run_state wires_env u v path = ret (SetStateCbResult_value v)" "run_method wires_env u v = ret v"
  "str_split wires_env path c = split_on c path" "steady_now wires_env n = int n + 1"
  "str_order wires_env us = us" "garbage wires_env = []"
  by (simp_all add: wires_defs)

lemmas wires_env_json [simp] =
  rpc_model_simps [of jwrite demo_read "\<lambda>_. ''{}''" "jsonrpc.more wires_env", folded wires_env_model]

interpretation wires_wb: routing_world wires_env
  by unfold_locales (auto simp: keeps_def)

interpretation wires_jsonrpc: jsonrpc wires_env
  by (subst wires_env_model) (rule jm.jsonrpc_axioms)

interpretation wires: peer_wires wires_env "\<lambda>p x. x p"
proof
  show "length (json_writeString wires_env (restart_doc wires_env)) \<le> MAX_MESSAGE_SIZE"
    by (simp add: restart_doc_def AsyncRequest_def MAX_MESSAGE_SIZE_def CALL_def PATH_def)
qed auto

text \<open>A tool with two routed devices, and an announcement of a third.\<close>

definition demo_routing :: "(json, nat, pid \<Rightarrow> byte list) routing" where
  "demo_routing = \<lparr>process = initial (\<lambda>p. []), d_address = ''dev'', d_peer = 0,
     m_routedDevices = [(''a'', \<lparr>rd_peer = 1, rd_serviceCb = Some ''a''\<rparr>),
       (''b'', \<lparr>rd_peer = 2, rd_serviceCb = Some ''b''\<rparr>)],
     m_appearanceInfos = [(''a'', appearanceInfo_default\<lparr>appearanceCount := 1, hbkProtocolAvailable := True\<rparr>),
       (''b'', appearanceInfo_default\<lparr>appearanceCount := 2, hbkProtocolAvailable := True\<rparr>)],
     m_fetchDone = True, restartCycleCount = 0, s_timer = None, next_peer = 3, readings = 0,
     complaints = []\<rparr>"

definition demo_announcement :: json where
  "demo_announcement = JObject [(''event'', JString ''add''), (''value'', JObject
     [(''device'', JObject [(''uuid'', JString ''c'')]),
      (''services'', JArray [JObject [(''type'', JString ''http''), (''port'', JUInt 80)],
        JObject [(''type'', JString ''jetd''), (''port'', JUInt 11122)]])])]"

lemma Device_construct_runs:
  assumes "\<not> m_mtx_openRequestCbs (process s)"
  shows "\<exists>s'. Device_construct E address p s = Some (Inr (), s') \<and> d_address s' = address \<and> m_routedDevices s' = []"
proof -
  let ?doc = "AsyncRequest E FETCH (fetch_params E (m_sfetchId (process s) + 1) routed_matcher)"
  let ?w = "upd_peer p (\<lambda>q. q\<lparr>m_fetchers := AList.update (m_sfetchId (process s) + 1)
    \<lparr>fetch_callback = Some (tok_fetchRoutedCb E), fetch_matcher = routed_matcher\<rparr> (m_fetchers q)\<rparr>)
    ((process s)\<lparr>m_sfetchId := m_sfetchId (process s) + 1\<rparr>)"
  obtain i w' where "execute E p ?doc (Some (AddFetchCb p (m_sfetchId (process s) + 1)
      (UserCb (tok_fetchResponseCb E)))) ?w = Some (Inr i, w')"
    using execute_registers [of ?w E p ?doc "AddFetchCb p (m_sfetchId (process s) + 1)
        (UserCb (tok_fetchResponseCb E))"] assms by auto
  then have "addFetchAsync E p routed_matcher (Some (tok_fetchRoutedCb E))
      (Some (UserCb (tok_fetchResponseCb E))) (process s) = Some (Inr (m_sfetchId (process s) + 1), w')"
    by (simp add: addFetchAsync_def createFetchId_def registerFetch_def)
  then show ?thesis by (simp add: Device_construct_def)
qed

lemma wires_execute: "execute wires_env p doc None v = Some (Inr 0, v\<lparr>ext :=
    if length (jwrite doc) > MAX_MESSAGE_SIZE then ext v else (ext v)(p := ext v p @ frame (jwrite doc))\<rparr>)"
proof -
  have "sendMessage wires_env p doc v = (if length (jwrite doc) > MAX_MESSAGE_SIZE
      then Some (Inl (size_error (length (jwrite doc))), v)
      else Some (Inr (), v\<lparr>ext := (ext v)(p := ext v p @ frame (jwrite doc))\<rparr>))"
    by (simp add: sendMessage_def Let_def frame_def)
  then show ?thesis by (simp add: execute_def size_error_def)
qed

lemma wires_construct: "\<exists>w'. PeerAsync wires_env p a n name debug lb w = Some (Inr (), w')"
proof -
  have connect: "connect wires_env p v = Some (Inr (), v)" for v
    by (simp add: connect_def Let_def)
  have config: "\<exists>x. configAsync wires_env p name' debug' None v = Some (Inr (), v\<lparr>ext := x\<rparr>)"
    for name' debug' v
  proof -
    have "\<exists>x. seq (execute wires_env p doc None) (ret ()) v = Some (Inr (), v\<lparr>ext := x\<rparr>)" for doc
    proof -
      obtain x where "execute wires_env p doc None v = Some (Inr 0, v\<lparr>ext := x\<rparr>)"
        using wires_execute by blast
      then show ?thesis by auto
    qed
    then show ?thesis unfolding configAsync_def Let_def by blast
  qed
  define q :: "nat peer" where "q = \<lparr>m_address = a, m_port = n, m_name = name, m_debug = debug,
    m_dataCb = False, m_stopped = False, m_bigEndianLengthBuffer = take 4 (lb @ replicate 4 0),
    m_lengthBufferLevel = 0, m_stateCallbacks = Map.empty, m_methodCallbacks = Map.empty,
    m_fetchers = [], m_dataBuffer = [], m_dataBufferLevel = 0\<rparr>"
  define v where "v = upd_peer p (\<lambda>q. q\<lparr>m_dataCb := True\<rparr>)
    (upd_peer p reset_buffers (upd_peer p (\<lambda>_. q) w))"
  obtain x where "configAsync wires_env p (m_name (peers v p)) (m_debug (peers v p)) None v =
      Some (Inr (), v\<lparr>ext := x\<rparr>)"
    using config by blast
  moreover have "m_fetchers (peers v p) = []"
    by (simp add: v_def q_def reset_buffers_def)
  ultimately show ?thesis
    unfolding PeerAsync_def start_def for_fetchers_def q_def [symmetric]
    by (simp add: connect v_def [symmetric])
qed

lemma demo_routing_inv: "routing_inv demo_routing"
  by (auto simp: routing_inv_def demo_routing_def split: if_splits)

section \<open>Properties\<close>

lemma announcement_connects:
  assumes msg: "json_get E n VALUE = Inr announcement" "get_string E n EVENT = Inr event"
      "event = ADD \<or> event = CHANGE" "announced_uuid E announcement = Inr uuid" "uuid \<noteq> []"
      "json_get E announcement ''services'' = Inr services"
      "jet_port E (json_elements E services) = Inr port" "port \<noteq> 0" "status \<noteq> - 1"
    and new: "map_of (m_routedDevices s) uuid = None"
    and conn: "PeerAsync E (next_peer s) (d_address s) port [] False (garbage E) (process s) = Some (Inr (), w)"
  shows "\<exists>s'. fetchRoutedCb E n status s = Some (Inr (), s') \<and>
    fetchRoutedCb E n status s' = Some (Inr (), s') \<and>
    map_of (m_routedDevices s') = (map_of (m_routedDevices s))
      (uuid \<mapsto> \<lparr>rd_peer = next_peer s, rd_serviceCb = Some uuid\<rparr>) \<and>
    appearanceCount (info_at uuid (m_appearanceInfos s')) =
      appearanceCount (info_at uuid (m_appearanceInfos s)) + 1 \<and>
    (\<forall>u. u \<noteq> uuid \<longrightarrow> map_of (m_appearanceInfos s') u = map_of (m_appearanceInfos s) u) \<and>
    map_of (m_fetchers (peers (process s') (next_peer s))) (m_sfetchId w + 1) =
      Some \<lparr>fetch_callback = Some (tok_fetchServicesCb E (next_peer s)), fetch_matcher = services_matcher\<rparr>"
proof -
  obtain w' where w': "addFetchAsync E (next_peer s) services_matcher
        (Some (tok_fetchServicesCb E (next_peer s))) None w = Some (Inr (m_sfetchId w + 1), w')"
      "map_of (m_fetchers (peers w' (next_peer s))) (m_sfetchId w + 1) =
        Some \<lparr>fetch_callback = Some (tok_fetchServicesCb E (next_peer s)), fetch_matcher = services_matcher\<rparr>"
    using addFetch_unanswered [of E "next_peer s" services_matcher
        "Some (tok_fetchServicesCb E (next_peer s))" w] by auto
  have run: "fetchRoutedCb E n status t = (if map_of (m_routedDevices t) uuid = None
      then add_routed E uuid port t else Some (Inr (), t))" for t
    using msg by (auto simp: fetchRoutedCb_def)
  note run [of s]
  moreover note add_routed_cases(3) [OF conn w'(1), of uuid]
  ultimately show ?thesis
    using new w'(2) run [of "routed_added uuid w' s"] by (auto simp: routed_added_def)
qed

lemma demo_announced:
  assumes "map_of (m_routedDevices s) ''c'' = None"
  shows "\<exists>s'. fetchRoutedCb wires_env demo_announcement 0 s = Some (Inr (), s') \<and>
    map_of (m_routedDevices s') ''c'' = Some \<lparr>rd_peer = next_peer s, rd_serviceCb = Some ''c''\<rparr>"
proof -
  obtain w where "PeerAsync wires_env (next_peer s) (d_address s) 11122 []
      False (garbage wires_env) (process s) = Some (Inr (), w)"
    using wires_construct by blast
  note announcement_connects [OF _ _ _ _ _ _ _ _ _ assms this, where n = demo_announcement and status = 0
      and event = ADD and announcement = "json_child wires_env demo_announcement ''value''"
      and services = "json_child wires_env (json_child wires_env demo_announcement ''value'') ''services''"]
  then show ?thesis
    by (force simp: demo_announcement_def get_string_def json_child_def announced_uuid_def
        json_get2_def VALUE_def EVENT_def ADD_def)
qed

text \<open>
  C32: In every state the tool reaches, each routed device is known under its own non-empty uuid, has an
  appearance record and a peer that no other device and not the tool itself uses, and reports its
  services under that uuid; and the invariants of the library hold below it.
\<close>

theorem routing_reachable_inv:
  assumes "well_behaved E" and "routing_reachable E s"
  shows "routing_inv s \<and> wf_world (process s) \<and> \<not> m_mtx_openRequestCbs (process s)"
proof -
  have "routing_inv s"
    using assms(2) by (induction rule: routing_reachable.induct)
      (blast intro: Device_construct_inv routing_step_inv)+
  then show ?thesis
    using routing_world.reachable_library [OF routing_world.intro [OF assms(1)] assms(2)]
    by (simp add: mutex_is_def)
qed

theorem routing_reachable_inv_witness:
  "\<exists>s d. routing_reachable wires_env s \<and> routing_inv s \<and> map_of (m_routedDevices s) ''c'' = Some d \<and>
     rd_peer d \<noteq> d_peer s"
proof -
  obtain s where s: "Device_construct wires_env ''dev'' 0 demo_routing = Some (Inr (), s)" "m_routedDevices s = []"
    using Device_construct_runs [of demo_routing wires_env "''dev''" 0]
    by (auto simp: demo_routing_def initial_def)
  have "routing_reachable wires_env s"
    by (rule routing_reachable.init [OF _ _ s(1)]) (simp_all add: demo_routing_def reachable.init)
  moreover obtain s' d where s': "fetchRoutedCb wires_env demo_announcement 0 s = Some (Inr (), s')"
      "map_of (m_routedDevices s') ''c'' = Some d"
    using demo_announced [of s] s(2) by auto
  ultimately have reach: "routing_reachable wires_env s'"
    by (blast intro: routing_reachable.step routing_step.routed)
  then show ?thesis
    using routing_reachable_inv [OF wires_wb.well_behaved_axioms reach] s'(2) by (auto simp: routing_inv_def)
qed



text \<open>
  C34: A restart cycle calls \<open>system/restart\<close> exactly once on every routed device, and on no other peer; it
  counts the cycle, arms the repeated timer of two minutes, and complains about exactly the devices
  that have not appeared once per cycle so far.
\<close>

theorem reboot_restarts_all:
  assumes wires: "peer_wires E wire" and inv: "routing_inv s"
  shows "\<exists>s'. checkAndReboot E s = Some (Inr (), s') \<and> m_routedDevices s' = m_routedDevices s \<and>
    restartCycleCount s' = restartCycleCount s + 1 \<and> s_timer s' = Some (120000, True) \<and>
    (\<forall>p. wire p (ext (process s')) = wire p (ext (process s)) @
      (if \<exists>(uuid, d) \<in> set (m_routedDevices s). rd_peer d = p
       then frame (json_writeString E (restart_doc E)) else [])) \<and>
    (\<exists>us. complaints s' = complaints s @ us \<and> mset us = mset (filter (\<lambda>uuid.
      appearanceCount (info_at uuid (m_appearanceInfos s)) \<noteq> restartCycleCount s + 1)
        (keys (m_appearanceInfos s))))"
proof -
  define us where "us = filter (\<lambda>uuid. appearanceCount (info_at uuid (m_appearanceInfos s))
    \<noteq> restartCycleCount s + 1) (str_order E (keys (m_appearanceInfos s)))"
  define s1 where "s1 = s\<lparr>complaints := complaints s @ us,
    restartCycleCount := restartCycleCount s + 1, s_timer := Some (1000 * rebootTimeInSeconds, True)\<rparr>"
  have order: "mset (str_order E (keys (m_routedDevices s))) = mset (keys (m_routedDevices s))"
      "mset us = mset (filter (\<lambda>uuid. appearanceCount (info_at uuid (m_appearanceInfos s))
        \<noteq> restartCycleCount s + 1) (keys (m_appearanceInfos s)))"
    using peer_wires.any_order [OF wires] by (simp_all add: us_def)
  have dist: "distinct (str_order E (keys (m_routedDevices s)))"
    using inv mset_eq_imp_distinct_iff [OF order(1)] by (simp add: routing_inv_def)
  have s1: "m_routedDevices s1 = m_routedDevices s" by (simp add: s1_def)
  have inj: "\<forall>u1 u2 d1 d2. map_of (m_routedDevices s) u1 = Some d1 \<longrightarrow>
      map_of (m_routedDevices s) u2 = Some d2 \<longrightarrow> rd_peer d1 = rd_peer d2 \<longrightarrow> u1 = u2"
    using inv unfolding routing_inv_def by blast
  obtain s' where s': "restartRoutedDevices E s1 = Some (Inr (), s')"
      "peer_wires.restarted E wire (set (str_order E (keys (m_routedDevices s)))) s1 s'"
    using peer_wires.restart_loop [OF wires dist inj s1]
    by (auto simp: restartRoutedDevices_def s1)
  have set: "set (str_order E (keys (m_routedDevices s))) = set (keys (m_routedDevices s))"
    using order(1) by (rule mset_eq_setD)
  have dev: "(\<exists>u \<in> set (keys (m_routedDevices s)). \<exists>d. map_of (m_routedDevices s) u = Some d \<and> rd_peer d = p) \<longleftrightarrow>
      (\<exists>(uuid, d) \<in> set (m_routedDevices s). rd_peer d = p)" for p
    using inv by (force simp: routing_inv_def)
  have "checkAndReboot E s = Some (Inr (), s')"
    using s'(1) by (simp add: checkAndReboot_def us_def s1_def)
  moreover have "m_routedDevices s' = m_routedDevices s \<and> complaints s' = complaints s @ us \<and>
      restartCycleCount s' = restartCycleCount s + 1 \<and> s_timer s' = Some (120000, True) \<and>
      (\<forall>p. wire p (ext (process s')) = wire p (ext (process s)) @
        (if \<exists>(uuid, d) \<in> set (m_routedDevices s). rd_peer d = p
         then frame (json_writeString E (restart_doc E)) else []))"
    using s'(2) unfolding peer_wires.restarted_def [OF wires] set s1 dev
    by (simp add: s1_def rebootTimeInSeconds_def)
  ultimately show ?thesis using order(2) by blast
qed

theorem reboot_restarts_all_witness:
  "\<exists>s'. checkAndReboot wires_env demo_routing = Some (Inr (), s') \<and> complaints s' = [''b''] \<and>
     ext (process s') 0 = [] \<and> ext (process s') 1 = frame (jwrite (restart_doc wires_env))"
  using reboot_restarts_all [OF wires.peer_wires_axioms demo_routing_inv]
  by (auto simp: demo_routing_def initial_def info_at_def)

lemma restart_complete_upd_info:
  assumes "restart_complete (m_appearanceInfos s)"
    and "hbkProtocolAvailable (f (info_at uuid (m_appearanceInfos s)))"
  shows "restart_complete (m_appearanceInfos (upd_info uuid f s))"
proof -
  have "set (AList.update k v xs) \<subseteq> insert (k, v) (set xs)" for k :: string and v :: appearanceInfo_t and xs
    by (induction xs) auto
  then show ?thesis using assms unfolding restart_complete_def upd_info_def by fastforce
qed

lemma restart_complete_available:
  "restart_complete infos \<Longrightarrow> map_of infos uuid \<noteq> None \<Longrightarrow> hbkProtocolAvailable (info_at uuid infos)"
  by (auto simp: restart_complete_def info_at_def dest: map_of_SomeD split: option.split)

lemma connection_lost:
  "rd_serviceCb d = Some uuid \<Longrightarrow> fetchServicesCb E complete d v (- 1) s = Some (Inr (),
     upd_info uuid (\<lambda>i. i\<lparr>disappearTimePoint := steady_now E (Suc (readings s))\<rparr>) (s\<lparr>readings := Suc (Suc (readings s))\<rparr>))"
  by (simp add: fetchServicesCb_def serviceCb_def)

text \<open>
  A cycle may count as complete too early.  Losing the connection to a device does not reset its
  \<open>hbkProtocolAvailable\<close>: when all devices were available and two of them are restarted, the first
  one whose HBK protocol is back completes the cycle, although the other is still gone.
\<close>

lemma restart_complete_early:
  assumes all: "restart_complete (m_appearanceInfos s)"
    and devs: "rd_serviceCb d1 = Some u1" "rd_serviceCb d2 = Some u2" "u1 \<noteq> u2"
      "map_of (m_appearanceInfos s) u1 \<noteq> None" "map_of (m_appearanceInfos s) u2 \<noteq> None"
    and clock: "\<And>k. steady_now E k \<noteq> 0"
    and again: "get_string E n PATH = Inr path" "str_split E path CHR ''/'' = [a, b, ''hbkProtocol'']"
      "get_string E n EVENT = Inr ADD"
  shows "\<exists>s'. seq (fetchServicesCb E complete d1 (json_null E) (- 1))
      (seq (fetchServicesCb E complete d2 (json_null E) (- 1)) (fetchServicesCb E complete d1 n 0)) s
    = complete s' \<and> disappearTimePoint (info_at u2 (m_appearanceInfos s')) = steady_now E (readings s + 3) \<and>
      hbkProtocolAvailable (info_at u2 (m_appearanceInfos s'))"
proof -
  define s1 where "s1 = upd_info u1 (\<lambda>i. i\<lparr>disappearTimePoint := steady_now E (Suc (readings s))\<rparr>)
    (s\<lparr>readings := Suc (Suc (readings s))\<rparr>)"
  define s2 where "s2 = upd_info u2 (\<lambda>i. i\<lparr>disappearTimePoint := steady_now E (Suc (readings s1))\<rparr>)
    (s1\<lparr>readings := Suc (Suc (readings s1))\<rparr>)"
  define s3 where "s3 = upd_info u1 (\<lambda>i. i\<lparr>hbkProtocolAvailable := True\<rparr>) s2"
  have av: "hbkProtocolAvailable (info_at u1 (m_appearanceInfos s))" "hbkProtocolAvailable (info_at u2 (m_appearanceInfos s))"
    using all devs(4,5) by (simp_all add: restart_complete_available)
  have 1: "restart_complete (m_appearanceInfos s1)"
    unfolding s1_def by (rule restart_complete_upd_info) (use all av in simp_all)
  have 2: "restart_complete (m_appearanceInfos s2)"
    unfolding s2_def by (rule restart_complete_upd_info) (use 1 av devs(3) in \<open>simp_all add: s1_def\<close>)
  have 3: "restart_complete (m_appearanceInfos s3)"
    unfolding s3_def by (rule restart_complete_upd_info) (use 2 in simp_all)
  have "fetchServicesCb E complete d1 n 0 s2 = complete (s3\<lparr>readings := Suc (Suc (readings s3))\<rparr>)"
    using again devs(1) 3 clock
    by (simp add: fetchServicesCb_def serviceCb_def s3_def [symmetric])
      (simp add: s3_def s2_def s1_def devs(3))
  moreover have "info_at u2 (m_appearanceInfos s3) = (info_at u2 (m_appearanceInfos s))
      \<lparr>disappearTimePoint := steady_now E (readings s + 3)\<rparr>"
    using devs(3) by (simp add: s3_def s2_def s1_def numeral_3_eq_3)
  ultimately show ?thesis
    using connection_lost [OF devs(1), of E complete _ s] connection_lost [OF devs(2), of E complete _ s1] av
    by (auto simp: s1_def [symmetric] s2_def [symmetric])
qed

end
