(* ===== verification/Sync_Properties.thy ===== *)
theory Sync_Properties
  imports Peer_Sync Lifecycle_Properties
begin

text \<open>
  The properties of the synchronous \<open>Peer\<close>: what a request returns for the answer it gets, and what it
  registers.
\<close>

section \<open>Shared facts\<close>

text \<open>The state \<open>w1\<close> in which the caller waits for the answer to its request.\<close>

definition call_waits :: "('j, 'u, 'x, 'z) env_scheme \<Rightarrow> pid \<Rightarrow> nat \<Rightarrow> 'j \<Rightarrow> ('j, 'u, 'x) world
    \<Rightarrow> ('j, 'u, 'x) world \<Rightarrow> bool" where
  "call_waits E p this doc w w1 \<longleftrightarrow>
     execute E p doc (Some (SyncCb this)) (w\<lparr>promises := (promises w)(this := None)\<rparr>) =
       Some (Inr (m_sid w + 1), w1) \<and>
     (\<exists>req. map_of (m_openRequestCbs w1) (m_sid w + 1) = Some req \<and> responseCallback req = Some (SyncCb this)) \<and>
     peers w1 = peers w \<and> promises w1 this = None \<and> \<not> m_mtx_openRequestCbs w1"

text \<open>One round of the event loop fulfils the promise.\<close>

lemma executeSync_once:
  assumes free: "\<not> m_mtx_openRequestCbs w"
    and round: "\<forall>w1. call_waits E p this doc w w1 \<longrightarrow>
      (\<exists>w2 v. L w1 = Some w2 \<and> promises w2 this = Some v \<and> Q v w2)"
  shows "\<exists>w2 v. executeSync E L p this doc w = Some (Inr (m_sid w + 1, v), w2) \<and> Q v w2"
proof -
  have "\<not> m_mtx_openRequestCbs (w\<lparr>promises := (promises w)(this := None)\<rparr>)" using free by simp
  from execute_registers [OF this, of E p doc "SyncCb this"] obtain w1 where w1: "call_waits E p this doc w w1"
    unfolding call_waits_def by auto
  then obtain w2 v where w2: "L w1 = Some w2" "promises w2 this = Some v" "Q v w2"
    using round by blast
  have "await L this w1 = Some (v, w2)"
    using await_step [of w1 this L w2] await_done [of w2 this v] w1 w2(1,2) by (simp add: call_waits_def)
  then have "executeSync E L p this doc w = Some (Inr (m_sid w + 1, v), w2)"
    using w1 by (simp add: executeSync_def call_waits_def)
  with w2(3) show ?thesis by blast
qed

lemma sync_scope_run:
  assumes "executeSync E L p this doc w = Some (Inr (i, v), w1)" and "body v w1 = Some (r, w2)"
    and "\<not> m_mtx_openRequestCbs w2"
  shows "sync_scope E L p this doc body w = Some (r, w2\<lparr>m_openRequestCbs := AList.delete i (m_openRequestCbs w2)\<rparr>)"
  using assms by (cases w2) (simp add: sync_scope_def destroy_SyncRequest_def locked_def)

text \<open>The waiting request is answered.\<close>

lemma waiting_answered:
  assumes "response_id E data i" and "\<not> m_mtx_openRequestCbs w"
    and "map_of (m_openRequestCbs w) i = Some req" and "responseCallback req = Some (SyncCb this)"
    and "promises w this = None"
  shows "handleResult E data w = Some (Inr (), w\<lparr>m_openRequestCbs := AList.delete i (m_openRequestCbs w),
    promises := (promises w)(this \<mapsto> data)\<rparr>)"
  using handleResult_open [OF assms(1-4)] assms(5) by simp

lemma executeSync_answered:
  assumes free: "\<not> m_mtx_openRequestCbs w" and data: "response_id E data (m_sid w + 1)"
  shows "\<exists>w'. executeSync E (delivers E data) p this doc w = Some (Inr (m_sid w + 1, data), w') \<and>
    peers w' = peers w \<and> \<not> m_mtx_openRequestCbs w' \<and>
    map_of (m_openRequestCbs w') (m_sid w + 1) = None"
proof -
  let ?Q = "\<lambda>v w'. v = data \<and> peers w' = peers w \<and> \<not> m_mtx_openRequestCbs w' \<and>
    map_of (m_openRequestCbs w') (m_sid w + 1) = None"
  have "\<forall>w1. call_waits E p this doc w w1 \<longrightarrow>
      (\<exists>w2 v. delivers E data w1 = Some w2 \<and> promises w2 this = Some v \<and> ?Q v w2)"
    by (auto simp: call_waits_def delivers_def waiting_answered [OF data])
  from executeSync_once [where Q = ?Q, OF free this] show ?thesis by blast
qed

lemma sync_scope_answered:
  assumes free: "\<not> m_mtx_openRequestCbs w" and data: "response_id E data (m_sid w + 1)"
    and body: "\<And>v. \<exists>r v'. body data v = Some (r, v') \<and> Q r \<and> R (peers v) (peers v') \<and>
      m_mtx_openRequestCbs v' = m_mtx_openRequestCbs v"
  shows "\<exists>r w'. sync_scope E (delivers E data) p this doc body w = Some (r, w') \<and> Q r \<and>
    R (peers w) (peers w') \<and> map_of (m_openRequestCbs w') (m_sid w + 1) = None"
proof -
  obtain w1 where w1: "executeSync E (delivers E data) p this doc w = Some (Inr (m_sid w + 1, data), w1)"
      "peers w1 = peers w" "\<not> m_mtx_openRequestCbs w1"
    using executeSync_answered [OF free data] by blast
  obtain r w2 where w2: "body data w1 = Some (r, w2)" "Q r" "R (peers w1) (peers w2)"
      "\<not> m_mtx_openRequestCbs w2"
    using body w1(3) by blast
  then show ?thesis using sync_scope_run [where body = body, OF w1(1) w2(1,4)] w1(2) by auto
qed

text \<open>An error response: an error object with an integer code and a text.\<close>

definition error_answer :: "('j, 'z) jsonrpc_scheme \<Rightarrow> 'j \<Rightarrow> int32 \<Rightarrow> string \<Rightarrow> bool" where
  "error_answer J data c msg \<longleftrightarrow> is_record J data \<and> json_isMember J data (rpc_ERR J) = Inr True \<and>
     is_record J (json_child J data (rpc_ERR J)) \<and>
     json_child J (json_child J data (rpc_ERR J)) (rpc_CODE J) = json_int J c \<and>
     json_child J (json_child J data (rpc_ERR J)) (rpc_MESSAGE J) = json_string J msg"

context jsonrpc
begin

lemma error_doc_answer: "error_answer J (error_doc J i c msg) c msg"
  by (simp add: error_answer_def error_doc_def Let_def json_put2_def record_simps rpc_neq)

lemma error_answer_exception:
  assumes "error_answer J data c msg"
  shows "\<exists>e. jsoncpprpcException_error J data = Some e \<and> m_code e = c \<and> m_message e = msg"
  using assms by (simp add: error_answer_def jsoncpprpcException_error_def get2_record get_child
      asInt_int asString_string)

end

section \<open>Properties\<close>

text \<open>
  C22: a synchronous call returns the result member of the response to its own request, or throws an
  exception with the code and message of the error member; either way its request is closed and the
  registrations of all peers are untouched.
\<close>

theorem sync_call_answered:
  assumes "jsonrpc E" and "\<not> m_mtx_openRequestCbs w" and "response_id E data (m_sid w + 1)"
    and "is_record E data \<and> json_isMember E data (rpc_ERR E) = Inr False \<or> error_answer E data c msg"
  shows "\<exists>r w'. Peer_callMethod E (delivers E data) p this path args w = Some (r, w') \<and>
    peers w' = peers w \<and> map_of (m_openRequestCbs w') (m_sid w + 1) = None \<and>
    (if json_isMember E data (rpc_ERR E) = Inr False then r = Inr (json_child E data (rpc_RESULT E))
     else \<exists>e. r = Inl (JsoncppRpcException e) \<and> m_code e = c \<and> m_message e = msg)"
proof -
  let ?Q = "\<lambda>r. if json_isMember E data (rpc_ERR E) = Inr False then r = Inr (json_child E data (rpc_RESULT E))
     else \<exists>e. r = Inl (JsoncppRpcException e) \<and> m_code e = c \<and> m_message e = msg"
  have body: "\<exists>r v'. result_or_throw E data v = Some (r, v') \<and> ?Q r \<and> peers v' = peers v \<and>
      m_mtx_openRequestCbs v' = m_mtx_openRequestCbs v" for v
    using assms(4)
  proof
    assume "is_record E data \<and> json_isMember E data (rpc_ERR E) = Inr False"
    then show ?thesis
      by (simp add: result_or_throw_def jsoncpp.get_child [OF jsonrpc.axioms(1) [OF assms(1)]])
  next
    assume err: "error_answer E data c msg"
    then show ?thesis
      using jsonrpc.error_answer_exception [OF assms(1) err]
      by (auto simp: result_or_throw_def throw_result_def error_answer_def)
  qed
  show ?thesis
    unfolding Peer_callMethod_def Peer_callMethodPrivate_def Let_def
    using sync_scope_answered [OF assms(2,3), where body = "result_or_throw E" and Q = ?Q
        and R = "\<lambda>q q'. q' = q"] body by blast
qed

theorem sync_call_answered_witness:
  "\<exists>w'. Peer_callMethod demo_env (delivers demo_env (JObject [(''id'', JUInt 1), (''result'', JBool True)]))
      0 0 ''m'' JNull demo_states = Some (Inr (JBool True), w') \<and> peers w' = peers demo_states"
  using sync_call_answered [OF dj.jsonrpc_axioms,
      of demo_states "JObject [(''id'', JUInt 1), (''result'', JBool True)]"]
  by (fastforce simp: demo_states_def initial_def response_id_def is_record_def json_child_def)

text \<open>
  C23: adding a state synchronously registers it; an error answer unregisters the path again and is
  thrown, any other answer leaves it registered.
\<close>

theorem sync_add_state_answered:
  assumes "jsonrpc E" and "\<not> m_mtx_openRequestCbs w" and "response_id E data (m_sid w + 1)"
    and "json_isMember E data (rpc_ERR E) = Inr False \<or> error_answer E data c msg"
  shows "\<exists>r w'. Peer_addState E (delivers E data) p this path value callback w = Some (r, w') \<and>
    m_stateCallbacks (peers w' p) = (m_stateCallbacks (peers w p))(path :=
      if json_isMember E data (rpc_ERR E) = Inr False then Some callback else None) \<and>
    (r = Inr () \<longleftrightarrow> json_isMember E data (rpc_ERR E) = Inr False)"
proof -
  let ?ok = "json_isMember E data (rpc_ERR E) = Inr False"
  let ?body = "\<lambda>retVal. bnd (lift (json_isMember E retVal (rpc_ERR E))) (\<lambda>err.
      if err then seq (unregisterState p path) (throw_result E retVal) else ret ())"
  let ?R = "\<lambda>q q'. m_stateCallbacks (q' p) = (if ?ok then m_stateCallbacks (q p)
      else (m_stateCallbacks (q p))(path := None))"
  define w0 where "w0 = upd_peer p (\<lambda>q. q\<lparr>m_stateCallbacks := (m_stateCallbacks q)(path \<mapsto> callback)\<rparr>) w"
  have w0: "\<not> m_mtx_openRequestCbs w0" "m_sid w0 = m_sid w" using assms(2) by (simp_all add: w0_def)
  have body: "\<exists>r v'. ?body data v = Some (r, v') \<and> (r = Inr () \<longleftrightarrow> ?ok) \<and> ?R (peers v) (peers v') \<and>
      m_mtx_openRequestCbs v' = m_mtx_openRequestCbs v" for v
    using assms(4)
  proof
    assume err: "error_answer E data c msg"
    then show ?thesis
      using jsonrpc.error_answer_exception [OF assms(1) err]
      by (auto simp: throw_result_def error_answer_def unregisterState_def)
  qed simp
  have "\<exists>r w'. sync_scope E (delivers E data) p this doc ?body w0 = Some (r, w') \<and>
      (r = Inr () \<longleftrightarrow> ?ok) \<and> ?R (peers w0) (peers w') \<and> map_of (m_openRequestCbs w') (m_sid w0 + 1) = None"
    for doc
    by (rule sync_scope_answered [OF w0(1), where body = ?body and Q = "\<lambda>r. r = Inr () \<longleftrightarrow> ?ok" and R = ?R])
      (use assms(3) w0(2) in simp, rule body)
  from this [of "AsyncRequest E ADD (json_put E (json_put E (json_null E) PATH (json_string E path))
      VALUE value)"] show ?thesis
    unfolding Peer_addState_def Peer_addStatePrivate_def Let_def registerState_def
    by (auto simp: w0_def split: if_splits)
qed

theorem sync_add_state_answered_witness:
  "\<exists>r w'. Peer_addState demo_env (delivers demo_env (JObject [(''id'', JUInt 1), (''result'', JNull)]))
      0 0 ''new'' JNull None demo_states = Some (r, w') \<and> m_stateCallbacks (peers w' 0) ''new'' = Some None"
  using sync_add_state_answered [OF dj.jsonrpc_axioms,
      of demo_states "JObject [(''id'', JUInt 1), (''result'', JNull)]" _ _ 0 0 "''new''" JNull None]
  by (fastforce simp: demo_states_def initial_def response_id_def)

section \<open>Notifications while a fetch waits for its answer\<close>

text \<open>One round of the event loop in which the given messages are handled.\<close>

definition feeds :: "('j, 'u, 'x, 'z) env_scheme \<Rightarrow> pid \<Rightarrow> 'j list \<Rightarrow> ('j, 'u, 'x) worker" where
  "feeds E p msgs w = map_option snd (for_each msgs (handleMessage E p) w)"

text \<open>A fetch callback that returns or throws, leaves the library alone and logs its argument.\<close>

definition logs_notes :: "('j, 'u, 'x, 'z) env_scheme \<Rightarrow> 'u \<Rightarrow> ('x \<Rightarrow> 'o list) \<Rightarrow> ('j \<Rightarrow> 'o list) \<Rightarrow> bool" where
  "logs_notes E u log ev \<longleftrightarrow> (\<forall>v w. \<exists>r x. run_fetch E u v 0 w = Some (r, w\<lparr>ext := x\<rparr>) \<and>
     log x = log (ext w) @ ev v)"

lemma notes_handled:
  assumes "jsonrpc E" and "logs_notes E u log ev"
    and "map_of (m_fetchers (peers w p)) i = Some f" "fetch_callback f = Some u"
    and "\<forall>d \<in> set ds. is_note E d \<and> note_id E d = i"
  shows "\<exists>x. for_each ds (handleMessage E p) w = Some (Inr (), w\<lparr>ext := x\<rparr>) \<and>
    log x = log (ext w) @ concat (map (\<lambda>d. ev (json_child E d (rpc_PARAMS E))) ds)"
  using assms(3,5)
proof (induction ds arbitrary: w)
  case Nil
  then show ?case by (intro exI [of _ "ext w"]) simp
next
  case (Cons d ds)
  let ?v = "json_child E d (rpc_PARAMS E)"
  obtain r x where x: "run_fetch E u ?v 0 w = Some (r, w\<lparr>ext := x\<rparr>)" "log x = log (ext w) @ ev ?v"
    using assms(2) unfolding logs_notes_def by blast
  have "handleMessage E p d w = Some (Inr (), w\<lparr>ext := x\<rparr>)"
    using note_delivered [OF assms(1), of d w p f] Cons.prems assms(4)
      try_catch_ret_total [where m = "run_fetch E u ?v 0", OF x(1)]
    by (simp add: call_fetch_def)
  with Cons.IH [of "w\<lparr>ext := x\<rparr>"] Cons.prems x(2) show ?case by auto
qed

lemma execute_log:
  assumes "execute E p doc cb w = Some (r, w')" and "\<And>bs x. log (snd (sock_sendBlocks E p bs x)) = log x"
  shows "log (ext w') = log (ext w)"
proof -
  let ?I = "\<lambda>v. log (ext v) = log (ext w)"
  have send: "keeps ?I (sendMessage E p v)" for v
    by (rule keepsI) (auto simp: sendMessage_def Let_def split: if_splits prod.splits, (metis assms(2) snd_conv)+)
  have lock: "keeps ?I (locked (seq (modify (add_request c)) (gets m_sid)))" for c
    by (rule keepsI) (auto simp: locked_def split: if_splits)
  have "keeps ?I (execute E p doc cb)"
    unfolding execute_def
    by (intro keeps_intros send lock keeps_modify) (auto simp: set_notifier_def Let_def intro!: keeps_intros keeps_modify)
  from keepsD [OF this _ assms(1)] show ?thesis by simp
qed

lemma result_dispatch:
  assumes "jsonrpc E" and "json_isMember E data (rpc_METHOD E) = Inr False"
  shows "handleMessage E p data = handleResult E data"
proof -
  have "json_get E data (rpc_METHOD E) = Inr (json_null E)"
    using jsoncpp.get_absent [OF jsonrpc.axioms(1) [OF assms(1)] assms(2)] .
  then show ?thesis
    using jsoncpp.type_null [OF jsonrpc.axioms(1) [OF assms(1)]] by (simp add: handleMessage_def fun_eq_iff)
qed

lemma executeSync_fed:
  assumes rpc: "jsonrpc E" and free: "\<not> m_mtx_openRequestCbs w"
    and quiet: "\<And>bs x. log (snd (sock_sendBlocks E p bs x)) = log x"
    and cb: "logs_notes E u log ev" "map_of (m_fetchers (peers w p)) i = Some f" "fetch_callback f = Some u"
    and ds: "\<forall>d \<in> set ds. is_note E d \<and> note_id E d = i"
    and data: "response_id E data (m_sid w + 1)" "json_isMember E data (rpc_METHOD E) = Inr False"
  shows "\<exists>w'. executeSync E (feeds E p (ds @ [data])) p this doc w = Some (Inr (m_sid w + 1, data), w') \<and>
    peers w' = peers w \<and> \<not> m_mtx_openRequestCbs w' \<and>
    log (ext w') = log (ext w) @ concat (map (\<lambda>d. ev (json_child E d (rpc_PARAMS E))) ds)"
proof -
  let ?Q = "\<lambda>v w'. v = data \<and> peers w' = peers w \<and> \<not> m_mtx_openRequestCbs w' \<and>
    log (ext w') = log (ext w) @ concat (map (\<lambda>d. ev (json_child E d (rpc_PARAMS E))) ds)"
  have "\<exists>w2 v. feeds E p (ds @ [data]) w1 = Some w2 \<and> promises w2 this = Some v \<and> ?Q v w2"
    if w1: "call_waits E p this doc w w1" for w1
  proof -
    have "map_of (m_fetchers (peers w1 p)) i = Some f" using cb(2) w1 by (simp add: call_waits_def)
    then obtain x where x: "for_each ds (handleMessage E p) w1 = Some (Inr (), w1\<lparr>ext := x\<rparr>)"
        "log x = log (ext w1) @ concat (map (\<lambda>d. ev (json_child E d (rpc_PARAMS E))) ds)"
      using notes_handled [OF rpc cb(1) _ cb(3) ds] by blast
    have "log (ext w1) = log (ext w)"
      using execute_log [where log = log, OF _ quiet] w1 by (fastforce simp: call_waits_def)
    with x w1 show ?thesis
      by (auto simp: call_waits_def feeds_def for_each_append [OF x(1)] result_dispatch [OF rpc data(2)]
          waiting_answered [OF data(1)])
  qed
  with executeSync_once [where Q = ?Q, OF free] show ?thesis by blast
qed

text \<open>
  C24: \<open>Peer::addFetch\<close> registers the fetch before it sends the request and waits: the notifications for
  the new fetch id that the event loop handles before the answer (the daemon sends the states that match
  first) reach the callback, in order and once, whatever the callback throws.  The answer then decides:
  without an error the id is returned and the fetch stays registered; an error is thrown with its code
  and text, and the fetch is unregistered.
\<close>

theorem sync_fetch_delivered:
  assumes rpc: "jsonrpc E" and free: "\<not> m_mtx_openRequestCbs w"
    and quiet: "\<And>bs x. log (snd (sock_sendBlocks E p bs x)) = log x" and cb: "logs_notes E u log ev"
    and ds: "\<forall>d \<in> set ds. is_note E d \<and> note_id E d = m_sfetchId w + 1"
    and data: "response_id E data (m_sid w + 1)" "json_isMember E data (rpc_METHOD E) = Inr False"
      "json_isMember E data (rpc_ERR E) = Inr False \<or> error_answer E data c msg"
  shows "\<exists>r w'. Peer_addFetch E (feeds E p (ds @ [data])) p this match (Some u) w = Some (r, w') \<and>
    log (ext w') = log (ext w) @ concat (map (\<lambda>d. ev (json_child E d (rpc_PARAMS E))) ds) \<and>
    (if json_isMember E data (rpc_ERR E) = Inr False
     then r = Inr (m_sfetchId w + 1) \<and> map_of (m_fetchers (peers w' p)) =
       (map_of (m_fetchers (peers w p)))(m_sfetchId w + 1 \<mapsto> fetcher_of (Some u) match)
     else (\<exists>e. r = Inl (JsoncppRpcException e) \<and> m_code e = c \<and> m_message e = msg) \<and>
       map_of (m_fetchers (peers w' p)) = (map_of (m_fetchers (peers w p)))(m_sfetchId w + 1 := None))"
proof -
  let ?i = "m_sfetchId w + 1" and ?f = "fetcher_of (Some u) match"
  let ?body = "\<lambda>result. bnd (lift (json_isMember E result (rpc_ERR E))) (\<lambda>err.
      if err then seq (unregisterFetch p ?i) (throw_result E result) else ret ?i)"
  define w0 where "w0 = upd_peer p (\<lambda>q. q\<lparr>m_fetchers := AList.update ?i ?f (m_fetchers q)\<rparr>) (w\<lparr>m_sfetchId := ?i\<rparr>)"
  define doc where "doc = AsyncRequest E FETCH (fetch_params E ?i match)"
  have w0: "\<not> m_mtx_openRequestCbs w0" "map_of (m_fetchers (peers w0 p)) ?i = Some ?f" "fetch_callback ?f = Some u"
      "m_sid w0 = m_sid w" "ext w0 = ext w"
    using free by (simp_all add: w0_def fetcher_of_def update_conv')
  obtain w1 where w1: "executeSync E (feeds E p (ds @ [data])) p this doc w0 = Some (Inr (m_sid w + 1, data), w1)"
      "peers w1 = peers w0" "\<not> m_mtx_openRequestCbs w1"
      "log (ext w1) = log (ext w) @ concat (map (\<lambda>d. ev (json_child E d (rpc_PARAMS E))) ds)"
    using executeSync_fed [where log = log, OF rpc w0(1) quiet cb w0(2,3) ds] data(1,2) unfolding w0(4,5) by blast
  have run: "Peer_addFetch E (feeds E p (ds @ [data])) p this match (Some u) w =
      sync_scope E (feeds E p (ds @ [data])) p this doc ?body w0"
    by (simp add: Peer_addFetch_def createFetchId_def registerFetch_def doc_def w0_def)
  have reg: "map_of (m_fetchers (peers w1 p)) = (map_of (m_fetchers (peers w p)))(?i \<mapsto> ?f)"
    by (simp add: w1(2) w0_def update_conv')
  from data(3) show ?thesis
  proof
    assume ok: "json_isMember E data (rpc_ERR E) = Inr False"
    then have "?body data w1 = Some (Inr ?i, w1)" by simp
    from sync_scope_run [where body = ?body, OF w1(1) this w1(3)] show ?thesis
      using ok reg w1(4) by (simp add: run)
  next
    assume err: "error_answer E data c msg"
    let ?w2 = "upd_peer p (\<lambda>q. q\<lparr>m_fetchers := AList.delete ?i (m_fetchers q)\<rparr>) w1"
    obtain e where e: "jsoncpprpcException_error E data = Some e" "m_code e = c" "m_message e = msg"
      using jsonrpc.error_answer_exception [OF rpc err] by blast
    have "?body data w1 = Some (Inl (JsoncppRpcException e), ?w2)" "\<not> m_mtx_openRequestCbs ?w2"
      using err e(1) w1(3) by (simp_all add: error_answer_def throw_result_def unregisterFetch_def)
    from sync_scope_run [where body = ?body, OF w1(1) this] show ?thesis
      using err e(2,3) reg w1(4) by (simp add: run error_answer_def delete_conv')
  qed
qed

theorem sync_fetch_delivered_witness:
  "\<exists>w'. Peer_addFetch demo_env (feeds demo_env 0 ([JObject [(''method'', JInt 1), (''params'', JBool True)],
       JObject [(''method'', JInt 1), (''params'', JBool False)]] @ [JObject [(''id'', JUInt 1), (''result'', JNull)]]))
     0 0 matcher_default (Some (Throw 9 OtherException)) demo_states = Some (Inr 1, w') \<and>
     calls (ext w') = [(9, JBool True), (9, JBool False)]"
proof -
  let ?ds = "[JObject [(''method'', JInt 1), (''params'', JBool True)],
       JObject [(''method'', JInt 1), (''params'', JBool False)]]"
  have cb: "logs_notes demo_env (Throw 9 OtherException) calls (\<lambda>v. [(9, v)])"
    by (auto simp: logs_notes_def record_call_def)
  have quiet: "calls (snd (sock_sendBlocks demo_env 0 bs x)) = calls x" for bs x
    by (simp add: demo_send_def)
  have ds: "\<forall>d \<in> set ?ds. is_note demo_env d \<and> note_id demo_env d = m_sfetchId demo_states + 1"
    by (simp add: is_note_def note_id_def is_record_def json_child_def in_int32_def demo_states_def initial_def)
  from sync_fetch_delivered [where log = calls, OF dj.jsonrpc_axioms _ quiet cb ds,
      of "JObject [(''id'', JUInt 1), (''result'', JNull)]" _ _ 0 matcher_default]
  show ?thesis
    by (fastforce simp: demo_states_def initial_def demo_start_def response_id_def json_child_def)
qed

section \<open>Losing the connection while a call waits\<close>

text \<open>One round of the event loop in which the socket of the peer is read.\<close>

definition receives :: "('j, 'u, 'x, 'z) env_scheme \<Rightarrow> pid \<Rightarrow> ('j, 'u, 'x) worker" where
  "receives E p w = map_option snd (receive E p w)"

lemma receive_connection_lost:
  assumes "\<And>n. 0 < n \<Longrightarrow> fst (sock_receive E p n (ext w)) \<in> {Received [], ReceiveError}"
    and "m_lengthBufferLevel (peers w p) < 4 \<or> m_dataBufferLevel (peers w p) < length (m_dataBuffer (peers w p))"
    and "\<And>x. \<exists>w'. stop E p (w\<lparr>ext := x\<rparr>) = Some (Inr (), w') \<and> Q w'"
  shows "\<exists>w'. receives E p w = Some w' \<and> Q w'"
proof -
  have ended: "sock_receive E p n (ext w) = (res, x) \<Longrightarrow> 0 < n \<Longrightarrow> res = Received [] \<or> res = ReceiveError" for n res x
    using assms(1) [of n] by auto
  show ?thesis
  proof (cases "m_lengthBufferLevel (peers w p) < 4")
    case True
    obtain res x where rx: "sock_receive E p (4 - m_lengthBufferLevel (peers w p)) (ext w) = (res, x)" by fastforce
    obtain w' where w': "stop E p (w\<lparr>ext := x\<rparr>) = Some (Inr (), w')" "Q w'" using assms(3) by blast
    then obtain i where "receive_length E p w = Some (Inr (Return i), w')"
      using True ended [OF rx] by (auto simp: receive_length.simps [of E p w] rx)
    with w'(2) show ?thesis by (simp add: receives_def receive.simps [of E p w])
  next
    case False
    then have data: "m_dataBufferLevel (peers w p) < length (m_dataBuffer (peers w p))" using assms(2) by simp
    obtain res x where rx: "sock_receive E p (length (m_dataBuffer (peers w p)) - m_dataBufferLevel (peers w p))
        (ext w) = (res, x)" by fastforce
    obtain w' where w': "stop E p (w\<lparr>ext := x\<rparr>) = Some (Inr (), w')" "Q w'" using assms(3) by blast
    then obtain i where "receive_data E p w = Some (Inr (Return i), w')"
      using data ended [OF rx] by (auto simp: receive_data.simps [of E p w] rx)
    moreover have "receive_length E p w = Some (Inr Continue, w)"
      using False by (simp add: receive_length.simps [of E p w])
    ultimately show ?thesis using w'(2) by (simp add: receives_def receive.simps [of E p w])
  qed
qed

context calm_callbacks
begin

text \<open>Cancelling a request fulfils no promise with anything but a cancel error.\<close>

lemma cancel_promise:
  assumes "\<And>i. Some (error_doc E i (- 1) cancel_text) \<in> D"
  shows "keeps (\<lambda>w. promises w this \<in> D) (cancel_request E reqs i)"
proof -
  have user: "keeps (\<lambda>w. promises w this \<in> D) (run_response E u v)" for u v
  proof (rule keepsI)
    fix w r w' assume "promises w this \<in> D" "run_response E u v w = Some (r, w')"
    then show "promises w' this \<in> D" using calm_response [of u v w] by auto
  qed
  have "keeps (\<lambda>w. promises w this \<in> D) (call_response E cb (error_doc E i (- 1) cancel_text))" for cb
  proof (induction cb)
    case (SyncCb n)
    show ?case by (rule keepsI) (auto simp: assms split: if_splits)
  qed (auto simp: addMethodResultCb_def addStateResultCb_def addFetchResultCb_def registry_defs
      intro!: keeps_intros user keeps_modify)
  then show ?thesis unfolding cancel_request_def by (intro keeps_intros)
qed

lemma clear_promise:
  assumes "for_each ks (cancel_request E reqs) w = Some (r, w')"
    and "k \<in> set ks \<or> (\<exists>i. promises w this = Some (error_doc E i (- 1) cancel_text))"
    and "map_of reqs k = Some req" "responseCallback req = Some (SyncCb this)"
    and "promises w this = None \<or> (\<exists>i. promises w this = Some (error_doc E i (- 1) cancel_text))"
  shows "\<exists>i. promises w' this = Some (error_doc E i (- 1) cancel_text)"
  using assms(1,2,5)
proof (induction ks arbitrary: w)
  case (Cons x ks)
  let ?D = "range (\<lambda>i. Some (error_doc E i (- 1) cancel_text))"
  obtain w1 where w1: "cancel_request E reqs x w = Some (Inr (), w1)" using calm_cancel by blast
  then have rest: "for_each ks (cancel_request E reqs) w1 = Some (r, w')" using Cons.prems(1) by simp
  have some: "promises w1 this \<in> insert None ?D"
    using keepsD [OF cancel_promise [of "insert None ?D"] _ w1] Cons.prems(3) by auto
  have kept: "promises w1 this \<in> ?D" if "promises w this \<in> ?D"
    using keepsD [OF cancel_promise [of ?D] that w1] by auto
  have hit: "promises w1 this \<in> ?D" if "x = k"
  proof (cases "promises w this")
    case None
    with that assms(3,4) w1 show ?thesis by (auto simp: cancel_request_def)
  next
    case (Some v)
    then show ?thesis using kept Cons.prems(3) by auto
  qed
  have "k \<in> set ks \<or> promises w1 this \<in> ?D" using Cons.prems(2) kept hit by auto
  then show ?case using Cons.IH [OF rest] some by auto
qed auto

lemma stop_cancels:
  assumes "\<not> m_mtx_openRequestCbs w" and "map_of (m_openRequestCbs w) k = Some req"
    and "responseCallback req = Some (SyncCb this)" and "promises w this = None"
  shows "\<exists>w'. stop E p w = Some (Inr (), w') \<and> m_openRequestCbs w' = [] \<and> \<not> m_mtx_openRequestCbs w' \<and>
    m_stopped (peers w' p) \<and> (\<exists>i. promises w' this = Some (error_doc E i (- 1) cancel_text))"
proof -
  define w1 where "w1 = (upd_peer p (\<lambda>q. q\<lparr>m_stopped := True\<rparr>) w)\<lparr>ext := sock_disconnect E p (ext w)\<rparr>"
  obtain x where x: "for_fetchers E p (\<lambda>fetchId fetcher.
      try_catch (call_fetch E (fetch_callback fetcher) (json_null E) (- 1)) (\<lambda>_. ret ())) w1 =
      Some (Inr (), w1\<lparr>ext := x\<rparr>)"
    using calm_stop_fetches by blast
  define w2 where "w2 = upd_peer p (\<lambda>q. q\<lparr>m_methodCallbacks := Map.empty\<rparr>)
    (upd_peer p (\<lambda>q. q\<lparr>m_stateCallbacks := Map.empty\<rparr>) (w1\<lparr>ext := x\<rparr>))"
  obtain w' where w': "stop E p w = Some (Inr (), w')" "m_openRequestCbs w' = []" "\<not> m_mtx_openRequestCbs w'"
      "m_stopped (peers w' p)"
    using calm_stop [OF assms(1)] by blast
  have w2: "m_openRequestCbs w2 = m_openRequestCbs w" "promises w2 this = None" "\<not> m_mtx_openRequestCbs w2"
    using assms(1,4) by (simp_all add: w2_def w1_def)
  have clear: "\<exists>n. clear E w2 = Some (Inr n, w')"
    using w'(1) x by (auto simp: stop_def w1_def [symmetric] w2_def [symmetric] seq_def bnd_def
        split: option.splits prod.splits sum.splits)
  have key: "k \<in> set (hash_order E (keys (m_openRequestCbs w)))"
    using assms(2) order by (metis map_of_SomeD fst_conv image_eqI set_map set_mset_mset)
  obtain r v where v: "for_each (hash_order E (keys (m_openRequestCbs w))) (cancel_request E (m_openRequestCbs w))
      (w2\<lparr>m_mtx_openRequestCbs := True\<rparr>) = Some (r, v)" "promises w' = promises v"
    using clear w2(1,3) by (auto simp: clear_def locked_def seq_def bnd_def
        split: option.splits prod.splits sum.splits)
  from clear_promise [OF v(1) disjI1 [OF key] assms(2,3)] w2(2) v(2) w' show ?thesis by auto
qed

end

text \<open>
  C38: a synchronous call does not hang when the connection is lost.  If the daemon closes the connection
  or it fails while the call waits, the next round of the event loop stops the peer, which cancels the
  call: it throws an exception with code -1 and the text of a cancelled request, no request is left open
  and the peer is stopped.  This holds for callbacks that do not use the peer themselves, from every
  state in which all received bytes have been read and the peer waits for more.
\<close>

theorem sync_call_cancelled:
  assumes calm: "calm_callbacks E" and free: "\<not> m_mtx_openRequestCbs w"
    and sock: "stream_socket E p avail fin" "fin \<in> {Received [], ReceiveError}" "avail (ext w) = []"
      "\<And>bs x. avail (snd (sock_sendBlocks E p bs x)) = avail x"
    and partial: "m_lengthBufferLevel (peers w p) < 4 \<or>
      m_dataBufferLevel (peers w p) < length (m_dataBuffer (peers w p))"
  shows "\<exists>e w'. Peer_callMethod E (receives E p) p this path args w = Some (Inl (JsoncppRpcException e), w') \<and>
    m_code e = - 1 \<and> m_message e = cancel_text \<and> m_openRequestCbs w' = [] \<and> m_stopped (peers w' p)"
proof -
  let ?Q = "\<lambda>v w'. (\<exists>i. v = error_doc E i (- 1) cancel_text) \<and> m_openRequestCbs w' = [] \<and>
    \<not> m_mtx_openRequestCbs w' \<and> m_stopped (peers w' p)"
  have rpc: "jsonrpc E" using calm by (simp add: calm_callbacks_def)
  define doc where "doc = AsyncRequest E CALL (let params = json_put E (json_null E) PATH (json_string E path)
    in if \<not> isNull E args then json_put E params ARGS args else params)"
  have "\<exists>w2 v. receives E p w1 = Some w2 \<and> promises w2 this = Some v \<and> ?Q v w2"
    if w1: "call_waits E p this doc w w1" for w1
  proof -
    obtain req where req: "map_of (m_openRequestCbs w1) (m_sid w + 1) = Some req"
        "responseCallback req = Some (SyncCb this)" using w1 by (auto simp: call_waits_def)
    have "\<exists>w2. stop E p (w1\<lparr>ext := x\<rparr>) = Some (Inr (), w2) \<and> (\<exists>v. promises w2 this = Some v \<and> ?Q v w2)" for x
      using calm_callbacks.stop_cancels [OF calm, of "w1\<lparr>ext := x\<rparr>" "m_sid w + 1" req this p] req w1
      by (auto simp: call_waits_def)
    moreover have "m_lengthBufferLevel (peers w1 p) < 4 \<or>
        m_dataBufferLevel (peers w1 p) < length (m_dataBuffer (peers w1 p))"
      using partial w1 by (simp add: call_waits_def)
    moreover have "avail (ext w1) = []"
      using execute_log [where log = avail, OF _ sock(4)] w1 sock(3) by (fastforce simp: call_waits_def)
    then have "fst (sock_receive E p n (ext w1)) \<in> {Received [], ReceiveError}" if "0 < n" for n
      using stream_socket.recv_end [OF sock(1) _ that] sock(2) by (metis fst_conv)
    ultimately show ?thesis
      using receive_connection_lost [where Q = "\<lambda>w2. \<exists>v. promises w2 this = Some v \<and> ?Q v w2" and E = E and p = p and w = w1]
      by blast
  qed
  then obtain w2 v where w2: "executeSync E (receives E p) p this doc w = Some (Inr (m_sid w + 1, v), w2)"
      "?Q v w2"
    using executeSync_once [where Q = ?Q, OF free] by blast
  then have "error_answer E v (- 1) cancel_text" using jsonrpc.error_doc_answer [OF rpc] by auto
  then obtain e where e: "result_or_throw E v w2 = Some (Inl (JsoncppRpcException e), w2)"
      "m_code e = - 1" "m_message e = cancel_text"
    using jsonrpc.error_answer_exception [OF rpc] by (fastforce simp: result_or_throw_def throw_result_def error_answer_def)
  have "Peer_callMethod E (receives E p) p this path args w =
      sync_scope E (receives E p) p this doc (result_or_throw E) w"
    by (simp add: Peer_callMethod_def Peer_callMethodPrivate_def doc_def Let_def)
  with sync_scope_run [where body = "result_or_throw E", OF w2(1) e(1)] w2(2) e(2,3) show ?thesis by simp
qed

interpretation ending_calm: calm_callbacks "demo_ending fin"
proof (intro calm_callbacks.intro calm_callbacks_axioms.intro)
  show "jsonrpc (demo_ending fin)" unfolding demo_ending_def by (rule demo_variants(5))
  show "\<exists>r x. run_response (demo_ending fin) u v w = Some (r, w\<lparr>ext := x\<rparr>)" for u v w
    using demo_calm.calm_response [of u v w] by (simp add: demo_ending_def)
  show "\<exists>r x. run_fetch (demo_ending fin) u v st w = Some (r, w\<lparr>ext := x\<rparr>)" for u v st w
    using demo_calm.calm_fetch [of u v st w] by (simp add: demo_ending_def)
qed (simp add: demo_ending_def)

theorem sync_call_cancelled_witness:
  "\<exists>e w'. Peer_callMethod (demo_ending (Received [])) (receives (demo_ending (Received [])) 0) 0 0 ''m'' JNull
      (demo_fetching []) = Some (Inl (JsoncppRpcException e), w') \<and> m_code e = - 1 \<and>
    m_message e = cancel_text \<and> m_openRequestCbs w' = []"
  using sync_call_cancelled [OF ending_calm.calm_callbacks_axioms [of "Received []"], of "demo_fetching []" 0
      incoming "Received []" 0 "''m''" JNull] demo_closed.stream_socket_axioms [of 0]
  by (fastforce simp: demo_fetching_def initial_def demo_start_def no_peer_def demo_ending_def demo_send_def)

end
