(* ===== verification/Tool_Base.thy ===== *)
theory Tool_Base
  imports Sync_Properties Fetch_Cache
begin

text \<open>
  What the command line tools under tool/ share: the functions of the C library they parse their
  arguments with, the console, \<open>catch (const std::runtime_error&)\<close>, peers as local variables, and the
  event loop of the main thread.

  The state of a tool is the part \<open>app\<close> of the state outside the library: what was written to
  \<open>std::cout\<close> and \<open>std::cerr\<close>, whether the event loop was told to stop, the static variable of jetstate,
  and the network \<open>'y\<close>.  So the callbacks of a tool are programs over the process state, and \<open>run_*\<close> of
  the environment can be the tool's own code.

  Parameters beside those of the library: jsoncpp's output operator, \<open>StyledWriter\<close>, comparison and reader (\<open>Inl\<close>: it
  failed with that error text; the flag is \<open>collectComments\<close>) and its 64 bit integers, \<open>strtod\<close> (doubles
  are only handed on), the clock, and of libhbk whether \<open>jsonrpcException\<close> is a \<open>std::runtime_error\<close> and
  what its \<open>what()\<close> says.
\<close>

record ('j, 'y) app =
  out :: string
  err :: string
  stopped :: bool
  static_value :: 'j
  clock_reads :: nat
  net :: 'y

record ('j, 'u, 'x) tool_env = "('j, 'u, 'x) env" +
  json_show :: "'j \<Rightarrow> string"
  json_styled :: "'j \<Rightarrow> string"
  json_equal :: "'j \<Rightarrow> 'j \<Rightarrow> bool"
  json_read :: "bool \<Rightarrow> string \<Rightarrow> string + 'j"
  json_uint64 :: "nat \<Rightarrow> 'j"
  strtod :: "string \<Rightarrow> double"
  clock_now :: "nat \<Rightarrow> int"
  rpc_is_runtime_error :: bool
  rpc_what :: "int32 \<Rightarrow> string \<Rightarrow> string"
  uninitialised :: "byte list"

type_synonym ('j, 'u, 'y, 'a) tool_prog = "('j, 'u, ('j, 'y) app, 'a) peer_prog"
type_synonym ('j, 'u, 'y, 'z) tool_scheme = "('j, 'u, ('j, 'y) app, 'z) tool_env_scheme"

section \<open>The C library\<close>

definition isspace :: "char \<Rightarrow> bool" where
  "isspace c \<longleftrightarrow> (of_char c :: nat) = 32 \<or> 9 \<le> (of_char c :: nat) \<and> (of_char c :: nat) \<le> 13"

definition isdigit :: "char \<Rightarrow> bool" where
  "isdigit c \<longleftrightarrow> 48 \<le> (of_char c :: nat) \<and> (of_char c :: nat) \<le> 57"

definition digits_value :: "string \<Rightarrow> nat" where
  "digits_value ds = foldl (\<lambda>n c. 10 * n + (of_char c - 48)) 0 ds"

text \<open>White space, a sign, and the longest sequence of digits: is it negative, and its value.\<close>

definition scan_number :: "string \<Rightarrow> bool \<times> nat" where
  "scan_number s =
     (let t = dropWhile isspace s;
          negative = (t \<noteq> [] \<and> hd t = CHR ''-'');
          u = (if t \<noteq> [] \<and> (hd t = CHR ''-'' \<or> hd t = CHR ''+'') then tl t else t)
      in (negative, digits_value (takeWhile isdigit u)))"

text \<open>\<open>atoi\<close>: the behaviour is undefined if an \<open>int\<close> cannot hold the value.\<close>

definition atoi :: "string \<Rightarrow> int32 option" where
  "atoi s = (case scan_number s of (negative, n) \<Rightarrow>
     let i = (if negative then - int n else int n) in
     if - (2 ^ 31) \<le> i \<and> i < 2 ^ 31 then Some (word_of_int i) else None)"

text \<open>\<open>strtoul(s, nullptr, 10)\<close> with 64 bit \<open>unsigned long\<close>, converted to \<open>unsigned int\<close>.\<close>

definition strtoul :: "string \<Rightarrow> uint32" where
  "strtoul s = (case scan_number s of (negative, n) \<Rightarrow>
     if n \<ge> 2 ^ 64 then word_of_int (2 ^ 64 - 1)
     else if negative then word_of_int (- int n) else word_of_nat n)"

definition of_atoi :: "string \<Rightarrow> ('w, 'e, int32) prog" where
  "of_atoi s = (case atoi s of None \<Rightarrow> stuck | Some i \<Rightarrow> ret i)"

definition EXIT_SUCCESS :: int32 where
  "EXIT_SUCCESS = 0"

definition EXIT_FAILURE :: int32 where
  "EXIT_FAILURE = 1"

text \<open>
  The arguments most tools share: an address, a port, and a text the path has to contain, with
  defaults.
\<close>

definition address_arg :: "string \<Rightarrow> string list \<Rightarrow> string" where
  "address_arg dflt args = (case args of [] \<Rightarrow> dflt | address # _ \<Rightarrow> address)"

definition port_arg :: "uint32 \<Rightarrow> string list \<Rightarrow> ('w, 'e, uint32) prog" where
  "port_arg dflt args = (if length args < 2 then ret dflt else of_atoi (args ! 1))"

definition contains_arg :: "string list \<Rightarrow> matcher_t" where
  "contains_arg args =
     (if length args < 3 then matcher_default else matcher_default\<lparr>contains := args ! 2\<rparr>)"

section \<open>Console\<close>

definition endl :: string where
  "endl = [CHR 0x0A]"

definition on_app :: "(('j, 'y) app \<Rightarrow> ('j, 'y) app) \<Rightarrow> ('j, 'u, 'y, unit) tool_prog" where
  "on_app f = modify (\<lambda>w. w\<lparr>ext := f (ext w)\<rparr>)"

definition cout :: "string \<Rightarrow> ('j, 'u, 'y, unit) tool_prog" where
  "cout s = on_app (\<lambda>a. a\<lparr>out := out a @ s\<rparr>)"

definition cerr :: "string \<Rightarrow> ('j, 'u, 'y, unit) tool_prog" where
  "cerr s = on_app (\<lambda>a. a\<lparr>err := err a @ s\<rparr>)"

section \<open>Exceptions\<close>

fun is_runtime_error :: "('j, 'u, 'x, 'z) tool_env_scheme \<Rightarrow> 'j exn \<Rightarrow> bool" where
  "is_runtime_error E (RuntimeError _) = True"
| "is_runtime_error E (JsoncppRpcException _) = rpc_is_runtime_error E"
| "is_runtime_error E (JsonrpcException _ _) = rpc_is_runtime_error E"
| "is_runtime_error E _ = False"

fun what :: "('j, 'u, 'x, 'z) tool_env_scheme \<Rightarrow> 'j exn \<Rightarrow> string" where
  "what E (RuntimeError s) = s"
| "what E (JsoncppRpcException e) = m_what e"
| "what E (JsonrpcException c s) = rpc_what E c s"
| "what E (LogicError s) = s"
| "what E (StdException s) = s"
| "what E _ = []"

text \<open>\<open>try { body } catch (const std::runtime_error& exc) { handler }\<close>\<close>

definition catch_runtime :: "('j, 'u, 'x, 'z) tool_env_scheme \<Rightarrow> ('j, 'u, 'x, 'a) peer_prog
    \<Rightarrow> (string \<Rightarrow> ('j, 'u, 'x, 'a) peer_prog) \<Rightarrow> ('j, 'u, 'x, 'a) peer_prog" where
  "catch_runtime E body handler =
     try_catch body (\<lambda>e. if is_runtime_error E e then handler (what E e) else raise e)"

section \<open>Peers as local variables\<close>

text \<open>
  The destructor runs when the block is left, by a return or an exception; a destructor that throws
  would terminate the process.
\<close>

definition scope_exit :: "('w, 'e, unit) prog \<Rightarrow> ('w, 'e, 'a) prog \<Rightarrow> ('w, 'e, 'a) prog" where
  "scope_exit destructor body = (\<lambda>w. case body w of
       None \<Rightarrow> None
     | Some (r, w') \<Rightarrow> (case destructor w' of
           Some (Inr _, w'') \<Rightarrow> Some (r, w'')
         | _ \<Rightarrow> None))"

definition with_PeerAsync :: "('j, 'u, 'x, 'z) tool_env_scheme \<Rightarrow> pid \<Rightarrow> string \<Rightarrow> uint32 \<Rightarrow> string
    \<Rightarrow> ('j, 'u, 'x, 'a) peer_prog \<Rightarrow> ('j, 'u, 'x, 'a) peer_prog" where
  "with_PeerAsync E p address port name body =
     seq (PeerAsync E p address port name False (uninitialised E)) (scope_exit (destroy E p) body)"

definition with_Peer :: "('j, 'u, 'x, 'z) tool_env_scheme \<Rightarrow> pid \<Rightarrow> string \<Rightarrow> uint32 \<Rightarrow> string
    \<Rightarrow> ('j, 'u, 'x, 'a) peer_prog \<Rightarrow> ('j, 'u, 'x, 'a) peer_prog" where
  "with_Peer E p address port name body =
     seq (Peer_construct E p address port name False (uninitialised E))
       (scope_exit (Peer_destroy E p) body)"

section \<open>The event loop of the main thread\<close>

text \<open>\<open>hbk::sys::EventLoop eventloop\<close>, \<open>eventloop.stop()\<close>\<close>

definition new_eventloop :: "('j, 'u, 'y, unit) tool_prog" where
  "new_eventloop = on_app (\<lambda>a. a\<lparr>stopped := False\<rparr>)"

definition eventloop_stop :: "('j, 'u, 'y, unit) tool_prog" where
  "eventloop_stop = on_app (\<lambda>a. a\<lparr>stopped := True\<rparr>)"

text \<open>
  \<open>eventloop.execute()\<close>: rounds \<open>L\<close> of the loop until it is told to stop.  A round handles one event; an
  exception of its callback leaves \<open>execute\<close>.
\<close>

partial_function (option) eventloop_execute :: "('j, 'u, 'y, unit) tool_prog \<Rightarrow> ('j, 'u, ('j, 'y) app) world
    \<Rightarrow> (('j exn + unit) \<times> ('j, 'u, ('j, 'y) app) world) option" where
  "eventloop_execute L w = (if stopped (ext w) then Some (Inr (), w)
     else Option.bind (L w) (\<lambda>(r, w'). case r of
         Inl e \<Rightarrow> Some (Inl e, w')
       | Inr _ \<Rightarrow> eventloop_execute L w'))"

end
