(* ===== verification/Tool_World.thy ===== *)
theory Tool_World
  imports Tool_Base
begin

text \<open>
  Facts for the properties of the tools: decimal numbers, and the life of a peer that is a local
  variable in a world where the network works (locale \<open>tool_world\<close>): what its construction, a request,
  the answer and its destruction do to the wire and to the console.
\<close>

section \<open>Numbers\<close>

lemma digit_char: "n < 10 \<Longrightarrow> isdigit (char_of (48 + n)) \<and> (of_char (char_of (48 + n)) :: nat) = 48 + n"
  by (simp add: isdigit_def)

lemma digits_value_append: "digits_value (ds @ [c]) = 10 * digits_value ds + (of_char c - 48)"
  by (simp add: digits_value_def)

lemma nat_digits_nonempty: "nat_digits n \<noteq> []"
  by (subst nat_digits.simps) simp

lemma nat_digits_digits: "\<forall>c \<in> set (nat_digits n). isdigit c"
  by (induction n rule: nat_digits.induct) (subst nat_digits.simps, auto simp: digit_char)

lemma digits_value_nat_digits: "digits_value (nat_digits n) = n"
proof (induction n rule: nat_digits.induct)
  case (1 n)
  show ?case
  proof (cases "n < 10")
    case True
    then show ?thesis by (subst nat_digits.simps) (simp add: digits_value_def)
  next
    case False
    then show ?thesis
      using 1 by (subst nat_digits.simps) (simp add: digits_value_append)
  qed
qed

lemma digit_no_space: "isdigit c \<Longrightarrow> \<not> isspace c \<and> c \<noteq> CHR ''-'' \<and> c \<noteq> CHR ''+''"
  by (auto simp: isdigit_def isspace_def)

lemma takeWhile_nat_digits: "takeWhile isdigit (nat_digits n) = nat_digits n"
  using nat_digits_digits by (simp only: takeWhile_eq_all_conv)

lemma scan_digits: "scan_number (nat_digits n) = (False, n)"
proof -
  have "\<not> isspace (hd (nat_digits n)) \<and> hd (nat_digits n) \<noteq> CHR ''-'' \<and> hd (nat_digits n) \<noteq> CHR ''+''"
    using nat_digits_digits nat_digits_nonempty digit_no_space by (metis list.set_sel(1))
  moreover from this have "dropWhile isspace (nat_digits n) = nat_digits n"
    using nat_digits_nonempty [of n] by (cases "nat_digits n") auto
  ultimately show ?thesis
    by (simp add: scan_number_def takeWhile_nat_digits digits_value_nat_digits)
qed

lemma scan_minus: "scan_number (CHR ''-'' # nat_digits n) = (True, n)"
  by (simp add: scan_number_def isspace_def takeWhile_nat_digits digits_value_nat_digits)

section \<open>A world where the network works\<close>

text \<open>The configuration every peer sends first, and a request under its id.\<close>

definition tool_config :: "('j, 'z) jsonrpc_scheme \<Rightarrow> string \<Rightarrow> 'j" where
  "tool_config J name = AsyncRequest J CONFIG (json_put J (json_put J (json_null J) NAME
     (json_string J name)) DBG (json_bool J False))"

definition request_doc :: "('j, 'z) jsonrpc_scheme \<Rightarrow> 'j \<Rightarrow> uint32 \<Rightarrow> 'j" where
  "request_doc J doc i = json_put J doc (rpc_ID J) (json_uint J i)"

text \<open>
  Connecting and sending succeed, what is sent is on the wire, and the network does not touch the
  variables of the tool.
\<close>

locale tool_world = jsonrpc E for E :: "('j, 'u, 'y, 'z) tool_scheme" +
  fixes p :: pid and wire :: "'y \<Rightarrow> byte list"
  assumes connects_tcp: "\<exists>r n. sock_connect_tcp E p a s x = (r, x\<lparr>net := n\<rparr>) \<and> 0 \<le> sint r \<and> wire n = wire (net x)"
    and connects_unix: "\<exists>r n. sock_connect_unix E p a x = (r, x\<lparr>net := n\<rparr>) \<and> 0 \<le> sint r \<and> wire n = wire (net x)"
    and disconnects: "\<exists>n. sock_disconnect E p x = x\<lparr>net := n\<rparr> \<and> wire n = wire (net x)"
    and sends: "\<exists>r n. sock_sendBlocks E p blocks x = (r, x\<lparr>net := n\<rparr>) \<and> 0 \<le> sint r \<and>
      wire n = wire (net x) @ concat blocks"
    and any_hash_order: "mset (hash_order E ks) = mset ks"
begin

abbreviation small :: "'j \<Rightarrow> bool" where
  "small doc \<equiv> length (json_writeString E doc) \<le> MAX_MESSAGE_SIZE"

text \<open>The network moved on and the given documents went over the wire.\<close>

definition wired :: "'j list \<Rightarrow> ('j, 'y) app \<Rightarrow> ('j, 'y) app \<Rightarrow> bool" where
  "wired docs x x' \<longleftrightarrow> (\<exists>n. x' = x\<lparr>net := n\<rparr> \<and>
     wire n = wire (net x) @ concat (map (\<lambda>d. frame (json_writeString E d)) docs))"

lemma wired_refl: "wired [] x x"
  unfolding wired_def by (rule exI [of _ "net x"]) simp

lemma wired_trans: "wired ds x x1 \<Longrightarrow> wired es x1 x2 \<Longrightarrow> wired (ds @ es) x x2"
  by (auto simp: wired_def)

lemma hash_order_empty [simp]: "hash_order E [] = []"
  using any_hash_order [of "[]"] by simp

lemma send_small:
  assumes "small doc"
  shows "\<exists>x. sendMessage E p doc w = Some (Inr (), w\<lparr>ext := x\<rparr>) \<and> wired [doc] (ext w) x"
proof -
  obtain r n where "sock_sendBlocks E p [be_bytes (length (json_writeString E doc)), json_writeString E doc]
        (ext w) = (r, (ext w)\<lparr>net := n\<rparr>)" "0 \<le> sint r"
      "wire n = wire (net (ext w)) @ frame (json_writeString E doc)"
    using sends [of "[be_bytes (length (json_writeString E doc)), json_writeString E doc]" "ext w"]
    by (auto simp: frame_def)
  with assms show ?thesis
    by (auto simp: sendMessage_def Let_def wired_def)
qed

text \<open>Construction: a peer without registrations, and the configuration on the wire.\<close>

definition fresh :: "string \<Rightarrow> uint32 \<Rightarrow> string \<Rightarrow> 'u peer" where
  "fresh address port name = \<lparr>m_address = address, m_port = port, m_name = name, m_debug = False,
     m_dataCb = True, m_stopped = False,
     m_bigEndianLengthBuffer = take 4 (uninitialised E @ replicate 4 0), m_lengthBufferLevel = 0,
     m_stateCallbacks = Map.empty, m_methodCallbacks = Map.empty, m_fetchers = [], m_dataBuffer = [],
     m_dataBufferLevel = 0\<rparr>"

lemma connect_works: "\<exists>x. connect E p w = Some (Inr (), w\<lparr>ext := x\<rparr>) \<and> wired [] (ext w) x"
proof -
  obtain r n where tcp: "sock_connect_tcp E p (m_address (peers w p)) (uint_to_string (m_port (peers w p)))
      (ext w) = (r, (ext w)\<lparr>net := n\<rparr>)" "0 \<le> sint r" "wire n = wire (net (ext w))"
    using connects_tcp by blast
  obtain s k where unix: "sock_connect_unix E p (m_address (peers w p)) (ext w) = (s, (ext w)\<lparr>net := k\<rparr>)"
      "0 \<le> sint s" "wire k = wire (net (ext w))"
    using connects_unix by blast
  show ?thesis
    using tcp unix by (auto simp: connect_def Let_def wired_def)
qed

lemma construct_works:
  assumes "small (tool_config E name)"
  shows "\<exists>x. PeerAsync E p address port name False (uninitialised E) w =
      Some (Inr (), (upd_peer p (\<lambda>_. fresh address port name) w)\<lparr>ext := x\<rparr>) \<and>
    wired [tool_config E name] (ext w) x"
proof -
  define q where "q = (fresh address port name)\<lparr>m_dataCb := False\<rparr>"
  define w1 where "w1 = upd_peer p reset_buffers (upd_peer p (\<lambda>_. q) w)"
  obtain x where x: "connect E p w1 = Some (Inr (), w1\<lparr>ext := x\<rparr>)" "wired [] (ext w1) x"
    using connect_works by blast
  define w2 where "w2 = upd_peer p (\<lambda>q. q\<lparr>m_dataCb := True\<rparr>) (w1\<lparr>ext := x\<rparr>)"
  obtain y where y: "sendMessage E p (tool_config E name) w2 = Some (Inr (), w2\<lparr>ext := y\<rparr>)"
      "wired [tool_config E name] (ext w2) y"
    using send_small [OF assms] by blast
  have q: "peers w2 p = fresh address port name" "m_fetchers (peers w2 p) = []"
    by (simp_all add: w2_def w1_def q_def fresh_def reset_buffers_def)
  have "configAsync E p (m_name (peers w2 p)) (m_debug (peers w2 p)) None w2 = Some (Inr (), w2\<lparr>ext := y\<rparr>)"
    using y(1) q(1) by (simp add: configAsync_def execute_def tool_config_def fresh_def Let_def)
  then have "start E p (upd_peer p (\<lambda>_. q) w) = Some (Inr (), w2\<lparr>ext := y\<rparr>)"
    using x(1) q(2) by (simp add: start_def w1_def [symmetric] w2_def [symmetric] for_fetchers_def)
  moreover have "w2 = (upd_peer p (\<lambda>_. fresh address port name) w)\<lparr>ext := x\<rparr>"
    by (simp add: w2_def w1_def upd_peer_def q_def fresh_def reset_buffers_def)
  moreover have "wired [tool_config E name] (ext w) y"
    using wired_trans [OF x(2)] y(2) by (simp add: w2_def w1_def)
  ultimately show ?thesis
    unfolding PeerAsync_def by (auto simp: q_def fresh_def)
qed

text \<open>A request with a callback: sent under the next id, with an entry of the table.\<close>

lemma request_works:
  assumes "\<not> m_mtx_openRequestCbs w" and "m_openRequestCbs w = []"
    and "small (request_doc E doc (m_sid w + 1))"
  shows "\<exists>x. execute E p doc (Some cb) w = Some (Inr (m_sid w + 1), w\<lparr>m_sid := m_sid w + 1,
      m_openRequestCbs := [(m_sid w + 1, \<lparr>responseCallback = Some cb, errorNotifier = None\<rparr>)], ext := x\<rparr>) \<and>
    wired [request_doc E doc (m_sid w + 1)] (ext w) x"
proof -
  define w1 where "w1 = w\<lparr>m_sid := m_sid w + 1,
    m_openRequestCbs := [(m_sid w + 1, \<lparr>responseCallback = Some cb, errorNotifier = None\<rparr>)]\<rparr>"
  have "locked (seq (modify (add_request cb)) (gets m_sid)) w = Some (Inr (m_sid w + 1), w1)"
    using assms(1,2) by (simp add: locked_def w1_def add_request_def Let_def request_at_def)
  moreover obtain x where "sendMessage E p (request_doc E doc (m_sid w + 1)) w1 = Some (Inr (), w1\<lparr>ext := x\<rparr>)"
      "wired [request_doc E doc (m_sid w + 1)] (ext w) x"
    using send_small [OF assms(3), of w1] by (auto simp: w1_def)
  ultimately show ?thesis
    by (auto simp: execute_def request_doc_def w1_def)
qed

text \<open>The answer to the only open request: its callback is called and the request is closed.\<close>

lemma only_request_answered:
  assumes "\<not> m_mtx_openRequestCbs w" and "response_id E data i"
    and "m_openRequestCbs w = [(i, \<lparr>responseCallback = Some cb, errorNotifier = None\<rparr>)]"
  shows "handleResult E data w = try_catch (call_response E cb data) (\<lambda>_. ret ()) (w\<lparr>m_openRequestCbs := []\<rparr>)"
  using handleResult_open [OF assms(2,1)] assms(3) by simp

text \<open>Destruction of a peer without fetches, when no request is open.\<close>

lemma destroy_idle:
  assumes "\<not> m_mtx_openRequestCbs w" and "m_openRequestCbs w = []" and "m_fetchers (peers w p) = []"
  shows "\<exists>w'. destroy E p w = Some (Inr (), w') \<and> wired [] (ext w) (ext w') \<and> m_openRequestCbs w' = [] \<and>
    \<not> m_mtx_openRequestCbs w' \<and> m_sid w' = m_sid w"
proof -
  obtain n where "sock_disconnect E p (ext w) = (ext w)\<lparr>net := n\<rparr>" "wire n = wire (net (ext w))"
    using disconnects by blast
  then show ?thesis
    using assms by (auto simp: destroy_def stop_def for_fetchers_def clear_def locked_def wired_def)
qed

text \<open>
  A tool that constructs a peer, issues one request, runs its event loop until the callback of the
  request stops it, and returns: if the next event is the response, it prints what the callback
  prints and returns; the configuration and the request are what went over the wire.
\<close>

lemma one_request:
  assumes idle: "\<not> m_mtx_openRequestCbs w" "m_openRequestCbs w = []" "\<not> stopped (ext w)"
    and small: "small (tool_config E name)" "small (request_doc E doc (m_sid w + 1))"
    and data: "response_id E data (m_sid w + 1)"
    and cb: "\<And>v. run_response E u data v = Some (Inr (), v\<lparr>ext := (ext v)\<lparr>out := out (ext v) @ printed, stopped := True\<rparr>\<rparr>)"
  shows "\<exists>w'. with_PeerAsync E p address port name
      (seq (seq (execute E p doc (Some (UserCb u))) (ret ()))
        (seq (eventloop_execute (handleResult E data)) (ret c))) w = Some (Inr c, w') \<and>
    m_openRequestCbs w' = [] \<and> err (ext w') = err (ext w) \<and> out (ext w') = out (ext w) @ printed \<and>
    wire (net (ext w')) = wire (net (ext w)) @ frame (json_writeString E (tool_config E name)) @
      frame (json_writeString E (request_doc E doc (m_sid w + 1)))"
proof -
  let ?i = "m_sid w + 1"
  obtain x where x: "PeerAsync E p address port name False (uninitialised E) w =
      Some (Inr (), (upd_peer p (\<lambda>_. fresh address port name) w)\<lparr>ext := x\<rparr>)"
      "wired [tool_config E name] (ext w) x"
    using construct_works [OF small(1)] by blast
  define w1 where "w1 = (upd_peer p (\<lambda>_. fresh address port name) w)\<lparr>ext := x\<rparr>"
  have w1: "\<not> m_mtx_openRequestCbs w1" "m_openRequestCbs w1 = []" "m_sid w1 = m_sid w" "ext w1 = x"
      "m_fetchers (peers w1 p) = []"
    using idle by (simp_all add: w1_def fresh_def)
  obtain y where y: "execute E p doc (Some (UserCb u)) w1 = Some (Inr ?i, w1\<lparr>m_sid := ?i,
      m_openRequestCbs := [(?i, \<lparr>responseCallback = Some (UserCb u), errorNotifier = None\<rparr>)], ext := y\<rparr>)"
      "wired [request_doc E doc ?i] x y"
    using request_works [OF w1(1,2), of doc] small(2) w1(3,4) by auto
  define w2 where "w2 = w1\<lparr>m_sid := ?i, m_openRequestCbs :=
    [(?i, \<lparr>responseCallback = Some (UserCb u), errorNotifier = None\<rparr>)], ext := y\<rparr>"
  define w3 where "w3 = w2\<lparr>m_openRequestCbs := [], ext := y\<lparr>out := out y @ printed, stopped := True\<rparr>\<rparr>"
  have "handleResult E data w2 = Some (Inr (), w3)"
    using only_request_answered [OF _ data, of w2 "UserCb u"] w1(1) cb
    by (simp add: w2_def w3_def)
  moreover have "\<not> stopped (ext w2)" "stopped (ext w3)"
    using idle(3) x(2) y(2) by (auto simp: w2_def w3_def wired_def)
  ultimately have loop: "eventloop_execute (handleResult E data) w2 = Some (Inr (), w3)"
    by (simp add: eventloop_execute.simps)
  obtain w4 where w4: "destroy E p w3 = Some (Inr (), w4)" "wired [] (ext w3) (ext w4)" "m_openRequestCbs w4 = []"
    using destroy_idle [of w3] w1(1,5) by (auto simp: w3_def w2_def)
  have "with_PeerAsync E p address port name
      (seq (seq (execute E p doc (Some (UserCb u))) (ret ()))
        (seq (eventloop_execute (handleResult E data)) (ret c))) w = Some (Inr c, w4)"
    using x(1) y(1) loop w4(1) by (simp add: with_PeerAsync_def scope_exit_def w1_def [symmetric] w2_def [symmetric])
  moreover have "err (ext w4) = err (ext w) \<and> out (ext w4) = out (ext w) @ printed \<and>
      wire (net (ext w4)) = wire (net (ext w)) @ frame (json_writeString E (tool_config E name)) @
      frame (json_writeString E (request_doc E doc ?i))"
    using x(2) y(2) w4(2) by (auto simp: wired_def w3_def)
  ultimately show ?thesis using w4(3) by blast
qed

text \<open>A synchronous request that the worker receives the answer of.\<close>

lemma sync_request_works:
  assumes idle: "\<not> m_mtx_openRequestCbs w" "m_openRequestCbs w = []"
    and small: "small (request_doc E doc (m_sid w + 1))" and data: "response_id E data (m_sid w + 1)"
    and body: "\<And>v. body data v = Some (r, v)"
  shows "\<exists>x. sync_scope E (delivers E data) p this doc body w = Some (r, w\<lparr>m_sid := m_sid w + 1,
      promises := (promises w)(this \<mapsto> data), ext := x\<rparr>) \<and> wired [request_doc E doc (m_sid w + 1)] (ext w) x"
proof -
  let ?i = "m_sid w + 1"
  define w0 where "w0 = w\<lparr>promises := (promises w)(this := None)\<rparr>"
  have w0: "\<not> m_mtx_openRequestCbs w0" "m_openRequestCbs w0 = []" "small (request_doc E doc (m_sid w0 + 1))"
    using idle small by (simp_all add: w0_def)
  obtain x where x: "execute E p doc (Some (SyncCb this)) w0 = Some (Inr ?i, w0\<lparr>m_sid := ?i,
      m_openRequestCbs := [(?i, \<lparr>responseCallback = Some (SyncCb this), errorNotifier = None\<rparr>)], ext := x\<rparr>)"
      "wired [request_doc E doc ?i] (ext w) x"
    using request_works [OF w0, of "SyncCb this"] by (auto simp: w0_def)
  define w1 where "w1 = w0\<lparr>m_sid := ?i,
    m_openRequestCbs := [(?i, \<lparr>responseCallback = Some (SyncCb this), errorNotifier = None\<rparr>)], ext := x\<rparr>"
  define w2 where "w2 = w\<lparr>m_sid := ?i, promises := (promises w)(this \<mapsto> data), ext := x\<rparr>"
  have "handleResult E data w1 = Some (Inr (), w2)"
    using only_request_answered [OF _ data, of w1 "SyncCb this"] idle
    by (simp add: w1_def w0_def w2_def)
  then have "await (delivers E data) this w1 = Some (data, w2)"
    using await_step [of w1 this "delivers E data" w2] await_done [of w2 this data "delivers E data"]
    by (simp add: delivers_def w1_def w0_def w2_def)
  then have "executeSync E (delivers E data) p this doc w = Some (Inr (?i, data), w2)"
    using x(1) by (simp add: executeSync_def w0_def [symmetric] w1_def [symmetric])
  then have "sync_scope E (delivers E data) p this doc body w = Some (r, w2)"
    using idle body by (simp add: sync_scope_def destroy_SyncRequest_def locked_def w2_def)
  then show ?thesis using x(2) by (auto simp: w2_def)
qed

text \<open>The same inside a peer that lives for this request only.\<close>

lemma one_sync_request:
  assumes idle: "\<not> m_mtx_openRequestCbs w" "m_openRequestCbs w = []"
    and small: "small (tool_config E name)" "small (request_doc E doc (m_sid w + 1))"
    and data: "response_id E data (m_sid w + 1)" and body: "\<And>v. body data v = Some (r, v)"
    and k: "\<And>v. (case r of Inl e \<Rightarrow> Some (Inl e, v) | Inr a \<Rightarrow> k a v) =
      Some (r', v\<lparr>ext := (ext v)\<lparr>out := out (ext v) @ printed\<rparr>\<rparr>)"
  shows "\<exists>w'. with_Peer E p address port name
      (bnd (sync_scope E (delivers E data) p this doc body) k) w = Some (r', w') \<and>
    m_openRequestCbs w' = [] \<and> err (ext w') = err (ext w) \<and> out (ext w') = out (ext w) @ printed \<and>
    wire (net (ext w')) = wire (net (ext w)) @ frame (json_writeString E (tool_config E name)) @
      frame (json_writeString E (request_doc E doc (m_sid w + 1)))"
proof -
  obtain x where x: "PeerAsync E p address port name False (uninitialised E) w =
      Some (Inr (), (upd_peer p (\<lambda>_. fresh address port name) w)\<lparr>ext := x\<rparr>)"
      "wired [tool_config E name] (ext w) x"
    using construct_works [OF small(1)] by blast
  define w1 where "w1 = (upd_peer p (\<lambda>_. fresh address port name) w)\<lparr>ext := x\<rparr>"
  have w1: "\<not> m_mtx_openRequestCbs w1" "m_openRequestCbs w1 = []" "m_sid w1 = m_sid w"
      "m_fetchers (peers w1 p) = []" "ext w1 = x"
    using idle by (simp_all add: w1_def fresh_def)
  obtain y where y: "sync_scope E (delivers E data) p this doc body w1 = Some (r, w1\<lparr>m_sid := m_sid w + 1,
      promises := (promises w1)(this \<mapsto> data), ext := y\<rparr>)" "wired [request_doc E doc (m_sid w + 1)] x y"
    using sync_request_works [OF w1(1,2), of doc data body r this] small(2) data body w1(3,5) by auto
  define w2 where "w2 = w1\<lparr>m_sid := m_sid w + 1, promises := (promises w1)(this \<mapsto> data), ext := y\<rparr>"
  define w3 where "w3 = w2\<lparr>ext := y\<lparr>out := out y @ printed\<rparr>\<rparr>"
  have bod: "bnd (sync_scope E (delivers E data) p this doc body) k w1 = Some (r', w3)"
    using y(1) k [of w2] by (cases r) (simp_all add: w3_def w2_def)
  obtain w4 where w4: "destroy E p w3 = Some (Inr (), w4)" "wired [] (ext w3) (ext w4)" "m_openRequestCbs w4 = []"
    using destroy_idle [of w3] w1 by (auto simp: w3_def w2_def)
  have "with_Peer E p address port name (bnd (sync_scope E (delivers E data) p this doc body) k) w = Some (r', w4)"
    using x(1) bod w4(1)
    by (simp add: with_Peer_def Peer_construct_def Peer_destroy_def scope_exit_def w1_def [symmetric])
  moreover have "err (ext w4) = err (ext w) \<and> out (ext w4) = out (ext w) @ printed \<and>
      wire (net (ext w4)) = wire (net (ext w)) @ frame (json_writeString E (tool_config E name)) @
      frame (json_writeString E (request_doc E doc (m_sid w + 1)))"
    using x(2) y(2) w4(2) by (auto simp: wired_def w3_def)
  ultimately show ?thesis using w4(3) by blast
qed

text \<open>The same under a handler that prints the exception and returns \<open>c\<close>.\<close>

lemma one_sync_caught:
  assumes idle: "\<not> m_mtx_openRequestCbs w" "m_openRequestCbs w = []"
    and small: "small (tool_config E name)" "small (request_doc E doc (m_sid w + 1))"
    and data: "response_id E data (m_sid w + 1)" and body: "\<And>v. body data v = Some (r, v)"
    and outcome: "(\<exists>e. r = Inl e \<and> is_runtime_error E e \<and> exit = c \<and> printed = [] \<and> report = what E e @ endl) \<or>
      (\<exists>a. r = Inr a \<and> report = [] \<and>
        (\<forall>v. k a v = Some (Inr exit, v\<lparr>ext := (ext v)\<lparr>out := out (ext v) @ printed\<rparr>\<rparr>)))"
  shows "\<exists>w'. catch_runtime E (with_Peer E p address port name
        (bnd (sync_scope E (delivers E data) p this doc body) k))
        (\<lambda>exc. seq (cerr (exc @ endl)) (ret c)) w = Some (Inr exit, w') \<and>
    m_openRequestCbs w' = [] \<and> err (ext w') = err (ext w) @ report \<and> out (ext w') = out (ext w) @ printed \<and>
    wire (net (ext w')) = wire (net (ext w)) @ frame (json_writeString E (tool_config E name)) @
      frame (json_writeString E (request_doc E doc (m_sid w + 1)))"
proof -
  define r' where "r' = (case r of Inl e \<Rightarrow> Inl e | Inr a \<Rightarrow> Inr exit)"
  have "(case r of Inl e \<Rightarrow> Some (Inl e, v) | Inr a \<Rightarrow> k a v) =
      Some (r', v\<lparr>ext := (ext v)\<lparr>out := out (ext v) @ printed\<rparr>\<rparr>)" for v
    using outcome by (auto simp: r'_def)
  from one_sync_request [where body = body and r = r and r' = r' and k = k and printed = printed, OF idle small data body this]
  obtain w' where w': "with_Peer E p address port name (bnd (sync_scope E (delivers E data) p this doc body) k) w =
      Some (r', w')" "m_openRequestCbs w' = []" "err (ext w') = err (ext w)" "out (ext w') = out (ext w) @ printed"
      "wire (net (ext w')) = wire (net (ext w)) @ frame (json_writeString E (tool_config E name)) @
        frame (json_writeString E (request_doc E doc (m_sid w + 1)))"
    by blast
  show ?thesis
    using outcome w' by (auto simp: catch_runtime_def cerr_def on_app_def r'_def)
qed

end

end
