(* ===== verification/Tool_Set.thy ===== *)
theory Tool_Set
  imports Tool_Base
begin

text \<open>
  The tools that take a typed value on the command line: tool/jetset.cpp and tool/jetsetasync.cpp set
  a state to it, tool/jetstate.cpp serves a state with it.  \<open>args\<close> are the arguments behind the program
  name.  Each \<open>main\<close> has its own copy of the cascade over the type names.
\<close>

section \<open>tool/jetset.cpp\<close>

definition jetset_printSyntax :: "('j, 'u, 'y, unit) tool_prog" where
  "jetset_printSyntax = cout (''syntax: jetset <address of the jet daemon> <port of the jet daemon>'' @
     '' <jet path> <bool|int|double|string|json> <new value of the state>'' @ endl)"

definition invalid_bool :: string where
  "invalid_bool = ''invalid value for boolean expecting '' @ [CHR 0x27] @ ''true'' @ [CHR 0x27, CHR 0x27] @
     '', or '' @ [CHR 0x27] @ ''false'' @ [CHR 0x27] @ endl"

definition jetset_timeout :: double where
  "jetset_timeout = 0x4005BF0A8B145FCF"  \<comment> \<open>2.71828182846\<close>

definition jetset_main :: "('j, 'u, 'y, 'z) tool_scheme \<Rightarrow> ('j, 'u, ('j, 'y) app) worker \<Rightarrow> pid \<Rightarrow> nat
    \<Rightarrow> string list \<Rightarrow> ('j, 'u, 'y, int32) tool_prog" where
  "jetset_main E L p this args = (case args of
       [address, port_text, path, type, text] \<Rightarrow>
         catch_runtime E
           (bnd (of_atoi port_text) (\<lambda>port.
            with_Peer E p address port []
              (let set = (\<lambda>value. seq (Peer_setStateValue_timeout E L p this path value jetset_timeout)
                                   (ret EXIT_SUCCESS)) in
               if type = ''bool'' then
                 if text = ''false'' then set (json_bool E False)
                 else if text = ''true'' then set (json_bool E True)
                 else seq (cerr invalid_bool) (ret EXIT_FAILURE)
               else if type = ''int'' then bnd (of_atoi text) (\<lambda>value. set (json_int E value))
               else if type = ''double'' then set (json_double E (strtod E text))
               else if type = ''string'' then set (json_string E text)
               else if type = ''json'' then
                 (case json_read E True text of
                    Inr params \<Rightarrow> set params
                  | Inl _ \<Rightarrow> seq (cerr (''error while parsing json!'' @ endl)) (ret EXIT_FAILURE))
               else seq jetset_printSyntax (ret EXIT_SUCCESS))))
           (\<lambda>exc. seq (cerr (exc @ endl)) (ret EXIT_SUCCESS))
     | _ \<Rightarrow> seq jetset_printSyntax (ret EXIT_SUCCESS))"

section \<open>tool/jetsetasync.cpp\<close>

definition jetsetasync_timeOut :: double where
  "jetsetasync_timeOut = 0x4008000000000000"  \<comment> \<open>3.0\<close>

definition jetsetasync_responseCb :: "('j, 'u, 'y, 'z) tool_scheme \<Rightarrow> 'j \<Rightarrow> ('j, 'u, 'y, unit) tool_prog" where
  "jetsetasync_responseCb E result =
     seq (cout (''result: '' @ json_show E result @ endl)) eventloop_stop"

text \<open>\<open>u\<close> is the token of \<open>responseCb\<close>.\<close>

definition jetsetasync_main :: "('j, 'u, 'y, 'z) tool_scheme \<Rightarrow> ('j, 'u, 'y, unit) tool_prog \<Rightarrow> pid \<Rightarrow> 'u
    \<Rightarrow> string list \<Rightarrow> ('j, 'u, 'y, int32) tool_prog" where
  "jetsetasync_main E L p u args = (case args of
       [address, port_text, path, type, text] \<Rightarrow>
         catch_runtime E
           (bnd (of_atoi port_text) (\<lambda>port.
            with_PeerAsync E p address port []
              (let set = (\<lambda>value. seq (setStateValueAsync_timeout E p path value jetsetasync_timeOut
                                    (Some (UserCb u)))
                                (seq (eventloop_execute L) (ret EXIT_SUCCESS))) in
               if type = ''bool'' then
                 if text = ''false'' then set (json_bool E False)
                 else if text = ''true'' then set (json_bool E True)
                 else seq (cerr invalid_bool) (ret EXIT_FAILURE)
               else if type = ''int'' then bnd (of_atoi text) (\<lambda>value. set (json_int E value))
               else if type = ''double'' then set (json_double E (strtod E text))
               else if type = ''string'' then set (json_string E text)
               else if type = ''json'' then
                 (case json_read E True text of
                    Inr params \<Rightarrow> set params
                  | Inl _ \<Rightarrow> seq (cerr (''error while parsing json!'' @ endl)) (ret EXIT_FAILURE))
               else seq jetset_printSyntax (ret EXIT_SUCCESS))))
           (\<lambda>exc. seq (cerr (exc @ endl)) (ret EXIT_SUCCESS))
     | _ \<Rightarrow> seq jetset_printSyntax (ret EXIT_SUCCESS))"

section \<open>tool/jetstate.cpp\<close>

definition jetstate_printSyntax :: "('j, 'u, 'y, unit) tool_prog" where
  "jetstate_printSyntax =
     seq (cout (''syntax: jetstateasync <jet path> <bool|int|double|string|json> <new value of the state>'' @
            endl @ endl))
         (cout (''Creates a single jet state on the local machine'' @ endl))"

definition jetstate_resultCb :: "('j, 'u, 'y, 'z) tool_scheme \<Rightarrow> 'j \<Rightarrow> ('j, 'u, 'y, unit) tool_prog" where
  "jetstate_resultCb E result =
     bnd (lift (json_isMember E result ''error'')) (\<lambda>failed.
     if failed then
       seq (cerr (''adding state failed!'' @ endl)) (cerr (json_show E result @ endl))
     else cout (''added state'' @ endl))"

text \<open>The callback of the state compares with the static variable and stores what is new.\<close>

definition jetstate_setCb :: "('j, 'u, 'y, 'z) tool_scheme \<Rightarrow> 'j \<Rightarrow> string
    \<Rightarrow> ('j, 'u, 'y, 'j SetStateCbResult) tool_prog" where
  "jetstate_setCb E requestedValue _ =
     bnd (gets (\<lambda>w. static_value (ext w))) (\<lambda>value.
     if json_equal E value requestedValue then
       seq (cout (''state stays on previous value '' @ json_show E value @ endl))
           (ret (SetStateCbResult_default E))
     else
       seq (on_app (\<lambda>a. a\<lparr>static_value := requestedValue\<rparr>))
      (seq (cout (''set state to '' @ json_show E requestedValue @ endl))
           (ret ((SetStateCbResult_default E)\<lparr>cb_value := requestedValue\<rparr>))))"

definition jetstate_timeout :: double where
  "jetstate_timeout = 0x400921FB5A7ED197"  \<comment> \<open>3.1415927\<close>

text \<open>\<open>ur\<close> and \<open>us\<close> are the tokens of \<open>resultCb\<close> and \<open>setCb\<close>.\<close>

definition jetstate_serve :: "('j, 'u, 'y, 'z) tool_scheme \<Rightarrow> ('j, 'u, 'y, unit) tool_prog \<Rightarrow> pid \<Rightarrow> 'u \<Rightarrow> 'u
    \<Rightarrow> string \<Rightarrow> ('j, 'u, 'y, int32) tool_prog" where
  "jetstate_serve E L p ur us pPath =
     bnd (gets (\<lambda>w. static_value (ext w))) (\<lambda>value.
     seq (addStateAsync_timeout E p pPath value jetstate_timeout (Some (UserCb ur)) (Some us))
    (seq (eventloop_execute L)
    (seq (removeStateAsync E p pPath None)
         (ret EXIT_SUCCESS))))"

definition jetstate_main :: "('j, 'u, 'y, 'z) tool_scheme \<Rightarrow> ('j, 'u, 'y, unit) tool_prog \<Rightarrow> pid \<Rightarrow> 'u \<Rightarrow> 'u
    \<Rightarrow> string list \<Rightarrow> ('j, 'u, 'y, int32) tool_prog" where
  "jetstate_main E L p ur us args = (case args of
       [pPath, pType, pValue] \<Rightarrow>
         seq new_eventloop
         (with_PeerAsync E p JET_UNIX_DOMAIN_SOCKET_NAME 0 []
           (let assign = (\<lambda>v. on_app (\<lambda>a. a\<lparr>static_value := v\<rparr>)); serve = jetstate_serve E L p ur us pPath in
            if pType = ''bool'' then
              if pValue = ''false'' then seq (assign (json_bool E False)) serve
              else if pValue = ''true'' then seq (assign (json_bool E True)) serve
              else seq (cerr invalid_bool) (ret EXIT_FAILURE)
            else if pType = ''int'' then
              bnd (of_atoi pValue) (\<lambda>i. seq (assign (json_int E i)) serve)
            else if pType = ''double'' then seq (assign (json_double E (strtod E pValue))) serve
            else if pType = ''string'' then seq (assign (json_string E pValue)) serve
            else if pType = ''json'' then
              (case json_read E True pValue of
                 Inl _ \<Rightarrow> seq (cerr (''error while parsing json!'' @ endl)) (ret EXIT_FAILURE)
               | Inr v \<Rightarrow>
                   seq (assign v)
                  (seq (cout (''adding state '' @ [CHR 0x27] @ pPath @ [CHR 0x27] @ ''...'' @ endl))
                       serve))
            else seq jetstate_printSyntax (ret EXIT_SUCCESS)))
     | _ \<Rightarrow> seq jetstate_printSyntax (ret EXIT_SUCCESS))"

end
