(* ===== verification/Tool_Fetch.thy ===== *)
theory Tool_Fetch
  imports Tool_Base
begin

text \<open>
  The tools that show states: tool/get.cpp once, tool/cat.cpp, tool/catexternaleventloop.cpp,
  tool/catsync.cpp and the \<open>main\<close> of tool/cache.cpp all changes.  \<open>name\<close> is the base name of the program,
  \<open>args\<close> the arguments behind it, \<open>u\<close> the token of the callback registered at the peer.
\<close>

section \<open>tool/get.cpp\<close>

text \<open>An operand is evaluated before its line is written (C++11 leaves this open).\<close>

definition get_print_item :: "('j, 'u, 'y, 'z) tool_scheme \<Rightarrow> 'j \<Rightarrow> ('j, 'u, 'y, unit) tool_prog" where
  "get_print_item E item =
     bnd (lift (json_get E item PATH)) (\<lambda>path.
     seq (cout (''path '' @ json_show E path @ endl))
    (bnd (lift (json_get E item VALUE)) (\<lambda>value.
         cout (''value '' @ json_show E value @ endl))))"

definition get_responseCb :: "('j, 'u, 'y, 'z) tool_scheme \<Rightarrow> 'j \<Rightarrow> ('j, 'u, 'y, unit) tool_prog" where
  "get_responseCb E value =
     bnd (lift (json_get E value (rpc_RESULT E))) (\<lambda>resultArray.
     seq (for_each (json_elements E resultArray) (get_print_item E)) eventloop_stop)"

definition get_printSyntax :: "('j, 'u, 'y, unit) tool_prog" where
  "get_printSyntax = cout (''syntax: jetget <address of the jet daemon> <port of the jet daemon (port '' @
     uint_to_string JETD_TCP_PORT @ '')> <path contains>'' @ endl)"

definition get_main :: "('j, 'u, 'y, 'z) tool_scheme \<Rightarrow> ('j, 'u, 'y, unit) tool_prog \<Rightarrow> pid \<Rightarrow> 'u \<Rightarrow> string
    \<Rightarrow> string list \<Rightarrow> ('j, 'u, 'y, int32) tool_prog" where
  "get_main E L p u name args =
     catch_runtime E
       (if args = [''-h''] then seq get_printSyntax (ret 0)
        else
          bnd (port_arg JETD_TCP_PORT args) (\<lambda>port.
          with_PeerAsync E p (address_arg ''127.0.0.1'' args) port name
            (seq (getAsync E p (contains_arg args) (Some (UserCb u)))
            (seq (eventloop_execute L)
                 (ret 0)))))
       (\<lambda>exc. seq (cerr (exc @ endl)) (ret 0))"

section \<open>tool/cat.cpp and tool/catexternaleventloop.cpp\<close>

definition cat_print :: "('j, 'u, 'y, 'z) tool_scheme \<Rightarrow> string \<Rightarrow> string \<Rightarrow> 'j
    \<Rightarrow> ('j, 'u, 'y, unit) tool_prog" where
  "cat_print E description path value =
     (if isNull E value then
        cout (''method '' @ [CHR 0x27] @ path @ [CHR 0x27] @ '' '' @ description @ endl)
      else
        seq (cout (''state '' @ [CHR 0x27] @ path @ [CHR 0x27] @ '' '' @ description @ endl))
            (cout (json_show E value @ endl)))"

definition cat_printSyntax :: "('j, 'u, 'y, unit) tool_prog" where
  "cat_printSyntax =
     seq (cout (''syntax: jetcat <address of the jet daemon> <port of the jet daemon (port '' @
            uint_to_string JETD_TCP_PORT @ '')> <path contains>'' @ endl))
         (cout (''syntax: jetcat <path to unix domain socket> <path contains>'' @ endl))"

text \<open>\<open>notifier.start\<close> with \<open>print\<close> bound to the three descriptions.\<close>

definition cat_notifier :: "('j, 'u, 'y, 'z) tool_scheme \<Rightarrow> pid \<Rightarrow> 'u \<Rightarrow> matcher_t
    \<Rightarrow> ('j, 'u, 'y, string notifier_state) tool_prog" where
  "cat_notifier E p u match =
     notifier_start E p (Some ''added'') (Some ''changed'') (Some ''removed'') match u"

definition cat_main :: "('j, 'u, 'y, 'z) tool_scheme \<Rightarrow> ('j, 'u, 'y, unit) tool_prog \<Rightarrow> pid \<Rightarrow> 'u \<Rightarrow> string
    \<Rightarrow> string list \<Rightarrow> ('j, 'u, 'y, int32) tool_prog" where
  "cat_main E L p u name args =
     catch_runtime E
       (if args = [''-h''] then seq cat_printSyntax (ret 0)
        else
          bnd (port_arg 0 args) (\<lambda>port.
          seq new_eventloop
          (with_PeerAsync E p (address_arg JET_UNIX_DOMAIN_SOCKET_NAME args) port name
            (bnd (cat_notifier E p u (contains_arg args)) (\<lambda>n.
             scope_exit (notifier_destroy E p n)
               (seq (eventloop_execute L)
               (seq (cout ''done!'')
                    (ret EXIT_SUCCESS))))))))
       (\<lambda>exc. seq (cerr (exc @ endl)) (ret EXIT_SUCCESS))"

text \<open>tool/catexternaleventloop.cpp has its own copies of the two printing functions.\<close>

definition catexternal_print :: "('j, 'u, 'y, 'z) tool_scheme \<Rightarrow> string \<Rightarrow> string \<Rightarrow> 'j
    \<Rightarrow> ('j, 'u, 'y, unit) tool_prog" where
  "catexternal_print E description path value =
     (if isNull E value then
        cout (''method '' @ [CHR 0x27] @ path @ [CHR 0x27] @ '' '' @ description @ endl)
      else
        seq (cout (''state '' @ [CHR 0x27] @ path @ [CHR 0x27] @ '' '' @ description @ endl))
            (cout (json_show E value @ endl)))"

definition catexternal_printSyntax :: "('j, 'u, 'y, unit) tool_prog" where
  "catexternal_printSyntax =
     seq (cout (''syntax: jetcat <address of the jet daemon> <port of the jet daemon (port '' @
            uint_to_string JETD_TCP_PORT @ '')> <path contains>'' @ endl))
         (cout (''syntax: jetcat <path to unix domain socket> <path contains>'' @ endl))"

lemma catexternal_copies: "catexternal_print = cat_print" "catexternal_printSyntax = cat_printSyntax"
  by (simp_all add: fun_eq_iff catexternal_print_def cat_print_def catexternal_printSyntax_def
      cat_printSyntax_def)

text \<open>
  With an external event loop the peer's own loop is never run; the loop that is run only has the
  event of the socket, so a round is: \<open>wait\<close> for data, then \<open>PeerAsync::receive\<close>.
\<close>

definition external_round :: "('j, 'u, 'y, 'z) tool_scheme \<Rightarrow> pid \<Rightarrow> ('j, 'u, 'y, unit) tool_prog
    \<Rightarrow> ('j, 'u, 'y, unit) tool_prog" where
  "external_round E p wait = seq wait (seq (receive E p) (ret ()))"

definition catexternal_main :: "('j, 'u, 'y, 'z) tool_scheme \<Rightarrow> ('j, 'u, 'y, unit) tool_prog \<Rightarrow> pid \<Rightarrow> 'u
    \<Rightarrow> string \<Rightarrow> string list \<Rightarrow> ('j, 'u, 'y, int32) tool_prog" where
  "catexternal_main E wait p u name args =
     catch_runtime E
       (if args = [''-h''] then seq catexternal_printSyntax (ret 0)
        else
          bnd (port_arg 0 args) (\<lambda>port.
          seq new_eventloop
          (with_PeerAsync E p (address_arg JET_UNIX_DOMAIN_SOCKET_NAME args) port name
            (bnd (cat_notifier E p u (contains_arg args)) (\<lambda>n.
             scope_exit (notifier_destroy E p n)
               (seq (eventloop_execute (external_round E p wait))
               (seq (cout ''done!'')
                    (ret EXIT_SUCCESS))))))))
       (\<lambda>exc. seq (cerr (exc @ endl)) (ret EXIT_SUCCESS))"

section \<open>tool/catsync.cpp\<close>

definition catsync_fetchCb :: "('j, 'u, 'y, 'z) tool_scheme \<Rightarrow> 'j \<Rightarrow> int32 \<Rightarrow> ('j, 'u, 'y, unit) tool_prog" where
  "catsync_fetchCb E params status =
     (if sint status < 0 then cerr (''Lost connection to jet daemon!'' @ endl)
      else if isObject E params then
        bnd (lift (get_string E params EVENT)) (\<lambda>event.
        bnd (lift (get_string E params PATH)) (\<lambda>path.
        if event = [] then ret ()
        else bnd (lift (json_isMember E params VALUE)) (\<lambda>has_value.
          if has_value \<and> path \<noteq> [] then
            bnd (lift (json_get E params VALUE)) (\<lambda>value.
            cout (path @ '' '' @ event @ '': '' @ endl @ json_styled E value @ endl))
          else ret ())))
      else ret ())"

definition catsync_printSyntax :: "('j, 'u, 'y, unit) tool_prog" where
  "catsync_printSyntax = cout (''syntax: jetcat <address of the peer> <port of the peer (port '' @
     uint_to_string JETD_TCP_PORT @ '')> <path contains>'' @ endl)"

text \<open>\<open>do sleep while (true)\<close>: the worker goes on, this thread never leaves the loop.\<close>

partial_function (option) sleep_forever :: "('j, 'u, 'x) worker \<Rightarrow> ('j, 'u, 'x) world
    \<Rightarrow> (('j exn + unit) \<times> ('j, 'u, 'x) world) option" where
  "sleep_forever L w = Option.bind (L w) (sleep_forever L)"

definition catsync_main :: "('j, 'u, 'y, 'z) tool_scheme \<Rightarrow> ('j, 'u, ('j, 'y) app) worker \<Rightarrow> pid \<Rightarrow> nat \<Rightarrow> 'u
    \<Rightarrow> string \<Rightarrow> string list \<Rightarrow> ('j, 'u, 'y, int32) tool_prog" where
  "catsync_main E L p this u name args =
     catch_runtime E
       (if args = [''-h''] then seq catsync_printSyntax (ret 0)
        else
          bnd (port_arg JETD_TCP_PORT args) (\<lambda>port.
          with_Peer E p (address_arg ''127.0.0.1'' args) port name
            (bnd (Peer_addFetch E L p this (contains_arg args) (Some u)) (\<lambda>fetchId.
             seq (sleep_forever L)
            (seq (Peer_removeFetchAsync E p fetchId None)
                 (ret 0))))))
       (\<lambda>exc. seq (cerr (exc @ endl)) (ret 0))"

section \<open>tool/cache.cpp (main)\<close>

definition cache_print :: "string \<Rightarrow> string \<Rightarrow> 'j \<Rightarrow> ('j, 'u, 'y, unit) tool_prog" where
  "cache_print description path _ =
     cout (''state '' @ [CHR 0x27] @ path @ [CHR 0x27] @ '' '' @ description @ endl)"

definition cache_printSyntax :: "('j, 'u, 'y, unit) tool_prog" where
  "cache_printSyntax = cout (''syntax: jetcache <address of the peer> <port of the peer (port '' @
     uint_to_string JETD_TCP_PORT @ '')> <path contains>'' @ endl)"

text \<open>\<open>c\<close> is the memory of the cache object before its construction.\<close>

definition cache_main :: "('j, 'u, 'y, 'z) tool_scheme \<Rightarrow> ('j, 'u, 'y, unit) tool_prog \<Rightarrow> pid \<Rightarrow> 'u
    \<Rightarrow> ('j, string, 'v) cache_state \<Rightarrow> string \<Rightarrow> string list \<Rightarrow> ('j, 'u, 'y, int32) tool_prog" where
  "cache_main E L p u c name args =
     catch_runtime E
       (if args = [''-h''] then seq cache_printSyntax (ret 0)
        else
          bnd (port_arg 0 args) (\<lambda>port.
          seq new_eventloop
          (with_PeerAsync E p (address_arg JET_UNIX_DOMAIN_SOCKET_NAME args) port name
            (bnd (cache_construct E p (contains_arg args) u) (\<lambda>construct.
             case setCbs (Some ''added'') (Some ''changed'') (Some ''removed'') (construct c) of
               None \<Rightarrow> stuck
             | Some (_, c') \<Rightarrow>
                 scope_exit (cache_destroy E p c')
                   (seq (eventloop_execute L)
                        (ret 0)))))))
       (\<lambda>exc. seq (cerr (exc @ endl)) (ret 0))"

end
