(* ===== verification/Tool_Demo.thy ===== *)
theory Tool_Demo
  imports Tool_World Tool_Set Tool_Fetch
begin

text \<open>
  A concrete world for the tools: a network that delivers at most three bytes at once and keeps what
  is sent, the JSON values of \<open>Json_Model\<close>, and the callbacks of the tools themselves, under the
  numbers 0 (jetsetasync), 1 (jetget), 2 (jetcat) and 3 (jetstate).
\<close>

type_synonym tool_net = "byte list \<times> byte list"  \<comment> \<open>bytes to arrive, bytes sent\<close>

definition tools_receive :: "pid \<Rightarrow> nat \<Rightarrow> (json, tool_net) app \<Rightarrow> recv_result \<times> (json, tool_net) app" where
  "tools_receive p n x =
     (if fst (net x) = [] then (WouldBlock, x)
      else (Received (take (min n 3) (fst (net x))),
        x\<lparr>net := (drop (min n 3) (fst (net x)), snd (net x))\<rparr>))"

text \<open>Every non-empty text is the notification of fetch 1 that a state with that path was added.\<close>

definition tools_event :: "byte list \<Rightarrow> json" where
  "tools_event bs = JObject [(''event'', JString ''add''), (''path'', JString (map (char_of \<circ> unat) bs)),
     (''value'', JInt 5)]"

definition tools_read :: "byte list \<Rightarrow> json option" where
  "tools_read bs = (if bs = [] then None else
     Some (JObject [(''method'', JInt 1), (''params'', tools_event bs)]))"

definition tools_base :: "(json, nat, (json, tool_net) app) env" where
  "tools_base = rpc_model jwrite tools_read (\<lambda>_. ''{}'') (env.fields
     (\<lambda>p a s x. (0, x)) (\<lambda>p a x. (0, x)) (\<lambda>p x. x) tools_receive
     (\<lambda>p blocks x. (0, x\<lparr>net := (fst (net x), snd (net x) @ concat blocks)\<rparr>)) (\<lambda>x. []) (\<lambda>ks. ks) (\<lambda>i. i) False
     (\<lambda>u v. ret ()) (\<lambda>u v st. ret ()) (\<lambda>u v path. ret (SetStateCbResult_value v)) (\<lambda>u v. ret v))"

definition tools_json :: "(json, nat, (json, tool_net) app) tool_env" where
  "tools_json = env.extend tools_base (tool_env.fields (\<lambda>_. ''{}'') (\<lambda>_. ''{}'') (=)
     (\<lambda>c s. if s = ''true'' then Inr (JBool True) else Inl ''no json'') JUInt (\<lambda>_. 0) int True (\<lambda>c s. s) [])"

definition tools_notifier :: "string notifier_state" where
  "tools_notifier = \<lparr>n_fetchId = 1, n_addCb = Some ''added'', n_changeCb = Some ''changed'',
     n_removeCb = Some ''removed''\<rparr>"

definition tools_env :: "(json, nat, (json, tool_net) app) tool_env" where
  "tools_env = tools_json\<lparr>
     run_response := (\<lambda>u. if u = 0 then jetsetasync_responseCb tools_json else get_responseCb tools_json),
     run_fetch := (\<lambda>u. notifier_fetchCb tools_json (cat_print tools_json) tools_notifier),
     run_state := (\<lambda>u. jetstate_setCb tools_json)\<rparr>"

lemmas tools_defs = tools_env_def tools_json_def tools_base_def rpc_model_def env.defs tool_env.defs

lemma tools_env_model: "tools_env = rpc_model jwrite tools_read (\<lambda>_. ''{}'') (jsonrpc.more tools_env)"
  by (simp add: tools_defs)

lemmas tools_env_json [simp] =
  rpc_model_simps [of jwrite tools_read "\<lambda>_. ''{}''" "jsonrpc.more tools_env", folded tools_env_model]

lemma tools_env_fields [simp]:
  "sock_connect_tcp tools_env p a s x = (0, x)" "sock_connect_unix tools_env p a x = (0, x)"
  "sock_disconnect tools_env p x = x" "sock_receive tools_env = tools_receive"
  "sock_sendBlocks tools_env p blocks x = (0, x\<lparr>net := (fst (net x), snd (net x) @ concat blocks)\<rparr>)"
  "hash_order tools_env ks = ks" "json_show tools_env v = ''{}''" "json_equal tools_env = (=)"
  "json_read tools_env c s = (if s = ''true'' then Inr (JBool True) else Inl ''no json'')"
  "rpc_is_runtime_error tools_env"
  by (simp_all add: tools_defs)

text \<open>The registered callbacks are the tools' own, in this very world.\<close>

lemma tools_env_same:
  "jetsetasync_responseCb tools_env = jetsetasync_responseCb tools_json"
  "get_print_item tools_env = get_print_item tools_json"
  "get_string tools_env = get_string tools_json" "cat_print tools_env = cat_print tools_json"
  "jetstate_setCb tools_env = jetstate_setCb tools_json"
  by (intro HOL.ext, simp add: tools_env_def jetsetasync_responseCb_def get_print_item_def get_string_def
      cat_print_def jetstate_setCb_def SetStateCbResult_default_def)+

lemma tools_env_same2:
  "get_responseCb tools_env = get_responseCb tools_json" "notifier_fetchCb tools_env = notifier_fetchCb tools_json"
  by (intro HOL.ext, simp only: get_responseCb_def notifier_fetchCb_def tools_env_same, simp add: tools_env_def)+

lemma tools_env_run:
  "run_response tools_env u = (if u = 0 then jetsetasync_responseCb tools_json else get_responseCb tools_json)"
  "run_fetch tools_env u = notifier_fetchCb tools_json (cat_print tools_json) tools_notifier"
  "run_state tools_env u = jetstate_setCb tools_json"
  by (simp_all add: tools_env_def)

lemma tools_env_callbacks:
  "run_response tools_env 0 = jetsetasync_responseCb tools_env"
  "run_response tools_env 1 = get_responseCb tools_env"
  "run_fetch tools_env 2 = notifier_fetchCb tools_env (cat_print tools_env) tools_notifier"
  "run_state tools_env 3 = jetstate_setCb tools_env"
  by (simp_all add: tools_env_same tools_env_same2 tools_env_run)

interpretation tools_jsonrpc: jsonrpc tools_env
  by (subst tools_env_model) (rule jm.jsonrpc_axioms)

lemma net_same: "\<exists>a. x = x\<lparr>net := (a, snd (net x))\<rparr>"
  by (rule exI [of _ "fst (net x)"]) simp

interpretation tools: tool_world tools_env p snd
proof
  show "\<exists>r n. sock_sendBlocks tools_env p blocks x = (r, x\<lparr>net := n\<rparr>) \<and> 0 \<le> sint r \<and>
      snd n = snd (net x) @ concat blocks" for blocks x
    by (rule exI [of _ 0], rule exI [of _ "(fst (net x), snd (net x) @ concat blocks)"]) simp
qed (auto simp: net_same)

interpretation tools_sock: stream_socket tools_env p "\<lambda>x. fst (net x)" WouldBlock for p
  by unfold_locales (auto simp: tools_receive_def split: prod.splits if_splits)

definition tools_start :: "byte list \<Rightarrow> (json, tool_net) app" where
  "tools_start bs = \<lparr>out = [], err = [], stopped = False, static_value = JNull, clock_reads = 0, net = (bs, [])\<rparr>"

end
