(* ===== verification/Tool_Call.thy ===== *)
theory Tool_Call
  imports Tool_Base
begin

text \<open>
  tool/jetmethod.cpp serves a method that returns its argument, tool/exec.cpp calls a method and prints
  the result, tool/info.cpp prints what the daemon says about itself.
\<close>

section \<open>tool/jetmethod.cpp\<close>

definition jetmethod_resultCb :: "('j, 'u, 'y, 'z) tool_scheme \<Rightarrow> 'j \<Rightarrow> ('j, 'u, 'y, unit) tool_prog" where
  "jetmethod_resultCb E result =
     bnd (lift (json_isMember E result ''error'')) (\<lambda>error.
     if error then cerr (''adding method failed!'' @ endl)
     else bnd (lift (json_isMember E result ''result'')) (\<lambda>added.
       if added then cout (''added method'' @ endl) else cerr (''unexpected response'' @ endl)))"

definition jetmethod_methodCb :: "('j, 'u, 'y, 'z) tool_scheme \<Rightarrow> 'j \<Rightarrow> ('j, 'u, 'y, 'j) tool_prog" where
  "jetmethod_methodCb E value =
     seq (cout (''method call with: '' @ json_show E value @ endl)) (ret value)"

definition methodName :: string where
  "methodName = ''theMethod''"

definition jetmethod_timeout :: double where
  "jetmethod_timeout = 0x400921FB5A7ED197"  \<comment> \<open>3.1415927\<close>

text \<open>\<open>ur\<close> and \<open>um\<close> are the tokens of \<open>resultCb\<close> and \<open>methodCb\<close>.\<close>

definition jetmethod_main :: "('j, 'u, 'y, 'z) tool_scheme \<Rightarrow> ('j, 'u, 'y, unit) tool_prog \<Rightarrow> pid \<Rightarrow> 'u \<Rightarrow> 'u
    \<Rightarrow> ('j, 'u, 'y, int32) tool_prog" where
  "jetmethod_main E L p ur um =
     catch_runtime E
       (seq new_eventloop
       (with_PeerAsync E p ''::1'' JETD_TCP_PORT []
         (seq (cout (''adding method '' @ [CHR 0x27] @ methodName @ [CHR 0x27] @ ''...'' @ endl))
         (seq (addMethodAsync_timeout E p methodName jetmethod_timeout (Some (UserCb ur)) (Some um))
         (seq (eventloop_execute L)
         (seq (removeMethodAsync E p methodName None)
              (ret EXIT_SUCCESS)))))))
       (\<lambda>e. seq (cerr e) (ret EXIT_FAILURE))"

section \<open>tool/exec.cpp\<close>

definition exec_printSyntax :: "('j, 'u, 'y, unit) tool_prog" where
  "exec_printSyntax = cout (''syntax: jetexec <address of the jet daemon> <port of the jet daemon (default port '' @
     uint_to_string JETD_TCP_PORT @ '')> <path> [<parameters as json>]'' @ endl)"

definition exec_timeout :: double where
  "exec_timeout = 0x4024000000000000"  \<comment> \<open>10\<close>

text \<open>The parameters of the call: absent or empty is null; \<open>Inl\<close> is the text of a parse error.\<close>

definition exec_params :: "('j, 'u, 'y, 'z) tool_scheme \<Rightarrow> string list \<Rightarrow> string + 'j" where
  "exec_params E rest = (case rest of
       [] \<Rightarrow> Inr (json_null E)
     | text # _ \<Rightarrow> if text = [] then Inr (json_null E) else json_read E False text)"

definition exec_main :: "('j, 'u, 'y, 'z) tool_scheme \<Rightarrow> ('j, 'u, ('j, 'y) app) worker \<Rightarrow> pid \<Rightarrow> nat
    \<Rightarrow> string list \<Rightarrow> ('j, 'u, 'y, int32) tool_prog" where
  "exec_main E L p this args =
     catch_runtime E
       (case args of
          address # port_text # path # rest \<Rightarrow>
            bnd (of_atoi port_text) (\<lambda>port.
            with_Peer E p address port []
              (case exec_params E rest of
                 Inl errs \<Rightarrow>
                   seq (cerr (''Could not parse parameters for method: '' @ [CHR 0x27] @ errs @
                          [CHR 0x27] @ endl))
                       (ret EXIT_FAILURE)
               | Inr params \<Rightarrow>
                   seq (if json_equal E params (json_null E)
                        then cout (''calling without any parameter...'' @ endl) else ret ())
                  (bnd (Peer_callMethod_timeout E L p this path params exec_timeout) (\<lambda>result.
                   seq (cout (''Result: '' @ json_show E result @ endl)) (ret EXIT_SUCCESS)))))
        | _ \<Rightarrow> seq exec_printSyntax (ret EXIT_SUCCESS))
       (\<lambda>exc. seq (cerr (exc @ endl)) (ret EXIT_FAILURE))"

section \<open>tool/info.cpp\<close>

definition info_printSyntax :: "('j, 'u, 'y, unit) tool_prog" where
  "info_printSyntax =
     seq (cout (''syntax: jetinfo <address of the jet daemon> <port of the jet daemon (port '' @
            uint_to_string JETD_TCP_PORT @ '')'' @ endl))
         (cout (''syntax: jetinfo <path to unix domain socket>'' @ endl))"

text \<open>\<open>name\<close> is the base name of the program.\<close>

definition info_main :: "('j, 'u, 'y, 'z) tool_scheme \<Rightarrow> ('j, 'u, ('j, 'y) app) worker \<Rightarrow> pid \<Rightarrow> nat
    \<Rightarrow> string \<Rightarrow> string list \<Rightarrow> ('j, 'u, 'y, int32) tool_prog" where
  "info_main E L p this name args =
     catch_runtime E
       (if args = [''-h''] then seq info_printSyntax (ret EXIT_SUCCESS)
        else
          bnd (port_arg 0 args) (\<lambda>port.
          with_Peer E p (address_arg JET_UNIX_DOMAIN_SOCKET_NAME args) port name
            (bnd (Peer_info E L p this) (\<lambda>info.
             seq (cout ([CHR 0x27] @ json_show E info @ [CHR 0x27] @ endl)) (ret EXIT_SUCCESS)))))
       (\<lambda>exc. seq (cerr (exc @ endl)) (ret EXIT_SUCCESS))"

end
