(* ===== verification/Measure_Speed.thy ===== *)
theory Measure_Speed
  imports Tool_Base
begin

text \<open>
  tool/measureSpeed.cpp: three measurements, each with a synchronous peer of its own.  \<open>us\<close> and \<open>uf\<close> are
  the tokens of \<open>stateCb\<close> and \<open>fetchCb\<close>; \<open>L\<close> is the worker of the peer, \<open>this\<close> the (reused) address of
  its requests.  A clock reading is a number of microseconds.
\<close>

definition STATE_PATH :: string where
  "STATE_PATH = ''testSpeed/value''"

definition cycleCount :: nat where
  "cycleCount = 100000"

definition measure_stateCb :: "('j, 'u, 'y, 'z) tool_scheme \<Rightarrow> 'j \<Rightarrow> string
    \<Rightarrow> ('j, 'u, 'y, 'j SetStateCbResult) tool_prog" where
  "measure_stateCb E value _ = ret ((SetStateCbResult_default E)\<lparr>cb_value := value\<rparr>)"

definition measure_fetchCb :: "'j \<Rightarrow> int32 \<Rightarrow> ('j, 'u, 'y, unit) tool_prog" where
  "measure_fetchCb _ _ = ret ()"

text \<open>\<open>high_resolution_clock::now()\<close>; the quotient of integers truncates towards 0.\<close>

definition clock :: "('j, 'u, 'y, 'z) tool_scheme \<Rightarrow> ('j, 'u, 'y, int) tool_prog" where
  "clock E = bnd (gets (\<lambda>w. clock_reads (ext w))) (\<lambda>n.
     seq (on_app (\<lambda>a. a\<lparr>clock_reads := Suc n\<rparr>)) (ret (clock_now E n)))"

definition show_quotient :: "int \<Rightarrow> nat \<Rightarrow> string" where
  "show_quotient d n =
     (if d < 0 \<and> nat (- d) div n \<noteq> 0 then CHR ''-'' # nat_digits (nat (- d) div n)
      else nat_digits (nat \<bar>d\<bar> div n))"

definition micro :: string where
  "micro = [CHR 0xC2, CHR 0xB5] @ ''s''"

text \<open>\<open>try { body } catch (const std::runtime_error &e)\<close> with a message; \<open>f\<close> is \<open>__FUNCTION__\<close>.\<close>

definition reporting :: "('j, 'u, 'y, 'z) tool_scheme \<Rightarrow> string \<Rightarrow> ('j, 'u, 'y, unit) tool_prog
    \<Rightarrow> ('j, 'u, 'y, unit) tool_prog" where
  "reporting E f body = catch_runtime E body
     (\<lambda>e. cerr (f @ '': Caught exception: '' @ e @ ''!'' @ endl))"

text \<open>\<open>STATE_PATH + std::to_string(stateIndex)\<close>\<close>

definition state_path :: "nat \<Rightarrow> string" where
  "state_path stateIndex = STATE_PATH @ nat_digits stateIndex"

text \<open>A loop over the indices below \<open>n\<close> that collects results.\<close>

fun collect :: "'a list \<Rightarrow> ('a \<Rightarrow> ('w, 'e, 'b) prog) \<Rightarrow> ('w, 'e, 'b list) prog" where
  "collect [] f = ret []"
| "collect (x # xs) f = bnd (f x) (\<lambda>y. bnd (collect xs f) (\<lambda>ys. ret (y # ys)))"

section \<open>measureSetNotify\<close>

text \<open>The clock is read before the \<open>try\<close> block here; the second time the source reads it inside, where
  it cannot throw.\<close>

definition measure_notify :: "('j, 'u, 'y, 'z) tool_scheme \<Rightarrow> pid \<Rightarrow> ('j, 'u, 'y, unit) tool_prog" where
  "measure_notify E p =
     bnd (clock E) (\<lambda>t1.
     seq (reporting E ''measureSetNotify''
           (for_each [0..<cycleCount] (\<lambda>cycle.
              seq (Peer_notifyState E p STATE_PATH (json_uint E (of_nat cycle))) (ret ()))))
    (bnd (clock E) (\<lambda>t2.
     cout (''average time ('' @ nat_digits cycleCount @ '' cycles) for notifying a state: '' @
       show_quotient (t2 - t1) cycleCount @ micro @ endl))))"

definition measure_set :: "('j, 'u, 'y, 'z) tool_scheme \<Rightarrow> ('j, 'u, ('j, 'y) app) worker \<Rightarrow> pid \<Rightarrow> nat
    \<Rightarrow> ('j, 'u, 'y, unit) tool_prog" where
  "measure_set E L p this =
     bnd (clock E) (\<lambda>t1.
     seq (reporting E ''measureSetNotify''
           (for_each [0..<cycleCount] (\<lambda>cycle.
              seq (Peer_setStateValue E L p this STATE_PATH (json_uint E (of_nat cycle))) (ret ()))))
    (bnd (clock E) (\<lambda>t2.
     cout (''average time ('' @ nat_digits cycleCount @ '' cycles) for setting a state: '' @
       show_quotient (t2 - t1) cycleCount @ micro @ endl))))"

definition measureSetNotify :: "('j, 'u, 'y, 'z) tool_scheme \<Rightarrow> ('j, 'u, ('j, 'y) app) worker \<Rightarrow> pid \<Rightarrow> nat
    \<Rightarrow> 'u \<Rightarrow> string \<Rightarrow> uint32 \<Rightarrow> ('j, 'u, 'y, unit) tool_prog" where
  "measureSetNotify E L p this us address port =
     seq (cout (''*****'' @ endl))
    (seq (cout (''set/notify a single state.'' @ endl))
    (seq (cout (''-Setting a state equals a request from one jet peer over the jet daemon to another'' @
            '' jet peer and getting the response back...'' @ endl))
    (seq (cout (''-Notifying equals pushing a new value of an existing jet state from the jet peer'' @
            '' to the jet daemon'' @ endl))
    (with_Peer E p address port []
      (seq (reporting E ''measureSetNotify''
             (Peer_addStateAsync E p STATE_PATH (json_null E) None (Some us)))
      (seq (measure_notify E p)
           (measure_set E L p this)))))))"

section \<open>measureFetch\<close>

definition FETCH_STATE_COUNT :: nat where
  "FETCH_STATE_COUNT = 10000"

definition FETCH_COUNT :: nat where
  "FETCH_COUNT = 100"

definition measureFetch_run :: "('j, 'u, 'y, 'z) tool_scheme \<Rightarrow> ('j, 'u, ('j, 'y) app) worker \<Rightarrow> pid \<Rightarrow> nat
    \<Rightarrow> 'u \<Rightarrow> 'u \<Rightarrow> ('j, 'u, 'y, unit) tool_prog" where
  "measureFetch_run E L p this us uf =
     seq (reporting E ''measureFetch''
           (for_each [0..<FETCH_STATE_COUNT] (\<lambda>stateIndex.
              Peer_addStateAsync E p (state_path stateIndex) (json_null E) None (Some us))))
    (bnd (clock E) (\<lambda>t1.
     bnd (collect [0..<FETCH_COUNT] (\<lambda>_. Peer_addFetch E L p this matcher_default (Some uf))) (\<lambda>fetchIds.
     bnd (clock E) (\<lambda>t2.
     seq (cout (''average time ('' @ nat_digits FETCH_COUNT @ '' cycles) for fetching '' @
            nat_digits FETCH_STATE_COUNT @ '' states: '' @ show_quotient (t2 - t1) FETCH_COUNT @ micro @
            '' ('' @ show_quotient (t2 - t1) (FETCH_COUNT * FETCH_STATE_COUNT) @ micro @ '' per state)'' @ endl))
    (seq (for_each fetchIds (\<lambda>fetchId. Peer_removeFetchAsync E p fetchId None))
         (reporting E ''measureFetch''
           (for_each [0..<FETCH_STATE_COUNT] (\<lambda>stateIndex.
              Peer_removeStateAsync E p (state_path stateIndex) None))))))))"

definition measureFetch :: "('j, 'u, 'y, 'z) tool_scheme \<Rightarrow> ('j, 'u, ('j, 'y) app) worker \<Rightarrow> pid \<Rightarrow> nat
    \<Rightarrow> 'u \<Rightarrow> 'u \<Rightarrow> string \<Rightarrow> uint32 \<Rightarrow> ('j, 'u, 'y, unit) tool_prog" where
  "measureFetch E L p this us uf address port =
     seq (cout (''*****'' @ endl))
    (seq (cout (''Create '' @ nat_digits FETCH_STATE_COUNT @ '' states and fetch them (This is done '' @
            nat_digits FETCH_COUNT @ '' times)...'' @ endl))
    (with_Peer E p address port [] (measureFetch_run E L p this us uf)))"

section \<open>measureCreateStates\<close>

definition CREATE_STATE_COUNT :: nat where
  "CREATE_STATE_COUNT = 5000"

text \<open>The complex value is built, but the state is added with a null value.\<close>

definition create_state :: "('j, 'u, 'y, 'z) tool_scheme \<Rightarrow> ('j, 'u, ('j, 'y) app) worker \<Rightarrow> pid \<Rightarrow> nat
    \<Rightarrow> 'u \<Rightarrow> nat \<Rightarrow> ('j, 'u, 'y, unit) tool_prog" where
  "create_state E L p this us stateIndex =
     (let value = json_put E (json_null E) ''asNumber'' (json_uint64 E stateIndex);
          value = json_put E value ''asString'' (json_string E (nat_digits stateIndex));
          statePath = state_path stateIndex
      in Peer_addState E L p this statePath (json_null E) (Some us))"

definition measureCreateStates :: "('j, 'u, 'y, 'z) tool_scheme \<Rightarrow> ('j, 'u, ('j, 'y) app) worker \<Rightarrow> pid
    \<Rightarrow> nat \<Rightarrow> 'u \<Rightarrow> string \<Rightarrow> uint32 \<Rightarrow> ('j, 'u, 'y, unit) tool_prog" where
  "measureCreateStates E L p this us address port =
     seq (cout (''*****'' @ endl))
    (with_Peer E p address port []
      (seq (cout (''Creating '' @ nat_digits CREATE_STATE_COUNT @ '' jet complex states synchronously'' @ endl))
      (bnd (clock E) (\<lambda>t1.
       seq (reporting E ''measureCreateStates''
             (for_each [0..<CREATE_STATE_COUNT] (create_state E L p this us)))
      (bnd (clock E) (\<lambda>t2.
       seq (cout (''This took '' @ show_quotient (t2 - t1) CREATE_STATE_COUNT @ '' '' @ micro @
              '' per state'' @ endl))
           (reporting E ''measureCreateStates''
             (for_each [0..<CREATE_STATE_COUNT] (\<lambda>stateIndex.
                Peer_removeStateAsync E p (state_path stateIndex) None)))))))))"

section \<open>main\<close>

definition measure_main :: "('j, 'u, 'y, 'z) tool_scheme \<Rightarrow> ('j, 'u, ('j, 'y) app) worker \<Rightarrow> pid
    \<Rightarrow> nat \<Rightarrow> 'u \<Rightarrow> 'u \<Rightarrow> string list \<Rightarrow> ('j, 'u, 'y, int32) tool_prog" where
  "measure_main E L p this us uf args =
     (let measure = (\<lambda>address port.
            seq (reporting E ''main''
                  (seq (measureSetNotify E L p this us address port)
                  (seq (measureFetch E L p this us uf address port)
                       (measureCreateStates E L p this us address port))))
                (ret EXIT_SUCCESS))
      in case args of
        [address] \<Rightarrow> seq (cout (''using unix domain sockets'' @ endl)) (measure address 0)
      | [address, port_text] \<Rightarrow>
          seq (cout (''using tcp/ip'' @ endl)) (measure address (strtoul port_text))
      | _ \<Rightarrow>
          seq (cout (''Syntax:'' @ endl))
         (seq (cout (''measurespeed <address> <port> for tcp/ip default port is '' @
                 uint_to_string JETD_TCP_PORT @ endl))
         (seq (cout (''measurespeed <name> for unix domain socket default port is '' @
                 JET_UNIX_DOMAIN_SOCKET_NAME @ endl))
              (ret EXIT_SUCCESS))))"

end
