(* ===== verification/Tool_Properties.thy ===== *)
theory Tool_Properties
  imports Tool_Demo Tool_Call Measure_Speed
begin

text \<open>
  The command line tools: numbers on the command line, the typed values of jetset, jetsetasync and
  jetstate, and the tools from their arguments to their output.
\<close>

text \<open>
  A number printed in decimal is read back: \<open>atoi\<close> returns every \<open>int\<close> from the text
  \<open>std::to_string\<close> makes of it, and the port that \<open>strtoul\<close> reads is the one that was written.
\<close>

lemma numbers_roundtrip:
  "atoi (int_to_string i) = Some i \<and> strtoul (uint_to_string n) = n"
proof
  have "- (2 ^ 31) \<le> sint i" "sint i < 2 ^ 31"
    using sint_ge [of i] sint_lt [of i] by simp_all
  then show "atoi (int_to_string i) = Some i"
    by (cases "sint i < 0") (simp_all add: atoi_def int_to_string_def scan_digits scan_minus)
  have "unat n < 2 ^ LENGTH(32)" by (rule unsigned_less)
  then show "strtoul (uint_to_string n) = n"
    by (simp add: strtoul_def uint_to_string_def scan_digits)
qed

section \<open>Typed values\<close>

text \<open>
  The specification the three tools share: what a type name and a text on the command line stand for.
  \<open>None\<close>: the number is out of the range of \<open>int\<close>, where \<open>atoi\<close> is undefined.
\<close>

datatype 'j typed = Value 'j | BadBool | BadJson | BadType

definition typed_value :: "('j, 'u, 'y, 'z) tool_scheme \<Rightarrow> string \<Rightarrow> string \<Rightarrow> 'j typed option" where
  "typed_value E type content =
     (if type = ''bool'' then
        Some (if content = ''false'' then Value (json_bool E False)
          else if content = ''true'' then Value (json_bool E True) else BadBool)
      else if type = ''int'' then map_option (\<lambda>i. Value (json_int E i)) (atoi content)
      else if type = ''double'' then Some (Value (json_double E (strtod E content)))
      else if type = ''string'' then Some (Value (json_string E content))
      else if type = ''json'' then Some (case json_read E True content of Inl _ \<Rightarrow> BadJson | Inr v \<Rightarrow> Value v)
      else Some BadType)"

text \<open>A tool that acts on a value, complains about a bad one and explains itself for a bad type.\<close>

definition run_typed :: "('j, 'u, 'y, 'z) tool_scheme \<Rightarrow> string \<Rightarrow> string
    \<Rightarrow> ('j \<Rightarrow> ('j, 'u, 'y, int32) tool_prog) \<Rightarrow> ('j, 'u, 'y, unit) tool_prog \<Rightarrow> ('j, 'u, 'y, int32) tool_prog" where
  "run_typed E type content act syntax = (case typed_value E type content of
       None \<Rightarrow> stuck
     | Some (Value v) \<Rightarrow> act v
     | Some BadBool \<Rightarrow> seq (cerr invalid_bool) (ret EXIT_FAILURE)
     | Some BadJson \<Rightarrow> seq (cerr (''error while parsing json!'' @ endl)) (ret EXIT_FAILURE)
     | Some BadType \<Rightarrow> seq syntax (ret EXIT_SUCCESS))"

lemma bnd_of_atoi: "bnd (of_atoi s) f = (case atoi s of None \<Rightarrow> stuck | Some i \<Rightarrow> f i)"
  by (rule HOL.ext) (simp add: of_atoi_def split: option.split)

lemma stuck_seq [simp]: "bnd stuck f = stuck" "seq stuck m = stuck"
  by (rule HOL.ext, simp)+

lemma seq_ret [simp]: "seq (ret a) m = m"
  by (rule HOL.ext) simp

lemma jetset_typed:
  "jetset_main E L p this [address, port_text, path, type, content] = catch_runtime E
     (bnd (of_atoi port_text) (\<lambda>port. with_Peer E p address port []
       (run_typed E type content (\<lambda>v. seq (Peer_setStateValue_timeout E L p this path v jetset_timeout)
         (ret EXIT_SUCCESS)) jetset_printSyntax)))
     (\<lambda>exc. seq (cerr (exc @ endl)) (ret EXIT_SUCCESS))"
  by (simp add: jetset_main_def run_typed_def typed_value_def bnd_of_atoi Let_def
      split: option.split sum.split)

lemma jetsetasync_typed:
  "jetsetasync_main E L p u [address, port_text, path, type, content] = catch_runtime E
     (bnd (of_atoi port_text) (\<lambda>port. with_PeerAsync E p address port []
       (run_typed E type content (\<lambda>v. seq (setStateValueAsync_timeout E p path v jetsetasync_timeOut
         (Some (UserCb u))) (seq (eventloop_execute L) (ret EXIT_SUCCESS))) jetset_printSyntax)))
     (\<lambda>exc. seq (cerr (exc @ endl)) (ret EXIT_SUCCESS))"
  by (simp add: jetsetasync_main_def run_typed_def typed_value_def bnd_of_atoi Let_def
      split: option.split sum.split)

section \<open>jetsetasync and jetget\<close>

lemmas tools_small = MAX_MESSAGE_SIZE_def tool_config_def request_doc_def AsyncRequest_def timeout_params_def
  jet_key_defs jet_request_defs

lemmas tools_initial = initial_def tools_start_def

lemma tools_idle:
  "\<not> m_mtx_openRequestCbs (initial (tools_start bs))" "m_openRequestCbs (initial (tools_start bs)) = []"
  "\<not> stopped (ext (initial (tools_start bs)))" "m_sid (initial (tools_start bs)) = 0"
  "out (ext (initial (tools_start bs))) = []" "err (ext (initial (tools_start bs))) = []"
  "net (ext (initial (tools_start bs))) = (bs, [])" "static_value (ext (initial (tools_start bs))) = JNull"
  by (simp_all add: tools_initial)

lemma tools_config_small: "length (json_writeString tools_env (tool_config tools_env [])) \<le> MAX_MESSAGE_SIZE"
  by (simp add: tools_small)

lemma tools_answer: "response_id tools_env (JObject [(''id'', JUInt 1), (''result'', v)])
    (m_sid (initial (tools_start bs)) + 1)"
  by (simp add: response_id_def tools_idle)

lemma tools_atoi: "atoi ''11122'' = Some 11122" "atoi ''-42'' = Some (- 42)"
  by (simp_all add: atoi_def scan_number_def digits_value_def isspace_def isdigit_def)

definition set_doc :: "('j, 'z) jsonrpc_scheme \<Rightarrow> string \<Rightarrow> 'j \<Rightarrow> double \<Rightarrow> 'j" where
  "set_doc J path value timeout_s = AsyncRequest J SET
     (json_put J (json_put J (timeout_params J timeout_s) PATH (json_string J path)) VALUE value)"

lemma catch_runtime_ok: "m w = Some (Inr a, w') \<Longrightarrow> catch_runtime E m h w = Some (Inr a, w')"
  by (simp add: catch_runtime_def)

text \<open>
  C29: \<open>jetsetasync\<close> with a good typed value (a boolean, an integer, a floating point number, a text or a
  JSON text) sends its configuration and one set request for the path with exactly that value and the
  timeout, waits for the response, prints it and returns success; no request is left open.
\<close>

theorem jetsetasync_sets:
  assumes world: "tool_world E p wire"
    and args: "atoi port_text = Some port" "typed_value E type content = Some (Value v)"
    and idle: "\<not> m_mtx_openRequestCbs w" "m_openRequestCbs w = []" "\<not> stopped (ext w)"
    and small: "length (json_writeString E (tool_config E [])) \<le> MAX_MESSAGE_SIZE"
      "length (json_writeString E (request_doc E (set_doc E path v jetsetasync_timeOut) (m_sid w + 1)))
        \<le> MAX_MESSAGE_SIZE"
    and data: "response_id E data (m_sid w + 1)"
    and cb: "run_response E u = jetsetasync_responseCb E"
  shows "\<exists>w'. jetsetasync_main E (handleResult E data) p u [address, port_text, path, type, content] w =
      Some (Inr EXIT_SUCCESS, w') \<and> m_openRequestCbs w' = [] \<and> err (ext w') = err (ext w) \<and>
    out (ext w') = out (ext w) @ ''result: '' @ json_show E data @ endl \<and>
    wire (net (ext w')) = wire (net (ext w)) @ frame (json_writeString E (tool_config E [])) @
      frame (json_writeString E (request_doc E (set_doc E path v jetsetasync_timeOut) (m_sid w + 1)))"
proof -
  have "run_response E u data v = Some (Inr (), v\<lparr>ext := (ext v)\<lparr>out := out (ext v) @
      ''result: '' @ json_show E data @ endl, stopped := True\<rparr>\<rparr>)" for v
    by (simp add: cb jetsetasync_responseCb_def cout_def eventloop_stop_def on_app_def)
  from tool_world.one_request [OF world idle small data this, of address port EXIT_SUCCESS]
  show ?thesis
    using args catch_runtime_ok
    by (fastforce simp: jetsetasync_typed bnd_of_atoi run_typed_def setStateValueAsync_timeout_def
        setStateValueAsyncPrivate_def Let_def set_doc_def [symmetric])
qed

theorem jetsetasync_sets_witness:
  "\<exists>w'. jetsetasync_main tools_env (handleResult tools_env (JObject [(''id'', JUInt 1), (''result'', JNull)])) 0 0
      [''host'', ''11122'', ''path'', ''int'', ''-42''] (initial (tools_start [])) = Some (Inr EXIT_SUCCESS, w') \<and>
    out (ext w') = ''result: {}'' @ endl \<and>
    snd (net (ext w')) = frame (jwrite (tool_config tools_env [])) @ frame (jwrite
      (request_doc tools_env (set_doc tools_env ''path'' (JInt (- 42)) jetsetasync_timeOut) 1))"
proof -
  let ?w = "initial (tools_start []) :: (json, nat, (json, tool_net) app) world"
  have v: "typed_value tools_env ''int'' ''-42'' = Some (Value (JInt (- 42)))"
    using tools_atoi(2) by (simp add: typed_value_def)
  have small: "length (json_writeString tools_env (request_doc tools_env
      (set_doc tools_env ''path'' (JInt (- 42)) jetsetasync_timeOut) (m_sid ?w + 1))) \<le> MAX_MESSAGE_SIZE"
    by (simp add: tools_small set_doc_def tools_idle)
  show ?thesis
    using jetsetasync_sets [OF tools.tool_world_axioms [of 0] tools_atoi(1) v tools_idle(1-3) tools_config_small
        small tools_answer [of JNull] tools_env_callbacks(1), of "''host''"]
    by (auto simp: tools_idle)
qed

text \<open>The text \<open>jetget\<close> prints for an item.\<close>

definition item_text :: "('j, 'u, 'y, 'z) tool_scheme \<Rightarrow> 'j \<Rightarrow> string" where
  "item_text E item = ''path '' @ json_show E (json_child E item PATH) @ endl @
     ''value '' @ json_show E (json_child E item VALUE) @ endl"

lemma get_items:
  assumes "jsonrpc E" and "\<forall>item \<in> set items. is_record E item"
  shows "for_each items (get_print_item E) w =
    Some (Inr (), w\<lparr>ext := (ext w)\<lparr>out := out (ext w) @ concat (map (item_text E) items)\<rparr>\<rparr>)"
  using assms(2)
proof (induction items arbitrary: w)
  case (Cons item items)
  then have "get_print_item E item w =
      Some (Inr (), w\<lparr>ext := (ext w)\<lparr>out := out (ext w) @ item_text E item\<rparr>\<rparr>)"
    using jsoncpp.get_child [OF jsonrpc.axioms(1) [OF assms(1)], of item]
    by (simp add: get_print_item_def item_text_def cout_def on_app_def)
  with Cons show ?case by simp
qed simp

text \<open>
  \<open>jetget\<close> sends its configuration and one get request for the paths that contain the given text,
  waits for the response, prints path and value of every item of the result in order, and returns.
\<close>

lemma jetget_prints:
  assumes world: "tool_world E p wire" and port: "atoi port_text = Some port"
    and idle: "\<not> m_mtx_openRequestCbs w" "m_openRequestCbs w = []" "\<not> stopped (ext w)"
    and small: "length (json_writeString E (tool_config E name)) \<le> MAX_MESSAGE_SIZE"
      "length (json_writeString E (request_doc E (AsyncRequest E GET
        (addPathInformation E (matcher_default\<lparr>contains := fragment\<rparr>) (json_null E))) (m_sid w + 1))) \<le> MAX_MESSAGE_SIZE"
    and data: "response_id E data (m_sid w + 1)" "is_record E data"
      "\<forall>item \<in> set (json_elements E (json_child E data (rpc_RESULT E))). is_record E item"
    and cb: "run_response E u = get_responseCb E"
  shows "\<exists>w'. get_main E (handleResult E data) p u name [address, port_text, fragment] w =
      Some (Inr 0, w') \<and> m_openRequestCbs w' = [] \<and> err (ext w') = err (ext w) \<and>
    out (ext w') = out (ext w) @ concat (map (item_text E) (json_elements E (json_child E data (rpc_RESULT E)))) \<and>
    wire (net (ext w')) = wire (net (ext w)) @ frame (json_writeString E (tool_config E name)) @
      frame (json_writeString E (request_doc E (AsyncRequest E GET
        (addPathInformation E (matcher_default\<lparr>contains := fragment\<rparr>) (json_null E))) (m_sid w + 1)))"
proof -
  have rpc: "jsonrpc E" using world by (simp add: tool_world_def)
  let ?content = "concat (map (item_text E) (json_elements E (json_child E data (rpc_RESULT E))))"
  have "run_response E u data v = Some (Inr (), v\<lparr>ext := (ext v)\<lparr>out := out (ext v) @ ?content, stopped := True\<rparr>\<rparr>)" for v
    using jsoncpp.get_child [OF jsonrpc.axioms(1) [OF rpc] data(2)] get_items [OF rpc data(3), of v]
    by (simp add: cb get_responseCb_def eventloop_stop_def on_app_def)
  from tool_world.one_request [OF world idle small data(1) this, of address port 0]
  show ?thesis
    using port catch_runtime_ok
    by (fastforce simp: get_main_def port_arg_def bnd_of_atoi address_arg_def contains_arg_def getAsync_def)
qed

section \<open>jetset\<close>

text \<open>
  \<open>jetset\<close> with a good value sends its configuration and one set request, and waits for the
  response.  It prints nothing if the response has no error and the text of the error otherwise; the
  exit code is success in both cases.
\<close>

lemma jetset_reports:
  assumes world: "tool_world E p wire"
    and args: "atoi port_text = Some port" "typed_value E type content = Some (Value v)"
    and idle: "\<not> m_mtx_openRequestCbs w" "m_openRequestCbs w = []"
    and small: "length (json_writeString E (tool_config E [])) \<le> MAX_MESSAGE_SIZE"
      "length (json_writeString E (request_doc E (set_doc E path v jetset_timeout) (m_sid w + 1)))
        \<le> MAX_MESSAGE_SIZE"
    and data: "response_id E data (m_sid w + 1)"
    and answer: "json_isMember E data (rpc_ERR E) = Inr True \<and> jsoncpprpcException_error E data = Some e \<and>
        rpc_is_runtime_error E \<and> report = m_what e @ endl \<or>
      json_isMember E data (rpc_ERR E) = Inr False \<and> read_warning E data = Inr result \<and> report = []"
  shows "\<exists>w'. jetset_main E (delivers E data) p this [address, port_text, path, type, content] w =
      Some (Inr EXIT_SUCCESS, w') \<and> m_openRequestCbs w' = [] \<and>
    err (ext w') = err (ext w) @ report \<and> out (ext w') = out (ext w) \<and>
    wire (net (ext w')) = wire (net (ext w)) @ frame (json_writeString E (tool_config E [])) @
      frame (json_writeString E (request_doc E (set_doc E path v jetset_timeout) (m_sid w + 1)))"
proof -
  define body where "body = (\<lambda>result. bnd (lift (json_isMember E result (rpc_ERR E))) (\<lambda>err.
    if err then throw_result E result else lift (read_warning E result)))"
  define r where "r = (if json_isMember E data (rpc_ERR E) = Inr True then Inl (JsoncppRpcException e) else Inr result)"
  have "Peer_setStateValue_timeout E L p this path v jetset_timeout =
      sync_scope E L p this (set_doc E path v jetset_timeout) body" for L
    by (simp add: Peer_setStateValue_timeout_def Peer_setStateValuePrivate_def set_doc_def body_def)
  then have main: "jetset_main E (delivers E data) p this [address, port_text, path, type, content] w =
      catch_runtime E (with_Peer E p address port [] (bnd (sync_scope E (delivers E data) p this
        (set_doc E path v jetset_timeout) body) (\<lambda>_. ret EXIT_SUCCESS)))
        (\<lambda>exc. seq (cerr (exc @ endl)) (ret EXIT_SUCCESS)) w"
    using args by (simp add: jetset_typed bnd_of_atoi run_typed_def seq_def)
  have "body data v = Some (r, v)" for v
    using answer by (auto simp: body_def r_def throw_result_def)
  from tool_world.one_sync_caught [where body = body and r = r and k = "\<lambda>_. ret EXIT_SUCCESS" and c = EXIT_SUCCESS
      and exit = EXIT_SUCCESS and printed = "[]" and report = report, OF world idle small data this]
  show ?thesis unfolding main using answer by (auto simp: r_def)
qed

section \<open>jetexec\<close>

definition call_doc :: "('j, 'z) jsonrpc_scheme \<Rightarrow> string \<Rightarrow> 'j \<Rightarrow> double \<Rightarrow> 'j" where
  "call_doc J path args timeout_s = AsyncRequest J CALL
     (let params = json_put J (timeout_params J timeout_s) PATH (json_string J path)
      in if isNull J args then params else json_put J params ARGS args)"

text \<open>
  C27: \<open>jetexec\<close> with parameters that parse sends its configuration and one call of the method with
  them, and waits for the response.  A result is printed, with exit code success; the text of an error
  is printed to the error output, with exit code failure.
\<close>

theorem jetexec_reports:
  fixes E :: "('j, 'u, 'y, 'z) tool_scheme"
  assumes world: "tool_world E p wire"
    and args: "atoi port_text = Some port" "content \<noteq> []" "json_read E False content = Inr params"
      "\<not> json_equal E params (json_null E)"
    and idle: "\<not> m_mtx_openRequestCbs w" "m_openRequestCbs w = []"
    and small: "length (json_writeString E (tool_config E [])) \<le> MAX_MESSAGE_SIZE"
      "length (json_writeString E (request_doc E (call_doc E path params exec_timeout) (m_sid w + 1)))
        \<le> MAX_MESSAGE_SIZE"
    and data: "response_id E data (m_sid w + 1)"
    and answer: "json_isMember E data (rpc_ERR E) = Inr True \<and> jsoncpprpcException_error E data = Some e \<and>
        rpc_is_runtime_error E \<and> exit = EXIT_FAILURE \<and> printed = [] \<and> report = m_what e @ endl \<or>
      json_isMember E data (rpc_ERR E) = Inr False \<and> json_get E data (rpc_RESULT E) = Inr result \<and>
        exit = EXIT_SUCCESS \<and> printed = ''Result: '' @ json_show E result @ endl \<and> report = []"
  shows "\<exists>w'. exec_main E (delivers E data) p this [address, port_text, path, content] w =
      Some (Inr exit, w') \<and> m_openRequestCbs w' = [] \<and>
    err (ext w') = err (ext w) @ report \<and> out (ext w') = out (ext w) @ printed \<and>
    wire (net (ext w')) = wire (net (ext w)) @ frame (json_writeString E (tool_config E [])) @
      frame (json_writeString E (request_doc E (call_doc E path params exec_timeout) (m_sid w + 1)))"
proof -
  define k :: "'j \<Rightarrow> ('j, 'u, 'y, int32) tool_prog" where "k = (\<lambda>result. seq (cout (''Result: '' @ json_show E result @ endl)) (ret EXIT_SUCCESS))"
  define r where "r = (if json_isMember E data (rpc_ERR E) = Inr True then Inl (JsoncppRpcException e) else Inr result)"
  have "Peer_callMethod_timeout E L p this path params exec_timeout =
      sync_scope E L p this (call_doc E path params exec_timeout) (result_or_throw E)" for L
    by (simp add: Peer_callMethod_timeout_def Peer_callMethodPrivate_def call_doc_def Let_def)
  then have main: "exec_main E (delivers E data) p this [address, port_text, path, content] w =
      catch_runtime E (with_Peer E p address port [] (bnd (sync_scope E (delivers E data) p this
        (call_doc E path params exec_timeout) (result_or_throw E)) k))
        (\<lambda>exc. seq (cerr (exc @ endl)) (ret EXIT_FAILURE)) w"
    using args by (simp add: exec_main_def exec_params_def bnd_of_atoi k_def)
  have "result_or_throw E data v = Some (r, v)" for v
    using answer by (auto simp: result_or_throw_def r_def throw_result_def)
  from tool_world.one_sync_caught [where body = "result_or_throw E" and r = r and k = k and c = EXIT_FAILURE
      and exit = exit and printed = printed and report = report, OF world idle small data this]
  show ?thesis unfolding main using answer by (auto simp: r_def k_def cout_def on_app_def)
qed

theorem jetexec_reports_witness:
  "\<exists>w'. exec_main tools_env (delivers tools_env (JObject [(''id'', JUInt 1), (''result'', JInt 5)])) 0 0
      [''host'', ''11122'', ''m'', ''true''] (initial (tools_start [])) = Some (Inr EXIT_SUCCESS, w') \<and>
    out (ext w') = ''Result: {}'' @ endl \<and> err (ext w') = []"
proof -
  let ?data = "JObject [(''id'', JUInt 1), (''result'', JInt 5)]"
  have small: "length (json_writeString tools_env (request_doc tools_env
      (call_doc tools_env ''m'' (JBool True) exec_timeout) (m_sid (initial (tools_start [])) + 1))) \<le> MAX_MESSAGE_SIZE"
    by (simp add: tools_small call_doc_def tools_idle)
  have good: "json_isMember tools_env ?data (rpc_ERR tools_env) = Inr False \<and>
      json_get tools_env ?data (rpc_RESULT tools_env) = Inr (JInt 5) \<and> EXIT_SUCCESS = EXIT_SUCCESS \<and>
      ''Result: {}'' @ endl = ''Result: '' @ json_show tools_env (JInt 5) @ endl \<and> [] = ([] :: string)"
    by simp
  show ?thesis
    using jetexec_reports [OF tools.tool_world_axioms [of 0] tools_atoi(1), where content = "''true''"
        and params = "JBool True" and e = undefined and address = "''host''" and this = 0,
        OF _ _ _ tools_idle(1,2) tools_config_small small tools_answer disjI2 [OF good]]
    by (auto simp: tools_idle)
qed

section \<open>jetstate\<close>

text \<open>
  The specification of the state that \<open>jetstate\<close> serves: a register.  A set request with another value
  changes it and is notified; each request is answered with a result.
\<close>

definition after_set :: "('j, 'u, 'y, 'z) tool_scheme \<Rightarrow> 'j \<Rightarrow> 'j \<Rightarrow> 'j" where
  "after_set E cur v = (if json_equal E cur v then cur else v)"

definition set_docs :: "('j, 'u, 'y, 'z) tool_scheme \<Rightarrow> string \<Rightarrow> 'j \<Rightarrow> 'j \<Rightarrow> 'j \<Rightarrow> 'j list" where
  "set_docs E path cur v idNode = (if json_equal E cur v then [] else [change_doc E path v]) @
     [json_put E (json_put E (json_null E) (rpc_RESULT E) (json_object E)) (rpc_ID E) idNode]"

fun serve_docs :: "('j, 'u, 'y, 'z) tool_scheme \<Rightarrow> string \<Rightarrow> 'j \<Rightarrow> ('j \<times> 'j) list \<Rightarrow> 'j list" where
  "serve_docs E path cur [] = []"
| "serve_docs E path cur ((v, idNode) # sets) =
     set_docs E path cur v idNode @ serve_docs E path (after_set E cur v) sets"

context tool_world
begin

lemma reply_small:
  assumes "\<not> isNull E idNode" and "small (json_put E response (rpc_ID E) idNode)"
  shows "\<exists>x. reply E p idNode response w = Some (Inr (), w\<lparr>ext := x\<rparr>) \<and>
    wired [json_put E response (rpc_ID E) idNode] (ext w) x"
  using send_small [OF assms(2), of w] assms(1) by (auto simp: reply_def)

lemma wired_fields: "wired docs x x' \<Longrightarrow> static_value x' = static_value x \<and> out x' = out x \<and> err x' = err x"
  by (auto simp: wired_def)

lemma jetstate_one:
  assumes msg: "set_message E data path v" "\<not> isNull E v" "\<not> isNull E (json_child E data (rpc_ID E))"
    and reg: "m_stateCallbacks (peers w p) path = Some (Some us)" and cb: "run_state E us = jetstate_setCb E"
    and ok: "\<forall>d \<in> set (set_docs E path (static_value (ext w)) v (json_child E data (rpc_ID E))). small d"
  shows "\<exists>x. handleMessage E p data w = Some (Inr (), w\<lparr>ext := x\<rparr>) \<and>
    static_value x = after_set E (static_value (ext w)) v \<and>
    wire (net x) = wire (net (ext w)) @ concat (map (\<lambda>d. frame (json_writeString E d))
      (set_docs E path (static_value (ext w)) v (json_child E data (rpc_ID E))))"
proof -
  let ?id = "json_child E data (rpc_ID E)" and ?eq = "json_equal E (static_value (ext w)) v"
  define res where "res = (if ?eq then SetStateCbResult_default E else (SetStateCbResult_default E)\<lparr>cb_value := v\<rparr>)"
  define response where "response = json_put E (json_null E) (rpc_RESULT E) (json_object E)"
  define x where "x = (ext w)\<lparr>out := out (ext w) @ (if ?eq then
      ''state stays on previous value '' @ json_show E (static_value (ext w)) @ endl
      else ''set state to '' @ json_show E v @ endl),
    static_value := after_set E (static_value (ext w)) v\<rparr>"
  have x: "jetstate_setCb E v path w = Some (Inr res, w\<lparr>ext := x\<rparr>)"
    by (cases ?eq; simp add: jetstate_setCb_def res_def x_def cout_def on_app_def after_set_def)
  have res: "state_result E (cb_result res) (json_null E) = response"
      "isNull E (cb_value res) = ?eq" "\<not> ?eq \<longrightarrow> cb_value res = v"
    using msg(2) by (simp_all add: res_def response_def state_result_def SetStateCbResult_default_def
        SetStateResult_default_def WARN_NONE_def type_null)
  have docs: "small (json_put E response (rpc_ID E) ?id)" "\<not> ?eq \<Longrightarrow> small (change_doc E path v)"
    using ok by (auto simp: response_def set_docs_def split: if_splits)
  obtain y where y: "(if ?eq then ret () else sendMessage E p (change_doc E path v)) (w\<lparr>ext := x\<rparr>) =
      Some (Inr (), w\<lparr>ext := y\<rparr>)" "wired (if ?eq then [] else [change_doc E path v]) x y"
    using send_small [OF docs(2), of "w\<lparr>ext := x\<rparr>"] wired_refl [of x] by (cases ?eq) auto
  obtain z where z: "reply E p ?id response (w\<lparr>ext := y\<rparr>) = Some (Inr (), w\<lparr>ext := z\<rparr>)"
      "wired [json_put E response (rpc_ID E) ?id] y z"
    using reply_small [OF msg(3) docs(1), of "w\<lparr>ext := y\<rparr>"] by auto
  have "set_state E p us v path w = Some (Inr response, w\<lparr>ext := y\<rparr>)"
    using x y(1) res by (cases ?eq) (simp_all add: set_state_def cb)
  then have "handleMessage E p data w = Some (Inr (), w\<lparr>ext := z\<rparr>)"
    using rpc_env.handleMessage_path [OF rpc_env.intro [OF jsonrpc_axioms], of data path p w] reg msg
      rpc_env.handle_state_set [OF rpc_env.intro [OF jsonrpc_axioms] msg(1,2), of p "Some us" w] z(1)
    by (simp add: set_message_def)
  moreover have "static_value z = static_value x" "wire (net z) = wire (net (ext w)) @
      concat (map (\<lambda>d. frame (json_writeString E d)) (set_docs E path (static_value (ext w)) v ?id))"
    using wired_trans [OF y(2) z(2)] by (auto simp: wired_def response_def set_docs_def x_def)
  ultimately show ?thesis by (auto simp: x_def)
qed

lemma jetstate_many:
  assumes "\<forall>(data, v, idNode) \<in> set msgs. set_message E data path v \<and> \<not> isNull E v \<and>
      json_child E data (rpc_ID E) = idNode \<and> \<not> isNull E idNode"
    and "m_stateCallbacks (peers w p) path = Some (Some us)" and "run_state E us = jetstate_setCb E"
    and "\<forall>d \<in> set (serve_docs E path (static_value (ext w)) (map snd msgs)). small d"
  shows "\<exists>x. for_each (map fst msgs) (handleMessage E p) w = Some (Inr (), w\<lparr>ext := x\<rparr>) \<and>
    static_value x = foldl (after_set E) (static_value (ext w)) (map (\<lambda>(data, v, idNode). v) msgs) \<and>
    wire (net x) = wire (net (ext w)) @ concat (map (\<lambda>d. frame (json_writeString E d))
      (serve_docs E path (static_value (ext w)) (map snd msgs)))"
  using assms
proof (induction msgs arbitrary: w)
  case Nil
  then show ?case by (auto intro: exI [of _ "ext w"])
next
  case (Cons msg msgs)
  obtain data v idNode where msg: "msg = (data, v, idNode)" by (cases msg) auto
  obtain x where x: "handleMessage E p data w = Some (Inr (), w\<lparr>ext := x\<rparr>)"
      "static_value x = after_set E (static_value (ext w)) v"
      "wire (net x) = wire (net (ext w)) @ concat (map (\<lambda>d. frame (json_writeString E d))
        (set_docs E path (static_value (ext w)) v idNode))"
    using jetstate_one [of data path v w us] Cons.prems by (auto simp: msg)
  obtain y where "for_each (map fst msgs) (handleMessage E p) (w\<lparr>ext := x\<rparr>) = Some (Inr (), w\<lparr>ext := y\<rparr>)"
      "static_value y = foldl (after_set E) (static_value x) (map (\<lambda>(data, v, idNode). v) msgs)"
      "wire (net y) = wire (net x) @ concat (map (\<lambda>d. frame (json_writeString E d))
        (serve_docs E path (static_value x) (map snd msgs)))"
    using Cons.IH [of "w\<lparr>ext := x\<rparr>"] Cons.prems x(2) by (auto simp: msg)
  with x show ?case by (auto simp: msg)
qed

end

text \<open>
  C26: \<open>jetstate\<close> serves its state as a register.  After any sequence of set requests for it, the
  program's variable holds the last value that differed from the one before; a change notification
  went out for exactly the requests that changed it, before their responses, and every request was
  answered with a result, in order.
\<close>

theorem jetstate_register:
  assumes "tool_world E p wire"
    and "\<forall>(data, v, idNode) \<in> set msgs. set_message E data path v \<and> \<not> isNull E v \<and>
      json_child E data (rpc_ID E) = idNode \<and> \<not> isNull E idNode"
    and "m_stateCallbacks (peers w p) path = Some (Some us)" and "run_state E us = jetstate_setCb E"
    and "\<forall>d \<in> set (serve_docs E path (static_value (ext w)) (map snd msgs)).
      length (json_writeString E d) \<le> MAX_MESSAGE_SIZE"
  shows "\<exists>x. for_each (map fst msgs) (handleMessage E p) w = Some (Inr (), w\<lparr>ext := x\<rparr>) \<and>
    static_value x = foldl (after_set E) (static_value (ext w)) (map (\<lambda>(data, v, idNode). v) msgs) \<and>
    wire (net x) = wire (net (ext w)) @ concat (map (\<lambda>d. frame (json_writeString E d))
      (serve_docs E path (static_value (ext w)) (map snd msgs)))"
  by (rule tool_world.jetstate_many [OF assms])

theorem jetstate_register_witness:
  "\<exists>x. for_each [demo_set ''a'' (JInt 1), demo_set ''a'' (JInt 1)] (handleMessage tools_env 0)
      (upd_peer 0 (\<lambda>q. q\<lparr>m_stateCallbacks := [''a'' \<mapsto> Some 3]\<rparr>) (initial (tools_start []))) =
    Some (Inr (), (upd_peer 0 (\<lambda>q. q\<lparr>m_stateCallbacks := [''a'' \<mapsto> Some 3]\<rparr>) (initial (tools_start [])))\<lparr>ext := x\<rparr>) \<and>
    static_value x = JInt 1 \<and>
    snd (net x) = frame (jwrite (change_doc tools_env ''a'' (JInt 1))) @
      frame (jwrite (JObject [(''result'', JObject []), (''id'', JUInt 3)])) @
      frame (jwrite (JObject [(''result'', JObject []), (''id'', JUInt 3)]))"
proof -
  let ?w = "upd_peer 0 (\<lambda>q. q\<lparr>m_stateCallbacks := [''a'' \<mapsto> Some 3]\<rparr>) (initial (tools_start []))"
  let ?m = "(demo_set ''a'' (JInt 1), JInt 1, JUInt 3)"
  have msgs: "\<forall>(data, v, idNode) \<in> set [?m, ?m]. set_message tools_env data ''a'' v \<and> \<not> isNull tools_env v \<and>
      json_child tools_env data (rpc_ID tools_env) = idNode \<and> \<not> isNull tools_env idNode"
    by (simp add: demo_set_def set_message_def path_message_def is_record_def json_child_def VALUE_def)
  have small: "\<forall>d \<in> set (serve_docs tools_env ''a'' (static_value (ext ?w)) (map snd [?m, ?m])).
      length (json_writeString tools_env d) \<le> MAX_MESSAGE_SIZE"
    by (simp add: tools_idle set_docs_def after_set_def change_doc_def tools_small)
  show ?thesis
    using jetstate_register [OF tools.tool_world_axioms [of 0] msgs, where w = ?w and us = 3] small
    by (simp add: tools_env_callbacks tools_idle after_set_def set_docs_def)
qed


section \<open>jetcat\<close>

text \<open>The text for a notification; nothing for parameters that are no event.\<close>

definition cat_line :: "('j, 'u, 'y, 'z) tool_scheme \<Rightarrow> string \<Rightarrow> string \<Rightarrow> 'j \<Rightarrow> string" where
  "cat_line E description path value =
     (if isNull E value then ''method '' else ''state '') @ [CHR 0x27] @ path @ [CHR 0x27] @ '' '' @
     description @ endl @ (if isNull E value then [] else json_show E value @ endl)"

definition cat_text :: "('j, 'u, 'y, 'z) tool_scheme \<Rightarrow> 'j \<Rightarrow> string" where
  "cat_text E params = (if \<not> isObject E params then []
     else case (get_string E params EVENT, get_string E params PATH, json_get E params VALUE) of
       (Inr event, Inr path, Inr value) \<Rightarrow>
         if event = CHANGE then cat_line E ''changed'' path value
         else if event = ADD then cat_line E ''added'' path value
         else if event = REMOVE then cat_line E ''removed'' path value
         else []
     | _ \<Rightarrow> [])"

lemma cat_print_line:
  "cat_print E description path value w =
     Some (Inr (), w\<lparr>ext := (ext w)\<lparr>out := out (ext w) @ cat_line E description path value\<rparr>\<rparr>)"
  by (simp add: cat_print_def cat_line_def cout_def on_app_def)

text \<open>\<open>jetcat\<close>'s notifier: the descriptions of the three events are bound to \<open>print\<close>.\<close>

definition cat_callbacks :: "string notifier_state \<Rightarrow> bool" where
  "cat_callbacks n \<longleftrightarrow> n_addCb n = Some ''added'' \<and> n_changeCb n = Some ''changed'' \<and> n_removeCb n = Some ''removed''"

lemma cat_fetchCb:
  assumes "cat_callbacks n"
  shows "\<exists>r. notifier_fetchCb E (cat_print E) n params 0 w =
    Some (r, w\<lparr>ext := (ext w)\<lparr>out := out (ext w) @ cat_text E params\<rparr>\<rparr>)"
  using assms
  by (auto simp: notifier_fetchCb_def cat_text_def cat_callbacks_def call_unchecked_def cat_print_line
      split: sum.splits)

lemma cat_notifier_run:
  assumes "cat_notifier E p u match w0 = Some (Inr n, w)"
  shows "cat_callbacks n" and "peers w p = (peers w0 p)\<lparr>m_fetchers := AList.update (n_fetchId n)
    \<lparr>fetch_callback = Some u, fetch_matcher = match\<rparr> (m_fetchers (peers w0 p))\<rparr>"
proof -
  let ?i = "m_sfetchId w0 + 1"
  let ?w = "upd_peer p (\<lambda>q. q\<lparr>m_fetchers := AList.update ?i
    \<lparr>fetch_callback = Some u, fetch_matcher = match\<rparr> (m_fetchers q)\<rparr>) (w0\<lparr>m_sfetchId := ?i\<rparr>)"
  obtain x where "execute_notification E p (AsyncRequest E FETCH (fetch_params E ?i match)) ?w =
      Some (Inr (), ?w\<lparr>ext := x\<rparr>)"
    by (cases rule: sendMessage_cases [of E p "AsyncRequest E FETCH (fetch_params E ?i match)" ?w])
      (auto simp: execute_notification_def)
  then have "cat_notifier E p u match w0 = Some (Inr \<lparr>n_fetchId = ?i, n_addCb = Some ''added'',
      n_changeCb = Some ''changed'', n_removeCb = Some ''removed''\<rparr>, ?w\<lparr>ext := x\<rparr>)"
    by (simp add: cat_notifier_def notifier_start_def addFetchAsync_def createFetchId_def registerFetch_def)
  with assms show "cat_callbacks n" "peers w p = (peers w0 p)\<lparr>m_fetchers := AList.update (n_fetchId n)
      \<lparr>fetch_callback = Some u, fetch_matcher = match\<rparr> (m_fetchers (peers w0 p))\<rparr>"
    by (auto simp: cat_callbacks_def)
qed

text \<open>
  C25: from the bytes to the console.  Once \<open>jetcat\<close> has started its notifier on a fresh peer, whatever
  notifications arrive, single or in batches and however the socket cuts the stream, \<open>receive\<close> prints
  exactly their texts in the order of the stream: one line for a method, the line and the value for a
  state, nothing for notifications that belong to no event.
\<close>

theorem jetcat_prints_stream:
  assumes "jsonrpc E" and sock: "stream_socket E p (\<lambda>x. avail (net x)) WouldBlock"
    and recv: "\<And>n x. out (snd (sock_receive E p n x)) = out x"
    and start: "cat_notifier E p u match w0 = Some (Inr n, w)"
    and cb: "run_fetch E u = notifier_fetchCb E (cat_print E) n"
    and peer: "m_fetchers (peers w0 p) = []" "rx_inv (peers w0 p)"
    and bytes: "deframe (pending (peers w0 p) @ avail (net (ext w))) = (payloads, rest, False)"
      "\<forall>bs \<in> set payloads. \<forall>data \<in> set (payload_notes E bs). is_note E data"
  shows "\<exists>w'. receive E p w = Some (Inr 0, w') \<and> pending (peers w' p) = rest \<and>
    out (ext w') = out (ext w) @ concat (map (payload_calls E
      [(n_fetchId n, \<lparr>fetch_callback = Some u, fetch_matcher = match\<rparr>)] (\<lambda>_. cat_text E)) payloads)"
proof -
  let ?F = "[(n_fetchId n, \<lparr>fetch_callback = Some u, fetch_matcher = match\<rparr>)]"
  have fetch: "\<exists>r w'. run_fetch E u v 0 w = Some (r, w') \<and> m_fetchers (peers w' p) = ?F \<and>
      rx (peers w' p) = rx (peers w p) \<and> avail (net (ext w')) = avail (net (ext w)) \<and>
      out (ext w') = out (ext w) @ cat_text E v" if "m_fetchers (peers w p) = ?F" for v w
    using cat_fetchCb [OF cat_notifier_run(1) [OF start], of E v w] that by (auto simp: cb)
  have "fetch_consumer E p (\<lambda>x. avail (net x)) WouldBlock ?F out (\<lambda>_. cat_text E)"
  proof (intro fetch_consumer.intro fetch_consumer_axioms.intro sock assms(1) recv)
  qed (use fetch in simp)
  moreover have "m_fetchers (peers w p) = ?F" "rx_inv (peers w p)" "pending (peers w p) = pending (peers w0 p)"
    using cat_notifier_run(2) [OF start] peer by (auto simp: rx_inv_def pending_def message_length_def)
  ultimately show ?thesis
    using consumer_receives [where E = E and p = p and F = ?F and w = w] bytes by fastforce
qed

theorem jetcat_prints_stream_witness:
  "\<exists>w w'. cat_notifier tools_env 0 2 matcher_default (initial (tools_start [0, 0, 0, 1, 97, 0])) =
      Some (Inr tools_notifier, w) \<and> receive tools_env 0 w = Some (Inr 0, w') \<and>
    pending (peers w' 0) = [0] \<and> out (ext w') = cat_line tools_env ''added'' ''a'' (JInt 5)"
proof -
  let ?w0 = "initial (tools_start [0, 0, 0, 1, 97, 0])"
  obtain w where start: "cat_notifier tools_env 0 2 matcher_default ?w0 = Some (Inr tools_notifier, w)"
      "fst (net (ext w)) = [0, 0, 0, 1, 97, 0]" "out (ext w) = []"
    by (auto simp: cat_notifier_def notifier_start_def addFetchAsync_def createFetchId_def registerFetch_def
        execute_notification_def sendMessage_def Let_def tools_small fetch_params_def addPathInformation_def
        add_rule_def matcher_default_def tools_notifier_def tools_initial no_peer_def upd_peer_def)
  have parsed: "payload_notes tools_env [97] = [JObject [(''method'', JInt 1), (''params'', tools_event [97])]]"
    by (simp add: payload_notes_def tools_read_def)
  have bytes: "deframe (pending (peers ?w0 0) @ fst (net (ext w))) = ([[97]], [0], False)"
      "\<forall>bs \<in> set [[97]]. \<forall>data \<in> set (payload_notes tools_env bs). is_note tools_env data"
    using start(2) by (simp_all add: tools_initial no_peer_def pending_def deframe.simps be_value_def
        MAX_MESSAGE_SIZE_def parsed is_note_def is_record_def json_child_def in_int32_def)
  have a: "char_of (97 :: nat) = CHR ''a''"
    using char_of_char [of "CHR ''a''", where 'a = nat] by simp
  have "payload_calls tools_env [(1, \<lparr>fetch_callback = Some (2 :: nat), fetch_matcher = matcher_default\<rparr>)]
      (\<lambda>_. cat_text tools_env) [97] = cat_line tools_env ''added'' ''a'' (JInt 5)"
    by (simp add: payload_calls_def parsed note_calls_def note_id_def json_child_def in_int32_def tools_event_def
        cat_text_def get_string_def jet_key_defs jet_request_defs a)
  moreover have recv: "out (snd (sock_receive tools_env 0 k x)) = out x" for k x
    by (simp add: tools_receive_def)
  moreover have peer: "m_fetchers (peers ?w0 0) = []" "rx_inv (peers ?w0 0)"
    by (simp_all add: tools_initial no_peer_def rx_inv_def)
  ultimately show ?thesis
    using jetcat_prints_stream [OF tools_jsonrpc.jsonrpc_axioms tools_sock.stream_socket_axioms recv start(1)
        tools_env_callbacks(3) peer bytes] start by (auto simp: tools_notifier_def)
qed

end
