(* ===== verification/Message_Properties.thy ===== *)
theory Message_Properties
  imports Demo_World
begin

text \<open>
  Every message of the library is well formed.  The locale \<open>typed_wire\<close> is the contract of a socket
  that logs what it is given and of callbacks that reach it only through the library; \<open>sent_typed\<close>, the
  invariant that all logged messages are derivable by \<open>sent_doc\<close>, then meets the contract
  \<open>world_invariant\<close> and so survives every sequence of operations.
\<close>

definition message_blocks :: "('j, 'z) jsonrpc_scheme \<Rightarrow> 'j \<Rightarrow> byte list list" where
  "message_blocks J v = [be_bytes (length (json_writeString J v)), json_writeString J v]"

definition sent_typed :: "('j, 'u, 'x, 'z) env_scheme \<Rightarrow> ('x \<Rightarrow> (pid \<times> byte list list) list)
    \<Rightarrow> ('j, 'u, 'x) world \<Rightarrow> bool" where
  "sent_typed E wire w \<longleftrightarrow> (\<forall>(p, bs) \<in> set (wire (ext w)). \<exists>v. sent_doc E v \<and>
     length (json_writeString E v) \<le> MAX_MESSAGE_SIZE \<and> bs = message_blocks E v)"

locale typed_wire =
  fixes E :: "('j, 'u, 'x, 'z) env_scheme" and wire :: "'x \<Rightarrow> (pid \<times> byte list list) list"
  assumes log_send: "sock_sendBlocks E p bs x = (i, x') \<Longrightarrow> set (wire x') \<subseteq> insert (p, bs) (set (wire x))"
    and log_tcp: "sock_connect_tcp E p a s x = (i, x') \<Longrightarrow> set (wire x') \<subseteq> set (wire x)"
    and log_unix: "sock_connect_unix E p a x = (i, x') \<Longrightarrow> set (wire x') \<subseteq> set (wire x)"
    and log_disconnect: "set (wire (sock_disconnect E p x)) \<subseteq> set (wire x)"
    and log_receive: "sock_receive E p len x = (rr, x') \<Longrightarrow> set (wire x') \<subseteq> set (wire x)"
    and typed_response: "keeps (sent_typed E wire) (run_response E u v)"
    and typed_fetch: "keeps (sent_typed E wire) (run_fetch E u v st)"
    and typed_state: "keeps (sent_typed E wire) (run_state E u v path)"
    and typed_method: "keeps (sent_typed E wire) (run_method E u v)"

lemma sent_typed_less:
  "sent_typed E wire w \<Longrightarrow> set (wire (ext w')) \<subseteq> set (wire (ext w)) \<Longrightarrow> sent_typed E wire w'"
  unfolding sent_typed_def by blast

lemma sent_typed_ext: "ext w' = ext w \<Longrightarrow> sent_typed E wire w' = sent_typed E wire w"
  by (simp add: sent_typed_def)

lemma sent_typed_doc:
  assumes "sent_typed E wire w" and "sent_doc E v" and "length (json_writeString E v) \<le> MAX_MESSAGE_SIZE"
    and "set (wire (ext w')) \<subseteq> insert (p, message_blocks E v) (set (wire (ext w)))"
  shows "sent_typed E wire w'"
  using assms unfolding sent_typed_def by blast

sublocale typed_wire \<subseteq> typed: world_invariant E "sent_typed E wire"
proof
  show "sent_typed E wire w \<Longrightarrow> sent_doc E v \<Longrightarrow> length (json_writeString E v) \<le> MAX_MESSAGE_SIZE \<Longrightarrow>
      sock_sendBlocks E p [be_bytes (length (json_writeString E v)), json_writeString E v] (ext w)
        = (i, x) \<Longrightarrow> sent_typed E wire (w\<lparr>ext := x\<rparr>)" for w v p i x
    by (rule sent_typed_doc) (auto simp: message_blocks_def dest: log_send)
  show "sent_typed E wire w \<Longrightarrow> \<not> m_mtx_openRequestCbs w \<Longrightarrow>
      (sent_typed E wire (w\<lparr>m_mtx_openRequestCbs := True\<rparr>) \<Longrightarrow> sent_typed E wire w1) \<Longrightarrow>
      sent_typed E wire (w1\<lparr>m_mtx_openRequestCbs := False\<rparr>)" for w w1
    by (simp add: sent_typed_def)
qed (auto simp: upd_peer_def elim!: sent_typed_less dest: log_tcp [THEN subsetD]
    log_unix [THEN subsetD] log_receive [THEN subsetD]
    intro: log_disconnect [THEN subsetD] typed_response typed_fetch typed_state typed_method)

context typed_wire
begin

lemma typed_steps: "(api_step E)\<^sup>*\<^sup>* w w' \<Longrightarrow> sent_typed E wire w \<Longrightarrow> sent_typed E wire w'"
  by (rule typed.api_steps_keep)

end

section \<open>A world with a log of its messages\<close>

text \<open>
  The world of \<open>Demo_World\<close> with a socket that keeps the blocks it is given, and with callbacks that
  use the peer themselves: a response callback publishes what it got as a state.
\<close>

record logged_ext =
  inbox :: "byte list"
  messages :: "(pid \<times> byte list list) list"

definition logged_receive :: "pid \<Rightarrow> nat \<Rightarrow> logged_ext \<Rightarrow> recv_result \<times> logged_ext" where
  "logged_receive p n x = (if inbox x = [] then (WouldBlock, x)
     else (Received (take n (inbox x)), x\<lparr>inbox := drop n (inbox x)\<rparr>))"

definition logged_send :: "pid \<Rightarrow> byte list list \<Rightarrow> logged_ext \<Rightarrow> int32 \<times> logged_ext" where
  "logged_send p bs x = (0, x\<lparr>messages := messages x @ [(p, bs)]\<rparr>)"

definition quiet_fields :: "(json, string, logged_ext, unit) env_ext" where
  "quiet_fields = env.fields
     (\<lambda>p a s x. (0, x)) (\<lambda>p a x. (0, x)) (\<lambda>p x. x) logged_receive logged_send
     (\<lambda>x. ''broken pipe'') (\<lambda>ks. ks) (\<lambda>i. i) True
     (\<lambda>u v. ret ()) (\<lambda>u v st. ret ()) (\<lambda>u v path. ret (SetStateCbResult_value v)) (\<lambda>u v. ret v)"

definition quiet_env :: "(json, string, logged_ext) env" where
  "quiet_env = rpc_model jwrite demo_read (\<lambda>_. ''{}'') quiet_fields"

definition logged_env :: "(json, string, logged_ext) env" where
  "logged_env = quiet_env\<lparr>run_response := (\<lambda>path v. seq (notifyState quiet_env 0 path v) (ret ()))\<rparr>"

lemma quiet_env_fields [simp]:
  "sock_connect_tcp quiet_env p a s x = (0, x)" "sock_connect_unix quiet_env p a x = (0, x)"
  "sock_disconnect quiet_env p x = x" "sock_receive quiet_env = logged_receive"
  "sock_sendBlocks quiet_env = logged_send" "strerror_errno quiet_env x = ''broken pipe''"
  "hash_order quiet_env ks = ks" "lhs_first quiet_env" "run_fetch quiet_env u v st = ret ()"
  "run_state quiet_env u v path = ret (SetStateCbResult_value v)" "run_method quiet_env u v = ret v"
  by (simp_all add: quiet_env_def quiet_fields_def rpc_model_def env.defs)

lemmas quiet_env_json [simp] =
  rpc_model_simps [of jwrite demo_read "\<lambda>_. ''{}''" quiet_fields, folded quiet_env_def]

lemma logged_env_model:
  "logged_env = rpc_model jwrite demo_read (\<lambda>_. ''{}'') (jsonrpc.more logged_env)"
  by (simp add: logged_env_def quiet_env_def rpc_model_def quiet_fields_def env.defs)

lemmas logged_env_json [simp] = rpc_model_simps [of jwrite demo_read "\<lambda>_. ''{}''"
    "jsonrpc.more logged_env", folded logged_env_model]

interpretation logged_rpc: rpc_env logged_env
  using jm.jsonrpc_axioms logged_env_model by (metis rpc_env.intro)

lemma logged_env_fields [simp]:
  "sock_connect_tcp logged_env p a s x = (0, x)" "sock_connect_unix logged_env p a x = (0, x)"
  "sock_disconnect logged_env p x = x" "sock_receive logged_env = logged_receive"
  "sock_sendBlocks logged_env = logged_send" "run_fetch logged_env u v st = ret ()"
  "run_state logged_env u v path = ret (SetStateCbResult_value v)" "run_method logged_env u v = ret v"
  "run_response logged_env path v = seq (notifyState quiet_env 0 path v) (ret ())"
  by (simp_all add: logged_env_def)

lemma logged_sendMessage:
  "length (jwrite v) \<le> MAX_MESSAGE_SIZE \<Longrightarrow> sendMessage logged_env p v w = Some (Inr (),
     w\<lparr>ext := (ext w)\<lparr>messages := messages (ext w) @ [(p, message_blocks logged_env v)]\<rparr>\<rparr>)"
  by (simp add: sendMessage_def Let_def logged_send_def message_blocks_def)

lemma publish_typed: "keeps (sent_typed logged_env messages) (seq (notifyState quiet_env 0 path v) (ret ()))"
proof -
  have "keeps (sent_typed logged_env messages) (sendMessage quiet_env 0 (change_doc quiet_env path v))"
  proof (rule keepsI)
    fix w r w'
    assume w: "sent_typed logged_env messages w"
      "sendMessage quiet_env 0 (change_doc quiet_env path v) w = Some (r, w')"
    have doc: "change_doc quiet_env path v = change_doc logged_env path v"
      by (simp add: change_doc_def logged_env_def)
    show "sent_typed logged_env messages w'"
    proof (cases "length (jwrite (change_doc logged_env path v)) \<le> MAX_MESSAGE_SIZE")
      case True
      with w(2) show ?thesis
        by (intro sent_typed_doc [OF w(1) sent_doc.change, of path v])
          (auto simp: doc sendMessage_def Let_def logged_send_def message_blocks_def)
    qed (use w in \<open>auto simp: doc sendMessage_def Let_def\<close>)
  qed
  then show ?thesis unfolding notifyState_def by (intro keeps_intros)
qed

interpretation logged: typed_wire logged_env messages
  by unfold_locales (auto simp: logged_send_def logged_receive_def publish_typed
      intro: keeps_intros split: if_splits)

section \<open>Property\<close>

text \<open>
  C6: every message the library puts on the wire, in any sequence of asynchronous and synchronous
  operations on any number of peers, is the frame of a well-formed message of at most
  \<open>MAX_MESSAGE_SIZE\<close> bytes: a JSON-RPC request or notification with a name of the jet protocol, the
  parameters that request needs (\<open>params_ok\<close>: the path as a text, the value to set, the matcher, the
  fetch id, name and debug flag, user and password) and, if there is one, an unsigned id; a change
  notification without id that has a path and a value; or a response with an id, no method, and a result
  or an error with a numeric code and a textual message.  (Documents the application itself hands to the
  public \<open>sendMessage\<close> are its own.)
\<close>

theorem messages_typed:
  assumes "jsonrpc E" and "rpc_ID E \<noteq> PATH" and "typed_wire E wire"
    and "(api_step E)\<^sup>*\<^sup>* (initial x) w" and "wire x = []" and "(p, blocks) \<in> set (wire (ext w))"
  shows "\<exists>v. blocks = [be_bytes (length (json_writeString E v)), json_writeString E v] \<and>
    length (json_writeString E v) \<le> MAX_MESSAGE_SIZE \<and> is_message E v"
proof -
  have "sent_typed E wire (initial x)"
    using assms(5) by (simp add: sent_typed_def initial_def)
  with typed_wire.typed_steps [OF assms(3,4)] have "sent_typed E wire w" .
  then show ?thesis
    using assms(6) rpc_env.sent_doc_typed [OF rpc_env.intro [OF assms(1)] _ assms(2)]
    by (fastforce simp: sent_typed_def message_blocks_def)
qed

text \<open>A configuration, a notification, and a synchronous set request during which another thread stops the peer.\<close>

definition stopping :: "(json, string, logged_ext) worker" where
  "stopping w = map_option snd (Peer_Lifecycle.stop logged_env 0 w)"

lemma stopping_steps: "\<forall>v v'. stopping v = Some v' \<longrightarrow> (api_step logged_env)\<^sup>*\<^sup>* v v'"
  by (auto simp: stopping_def intro: api_step.stop)

lemma stopped_set:
  "\<exists>r w. Peer_setStateValue logged_env stopping 0 0 ''s'' (JInt 1) (initial x) = Some (r, w) \<and>
     length (messages (ext w)) = Suc (length (messages x))"
proof -
  let ?doc = "AsyncRequest logged_env SET (JObject [(''path'', JString ''s''), (''value'', JInt 1)])"
  let ?msg = "json_put logged_env ?doc ''id'' (JUInt 1)"
  let ?i = "initial x :: (json, string, logged_ext) world"
  let ?w0 = "?i\<lparr>promises := (promises ?i)(0 := None)\<rparr>"
  define w1 where "w1 = (add_request (SyncCb 0) ?w0)\<lparr>ext := x\<lparr>messages := messages x @ [(0, message_blocks logged_env ?msg)]\<rparr>\<rparr>"
  have "length (jwrite ?msg) \<le> MAX_MESSAGE_SIZE"
    by (simp add: AsyncRequest_def MAX_MESSAGE_SIZE_def jet_request_defs)
  then have send: "execute logged_env 0 ?doc (Some (SyncCb 0)) ?w0 = Some (Inr 1, w1)"
    by (simp add: execute_def logged_sendMessage w1_def locked_def initial_def add_request_def Let_def)
  obtain w2 v where w2: "stopping w1 = Some w2" "promises w2 0 = Some v" "messages (ext w2) = messages (ext w1)"
      "\<not> m_mtx_openRequestCbs w2" "v = error_doc logged_env 1 (- 1) cancel_text"
    by (simp add: stopping_def stop_def w1_def initial_def add_request_def for_fetchers_def clear_def
        locked_def cancel_request_def no_peer_def logged_env_def)
  have "promises w1 0 = None" by (simp add: w1_def initial_def add_request_def Let_def)
  then have "await stopping 0 w1 = Some (v, w2)"
    using w2(1,2) by (simp add: await_step await_done)
  with send have "executeSync logged_env stopping 0 0 ?doc ?i = Some (Inr (1, v), w2)"
    by (simp add: executeSync_def)
  moreover have "length (messages (ext w2)) = Suc (length (messages x))"
    by (simp add: w2(3) w1_def)
  ultimately show ?thesis
    using w2(4) by (simp add: Peer_setStateValue_def Peer_setStateValuePrivate_def sync_scope_def
        jet_key_defs error_doc_def throw_result_def jsoncpprpcException_error_def destroy_SyncRequest_def
        locked_def Let_def json_put2_def json_child_def json_get2_def w2(5) in_int32_def)
qed

theorem messages_typed_witness:
  "\<exists>w. (api_step logged_env)\<^sup>*\<^sup>* (initial \<lparr>inbox = [], messages = []\<rparr>) w \<and>
    length (messages (ext w)) = 3 \<and> (\<forall>(p, blocks) \<in> set (messages (ext w)). \<exists>v.
      blocks = [be_bytes (length (jwrite v)), jwrite v] \<and> length (jwrite v) \<le> MAX_MESSAGE_SIZE \<and>
      is_message logged_env v)"
proof -
  let ?w0 = "initial \<lparr>inbox = [], messages = []\<rparr> :: (json, string, logged_ext) world"
  obtain x1 where x1: "configAsync logged_env 0 ''p'' False None ?w0 = Some (Inr (), initial x1)"
      "length (messages x1) = 1"
    by (simp add: configAsync_def execute_def logged_sendMessage initial_def MAX_MESSAGE_SIZE_def
        AsyncRequest_def Let_def jet_key_defs jet_request_defs)
  obtain x2 where x2: "notifyState logged_env 0 ''s'' (JInt 1) (initial x1) = Some (Inr 0, initial x2)"
      "length (messages x2) = 2"
    using x1(2) by (simp add: notifyState_def logged_sendMessage initial_def MAX_MESSAGE_SIZE_def change_doc_def
        Let_def jet_key_defs jet_request_defs)
  obtain r w3 where w3: "Peer_setStateValue logged_env stopping 0 0 ''s'' (JInt 1) (initial x2) = Some (r, w3)"
      "length (messages (ext w3)) = 3"
    using stopped_set [of x2] x2(2) by auto
  have steps: "(api_step logged_env)\<^sup>*\<^sup>* ?w0 w3"
    using api_step.config [OF x1(1)] api_step.notify_state [OF x2(1)]
      api_step.sync_set [OF stopping_steps w3(1)] by auto
  show ?thesis
    using messages_typed [OF logged_rpc.jsonrpc_axioms _ logged.typed_wire_axioms steps] steps w3(2)
    by (auto simp: PATH_def)
qed

end
