(* ===== verification/Remote_Properties.thy ===== *)
theory Remote_Properties
  imports Sync_Properties Message_Properties
begin

text \<open>
  Two peers and the daemon between them.  The jet daemon is not part of the repository; its routing is
  the locale \<open>jet_daemon\<close>: \<open>forward\<close> is the message the owner of a state or method gets for a request of
  another peer (the documentation of \<open>PeerAsync::handleMessage\<close> shows its form: an id, the path as the
  method and the value or arguments as the parameters), \<open>relay\<close> the message the requesting peer gets for
  the owner's answer (a JSON-RPC response with the id of its own request).  What one peer sends and the
  other does with it are the operations of the library.
\<close>

section \<open>The daemon\<close>

text \<open>A request of the jet protocol about one path.\<close>

definition request_for :: "('j, 'z) jsonrpc_scheme \<Rightarrow> 'j \<Rightarrow> string \<Rightarrow> string \<Rightarrow> bool" where
  "request_for J req name path \<longleftrightarrow> is_request J req \<and>
     json_child J req (rpc_METHOD J) = json_string J name \<and>
     json_child J (json_child J req (rpc_PARAMS J)) PATH = json_string J path"

locale jet_daemon = jsonrpc J for J :: "('j, 'z) jsonrpc_scheme" +
  fixes forward :: "'j \<Rightarrow> 'j" and relay :: "'j \<Rightarrow> 'j \<Rightarrow> 'j"
  assumes forward_call: "request_for J req CALL path \<Longrightarrow> path_message J (forward req) path \<and>
      json_child J (forward req) (rpc_PARAMS J) = json_child J (json_child J req (rpc_PARAMS J)) ARGS"
    and forward_set: "request_for J req SET path \<Longrightarrow>
      set_message J (forward req) path (json_child J (json_child J req (rpc_PARAMS J)) VALUE)"
    and forward_id: "is_request J req \<Longrightarrow> \<not> isNull J (json_child J (forward req) (rpc_ID J))"
    and relay_response: "is_request J req \<Longrightarrow> is_record J rsp \<Longrightarrow> is_record J (relay req rsp) \<and>
      json_get J (relay req rsp) (rpc_ID J) = json_get J req (rpc_ID J) \<and>
      json_isMember J (relay req rsp) (rpc_METHOD J) = Inr False"
    and relay_body: "is_request J req \<Longrightarrow> is_record J rsp \<Longrightarrow> k = rpc_RESULT J \<or> k = rpc_ERR J \<Longrightarrow>
      json_get J (relay req rsp) k = json_get J rsp k \<and>
      json_isMember J (relay req rsp) k = json_isMember J rsp k"

section \<open>The requests of the client\<close>

definition call_request :: "('j, 'z) jsonrpc_scheme \<Rightarrow> string \<Rightarrow> 'j \<Rightarrow> uint32 \<Rightarrow> 'j" where
  "call_request J path args i = json_put J (AsyncRequest J CALL
     (json_put J (json_put J (json_null J) PATH (json_string J path)) ARGS args)) (rpc_ID J) (json_uint J i)"

definition set_request :: "('j, 'z) jsonrpc_scheme \<Rightarrow> string \<Rightarrow> 'j \<Rightarrow> uint32 \<Rightarrow> 'j" where
  "set_request J path value i = json_put J (AsyncRequest J SET
     (json_put J (json_put J (json_null J) PATH (json_string J path)) VALUE value)) (rpc_ID J) (json_uint J i)"

context jsonrpc
begin

lemma client_requests:
  "request_for J (call_request J path args i) CALL path"
  "json_child J (json_child J (call_request J path args i) (rpc_PARAMS J)) ARGS = args"
  "request_for J (set_request J path value i) SET path"
  "json_child J (json_child J (set_request J path value i) (rpc_PARAMS J)) VALUE = value"
  "response_id J (call_request J path args i) i" "response_id J (set_request J path value i) i"
proof -
  have "is_request J (call_request J path args i)"
    unfolding call_request_def
    by (rule AsyncRequest_typed(2) [OF request_params.call_args [OF built_null]]) (simp add: jet_request_defs)
  moreover have "is_request J (set_request J path value i)"
    unfolding set_request_def
    by (rule AsyncRequest_typed(2) [OF request_params.set [OF built_null]]) (simp add: jet_request_defs)
  ultimately show "request_for J (call_request J path args i) CALL path"
    "json_child J (json_child J (call_request J path args i) (rpc_PARAMS J)) ARGS = args"
    "request_for J (set_request J path value i) SET path"
    "json_child J (json_child J (set_request J path value i) (rpc_PARAMS J)) VALUE = value"
    "response_id J (call_request J path args i) i" "response_id J (set_request J path value i) i"
    using param_keys_distinct
    by (simp_all add: request_for_def call_request_def set_request_def AsyncRequest_def
        Let_def record_simps rpc_neq response_id_def asUInt_uint)
qed

lemma read_warning_state_result:
  assumes "json_get J data (rpc_RESULT J) = json_get J (state_result J r (json_null J)) (rpc_RESULT J)"
  shows "read_warning J data = Inr (SetStateResult_code (code r))"
  using assms by (cases "code r = 0"; cases "message r = []")
    (simp_all add: read_warning_def state_result_def json_put3_def json_put2_def json_get2_def Let_def
      record_simps rpc_neq isInt_int isInt_null asInt_int SetStateResult_default_def
      SetStateResult_code_def WARN_NONE_def)

end

section \<open>A request and its answer\<close>

text \<open>What the owner of a state does with the outcome of its callback: it notifies a changed value and
  answers.\<close>

definition owner_response :: "('j, 'z) jsonrpc_scheme \<Rightarrow> 'j exn + 'j SetStateCbResult \<Rightarrow> 'j" where
  "owner_response J r = (case r of Inl e \<Rightarrow> error_response J e (json_null J)
     | Inr res \<Rightarrow> state_result J (cb_result res) (json_null J))"

definition change_sent :: "('j, 'u, 'x, 'z) env_scheme \<Rightarrow> pid \<Rightarrow> string \<Rightarrow> 'j exn + 'j SetStateCbResult
    \<Rightarrow> ('j, 'u, 'x) world \<Rightarrow> ('j, 'u, 'x) world \<Rightarrow> bool" where
  "change_sent E s path r w w' \<longleftrightarrow> (case r of Inl e \<Rightarrow> w' = w
     | Inr res \<Rightarrow> (if isNull E (cb_value res) then ret ()
         else sendMessage E s (change_doc E path (cb_value res))) w = Some (Inr (), w'))"

locale routed = rpc_env E + jet_daemon E forward relay
  for E :: "('j, 'u, 'x, 'z) env_scheme" and forward :: "'j \<Rightarrow> 'j" and relay :: "'j \<Rightarrow> 'j \<Rightarrow> 'j"
begin

text \<open>The owner's answer, as it goes to the daemon.\<close>

lemma owner_replies:
  "is_request E req \<Longrightarrow> reply E p (json_child E (forward req) (rpc_ID E)) response w =
     try_catch (sendMessage E p (json_put E response (rpc_ID E) (json_child E (forward req) (rpc_ID E))))
       (\<lambda>_. ret ()) w"
  using forward_id by (simp add: reply_def)

text \<open>What reaches the client of a response document: the id of its request, and the body.\<close>

lemma relayed:
  assumes "is_request E req" and "is_record E response"
  shows "is_record E (relay req (json_put E response (rpc_ID E) i))"
    and "response_id E (relay req (json_put E response (rpc_ID E) i)) n \<longleftrightarrow> response_id E req n"
    and "json_get E (relay req (json_put E response (rpc_ID E) i)) (rpc_RESULT E) = json_get E response (rpc_RESULT E)"
    and "json_get E (relay req (json_put E response (rpc_ID E) i)) (rpc_ERR E) = json_get E response (rpc_ERR E)"
    and "json_isMember E (relay req (json_put E response (rpc_ID E) i)) (rpc_RESULT E) = json_isMember E response (rpc_RESULT E)"
    and "json_isMember E (relay req (json_put E response (rpc_ID E) i)) (rpc_ERR E) = json_isMember E response (rpc_ERR E)"
  using relay_response [OF assms(1) is_record_put [OF assms(2)]]
    relay_body [OF assms(1) is_record_put [OF assms(2)]] assms(2)
  by (simp_all add: response_id_def record_simps rpc_neq)

lemma client_dispatch:
  assumes "is_request E req" and "is_record E rsp"
  shows "handleMessage E c (relay req rsp) w = handleResult E (relay req rsp) w"
  using relay_response [OF assms] get_absent by (simp add: handleMessage_def type_null)

lemma relayed_error:
  assumes "is_error E response c msg" and "is_record E response" and "is_request E req"
  shows "error_answer E (relay req (json_put E response (rpc_ID E) i)) c msg"
proof -
  obtain err where err: "json_get E response (rpc_ERR E) = Inr err" "json_get E err (rpc_CODE E) = Inr (json_int E c)"
      "json_get E err (rpc_MESSAGE E) = Inr (json_string E msg)"
    using assms(1) by (auto simp: is_error_def json_get2_def split: sum.splits)
  have "is_record E err"
    using err(2) get_mistyped [of err "rpc_CODE E"] by (cases "is_record E err") auto
  moreover have "json_isMember E response (rpc_ERR E) = Inr True"
  proof (rule ccontr)
    assume "json_isMember E response (rpc_ERR E) \<noteq> Inr True"
    moreover obtain b where "json_isMember E response (rpc_ERR E) = Inr b"
      using isMember_record [OF assms(2)] by blast
    ultimately have "err = json_null E" using err(1) get_absent by (cases b) auto
    then show False using err(2) get_null type_null type_int by (metis Inr_inject ValueType.distinct(1))
  qed
  ultimately show ?thesis
    using err relayed [OF assms(3,2)] by (simp add: error_answer_def json_child_def)
qed

text \<open>The client: its request goes out under the next id, and the answer to it closes it.\<close>

lemma client_sends:
  assumes "\<not> m_mtx_openRequestCbs wc" and "\<not> isNull E args"
    and "sendMessage E c (call_request E path args (m_sid wc + 1)) (add_request cb wc) = Some (Inr (), wc1)"
  shows "callMethodAsync E c path args (Some cb) wc = Some (Inr (), wc1)"
  using execute_callback(1) [OF assms(1), of E c "AsyncRequest E CALL
      (json_put E (json_put E (json_null E) PATH (json_string E path)) ARGS args)" cb wc1] assms(2,3)
  by (simp add: callMethodAsync_def callMethodAsyncPrivate_def call_request_def)

lemma client_answered:
  assumes "sendMessage E c doc (add_request cb wc) = Some (Inr (), wc1)"
    and "\<not> m_mtx_openRequestCbs wc2"
    and "map_of (m_openRequestCbs wc2) (m_sid wc + 1) = map_of (m_openRequestCbs wc1) (m_sid wc + 1)"
    and "is_request E req" "is_record E rsp" and "response_id E (relay req rsp) (m_sid wc + 1)"
  shows "handleMessage E c (relay req rsp) wc2 = try_catch (call_response E cb (relay req rsp)) (\<lambda>_. ret ())
    (wc2\<lparr>m_openRequestCbs := AList.delete (m_sid wc + 1) (m_openRequestCbs wc2)\<rparr>)"
proof -
  have "map_of (m_openRequestCbs wc1) (m_sid wc + 1) =
      map_of (m_openRequestCbs (add_request cb wc)) (m_sid wc + 1)"
    using assms(1) by (cases rule: sendMessage_cases [of E c doc "add_request cb wc"]) auto
  then show ?thesis
    using handleResult_open [OF assms(6,2)] assms(3) client_dispatch [OF assms(4,5)] by simp
qed

text \<open>The owner: it runs the method with the arguments of the client.\<close>

lemma owner_called:
  assumes "m_stateCallbacks (peers wo s) path = None" and "m_methodCallbacks (peers wo s) path = Some (Some m)"
    and "run_method E m args wo = Some (Inr result, wo1)"
  shows "handleMessage E s (forward (call_request E path args i)) wo = try_catch (sendMessage E s
      (json_put E (json_put E (method_response_base E) (rpc_RESULT E) result) (rpc_ID E)
        (json_child E (forward (call_request E path args i)) (rpc_ID E)))) (\<lambda>_. ret ()) wo1"
proof -
  have req: "request_for E (call_request E path args i) CALL path" by (rule client_requests)
  then have "is_request E (call_request E path args i)" by (simp add: request_for_def)
  with method_outcome [OF _ assms(1,2), of "forward (call_request E path args i)" "Inr result" wo1]
    forward_call [OF req] client_requests(2) assms(3) show ?thesis by (simp add: owner_replies)
qed

lemma call_answered:
  assumes client: "\<not> m_mtx_openRequestCbs wc" "\<not> isNull E args"
      "sendMessage E c (call_request E path args (m_sid wc + 1)) (add_request cb wc) = Some (Inr (), wc1)"
    and owner: "m_stateCallbacks (peers wo s) path = None" "m_methodCallbacks (peers wo s) path = Some (Some m)"
      "run_method E m args wo = Some (Inr result, wo1)"
    and later: "\<not> m_mtx_openRequestCbs wc2"
      "map_of (m_openRequestCbs wc2) (m_sid wc + 1) = map_of (m_openRequestCbs wc1) (m_sid wc + 1)"
  shows "callMethodAsync E c path args (Some cb) wc = Some (Inr (), wc1) \<and>
    (\<exists>rsp. handleMessage E s (forward (call_request E path args (m_sid wc + 1))) wo =
        try_catch (sendMessage E s rsp) (\<lambda>_. ret ()) wo1 \<and>
      (let answer = relay (call_request E path args (m_sid wc + 1)) rsp in
       handleMessage E c answer wc2 = try_catch (call_response E cb answer) (\<lambda>_. ret ())
         (wc2\<lparr>m_openRequestCbs := AList.delete (m_sid wc + 1) (m_openRequestCbs wc2)\<rparr>) \<and>
       json_get E answer (rpc_RESULT E) = Inr result \<and> json_isMember E answer (rpc_ERR E) = Inr False))"
proof -
  let ?req = "call_request E path args (m_sid wc + 1)"
    and ?r = "json_put E (method_response_base E) (rpc_RESULT E) result"
  have r: "is_request E ?req" "is_record E ?r"
    using client_requests(1) by (simp_all add: request_for_def method_response_base_def record_simps)
  let ?rsp = "json_put E ?r (rpc_ID E) (json_child E (forward ?req) (rpc_ID E))"
  have "handleMessage E c (relay ?req ?rsp) wc2 = try_catch (call_response E cb (relay ?req ?rsp)) (\<lambda>_. ret ())
      (wc2\<lparr>m_openRequestCbs := AList.delete (m_sid wc + 1) (m_openRequestCbs wc2)\<rparr>)"
    by (rule client_answered [OF client(3) later r(1) is_record_put [OF r(2)]])
      (simp add: relayed(2) [OF r] client_requests)
  then show ?thesis
    using client_sends [OF client] owner_called [OF owner] relayed(3,6) [OF r] method_result_doc
    by (intro conjI exI [of _ ?rsp]) (simp_all add: Let_def)
qed

text \<open>The same for a state and a synchronous client, for every outcome of the state's callback.\<close>

lemma owner_set:
  assumes "m_stateCallbacks (peers wo s) path = Some (Some u)" and "\<not> isNull E value"
    and "run_state E u value path wo = Some (r, wo1)" and "change_sent E s path r wo1 wo2"
  shows "handleMessage E s (forward (set_request E path value i)) wo = try_catch (sendMessage E s
      (json_put E (owner_response E r) (rpc_ID E)
        (json_child E (forward (set_request E path value i)) (rpc_ID E)))) (\<lambda>_. ret ()) wo2"
proof -
  have req: "request_for E (set_request E path value i) SET path" by (rule client_requests)
  then have "is_request E (set_request E path value i)" by (simp add: request_for_def)
  moreover have "set_message E (forward (set_request E path value i)) path value"
    using forward_set [OF req] client_requests(4) by simp
  ultimately show ?thesis
    using state_accepted [OF _ assms(2,1)] state_rejected [OF _ assms(2,1)] assms(3,4)
    by (cases r) (simp_all add: owner_replies owner_response_def change_sent_def)
qed

lemma client_reads:
  assumes "\<not> m_mtx_openRequestCbs wc" and req: "req = set_request E path value (m_sid wc + 1)"
  shows "\<exists>r' wc'. Peer_setStateValue E (delivers E (relay req (json_put E (owner_response E r) (rpc_ID E) i)))
      c this path value wc = Some (r', wc') \<and> (case r of
        Inr res \<Rightarrow> r' = Inr (SetStateResult_code (code (cb_result res)))
      | Inl e \<Rightarrow> \<exists>x. r' = Inl (JsoncppRpcException x) \<and> m_code x = exn_code E e \<and> m_message x = exn_text e)"
proof -
  let ?answer = "relay req (json_put E (owner_response E r) (rpc_ID E) i)"
  let ?Q = "\<lambda>r'. case r of Inr res \<Rightarrow> r' = Inr (SetStateResult_code (code (cb_result res)))
      | Inl e \<Rightarrow> \<exists>x. r' = Inl (JsoncppRpcException x) \<and> m_code x = exn_code E e \<and> m_message x = exn_text e"
  let ?body = "\<lambda>result. bnd (lift (json_isMember E result (rpc_ERR E))) (\<lambda>err.
      if err then throw_result E result else lift (read_warning E result))"
  have ok: "is_request E req" "is_record E (owner_response E r)"
    using client_requests(3) state_result_record error_response_record [OF is_record_null]
    by (auto simp: request_for_def req owner_response_def split: sum.split)
  have "\<exists>r' v'. ?body ?answer v = Some (r', v') \<and> ?Q r' \<and> peers v' = peers v \<and>
      m_mtx_openRequestCbs v' = m_mtx_openRequestCbs v" for v
  proof (cases r)
    case (Inl e)
    then have "error_answer E ?answer (exn_code E e) (exn_text e)"
      using relayed_error [OF _ ok(2,1)] error_response_null by (simp add: owner_response_def)
    with Inl show ?thesis
      using error_answer_exception by (fastforce simp: throw_result_def error_answer_def)
  next
    case (Inr res)
    then show ?thesis
      using relayed(3,6) [OF ok] state_result_member read_warning_state_result [of ?answer "cb_result res"]
      by (simp add: owner_response_def)
  qed
  then show ?thesis
    unfolding Peer_setStateValue_def Peer_setStateValuePrivate_def Let_def
    using sync_scope_answered [OF assms(1), where data = ?answer and body = ?body and Q = ?Q
        and R = "\<lambda>q q'. q' = q"] relayed(2) [OF ok] client_requests(6) req by blast
qed

end

section \<open>A concrete daemon\<close>

text \<open>It routes every request under the id 77 and copies result and error of the answer.\<close>

definition demo_forward :: "json \<Rightarrow> json" where
  "demo_forward req =
     (let method = json_child demo_env req ''method''; params = json_child demo_env req ''params''
      in JObject [(''id'', JUInt 77), (''method'', json_child demo_env params PATH),
        (''params'', if method = JString SET then JObject [(VALUE, json_child demo_env params VALUE)]
           else json_child demo_env params ARGS)])"

fun demo_body :: "json \<Rightarrow> (string \<times> json) list" where
  "demo_body (JObject m) = filter (\<lambda>(k, v). k = ''result'' \<or> k = ''error'') m"
| "demo_body _ = []"

definition demo_relay :: "json \<Rightarrow> json \<Rightarrow> json" where
  "demo_relay req rsp = JObject ((''id'', json_child demo_env req ''id'') # demo_body rsp)"

lemma demo_body_lookup:
  "map_of (demo_body (JObject m)) k = (if k = ''result'' \<or> k = ''error'' then map_of m k else None)"
  by (induction m) auto

interpretation demo_daemon: jet_daemon demo_env demo_forward demo_relay
proof
  fix req rsp path k
  show "path_message demo_env (demo_forward req) path \<and> json_child demo_env (demo_forward req) (rpc_PARAMS demo_env) =
      json_child demo_env (json_child demo_env req (rpc_PARAMS demo_env)) ARGS"
    if "request_for demo_env req CALL path"
    using that by (simp add: request_for_def demo_forward_def path_message_def is_record_def json_child_def
        jet_request_defs)
  show "set_message demo_env (demo_forward req) path
      (json_child demo_env (json_child demo_env req (rpc_PARAMS demo_env)) VALUE)"
    if "request_for demo_env req SET path"
    using that by (simp add: request_for_def demo_forward_def set_message_def path_message_def is_record_def
        json_child_def VALUE_def)
  show "\<not> isNull demo_env (json_child demo_env (demo_forward req) (rpc_ID demo_env))"
    by (simp add: demo_forward_def Let_def json_child_def)
  show "is_record demo_env (demo_relay req rsp) \<and>
      json_get demo_env (demo_relay req rsp) (rpc_ID demo_env) = json_get demo_env req (rpc_ID demo_env) \<and>
      json_isMember demo_env (demo_relay req rsp) (rpc_METHOD demo_env) = Inr False"
    if "is_request demo_env req" "is_record demo_env rsp"
    using that by (cases rsp; cases req)
      (simp_all add: is_request_def is_record_def demo_relay_def json_child_def demo_body_lookup
        del: demo_body.simps(1))
  show "json_get demo_env (demo_relay req rsp) k = json_get demo_env rsp k \<and>
      json_isMember demo_env (demo_relay req rsp) k = json_isMember demo_env rsp k"
    if "is_record demo_env rsp" "k = rpc_RESULT demo_env \<or> k = rpc_ERR demo_env"
    using that by (cases rsp)
      (auto simp: is_record_def demo_relay_def demo_body_lookup simp del: demo_body.simps(1))
qed

interpretation demo_routed: routed demo_env demo_forward demo_relay
  by unfold_locales

section \<open>Properties\<close>

text \<open>
  C4: a method of one peer called by another.  The client's request leaves with a fresh id; the owner
  runs the callback of the method with the client's arguments and sends one answer; when the daemon
  brings that answer, the client closes exactly that request and calls the callback the request was
  made with, whose argument carries the method's result and no error, whatever happened to the client
  in between as long as the request stayed open.
\<close>

theorem remote_call:
  assumes J: "jsonrpc E" and D: "jet_daemon E forward relay"
    and client: "\<not> m_mtx_openRequestCbs wc" "\<not> isNull E args"
      "sendMessage E c (call_request E path args (m_sid wc + 1)) (add_request cb wc) = Some (Inr (), wc1)"
    and owner: "m_stateCallbacks (peers wo s) path = None" "m_methodCallbacks (peers wo s) path = Some (Some m)"
      "run_method E m args wo = Some (Inr result, wo1)"
    and later: "\<not> m_mtx_openRequestCbs wc2"
      "map_of (m_openRequestCbs wc2) (m_sid wc + 1) = map_of (m_openRequestCbs wc1) (m_sid wc + 1)"
  shows "callMethodAsync E c path args (Some cb) wc = Some (Inr (), wc1) \<and>
    (\<exists>rsp. handleMessage E s (forward (call_request E path args (m_sid wc + 1))) wo =
        try_catch (sendMessage E s rsp) (\<lambda>_. ret ()) wo1 \<and>
      (let answer = relay (call_request E path args (m_sid wc + 1)) rsp in
       handleMessage E c answer wc2 = try_catch (call_response E cb answer) (\<lambda>_. ret ())
         (wc2\<lparr>m_openRequestCbs := AList.delete (m_sid wc + 1) (m_openRequestCbs wc2)\<rparr>) \<and>
       json_get E answer (rpc_RESULT E) = Inr result \<and> json_isMember E answer (rpc_ERR E) = Inr False))"
  using routed.call_answered [OF routed.intro [OF rpc_env.intro [OF J] D] client owner later] .

theorem remote_call_witness:
  "\<exists>wc1 rsp. callMethodAsync demo_env 1 ''m'' (JInt 1) (Some (UserCb (Log 3))) demo_states = Some (Inr (), wc1) \<and>
     handleMessage demo_env 0 (demo_forward (call_request demo_env ''m'' (JInt 1) 1)) demo_states =
       try_catch (sendMessage demo_env 0 rsp) (\<lambda>_. ret ()) (record_call 7 (JInt 1) demo_states) \<and>
     jget (demo_relay (call_request demo_env ''m'' (JInt 1) 1) rsp) ''result'' = Inr (JInt 1)"
proof -
  have free: "\<not> m_mtx_openRequestCbs demo_states" "m_sid demo_states = 0"
    by (simp_all add: demo_states_def initial_def)
  have "length (jwrite (call_request demo_env ''m'' (JInt 1) 1)) \<le> MAX_MESSAGE_SIZE"
    by (simp add: call_request_def AsyncRequest_def MAX_MESSAGE_SIZE_def jet_key_defs jet_request_defs)
  then obtain wc1 where wc1: "sendMessage demo_env 1 (call_request demo_env ''m'' (JInt 1) (m_sid demo_states + 1))
      (add_request (UserCb (Log 3)) demo_states) = Some (Inr (), wc1)" "\<not> m_mtx_openRequestCbs wc1"
    using free by (simp add: demo_sendMessage demo_states_fields demo_start_def)
  have "run_method demo_env (Log 7) (JInt 1) demo_states = Some (Inr (JInt 1), record_call 7 (JInt 1) demo_states)"
    and "\<not> isNull demo_env (JInt 1)"
    by simp_all
  from remote_call [OF dj.jsonrpc_axioms demo_daemon.jet_daemon_axioms free(1) this(2) wc1(1)
      demo_states_fields(4,6) this(1) wc1(2) refl]
  show ?thesis unfolding Let_def free(2) add_0 demo_env_json by blast
qed



section \<open>Losing and regaining the connection\<close>

text \<open>
  C7: a peer that lost its connection gets its notifications again.  From any state of the reception
  (also in the middle of a message), \<open>resume\<close> returns true once the daemon accepts the connection;
  whatever well-formed stream then arrives, \<open>receive\<close> calls for every notification in it the callback
  that was registered for its fetch before the connection was lost, in order and once.
\<close>

theorem reconnect_delivers:
  assumes sock: "wire_socket E p wire" and ok: "\<And>blocks x. 0 \<le> sint (fst (sock_sendBlocks E p blocks x))"
    and conn: "connect E p (upd_peer p reset_buffers w) = Some (Inr (), w1)"
    and small: "length (json_writeString E (config_doc E (peers w p))) \<le> MAX_MESSAGE_SIZE"
      "\<And>i. i \<in> set (keys (m_fetchers (peers w p))) \<Longrightarrow>
        length (json_writeString E (fetch_doc E (m_fetchers (peers w p)) i)) \<le> MAX_MESSAGE_SIZE"
    and order: "\<And>ks. mset (hash_order E ks) = mset ks"
    and consumer: "fetch_consumer E p avail WouldBlock (m_fetchers (peers w p)) log ev"
    and buffer: "length (m_bigEndianLengthBuffer (peers w p)) = 4"
  shows "\<exists>w2. resume E p w = Some (Inr True, w2) \<and> (\<forall>x payloads rest.
    deframe (avail x) = (payloads, rest, False) \<and>
      (\<forall>bs \<in> set payloads. \<forall>data \<in> set (payload_notes E bs). is_note E data) \<longrightarrow>
    (\<exists>w3. receive E p (w2\<lparr>ext := x\<rparr>) = Some (Inr 0, w3) \<and>
      log (ext w3) = log x @ concat (map (payload_calls E (m_fetchers (peers w p)) ev) payloads)))"
proof -
  obtain x0 where x0: "resume E p w = Some (Inr True, resumed p w x0)"
    using resume_world [OF sock ok conn small order] by blast
  have "rx_inv (peers (resumed p w x) p)" for x
    using buffer by (simp add: resumed_def reset_buffers_def rx_inv_def)
  then have "\<exists>w3. receive E p (resumed p w x) = Some (Inr 0, w3) \<and>
      log (ext w3) = log x @ concat (map (payload_calls E (m_fetchers (peers w p)) ev) payloads)"
    if "deframe (avail x) = (payloads, rest, False)"
      "\<forall>bs \<in> set payloads. \<forall>data \<in> set (payload_notes E bs). is_note E data" for x payloads rest
    using consumer_receives [OF consumer, of "resumed p w x" payloads rest] that by auto
  with x0 show ?thesis by auto
qed

interpretation steady_fetch: fetch_consumer steady_env p incoming WouldBlock F calls
    "\<lambda>u v. [(cb_number u, v)]" for p F
proof -
  have "jsonrpc steady_env"
    unfolding steady_env_def by (rule demo_variants(4))
  moreover have "stream_socket steady_env p incoming WouldBlock"
    using demo_socket.stream_socket_axioms [of p] by (simp add: stream_socket_def steady_env_def)
  moreover have "fetch_consumer_axioms steady_env p incoming F calls (\<lambda>u v. [(cb_number u, v)])"
    using demo_fetch.fetch_consumer_axioms [of p F]
    by (simp add: fetch_consumer_def fetch_consumer_axioms_def steady_env_def)
  ultimately show "fetch_consumer steady_env p incoming WouldBlock F calls (\<lambda>u v. [(cb_number u, v)])"
    by (simp add: fetch_consumer_def)
qed

lemmas steady_payload = demo_payload(3,4) [of "\<lambda>p blocks x. (0, x\<lparr>sent := sent x @ concat blocks\<rparr>)", folded steady_env_def]

text \<open>The connection broke after three bytes of a length.\<close>

theorem reconnect_delivers_witness:
  "\<exists>w2 w3. resume steady_env 0 (upd_peer 0 (set_rx [0, 0, 9, 9] 3 [] 0) (demo_fetching [])) = Some (Inr True, w2) \<and>
     receive steady_env 0 (w2\<lparr>ext := demo_start\<lparr>incoming := [0, 0, 0, 1, 9]\<rparr>\<rparr>) = Some (Inr 0, w3) \<and>
     calls (ext w3) = [(1, demo_params [9])]"
proof -
  let ?w = "upd_peer 0 (set_rx [0, 0, 9, 9] 3 [] 0) (demo_fetching [])"
  have conn: "connect steady_env 0 (upd_peer 0 reset_buffers ?w) = Some (Inr (), upd_peer 0 reset_buffers ?w)"
    by (simp add: connect_def Let_def demo_fetching_def demo_F_def initial_def steady_env_def no_peer_def
        reset_buffers_def upd_peer_def set_rx_def)
  have f: "m_fetchers (peers ?w 0) = demo_F" "length (m_bigEndianLengthBuffer (peers ?w 0)) = 4"
    by (simp_all add: demo_fetching_def set_rx_def)
  have small: "length (json_writeString steady_env (config_doc steady_env (peers ?w 0))) \<le> MAX_MESSAGE_SIZE"
      "\<And>i. i \<in> set (keys (m_fetchers (peers ?w 0))) \<Longrightarrow>
        length (json_writeString steady_env (fetch_doc steady_env (m_fetchers (peers ?w 0)) i)) \<le> MAX_MESSAGE_SIZE"
    by (auto simp: steady_env_def config_doc_def fetch_doc_def AsyncRequest_def fetch_params_def
        addPathInformation_def add_rule_def matcher_default_def demo_fetching_def demo_F_def no_peer_def
        initial_def MAX_MESSAGE_SIZE_def jet_key_defs jet_request_defs set_rx_def)
  obtain w2 where w2: "resume steady_env 0 ?w = Some (Inr True, w2)" "\<forall>x payloads rest.
    deframe (incoming x) = (payloads, rest, False) \<and>
      (\<forall>bs \<in> set payloads. \<forall>data \<in> set (payload_notes steady_env bs). is_note steady_env data) \<longrightarrow>
    (\<exists>w3. receive steady_env 0 (w2\<lparr>ext := x\<rparr>) = Some (Inr 0, w3) \<and>
      calls (ext w3) = calls x @ concat (map (payload_calls steady_env demo_F (\<lambda>u v. [(cb_number u, v)])) payloads))"
    using reconnect_delivers [OF steady_wire.wire_socket_axioms _ conn small _
        steady_fetch.fetch_consumer_axioms f(2)] unfolding f(1) by (auto simp: steady_env_def)
  have "deframe (incoming (demo_start\<lparr>incoming := [0, 0, 0, 1, 9]\<rparr>)) = ([[9]], [], False)"
    by (simp add: deframe.simps be_value_def MAX_MESSAGE_SIZE_def)
  with w2 show ?thesis
    using steady_payload(1) [of "[9]"] by (fastforce simp: steady_payload(2) demo_start_def)
qed

end
