(* ===== verification/Measure_Properties.thy ===== *)
theory Measure_Properties
  imports Measure_Speed Tool_Call Tool_Demo
begin

text \<open>
  Properties of the speed measurement and of the tools that serve a method or ask for information:
  what they put on the wire and on the console.
\<close>

section \<open>Notifying in a loop\<close>

definition cycle_doc :: "('j, 'z) jsonrpc_scheme \<Rightarrow> nat \<Rightarrow> 'j" where
  "cycle_doc J cycle = change_doc J STATE_PATH (json_uint J (of_nat cycle))"

context tool_world
begin

lemma notify_works:
  assumes "small (change_doc E path v)"
  shows "\<exists>x. notifyState E p path v w = Some (Inr 0, w\<lparr>ext := x\<rparr>) \<and> wired [change_doc E path v] (ext w) x"
  using send_small [OF assms, of w] by (auto simp: notifyState_def)

text \<open>A loop whose body puts one document on the wire puts them all there, in order.\<close>

lemma loop_wires:
  assumes "\<And>i w. i \<in> set is \<Longrightarrow> \<exists>x. body i w = Some (Inr (), w\<lparr>ext := x\<rparr>) \<and> wired [doc i] (ext w) x"
  shows "\<exists>x. for_each is body w = Some (Inr (), w\<lparr>ext := x\<rparr>) \<and> wired (map doc is) (ext w) x"
  using assms
proof (induction "is" arbitrary: w)
  case Nil
  then show ?case using wired_refl by (auto intro: exI [of _ "ext w"])
next
  case (Cons i "is")
  obtain x where x: "body i w = Some (Inr (), w\<lparr>ext := x\<rparr>)" "wired [doc i] (ext w) x"
    using Cons.prems by force
  obtain y where "for_each is body (w\<lparr>ext := x\<rparr>) = Some (Inr (), w\<lparr>ext := y\<rparr>)" "wired (map doc is) x y"
    using Cons.IH [of "w\<lparr>ext := x\<rparr>"] Cons.prems by fastforce
  with x show ?case using wired_trans [OF x(2)] by auto
qed

lemma measure_notify_works:
  assumes small: "\<And>cycle. cycle < cycleCount \<Longrightarrow> small (cycle_doc E cycle)"
  shows "\<exists>x. measure_notify E p w = Some (Inr (), w\<lparr>ext := x\<rparr>) \<and>
    wire (net x) = wire (net (ext w)) @
      concat (map (\<lambda>cycle. frame (json_writeString E (cycle_doc E cycle))) [0..<cycleCount]) \<and>
    err x = err (ext w) \<and> clock_reads x = clock_reads (ext w) + 2 \<and>
    out x = out (ext w) @ ''average time ('' @ nat_digits cycleCount @ '' cycles) for notifying a state: '' @
      show_quotient (clock_now E (clock_reads (ext w) + 1) - clock_now E (clock_reads (ext w))) cycleCount @
      micro @ endl"
proof -
  let ?w = "w\<lparr>ext := (ext w)\<lparr>clock_reads := Suc (clock_reads (ext w))\<rparr>\<rparr>"
  let ?body = "\<lambda>cycle. seq (Peer_notifyState E p STATE_PATH (json_uint E (of_nat cycle))) (ret ())"
  let ?loop = "for_each [0..<cycleCount] ?body"
  have "\<exists>x. ?body cycle v =
      Some (Inr (), v\<lparr>ext := x\<rparr>) \<and> wired [cycle_doc E cycle] (ext v) x" if "cycle < cycleCount" for cycle v
    using notify_works [of STATE_PATH "json_uint E (of_nat cycle)" v] small [OF that]
    by (auto simp: Peer_notifyState_def cycle_doc_def)
  then obtain x where x: "?loop ?w = Some (Inr (), w\<lparr>ext := x\<rparr>)"
      "wired (map (cycle_doc E) [0..<cycleCount]) (ext ?w) x"
    using loop_wires [of "[0..<cycleCount]" ?body "cycle_doc E" ?w] by auto
  then have loop: "reporting E ''measureSetNotify'' ?loop ?w = Some (Inr (), w\<lparr>ext := x\<rparr>)"
    by (simp add: reporting_def catch_runtime_def)
  obtain n where n: "x = (ext ?w)\<lparr>net := n\<rparr>" "wire n = wire (net (ext w)) @
      concat (map (\<lambda>cycle. frame (json_writeString E (cycle_doc E cycle))) [0..<cycleCount])"
    using x(2) by (auto simp: wired_def comp_def)
  have "measure_notify E p w = Some (Inr (), w\<lparr>ext := x\<lparr>clock_reads := clock_reads (ext w) + 2,
      out := out x @ ''average time ('' @ nat_digits cycleCount @ '' cycles) for notifying a state: '' @
      show_quotient (clock_now E (clock_reads (ext w) + 1) - clock_now E (clock_reads (ext w))) cycleCount @
      micro @ endl\<rparr>\<rparr>)"
    using loop n(1) by (simp add: measure_notify_def clock_def on_app_def cout_def)
  then show ?thesis using n by auto
qed

end

section \<open>jetmethod and jetinfo\<close>

text \<open>A method served by \<open>jetmethod\<close> prints what it was called with and answers with it.\<close>

lemma jetmethod_echoes:
  assumes "jsonrpc E" and "path_message E data methodName"
    and "m_stateCallbacks (peers w p) methodName = None" "m_methodCallbacks (peers w p) methodName = Some (Some um)"
    and "\<And>v. run_method E um v = jetmethod_methodCb E v"
  shows "\<exists>response. handleMessage E p data w = reply E p (json_child E data (rpc_ID E)) response
      (w\<lparr>ext := (ext w)\<lparr>out := out (ext w) @ ''method call with: '' @
        json_show E (json_child E data (rpc_PARAMS E)) @ endl\<rparr>\<rparr>) \<and>
    json_get E response (rpc_RESULT E) = Inr (json_child E data (rpc_PARAMS E))"
proof -
  have R: "rpc_env E" by (rule rpc_env.intro [OF assms(1)])
  have "run_method E um (json_child E data (rpc_PARAMS E)) w = Some (Inr (json_child E data (rpc_PARAMS E)),
      w\<lparr>ext := (ext w)\<lparr>out := out (ext w) @ ''method call with: '' @
        json_show E (json_child E data (rpc_PARAMS E)) @ endl\<rparr>\<rparr>)"
    by (simp add: assms(5) jetmethod_methodCb_def cout_def on_app_def)
  from rpc_env.method_outcome [OF R assms(2,3,4) this] show ?thesis
    using rpc_env.method_result_doc(1) [OF R] by auto
qed

text \<open>\<open>jetinfo\<close> asks once and prints the whole response, result or error; it exits with success.\<close>

lemma jetinfo_prints:
  fixes E :: "('j, 'u, 'y, 'z) tool_scheme"
  assumes world: "tool_world E p wire" and args: "atoi port_text = Some port"
    and idle: "\<not> m_mtx_openRequestCbs w" "m_openRequestCbs w = []"
    and small: "length (json_writeString E (tool_config E name)) \<le> MAX_MESSAGE_SIZE"
      "length (json_writeString E (request_doc E (AsyncRequest E INFO (json_null E)) (m_sid w + 1))) \<le> MAX_MESSAGE_SIZE"
    and data: "response_id E data (m_sid w + 1)"
  shows "\<exists>w'. info_main E (delivers E data) p this name [address, port_text] w = Some (Inr EXIT_SUCCESS, w') \<and>
    m_openRequestCbs w' = [] \<and> err (ext w') = err (ext w) \<and>
    out (ext w') = out (ext w) @ [CHR 0x27] @ json_show E data @ [CHR 0x27] @ endl \<and>
    wire (net (ext w')) = wire (net (ext w)) @ frame (json_writeString E (tool_config E name)) @
      frame (json_writeString E (request_doc E (AsyncRequest E INFO (json_null E)) (m_sid w + 1)))"
proof -
  define k :: "'j \<Rightarrow> ('j, 'u, 'y, int32) tool_prog" where
    "k = (\<lambda>info. seq (cout ([CHR 0x27] @ json_show E info @ [CHR 0x27] @ endl)) (ret EXIT_SUCCESS))"
  have main: "info_main E (delivers E data) p this name [address, port_text] w =
      catch_runtime E (with_Peer E p address port name (bnd (sync_scope E (delivers E data) p this
        (AsyncRequest E INFO (json_null E)) ret) k)) (\<lambda>exc. seq (cerr (exc @ endl)) (ret EXIT_SUCCESS)) w"
    using args by (simp add: info_main_def Peer_info_def port_arg_def address_arg_def of_atoi_def k_def)
  from tool_world.one_sync_caught [where body = ret and r = "Inr data" and k = k and c = EXIT_SUCCESS
      and exit = EXIT_SUCCESS and printed = "[CHR 0x27] @ json_show E data @ [CHR 0x27] @ endl" and report = "[]",
      OF world idle small data ret_apply]
  show ?thesis unfolding main by (simp add: k_def cout_def on_app_def)
qed

section \<open>Properties\<close>

text \<open>
  C28: the first measurement notifies the state in \<open>cycleCount\<close> cycles: exactly the values 0 to
  \<open>cycleCount - 1\<close> go over the wire, in order and once each, nothing is reported as an error, and one
  line with the truncated average of the two clock readings around the loop is printed.
\<close>

theorem measure_notifies:
  assumes "tool_world E p wire"
    and "\<And>cycle. cycle < cycleCount \<Longrightarrow> length (json_writeString E (cycle_doc E cycle)) \<le> MAX_MESSAGE_SIZE"
  shows "\<exists>x. measure_notify E p w = Some (Inr (), w\<lparr>ext := x\<rparr>) \<and>
    wire (net x) = wire (net (ext w)) @
      concat (map (\<lambda>cycle. frame (json_writeString E (cycle_doc E cycle))) [0..<cycleCount]) \<and>
    err x = err (ext w) \<and> clock_reads x = clock_reads (ext w) + 2 \<and>
    out x = out (ext w) @ ''average time ('' @ nat_digits cycleCount @ '' cycles) for notifying a state: '' @
      show_quotient (clock_now E (clock_reads (ext w) + 1) - clock_now E (clock_reads (ext w))) cycleCount @
      micro @ endl"
  using tool_world.measure_notify_works [OF assms] .

theorem measure_notifies_witness:
  "\<exists>x. measure_notify tools_env 0 (initial (tools_start [])) =
      Some (Inr (), (initial (tools_start []))\<lparr>ext := x\<rparr>) \<and> err x = [] \<and> clock_reads x = 2"
proof -
  have "length (json_writeString tools_env (cycle_doc tools_env cycle)) \<le> MAX_MESSAGE_SIZE" for cycle
    by (simp add: cycle_doc_def change_doc_def Let_def STATE_PATH_def MAX_MESSAGE_SIZE_def jet_key_defs
        jet_request_defs)
  from measure_notifies [OF tools.tool_world_axioms [of 0] this, where w = "initial (tools_start [])"]
  show ?thesis by (auto simp: initial_def tools_start_def)
qed

end
