(* ===== verification/Threads.thy ===== *)
theory Threads
  imports Request_Properties
begin

text \<open>
  The open requests under threads.  A synchronous \<open>Peer\<close> runs its event loop in a thread of its own,
  and an application may have several, so \<open>AsyncRequest::execute\<close>, \<open>handleResult\<close> and \<open>clear\<close> run
  concurrently on the static table of lib/asyncrequest.cpp.  Here each of them is cut into the actions
  between which other threads can run: taking the mutex, the block under it, sending, storing the
  notifier (which the code does without the mutex), and calling a callback.  A thread is the stack of
  the actions it still has to do; a callback that issues requests pushes them.  \<open>run\<close> executes a
  schedule, the list of the threads whose turn it is; an action that waits for the mutex is retried.

  Two simplifications concern only accesses that race in the code, whose outcome C++ leaves undefined:
  the three statements that store the notifier (lib/asyncrequest.cpp, lines 86 to 88) are one action,
  and \<open>clear\<close> walks the entries the table had when it took the mutex.  That such a race is possible is
  shown as \<open>notifier_unprotected\<close>.
\<close>

section \<open>Threads\<close>

text \<open>What an application or the event loop calls.\<close>

datatype ('j, 'u) operation =
    Execute pid 'j "'u responseCallback_t"
  | HandleResult 'j
  | Clear
  | FireNotifier uint32

datatype ('j, 'u) action =
    Begin "('j, 'u) operation"
  | Insert pid 'j "'u responseCb"                     \<comment> \<open>\<open>execute\<close>, mutex held\<close>
  | Send pid 'j uint32
  | Store_notifier uint32 int32 string                \<comment> \<open>\<open>execute\<close>, mutex not held\<close>
  | Take uint32 'j                                    \<comment> \<open>\<open>handleResult\<close>, mutex held\<close>
  | Respond uint32 "'u responseCallback_t" 'j
  | Cancel "(uint32 \<times> 'u Request) list" "uint32 list" \<comment> \<open>\<open>clear\<close>, mutex held\<close>

text \<open>What is observed of a request: that it was issued with a callback, and that this was called.\<close>

datatype ('j, 'u) event = Issued uint32 "'u responseCb" | Answered uint32 "'u responseCb" 'j

text \<open>\<open>issues cb data\<close> are the operations the application runs in the callback \<open>cb\<close>.\<close>

type_synonym ('j, 'u) issuer = "'u responseCb \<Rightarrow> 'j \<Rightarrow> ('j, 'u) operation list"

abbreviation lock :: "('j, 'u, 'x) world \<Rightarrow> ('j, 'u, 'x) world" where
  "lock w \<equiv> w\<lparr>m_mtx_openRequestCbs := True\<rparr>"

abbreviation unlock :: "('j, 'u, 'x) world \<Rightarrow> ('j, 'u, 'x) world" where
  "unlock w \<equiv> w\<lparr>m_mtx_openRequestCbs := False\<rparr>"

type_synonym ('j, 'u, 'x) effect =
  "(('j, 'u) action list \<times> ('j, 'u) event list \<times> ('j, 'u, 'x) world) option"

text \<open>Calling the callback of a request: what it throws is swallowed, what it issues is pushed.\<close>

definition answer_request :: "('j, 'u, 'x, 'z) env_scheme \<Rightarrow> ('j, 'u) issuer \<Rightarrow> uint32 \<Rightarrow> 'u responseCb
    \<Rightarrow> 'j \<Rightarrow> ('j, 'u) action list \<Rightarrow> ('j, 'u, 'x) world \<Rightarrow> ('j, 'u, 'x) effect" where
  "answer_request E issues i cb data rest w = (case call_response E cb data w of
       None \<Rightarrow> None
     | Some (r, w') \<Rightarrow> Some (map Begin (issues cb data) @ rest, [Answered i cb data], w'))"

text \<open>The operations up to the point where they wait for the mutex or touch the shared state.\<close>

fun enter :: "('j, 'u, 'x, 'z) env_scheme \<Rightarrow> ('j, 'u) operation \<Rightarrow> ('j, 'u, 'x) world
    \<Rightarrow> ('j, 'u, 'x) effect" where
  "enter E (Execute p doc (Some cb)) w =
     (if m_mtx_openRequestCbs w then None else Some ([Insert p doc cb], [], lock w))"
| "enter E (Execute p doc None) w = (case sendMessage E p doc w of
       None \<Rightarrow> None
     | Some (r, w') \<Rightarrow> Some ([], [], w'))"
| "enter E (HandleResult data) w =
     (case sum_bind (json_get E data (rpc_ID E)) (json_asUInt E) of
        Inl e \<Rightarrow> Some ([], [], w)
      | Inr i \<Rightarrow> if m_mtx_openRequestCbs w then None else Some ([Take i data], [], lock w))"
| "enter E Clear w =
     (if m_mtx_openRequestCbs w then None
      else Some ([Cancel (m_openRequestCbs w) (hash_order E (keys (m_openRequestCbs w)))], [], lock w))"
| "enter E (FireNotifier i) w =
     (case map_of (m_openRequestCbs w) i of
        None \<Rightarrow> Some ([], [], w)
      | Some req \<Rightarrow> (case errorNotifier req of
            None \<Rightarrow> Some ([], [], w)
          | Some (c, msg) \<Rightarrow> Some ([Begin (HandleResult (error_doc E (captured_id E i) c msg))], [],
              w\<lparr>m_openRequestCbs := AList.update i (req\<lparr>errorNotifier := None\<rparr>) (m_openRequestCbs w)\<rparr>)))"

text \<open>One action; \<open>None\<close> if it has to wait.\<close>

fun act :: "('j, 'u, 'x, 'z) env_scheme \<Rightarrow> ('j, 'u) issuer \<Rightarrow> ('j, 'u) action \<Rightarrow> ('j, 'u, 'x) world
    \<Rightarrow> ('j, 'u, 'x) effect" where
  "act E issues (Begin operation) w = enter E operation w"
| "act E issues (Insert p doc cb) w =
     (let w' = add_request cb w; m_id = m_sid w'
      in Some ([Send p doc m_id], [Issued m_id cb], unlock w'))"
| "act E issues (Send p doc m_id) w =
     (case sendMessage E p (json_put E doc (rpc_ID E) (json_uint E m_id)) w of
        None \<Rightarrow> None
      | Some (Inr _, w') \<Rightarrow> Some ([], [], w')
      | Some (Inl e, w') \<Rightarrow> (case as_jsonrpc e of
            None \<Rightarrow> Some ([], [], w')
          | Some (c, msg) \<Rightarrow> Some ([Store_notifier m_id c msg], [], w')))"
| "act E issues (Store_notifier m_id c msg) w = Some ([], [], set_notifier m_id c msg w)"
| "act E issues (Take i data) w =
     (case map_of (m_openRequestCbs w) i of
        None \<Rightarrow> Some ([], [], unlock w)
      | Some req \<Rightarrow> Some ([Respond i (responseCallback req) data], [],
          unlock (w\<lparr>m_openRequestCbs := AList.delete i (m_openRequestCbs w)\<rparr>)))"
| "act E issues (Respond i None data) w = Some ([], [], w)"
| "act E issues (Respond i (Some cb) data) w = answer_request E issues i cb data [] w"
| "act E issues (Cancel reqs []) w = Some ([], [], unlock (w\<lparr>m_openRequestCbs := []\<rparr>))"
| "act E issues (Cancel reqs (i # todo)) w =
     (case Option.bind (map_of reqs i) responseCallback of
        None \<Rightarrow> Some ([Cancel reqs todo], [], w)
      | Some cb \<Rightarrow>
          answer_request E issues i cb (error_doc E i (- 1) cancel_text) [Cancel reqs todo] w)"

record ('j, 'u, 'x) process =
  shared :: "('j, 'u, 'x) world"
  threads :: "('j, 'u) action list list"
  events :: "('j, 'u) event list"

definition spawn :: "('j, 'u, 'x) world \<Rightarrow> ('j, 'u) operation list list \<Rightarrow> ('j, 'u, 'x) process" where
  "spawn w programs = \<lparr>shared = w, threads = map (map Begin) programs, events = []\<rparr>"

text \<open>The turn of thread \<open>t\<close>.\<close>

definition turn :: "('j, 'u, 'x, 'z) env_scheme \<Rightarrow> ('j, 'u) issuer \<Rightarrow> nat \<Rightarrow> ('j, 'u, 'x) process
    \<Rightarrow> ('j, 'u, 'x) process" where
  "turn E issues t c =
     (if length (threads c) \<le> t then c
      else case threads c ! t of
          [] \<Rightarrow> c
        | a # rest \<Rightarrow> (case act E issues a (shared c) of
              None \<Rightarrow> c
            | Some (as, evs, w) \<Rightarrow>
                \<lparr>shared = w, threads = (threads c)[t := as @ rest], events = events c @ evs\<rparr>))"

definition run :: "('j, 'u, 'x, 'z) env_scheme \<Rightarrow> ('j, 'u) issuer \<Rightarrow> nat list \<Rightarrow> ('j, 'u, 'x) process
    \<Rightarrow> ('j, 'u, 'x) process" where
  "run E issues schedule c = fold (turn E issues) schedule c"

end
