(* ===== verification/Thread_Invariants.thy ===== *)
theory Thread_Invariants
  imports Threads
begin

text \<open>
  What holds in every interleaving.  The invariant \<open>thread_inv\<close> speaks of the multiset of all actions
  that some thread still has to do, so that it does not matter which thread has them: the mutex agrees
  with the one action that runs under it, and every issued request is in exactly one place: in the
  table, with a thread that is about to call its callback, or answered.
\<close>

section \<open>Where a request is\<close>

definition open_cbs :: "(uint32 \<times> 'u Request) list \<Rightarrow> (uint32 \<times> 'u responseCb) set" where
  "open_cbs reqs = {(i, cb). Option.bind (map_of reqs i) responseCallback = Some cb}"

fun cancels :: "(uint32 \<times> 'u Request) list \<Rightarrow> uint32 list \<Rightarrow> (uint32 \<times> 'u responseCb) list" where
  "cancels reqs [] = []"
| "cancels reqs (i # todo) = (case Option.bind (map_of reqs i) responseCallback of
       None \<Rightarrow> cancels reqs todo
     | Some cb \<Rightarrow> (i, cb) # cancels reqs todo)"

fun pending_answers :: "('j, 'u) action \<Rightarrow> (uint32 \<times> 'u responseCb) multiset" where
  "pending_answers (Respond i (Some cb) data) = {#(i, cb)#}"
| "pending_answers (Cancel reqs todo) = mset (cancels reqs todo)"
| "pending_answers _ = {#}"

text \<open>The actions that run under the mutex, and those that write the table.\<close>

fun critical :: "('j, 'u) action \<Rightarrow> bool" where
  "critical (Insert p doc cb) = True"
| "critical (Take i data) = True"
| "critical (Cancel reqs todo) = True"
| "critical _ = False"

fun cancelling :: "('j, 'u) action \<Rightarrow> bool" where
  "cancelling (Cancel reqs todo) = True"
| "cancelling _ = False"

definition waiting :: "('j, 'u) action multiset \<Rightarrow> ('j, 'u, 'x) world
    \<Rightarrow> (uint32 \<times> 'u responseCb) multiset" where
  "waiting M w = (if \<exists>a \<in># M. cancelling a then {#} else mset_set (open_cbs (m_openRequestCbs w)))
     + \<Sum>\<^sub># (image_mset pending_answers M)"

fun issued :: "('j, 'u) event list \<Rightarrow> (uint32 \<times> 'u responseCb) list" where
  "issued [] = []"
| "issued (Issued i cb # evs) = (i, cb) # issued evs"
| "issued (Answered i cb data # evs) = issued evs"

fun answered :: "('j, 'u) event list \<Rightarrow> (uint32 \<times> 'u responseCb) list" where
  "answered [] = []"
| "answered (Issued i cb # evs) = answered evs"
| "answered (Answered i cb data # evs) = (i, cb) # answered evs"

lemma issued_append [simp]: "issued (evs @ evs') = issued evs @ issued evs'"
  by (induction evs rule: issued.induct) auto

lemma answered_append [simp]: "answered (evs @ evs') = answered evs @ answered evs'"
  by (induction evs rule: answered.induct) auto

lemma finite_open_cbs [simp]: "finite (open_cbs reqs)"
proof (rule finite_subset)
  show "open_cbs reqs \<subseteq> (\<lambda>(i, r). (i, the (responseCallback r))) ` set reqs"
    by (force simp: open_cbs_def bind_eq_Some_conv dest: map_of_SomeD)
qed simp

lemma open_cbs_update:
  "open_cbs (AList.update i r reqs) = {(k, cb) \<in> open_cbs reqs. k \<noteq> i} \<union>
     (case responseCallback r of None \<Rightarrow> {} | Some cb \<Rightarrow> {(i, cb)})"
  by (auto simp: open_cbs_def update_conv' split: if_splits option.splits)

lemma open_cbs_same:
  assumes "responseCallback r = Option.bind (map_of reqs i) responseCallback"
  shows "open_cbs (AList.update i r reqs) = open_cbs reqs"
  using assms by (auto simp: open_cbs_def update_conv' split: if_splits option.splits)

lemma open_cbs_delete: "open_cbs (AList.delete i reqs) = {(k, cb) \<in> open_cbs reqs. k \<noteq> i}"
  by (auto simp: open_cbs_def delete_conv' split: if_splits)

lemma open_cbs_Nil [simp]: "open_cbs [] = {}"
  by (simp add: open_cbs_def)

lemma open_cbs_set_notifier: "open_cbs (m_openRequestCbs (set_notifier i c msg w)) = open_cbs (m_openRequestCbs w)"
  by (simp add: set_notifier_def Let_def open_cbs_same request_at_def split: option.splits)

lemma mset_cancels:
  assumes "distinct todo"
  shows "mset (cancels reqs todo) = mset_set {(i, cb) \<in> open_cbs reqs. i \<in> set todo}"
  using assms
proof (induction todo)
  case Nil
  then show ?case by simp
next
  case (Cons i todo)
  show ?case
  proof (cases "Option.bind (map_of reqs i) responseCallback")
    case None
    then have "{(k, cb) \<in> open_cbs reqs. k \<in> set (i # todo)} = {(k, cb) \<in> open_cbs reqs. k \<in> set todo}"
      by (auto simp: open_cbs_def)
    with None Cons show ?thesis by simp
  next
    case (Some cb)
    then have "{(k, cb) \<in> open_cbs reqs. k \<in> set (i # todo)} =
        insert (i, cb) {(k, cb) \<in> open_cbs reqs. k \<in> set todo}"
      by (auto simp: open_cbs_def)
    moreover have "finite {(k, cb) \<in> open_cbs reqs. k \<in> set todo}"
      by (rule finite_subset [of _ "open_cbs reqs"]) auto
    ultimately show ?thesis using Some Cons by simp
  qed
qed

lemma mset_cancels_all:
  assumes "distinct (keys reqs)" and "mset todo = mset (keys reqs)"
  shows "mset (cancels reqs todo) = mset_set (open_cbs reqs)"
proof -
  have "set todo = set (keys reqs)" "distinct todo"
    using assms by (metis set_mset_mset, metis mset_eq_imp_distinct_iff)
  moreover have "{(i, cb) \<in> open_cbs reqs. i \<in> set (keys reqs)} = open_cbs reqs"
    by (force simp: open_cbs_def bind_eq_Some_conv dest: map_of_SomeD)
  ultimately show ?thesis by (simp add: mset_cancels)
qed

text \<open>Ids are handed out one after the other, so they repeat only after \<open>2 ^ 32\<close> requests.\<close>

definition id_after :: "uint32 \<Rightarrow> nat \<Rightarrow> uint32" where
  "id_after s n = s + word_of_nat n"

lemma id_after_Suc: "id_after s (Suc n) = id_after s n + 1"
  by (simp add: id_after_def)

lemma id_after_inj:
  assumes "k \<le> n" and "n < k + 2 ^ 32" and "id_after s k = id_after s n"
  shows "k = n"
proof -
  have "(word_of_nat (n - k) :: uint32) = 0"
    using assms(1,3) by (simp add: id_after_def of_nat_diff)
  then have "2 ^ 32 dvd n - k"
    by (simp add: word_of_nat_eq_0_iff)
  with assms(1,2) show ?thesis
    by (auto dest: dvd_imp_le)
qed

lemma fresh_id:
  assumes "n < 2 ^ 32"
  shows "id_after s (Suc n) \<notin> set (map (id_after s \<circ> Suc) [0..<n])"
proof
  assume "id_after s (Suc n) \<in> set (map (id_after s \<circ> Suc) [0..<n])"
  then obtain k where "k < n" "id_after s (Suc k) = id_after s (Suc n)" by auto
  with id_after_inj [of "Suc k" "Suc n" s] assms show False by auto
qed

text \<open>The turn of a thread replaces one action of the process.\<close>

lemma mset_concat_update:
  assumes "t < length xss" and "xss ! t = x # rest"
  obtains M where "mset (concat xss) = add_mset x M" and "mset (concat (xss[t := xs @ rest])) = M + mset xs"
proof -
  have "concat xss = concat (take t xss) @ (x # rest) @ concat (drop (Suc t) xss)"
    using arg_cong [OF id_take_nth_drop [OF assms(1)], of concat] assms(2) by simp
  moreover have "concat (xss[t := xs @ rest]) = concat (take t xss) @ (xs @ rest) @ concat (drop (Suc t) xss)"
    using assms(1) by (simp add: upd_conv_take_nth_drop)
  ultimately show thesis
    using that [of "mset (concat (take t xss) @ rest @ concat (drop (Suc t) xss))"] by simp
qed

abbreviation actions :: "('j, 'u, 'x) process \<Rightarrow> ('j, 'u) action multiset" where
  "actions c \<equiv> mset (concat (threads c))"

lemma turn_cases:
  obtains (idle) "turn E issues t c = c"
  | (acts) a as evs w' M where "act E issues a (shared c) = Some (as, evs, w')"
      "actions c = add_mset a M" "actions (turn E issues t c) = M + mset as"
      "shared (turn E issues t c) = w'" "events (turn E issues t c) = events c @ evs"
proof (cases "t < length (threads c) \<and> threads c ! t \<noteq> []")
  case True
  then obtain a rest where t: "t < length (threads c)" "threads c ! t = a # rest"
    by (auto simp: neq_Nil_conv)
  show thesis
  proof (cases "act E issues a (shared c)")
    case None
    with t show thesis by (intro idle) (simp add: turn_def)
  next
    case (Some e)
    obtain as evs w' where e: "e = (as, evs, w')" by (cases e)
    with Some t have turn: "turn E issues t c = \<lparr>shared = w', threads = (threads c)[t := as @ rest], events = events c @ evs\<rparr>"
      by (simp add: turn_def)
    from mset_concat_update [OF t, of as] obtain M where "actions c = add_mset a M"
        "mset (concat ((threads c)[t := as @ rest])) = M + mset as" by blast
    with acts Some e turn show thesis by simp
  qed
next
  case False
  then show thesis by (intro idle) (auto simp: turn_def not_less)
qed

lemma run_simps [simp]:
  "run E issues [] c = c" "run E issues (t # ts) c = run E issues ts (turn E issues t c)"
  by (simp_all add: run_def)

lemma run_append: "run E issues (s @ s') c = run E issues s' (run E issues s c)"
  by (simp add: run_def)

text \<open>What every action keeps holds in every interleaving.\<close>

lemma run_keeps:
  assumes step: "\<And>a as evs w w' M es. act E issues a w = Some (as, evs, w') \<Longrightarrow> P (add_mset a M) w es \<Longrightarrow>
      P (M + mset as) w' (es @ evs)"
    and init: "P (actions c) (shared c) (events c)"
  shows "P (actions (run E issues ts c)) (shared (run E issues ts c)) (events (run E issues ts c))"
  using init
proof (induction ts arbitrary: c)
  case Nil
  then show ?case by simp
next
  case (Cons t ts)
  have "P (actions (turn E issues t c)) (shared (turn E issues t c)) (events (turn E issues t c))"
    using Cons.prems step by (cases rule: turn_cases [of E issues t c]) auto
  from Cons.IH [OF this] show ?case by simp
qed

section \<open>The invariant\<close>

definition mutex_inv :: "('j, 'u) action multiset \<Rightarrow> ('j, 'u, 'x) world \<Rightarrow> bool" where
  "mutex_inv M w \<longleftrightarrow> size (filter_mset critical M) = of_bool (m_mtx_openRequestCbs w)"

definition ids_inv :: "uint32 \<Rightarrow> ('j, 'u, 'x) world \<Rightarrow> (uint32 \<times> 'u responseCb) list \<Rightarrow> bool" where
  "ids_inv s w reqs \<longleftrightarrow> m_sid w = id_after s (length reqs) \<and>
     map fst reqs = map (id_after s \<circ> Suc) [0..<length reqs]"

definition thread_inv :: "uint32 \<Rightarrow> ('j, 'u) action multiset \<Rightarrow> ('j, 'u, 'x) world
    \<Rightarrow> ('j, 'u) event list \<Rightarrow> bool" where
  "thread_inv s M w evs \<longleftrightarrow> mutex_inv M w \<and> distinct (keys (m_openRequestCbs w)) \<and>
     ids_inv s w (issued evs) \<and> mset (issued evs) = waiting M w + mset (answered evs)"

fun action_matches :: "('j, 'z) jsonrpc_scheme \<Rightarrow> ('j, 'u) action \<Rightarrow> bool" where
  "action_matches J (Take i data) = response_id J data i"
| "action_matches J (Respond i rcb data) = response_id J data i"
| "action_matches J _ = True"

fun event_matches :: "('j, 'z) jsonrpc_scheme \<Rightarrow> ('j, 'u) event \<Rightarrow> bool" where
  "event_matches J (Answered i cb data) = response_id J data i"
| "event_matches J _ = True"

text \<open>Under the mutex, no other action is.\<close>

lemma critical_alone:
  assumes "mutex_inv (add_mset a M) w" and "critical a"
  shows "m_mtx_openRequestCbs w" and "filter_mset critical M = {#}"
proof -
  have "Suc (size (filter_mset critical M)) = of_bool (m_mtx_openRequestCbs w)"
    using assms by (simp add: mutex_inv_def)
  then show "m_mtx_openRequestCbs w" "filter_mset critical M = {#}"
    by (cases "m_mtx_openRequestCbs w"; simp)+
qed

lemma critical_none: "mutex_inv M w \<Longrightarrow> \<not> m_mtx_openRequestCbs w \<Longrightarrow> filter_mset critical M = {#}"
  by (simp add: mutex_inv_def)

lemma cancelling_critical: "cancelling a \<Longrightarrow> critical a"
  by (cases a) auto

lemma not_cancelling: "filter_mset critical M = {#} \<Longrightarrow> \<not> (\<exists>a \<in># M. cancelling a)"
  using cancelling_critical by (auto simp flip: set_mset_eq_empty_iff)

lemma waiting_table:
  "filter_mset critical M = {#} \<Longrightarrow>
   waiting M w = mset_set (open_cbs (m_openRequestCbs w)) + \<Sum>\<^sub># (image_mset pending_answers M)"
  by (simp add: waiting_def not_cancelling)

lemma waiting_add:
  "\<not> cancelling a \<Longrightarrow> waiting (add_mset a M) w = pending_answers a + waiting M w"
  by (simp add: waiting_def)

lemma waiting_cancelling:
  "cancelling a \<Longrightarrow> waiting (add_mset a M) w = pending_answers a + \<Sum>\<^sub># (image_mset pending_answers M)"
  by (simp add: waiting_def)

lemma waiting_cong:
  "open_cbs (m_openRequestCbs w') = open_cbs (m_openRequestCbs w) \<Longrightarrow> waiting M w' = waiting M w"
  by (simp add: waiting_def)

lemma begins [simp]:
  "filter_mset critical (image_mset Begin M) = {#}"
  "image_mset pending_answers (image_mset Begin M) = image_mset (\<lambda>_. {#}) M"
  "\<not> (\<exists>a \<in># image_mset Begin M. cancelling a)"
  by (induction M) auto

lemma waiting_begins: "waiting (M + image_mset Begin N) w = waiting M w"
  by (auto simp: waiting_def)

lemma waiting_quiet:
  assumes "filter_mset critical N = {#}" and "\<Sum>\<^sub># (image_mset pending_answers N) = {#}"
  shows "waiting (M + N) w = waiting M w"
  using assms not_cancelling [OF assms(1)] by (auto simp: waiting_def)

text \<open>A request enters the table, and leaves it with the thread that will call its callback.\<close>

lemma open_cbs_insert:
  assumes "\<And>cb'. (m_sid w + 1, cb') \<notin> open_cbs (m_openRequestCbs w)"
  shows "mset_set (open_cbs (m_openRequestCbs (add_request cb w))) =
    add_mset (m_sid w + 1, cb) (mset_set (open_cbs (m_openRequestCbs w)))"
proof -
  have "open_cbs (m_openRequestCbs (add_request cb w)) =
      insert (m_sid w + 1, cb) (open_cbs (m_openRequestCbs w))"
    using assms by (auto simp: add_request_def Let_def open_cbs_update)
  with assms show ?thesis by simp
qed

lemma open_cbs_take:
  assumes "map_of reqs i = Some req"
  shows "mset_set (open_cbs reqs) =
    pending_answers (Respond i (responseCallback req) data) + mset_set (open_cbs (AList.delete i reqs))"
proof (cases "responseCallback req")
  case None
  with assms have "open_cbs (AList.delete i reqs) = open_cbs reqs"
    by (auto simp: open_cbs_def delete_conv' split: if_splits)
  with None show ?thesis by simp
next
  case (Some cb)
  with assms have "open_cbs reqs = insert (i, cb) (open_cbs (AList.delete i reqs))"
      "(i, cb) \<notin> open_cbs (AList.delete i reqs)"
    by (auto simp: open_cbs_def delete_conv' split: if_splits)
  with Some show ?thesis by simp
qed

lemma insert_fresh:
  assumes "thread_inv s (add_mset (Insert p doc cb) M) w es" and "length (issued es) < 2 ^ 32"
  shows "(m_sid w + 1, cb') \<notin> open_cbs (m_openRequestCbs w)"
proof -
  have "m_sid w + 1 \<notin> fst ` set (issued es)"
    using fresh_id [of "length (issued es)" s] assms
    unfolding thread_inv_def ids_inv_def id_after_Suc by (metis list.set_map)
  then have "(m_sid w + 1, cb') \<notin># waiting (add_mset (Insert p doc cb) M) w"
    using assms(1) unfolding thread_inv_def by (metis fst_conv imageI set_mset_mset union_iff)
  moreover have "filter_mset critical M = {#}"
    using assms(1) critical_alone(2) [of "Insert p doc cb" M w] by (simp add: thread_inv_def)
  ultimately show ?thesis by (simp add: waiting_add waiting_table)
qed

lemma act_send:
  assumes "act E issues (Send p doc i) w = Some (as, evs, w')"
  shows "evs = [] \<and> (\<exists>x. w' = w\<lparr>ext := x\<rparr>) \<and> (as = [] \<or> (\<exists>c msg. as = [Store_notifier i c msg]))"
proof (cases rule: sendMessage_cases [of E p "json_put E doc (rpc_ID E) (json_uint E i)" w])
  case sent
  with assms show ?thesis by auto
next
  case failed
  with assms show ?thesis by auto
qed

text \<open>
  What the application promises: a callback reaches the table and the mutex only through the operations
  it issues.  The order in which an \<open>unordered_map\<close> is traversed is a permutation of its keys.
\<close>

locale request_threads = jsonrpc E
  for E :: "('j, 'u, 'x, 'z) env_scheme" +
  fixes issues :: "('j, 'u) issuer"
  assumes hash_perm: "mset (hash_order E ks) = mset ks"
    and response_frame: "run_response E u v w = Some (r, w') \<Longrightarrow>
      (m_sid w', m_openRequestCbs w', m_mtx_openRequestCbs w') =
      (m_sid w, m_openRequestCbs w, m_mtx_openRequestCbs w)"
begin

lemma call_response_frame:
  "keeps (\<lambda>w. (m_sid w, m_openRequestCbs w, m_mtx_openRequestCbs w) = k) (call_response E cb v)"
proof (induction cb)
  case (UserCb u)
  show ?case by (auto intro!: keepsI dest: response_frame)
next
  case (SyncCb n)
  show ?case by (auto intro!: keepsI split: if_splits)
qed (auto intro!: keeps_intros keeps_modify
    simp: addMethodResultCb_def addStateResultCb_def addFetchResultCb_def registry_defs)

text \<open>A callback that was called: what it leaves to do, what was observed, and what it kept.\<close>

lemma answer_requestE:
  assumes "answer_request E issues i cb data rest w = Some (as, evs, w')"
  obtains "as = map Begin (issues cb data) @ rest" "evs = [Answered i cb data]"
    "m_sid w' = m_sid w" "m_openRequestCbs w' = m_openRequestCbs w"
    "m_mtx_openRequestCbs w' = m_mtx_openRequestCbs w"
proof -
  from assms obtain r where r: "call_response E cb data w = Some (r, w')"
      and *: "as = map Begin (issues cb data) @ rest" "evs = [Answered i cb data]"
    by (auto simp: answer_request_def split: option.splits)
  from keepsD [OF call_response_frame refl r] * show thesis by (auto intro: that)
qed

lemma sendMessage_frame:
  "sendMessage E p v w = Some (r, w') \<Longrightarrow> \<exists>x. w' = w\<lparr>ext := x\<rparr>"
  by (cases rule: sendMessage_cases [of E p v w]) auto

text \<open>The kinds of action, by what they do to the mutex and the table.\<close>

lemma act_cases:
  assumes "act E issues a w = Some (as, evs, w')"
  obtains
    (quiet) "\<not> critical a" "pending_answers a = {#}" "evs = []" "m_sid w' = m_sid w"
      "m_mtx_openRequestCbs w' = m_mtx_openRequestCbs w"
      "open_cbs (m_openRequestCbs w') = open_cbs (m_openRequestCbs w)"
      "distinct (keys (m_openRequestCbs w)) \<Longrightarrow> distinct (keys (m_openRequestCbs w'))"
      "filter_mset critical (mset as) = {#}" "\<Sum>\<^sub># (image_mset pending_answers (mset as)) = {#}"
  | (acquire) a' where "\<not> critical a" "pending_answers a = {#}" "\<not> m_mtx_openRequestCbs w"
      "as = [a']" "evs = []" "w' = lock w" "critical a'" "\<not> cancelling a'" "pending_answers a' = {#}"
  | (clear) "a = Begin Clear" "\<not> m_mtx_openRequestCbs w" "evs = []" "w' = lock w"
      "as = [Cancel (m_openRequestCbs w) (hash_order E (keys (m_openRequestCbs w)))]"
  | (insert) p doc cb where "a = Insert p doc cb" "as = [Send p doc (m_sid w + 1)]"
      "evs = [Issued (m_sid w + 1) cb]" "w' = unlock (add_request cb w)"
  | (absent) i data where "a = Take i data" "map_of (m_openRequestCbs w) i = None"
      "as = []" "evs = []" "w' = unlock w"
  | (take) i data req where "a = Take i data" "map_of (m_openRequestCbs w) i = Some req"
      "as = [Respond i (responseCallback req) data]" "evs = []"
      "w' = unlock (w\<lparr>m_openRequestCbs := AList.delete i (m_openRequestCbs w)\<rparr>)"
  | (respond) i cb data where "a = Respond i (Some cb) data" "as = map Begin (issues cb data)"
      "evs = [Answered i cb data]" "m_sid w' = m_sid w" "m_openRequestCbs w' = m_openRequestCbs w"
      "m_mtx_openRequestCbs w' = m_mtx_openRequestCbs w"
  | (skip) reqs i todo where "a = Cancel reqs (i # todo)" "as = [Cancel reqs todo]" "evs = []" "w' = w"
      "cancels reqs (i # todo) = cancels reqs todo"
  | (cancel) reqs i todo cb ops where "a = Cancel reqs (i # todo)"
      "as = map Begin ops @ [Cancel reqs todo]"
      "cancels reqs (i # todo) = (i, cb) # cancels reqs todo"
      "evs = [Answered i cb (error_doc E i (- 1) cancel_text)]" "m_sid w' = m_sid w"
      "m_openRequestCbs w' = m_openRequestCbs w" "m_mtx_openRequestCbs w' = m_mtx_openRequestCbs w"
  | (cleared) reqs where "a = Cancel reqs []" "as = []" "evs = []"
      "w' = unlock (w\<lparr>m_openRequestCbs := []\<rparr>)"
proof (cases a)
  case (Begin operation)
  note a = assms [unfolded Begin act.simps]
  show thesis
  proof (cases operation)
    case (Execute p doc rcb)
    with Begin a show thesis
      by (cases rcb) (auto split: if_splits option.splits dest!: sendMessage_frame intro: quiet acquire)
  next
    case (HandleResult data)
    with Begin a show thesis by (auto split: if_splits sum.splits intro: quiet acquire)
  next
    case Clear
    with Begin a show thesis by (auto split: if_splits intro: clear)
  next
    case (FireNotifier i)
    with Begin a show thesis
      by (auto split: option.splits simp: open_cbs_same intro!: quiet)
  qed
next
  case (Respond i rcb data)
  with assms show thesis by (cases rcb) (auto elim!: answer_requestE intro: quiet respond)
next
  case (Cancel reqs todo)
  with assms show thesis
    by (cases todo) (auto elim!: answer_requestE split: option.splits intro: cleared skip cancel)
next
  case (Insert p doc cb)
  with assms show thesis by (auto simp: Let_def intro: insert)
next
  case (Take i data)
  with assms show thesis by (auto split: option.splits intro: absent take)
next
  case (Send p doc m_id)
  from act_send [OF assms [unfolded Send]] show thesis
    using Send by (auto intro!: quiet)
next
  case (Store_notifier m_id c msg)
  with assms show thesis
    by (auto simp: open_cbs_set_notifier intro!: quiet) (simp_all add: set_notifier_def Let_def)
qed

lemma act_mutex:
  assumes "act E issues a w = Some (as, evs, w')" and inv: "mutex_inv (add_mset a M) w"
  shows "mutex_inv (M + mset as) w'"
  using assms(1)
proof (cases rule: act_cases)
  case quiet
  with inv show ?thesis by (simp add: mutex_inv_def)
next
  case acquire
  with inv critical_none [OF inv] show ?thesis by (simp add: mutex_inv_def)
next
  case clear
  with inv critical_none [OF inv] show ?thesis by (simp add: mutex_inv_def)
qed (use inv critical_alone [OF inv] in \<open>simp_all add: mutex_inv_def\<close>)

lemma act_ids:
  assumes "act E issues a w = Some (as, evs, w')" and "ids_inv s w (issued es)"
  shows "ids_inv s w' (issued (es @ evs))"
  using assms(1) by (cases rule: act_cases) (use assms(2) in \<open>simp_all add: ids_inv_def id_after_Suc\<close>)

lemma act_distinct:
  assumes "act E issues a w = Some (as, evs, w')" and "distinct (keys (m_openRequestCbs w))"
  shows "distinct (keys (m_openRequestCbs w'))"
  using assms(1) by (cases rule: act_cases) (use assms(2) in \<open>simp_all add: add_request_def Let_def\<close>)

text \<open>Every action keeps each request in exactly one place.\<close>

lemma act_conserves:
  assumes act: "act E issues a w = Some (as, evs, w')" and inv: "thread_inv s (add_mset a M) w es"
    and few: "length (issued (es @ evs)) \<le> 2 ^ 32"
  shows "mset (issued (es @ evs)) = waiting (M + mset as) w' + mset (answered (es @ evs))"
proof -
  have mtx: "mutex_inv (add_mset a M) w"
      and dist: "distinct (keys (m_openRequestCbs w))"
      and all: "mset (issued es) = waiting (add_mset a M) w + mset (answered es)"
    using inv by (simp_all add: thread_inv_def)
  note alone = critical_alone(2) [OF mtx]
  show ?thesis
    using act
  proof (cases rule: act_cases)
    case quiet
    moreover from quiet(1) have "\<not> cancelling a" using cancelling_critical by blast
    ultimately show ?thesis
      using all by (simp add: waiting_add waiting_quiet waiting_cong [of w' w])
  next
    case (acquire a')
    moreover from acquire(1) have "\<not> cancelling a" using cancelling_critical by blast
    ultimately show ?thesis
      using all by (simp add: waiting_add waiting_cong [of "lock w" w])
  next
    case clear
    have "filter_mset critical M = {#}"
      using critical_none [OF mtx] clear(1,2) by simp
    with clear all show ?thesis
      by (simp add: waiting_add waiting_cancelling waiting_table mset_cancels_all [OF dist hash_perm])
  next
    case (insert p doc cb)
    then show ?thesis
      using all alone insert_fresh [of s p doc cb M w es] inv few
      by (simp add: waiting_add waiting_table open_cbs_insert)
  next
    case absent
    with all alone show ?thesis by (simp add: waiting_add waiting_table)
  next
    case (take i data req)
    with all alone open_cbs_take [OF take(2), of data] show ?thesis
      by (simp add: waiting_add waiting_table ac_simps)
  next
    case respond
    with all show ?thesis by (simp add: waiting_add waiting_begins waiting_cong [of w' w])
  next
    case skip
    with all show ?thesis by (simp add: waiting_cancelling)
  next
    case cancel
    with all show ?thesis by (simp add: waiting_cancelling)
  next
    case cleared
    with all alone show ?thesis by (simp add: waiting_cancelling waiting_table)
  qed
qed

lemma act_inv:
  assumes "act E issues a w = Some (as, evs, w')" and "thread_inv s (add_mset a M) w es"
    and "length (issued (es @ evs)) \<le> 2 ^ 32"
  shows "thread_inv s (M + mset as) w' (es @ evs)"
  unfolding thread_inv_def
  using act_mutex [OF assms(1)] act_distinct [OF assms(1)] act_ids [OF assms(1)] act_conserves [OF assms]
    assms(2) by (simp add: thread_inv_def)

text \<open>An answer carries the id of its request.\<close>

definition ids_match :: "('j, 'u) action multiset \<Rightarrow> ('j, 'u) event list \<Rightarrow> bool" where
  "ids_match M evs \<longleftrightarrow> (\<forall>a \<in># M. action_matches E a) \<and> (\<forall>ev \<in> set evs. event_matches E ev)"

lemma act_matches:
  assumes "act E issues a w = Some (as, evs, w')" and "ids_match (add_mset a M) es"
  shows "ids_match (M + mset as) (es @ evs)"
proof -
  have "(\<forall>a' \<in> set as. action_matches E a') \<and> (\<forall>ev \<in> set evs. event_matches E ev)"
  proof (cases a)
    case (Begin operation)
    with assms(1) show ?thesis
      by (cases "(E, operation, w)" rule: enter.cases)
        (auto simp: response_id_def split: if_splits option.splits sum.splits)
  next
    case (Respond i rcb data)
    with assms show ?thesis by (cases rcb) (auto simp: ids_match_def elim!: answer_requestE)
  next
    case (Cancel reqs todo)
    with assms show ?thesis
      by (cases todo) (auto simp: error_doc_id elim!: answer_requestE split: option.splits)
  next
    case (Send p doc i)
    with act_send [OF assms(1) [unfolded Send]] show ?thesis by auto
  qed (use assms in \<open>auto simp: ids_match_def Let_def split: option.splits\<close>)
  with assms(2) show ?thesis by (auto simp: ids_match_def)
qed

end

lemma spawn_simps [simp]:
  "shared (spawn w programs) = w" "events (spawn w programs) = []"
  "actions (spawn w programs) = image_mset Begin (mset (concat programs))"
  by (simp_all add: spawn_def flip: map_concat)

lemma spawn_inv:
  assumes "m_openRequestCbs w = []" and "\<not> m_mtx_openRequestCbs w"
  shows "thread_inv (m_sid w) (actions (spawn w programs)) w []"
  using assms waiting_begins [of "{#}"]
  by (simp add: thread_inv_def mutex_inv_def ids_inv_def id_after_def waiting_def)

context request_threads
begin

lemma spawned_inv:
  assumes "m_openRequestCbs w = []" and "\<not> m_mtx_openRequestCbs w"
    and "length (issued (events (run E issues schedule (spawn w programs)))) \<le> 2 ^ 32"
  shows "thread_inv (m_sid w) (actions (run E issues schedule (spawn w programs)))
    (shared (run E issues schedule (spawn w programs))) (events (run E issues schedule (spawn w programs)))"
proof -
  let ?P = "\<lambda>M w' es. length (issued es) \<le> 2 ^ 32 \<longrightarrow> thread_inv (m_sid w) M w' es"
    and ?c = "run E issues schedule (spawn w programs)"
  have "?P (actions ?c) (shared ?c) (events ?c)"
  proof (rule run_keeps [where P = ?P])
    show "?P (M + mset as) w' (es @ evs)"
      if "act E issues a v = Some (as, evs, w')" "?P (add_mset a M) v es" for a as evs v w' M es
      using that act_inv [OF that(1), of "m_sid w" M es] by simp
    show "?P (actions (spawn w programs)) (shared (spawn w programs)) (events (spawn w programs))"
      using spawn_inv [OF assms(1,2), of programs] by simp
  qed
  with assms(3) show ?thesis by simp
qed

lemma spawned_mutex:
  assumes "m_openRequestCbs w = []" and "\<not> m_mtx_openRequestCbs w"
  shows "mutex_inv (actions (run E issues schedule (spawn w programs)))
    (shared (run E issues schedule (spawn w programs)))"
  using run_keeps [where P = "\<lambda>M w es. mutex_inv M w" and c = "spawn w programs", OF act_mutex]
    spawn_inv [OF assms, of programs] by (simp add: thread_inv_def)

lemma spawned_matches: "ids_match (actions (run E issues schedule (spawn w programs)))
    (events (run E issues schedule (spawn w programs)))"
  by (rule run_keeps [where P = "\<lambda>M w es. ids_match M es", OF act_matches]) (auto simp: ids_match_def)

end

lemma distinct_ids:
  assumes "ids_inv s w reqs" and "length reqs \<le> 2 ^ 32"
  shows "distinct (map fst reqs)"
proof -
  have "inj_on (id_after s \<circ> Suc) {0..<length reqs}"
  proof (rule linorder_inj_onI)
    show "(id_after s \<circ> Suc) k \<noteq> (id_after s \<circ> Suc) n"
      if "k < n" "k \<in> {0..<length reqs}" "n \<in> {0..<length reqs}" for k n
      using that assms(2) id_after_inj [of "Suc k" "Suc n" s] by auto
  qed auto
  with assms(1) show ?thesis by (simp add: ids_inv_def distinct_map)
qed

end
