(* ===== verification/Thread_Properties.thy ===== *)
theory Thread_Properties
  imports Thread_Invariants
begin

text \<open>
  The properties of the open requests under threads: in every interleaving each request is answered at
  most once and none is lost, the mutex excludes, and the threads come to their end if the callbacks
  return and issue no requests; otherwise \<open>clear\<close> can block the process for good.  An operation that
  is not interrupted does what the definitions of \<open>Async_Request\<close> say.
\<close>

section \<open>One thread alone\<close>

text \<open>A thread that is never interrupted and whose callbacks issue nothing.\<close>

abbreviation alone :: "('j, 'u, 'x) world \<Rightarrow> ('j, 'u) action list \<Rightarrow> ('j, 'u) event list \<Rightarrow> ('j, 'u, 'x) process" where
  "alone w as es \<equiv> \<lparr>shared = w, threads = [as], events = es\<rparr>"

definition completes :: "('j, 'u, 'x, 'z) env_scheme \<Rightarrow> ('j, 'u) action \<Rightarrow> ('j, 'u, 'x) world
    \<Rightarrow> ('j, 'u, 'x) world \<Rightarrow> bool" where
  "completes E a w w' \<longleftrightarrow>
     (\<exists>n. \<forall>es. \<exists>es'. run E (\<lambda>_ _. []) (replicate n 0) (alone w [a] es) = alone w' [] es')"

lemma completes_last: "act E (\<lambda>_ _. []) a w = Some ([], evs, w') \<Longrightarrow> completes E a w w'"
  unfolding completes_def by (rule exI [of _ "Suc 0"]) (simp add: turn_def)

lemma completes_step:
  assumes "act E (\<lambda>_ _. []) a w = Some ([a'], evs, w1)" and "completes E a' w1 w'"
  shows "completes E a w w'"
proof -
  obtain n where n: "\<forall>es. \<exists>es'. run E (\<lambda>_ _. []) (replicate n 0) (alone w1 [a'] es) = alone w' [] es'"
    using assms(2) by (auto simp: completes_def)
  show ?thesis
    unfolding completes_def by (rule exI [of _ "Suc n"]) (use assms(1) n in \<open>simp add: turn_def\<close>)
qed

lemma execute_completes:
  assumes "execute E p doc rcb w = Some (r, w')"
  shows "completes E (Begin (Execute p doc rcb)) w w'"
proof (cases rcb)
  case None
  show ?thesis
    using assms None
    by (cases rule: sendMessage_cases [of E p doc w]) (auto simp: execute_def intro!: completes_last)
next
  case (Some cb)
  have free: "\<not> m_mtx_openRequestCbs w"
    using assms Some by (auto simp: execute_def locked_def bnd_def split: if_splits)
  let ?doc = "json_put E doc (rpc_ID E) (json_uint E (m_sid w + 1))"
  have "completes E (Send p doc (m_sid w + 1)) (add_request cb w) w'"
  proof (cases rule: sendMessage_cases [of E p ?doc "add_request cb w"])
    case sent
    with execute_callback(1) [OF free sent] assms Some show ?thesis by (auto intro!: completes_last)
  next
    case (failed x msg)
    then have "completes E (Store_notifier (m_sid w + 1) (- 1) msg) (add_request cb w\<lparr>ext := x\<rparr>) w'"
      using execute_callback(2) [OF free failed] assms Some by (auto intro!: completes_last)
    then show ?thesis by (rule completes_step [rotated]) (simp add: failed)
  qed
  then have "completes E (Insert p doc cb) (lock w) w'"
    by (rule completes_step [rotated]) (simp add: Let_def add_request_mutex free_mutex free)
  then show ?thesis
    by (rule completes_step [rotated]) (simp add: Some free)
qed

lemma handleResult_completes:
  assumes "handleResult E data w = Some (r, w')"
  shows "completes E (Begin (HandleResult data)) w w'"
proof (cases "sum_bind (json_get E data (rpc_ID E)) (json_asUInt E)")
  case (Inl e)
  with assms show ?thesis by (auto simp: handleResult_def intro!: completes_last)
next
  case (Inr i)
  have free: "\<not> m_mtx_openRequestCbs w"
    using assms Inr by (auto simp: handleResult_def take_request_def locked_def bnd_def split: if_splits)
  have "completes E (Take i data) (lock w) w'"
  proof (cases "map_of (m_openRequestCbs w) i")
    case None
    with assms Inr free show ?thesis
      by (auto simp: handleResult_def take_request_absent free_mutex intro!: completes_last)
  next
    case (Some req)
    let ?w = "w\<lparr>m_openRequestCbs := AList.delete i (m_openRequestCbs w)\<rparr>"
    have "completes E (Respond i (responseCallback req) data) ?w w'"
      using assms Inr free Some
      by (auto simp: handleResult_def take_request_open try_catch_def answer_request_def
          split: option.splits sum.splits intro!: completes_last)
    then show ?thesis
      by (rule completes_step [rotated]) (simp add: Some free_mutex free)
  qed
  then show ?thesis by (rule completes_step [rotated]) (simp add: Inr free)
qed

lemma cancel_request_cases:
  assumes "cancel_request E reqs i w = Some (r, w')"
  obtains (none) "Option.bind (map_of reqs i) responseCallback = None" "r = Inr ()" "w' = w"
  | (some) cb r' where "Option.bind (map_of reqs i) responseCallback = Some cb" "r = Inr ()"
      "call_response E cb (error_doc E i (- 1) cancel_text) w = Some (r', w')"
  using assms by (auto simp: cancel_request_def try_catch_def split: option.splits sum.splits)

lemma cancel_completes:
  assumes "for_each todo (cancel_request E reqs) w = Some (r, w')"
  shows "r = Inr () \<and> completes E (Cancel reqs todo) w (unlock (w'\<lparr>m_openRequestCbs := []\<rparr>))"
  using assms
proof (induction todo arbitrary: w)
  case Nil
  then show ?case by (auto intro!: completes_last)
next
  case (Cons i todo)
  obtain r1 w1 where w1: "cancel_request E reqs i w = Some (r1, w1)"
    using Cons.prems by (auto simp: seq_def bnd_def split: option.splits)
  have "for_each todo (cancel_request E reqs) w1 = Some (r, w')"
    using w1 by (cases rule: cancel_request_cases) (use Cons.prems w1 in simp_all)
  from Cons.IH [OF this] have r: "r = Inr ()"
      and rest: "completes E (Cancel reqs todo) w1 (unlock (w'\<lparr>m_openRequestCbs := []\<rparr>))" by blast+
  have "completes E (Cancel reqs (i # todo)) w (unlock (w'\<lparr>m_openRequestCbs := []\<rparr>))"
    using w1
  proof (cases rule: cancel_request_cases)
    case none
    then show ?thesis by (intro completes_step [OF _ rest]) simp
  next
    case some
    then show ?thesis by (intro completes_step [OF _ rest]) (simp add: answer_request_def)
  qed
  with r show ?case by simp
qed

lemma clear_completes:
  assumes "clear E w = Some (r, w')"
  shows "completes E (Begin Clear) w w'"
proof -
  have free: "\<not> m_mtx_openRequestCbs w"
    using assms by (auto simp: clear_def locked_def split: if_splits)
  let ?reqs = "m_openRequestCbs w"
  obtain r1 w1 where loop: "for_each (hash_order E (keys ?reqs)) (cancel_request E ?reqs) (lock w) = Some (r1, w1)"
    using assms free by (auto simp: clear_def locked_def seq_def bnd_def split: option.splits)
  have "w' = unlock (w1\<lparr>m_openRequestCbs := []\<rparr>)"
    using assms free loop cancel_completes [OF loop] by (simp add: clear_def locked_def)
  then show ?thesis
    using cancel_completes [OF loop] by (intro completes_step [of E _ w]) (auto simp: free)
qed

section \<open>All threads finish\<close>

text \<open>
  If the callbacks return and issue nothing, every action brings its thread nearer to its end: by the
  number of \<open>clear\<close> calls ahead, then by the number of actions that remain.
\<close>

fun clears :: "('j, 'u) action \<Rightarrow> nat" where
  "clears (Begin Clear) = 1"
| "clears _ = 0"

fun weight :: "('j, 'u) action \<Rightarrow> nat" where
  "weight (Begin (Execute p doc rcb)) = 5"
| "weight (Begin (HandleResult data)) = 3"
| "weight (Begin Clear) = 0"
| "weight (Begin (FireNotifier i)) = 4"
| "weight (Insert p doc cb) = 4"
| "weight (Send p doc i) = 3"
| "weight (Store_notifier i c msg) = 1"
| "weight (Take i data) = 2"
| "weight (Respond i rcb data) = 1"
| "weight (Cancel reqs todo) = Suc (length todo)"

definition work :: "('j, 'u) action multiset \<Rightarrow> nat \<times> nat" where
  "work M = (\<Sum>\<^sub># (image_mset clears M), \<Sum>\<^sub># (image_mset weight M))"

abbreviation nearer :: "((nat \<times> nat) \<times> nat \<times> nat) set" where
  "nearer \<equiv> less_than <*lex*> less_than"

lemma act_nearer:
  assumes "act E (\<lambda>_ _. []) a w = Some (as, evs, w')"
  shows "(work (M + mset as), work (add_mset a M)) \<in> nearer" and "length as \<le> 1"
proof -
  have "(as = [] \<or> (\<exists>a'. as = [a'] \<and> (clears a' < clears a \<or> clears a' = clears a \<and> weight a' < weight a))) \<and>
      (clears a = 0 \<longrightarrow> 0 < weight a)"
  proof (cases a)
    case (Begin operation)
    with assms show ?thesis
      by (cases "(E, operation, w)" rule: enter.cases) (auto split: if_splits option.splits sum.splits)
  next
    case (Respond i rcb data)
    with assms show ?thesis by (cases rcb) (auto simp: answer_request_def split: option.splits)
  next
    case (Cancel reqs todo)
    with assms show ?thesis by (cases todo) (auto simp: answer_request_def split: option.splits)
  next
    case (Send p doc i)
    with act_send [OF assms [unfolded Send]] show ?thesis by auto
  qed (use assms in \<open>auto simp: Let_def split: option.splits\<close>)
  then show "(work (M + mset as), work (add_mset a M)) \<in> nearer" "length as \<le> 1"
    by (auto simp: work_def)
qed

lemma turn_nearer:
  "turn E (\<lambda>_ _. []) t c = c \<or> (work (actions (turn E (\<lambda>_ _. []) t c)), work (actions c)) \<in> nearer"
  by (cases rule: turn_cases [of E "\<lambda>_ _. []" t c]) (auto dest: act_nearer(1))

text \<open>A round in which nothing happens is one in which no thread can act.\<close>

lemma run_nearer:
  "run E (\<lambda>_ _. []) ts c = c \<and> (\<forall>t \<in> set ts. turn E (\<lambda>_ _. []) t c = c) \<or>
   (work (actions (run E (\<lambda>_ _. []) ts c)), work (actions c)) \<in> nearer"
proof (induction ts arbitrary: c)
  case Nil
  then show ?case by simp
next
  case (Cons t ts)
  have trans: "(a, c) \<in> nearer" if "(a, b) \<in> nearer" "(b, c) \<in> nearer" for a b c
    using that trans_lex_prod [OF trans_less_than trans_less_than] by (meson transD)
  show ?case
  proof (cases "turn E (\<lambda>_ _. []) t c = c")
    case True
    with Cons.IH [of c] show ?thesis by auto
  next
    case False
    with turn_nearer [of E t c] have "(work (actions (turn E (\<lambda>_ _. []) t c)), work (actions c)) \<in> nearer"
      by blast
    with Cons.IH [of "turn E (\<lambda>_ _. []) t c"] trans show ?thesis by (metis run_simps(2))
  qed
qed

text \<open>Only the action a thread is at can be under the mutex.\<close>

definition stacked :: "('j, 'u, 'x) process \<Rightarrow> bool" where
  "stacked c \<longleftrightarrow> (\<forall>as \<in> set (threads c). \<forall>a \<in> set (tl as). \<not> critical a)"

lemma stacked_turn: "stacked c \<Longrightarrow> stacked (turn E (\<lambda>_ _. []) t c)"
proof -
  assume st: "stacked c"
  have "\<not> critical b" if "t < length (threads c)" "threads c ! t = a # rest"
      "act E (\<lambda>_ _. []) a (shared c) = Some (as, evs, w)" "b \<in> set (tl (as @ rest))" for a rest as evs w b
  proof -
    have "b \<in> set rest"
      using that(4) act_nearer(2) [OF that(3)] by (cases as; cases rest) auto
    moreover have "a # rest \<in> set (threads c)" using that(1,2) by (metis nth_mem)
    ultimately show ?thesis using st by (force simp: stacked_def)
  qed
  with st show ?thesis
    by (fastforce simp: turn_def stacked_def not_le split: list.splits option.splits dest!: set_update_subset_insert [THEN subsetD])
qed

lemma length_turn [simp]: "length (threads (turn E issues t c)) = length (threads c)"
  by (auto simp: turn_def split: list.splits option.splits)

lemma sendMessage_returns: "sendMessage E p v w \<noteq> None"
  by (cases rule: sendMessage_cases [of E p v w]) auto

locale returning_threads = request_threads E "\<lambda>_ _. []"
  for E :: "('j, 'u, 'x, 'z) env_scheme" +
  assumes response_returns: "\<exists>r w'. run_response E u v w = Some (r, w')"
begin

lemma call_returns: "call_response E cb v w \<noteq> None"
proof (induction cb arbitrary: w)
  case (UserCb u)
  show ?case using response_returns [of u v w] by auto
next
  case (SyncCb n)
  show ?case by simp
next
  case (AddMethodCb p path cb)
  then show ?case
    by (simp add: seq_returns try_catch_returns bnd_returns addMethodResultCb_def registry_defs)
next
  case (AddStateCb p path cb)
  then show ?case
    by (simp add: seq_returns try_catch_returns bnd_returns addStateResultCb_def registry_defs)
next
  case (AddFetchCb p fetchId cb)
  then show ?case
    by (simp add: seq_returns try_catch_returns bnd_returns addFetchResultCb_def registry_defs)
qed

lemma answer_returns: "answer_request E issues i cb data rest w \<noteq> None"
  using call_returns [of cb data w] by (auto simp: answer_request_def split: option.splits)

lemma act_enabled:
  assumes "critical a \<or> \<not> m_mtx_openRequestCbs w"
  shows "act E issues a w \<noteq> None"
proof (cases a)
  case (Begin operation)
  with assms show ?thesis
    by (cases "(E, operation, w)" rule: enter.cases)
      (use sendMessage_returns in \<open>auto split: option.splits sum.splits\<close>)
next
  case (Respond i rcb data)
  then show ?thesis using answer_returns by (cases rcb) auto
next
  case (Cancel reqs todo)
  then show ?thesis using answer_returns by (cases todo) (auto split: option.splits)
next
  case (Send p doc i)
  then show ?thesis
    by (cases rule: sendMessage_cases [of E p "json_put E doc (rpc_ID E) (json_uint E i)" w]) auto
qed (use assms in \<open>auto simp: Let_def split: option.splits\<close>)

text \<open>No deadlock: as long as some thread has something to do, some thread can act.\<close>

lemma some_turn:
  assumes "mutex_inv (actions c) (shared c)" and "stacked c" and "concat (threads c) \<noteq> []"
  obtains t where "t < length (threads c)" "turn E (\<lambda>_ _. []) t c \<noteq> c"
proof -
  obtain t a rest where t: "t < length (threads c)" "threads c ! t = a # rest"
      "critical a \<or> \<not> m_mtx_openRequestCbs (shared c)"
  proof (cases "m_mtx_openRequestCbs (shared c)")
    case True
    then have "size (filter_mset critical (actions c)) \<noteq> 0"
      using assms(1) by (simp only: mutex_inv_def) simp
    then obtain a where "a \<in># filter_mset critical (actions c)"
      by (metis multiset_nonemptyE size_empty)
    then obtain as where a: "critical a" "a \<in> set as" "as \<in> set (threads c)" by auto
    with assms(2) have "as = a # tl as" by (cases as) (auto simp: stacked_def)
    with a that show thesis by (metis in_set_conv_nth)
  next
    case False
    obtain as where "as \<in> set (threads c)" "as \<noteq> []" using assms(3) by auto
    with False that show thesis by (metis in_set_conv_nth neq_Nil_conv)
  qed
  obtain as evs w where act: "act E (\<lambda>_ _. []) a (shared c) = Some (as, evs, w)"
    using act_enabled [OF t(3), of "\<lambda>_ _. []"] by auto
  have "threads c ! t \<noteq> as @ rest"
    using act_nearer(1) [OF act, of "{#}"] t(2) by (auto simp: work_def)
  moreover have "threads (turn E (\<lambda>_ _. []) t c) ! t = as @ rest"
    using t(1,2) act by (simp add: turn_def)
  ultimately have "turn E (\<lambda>_ _. []) t c \<noteq> c" by metis
  with t(1) that show thesis by blast
qed

lemma run_round:
  "mutex_inv (actions c) (shared c) \<and> stacked c \<Longrightarrow>
   mutex_inv (actions (run E (\<lambda>_ _. []) ts c)) (shared (run E (\<lambda>_ _. []) ts c)) \<and>
   stacked (run E (\<lambda>_ _. []) ts c) \<and> length (threads (run E (\<lambda>_ _. []) ts c)) = length (threads c)"
proof (induction ts arbitrary: c)
  case Nil
  then show ?case by simp
next
  case (Cons t ts)
  have "mutex_inv (actions (turn E (\<lambda>_ _. []) t c)) (shared (turn E (\<lambda>_ _. []) t c))"
    using Cons.prems act_mutex by (cases rule: turn_cases [of E "\<lambda>_ _. []" t c]) auto
  with Cons.IH [of "turn E (\<lambda>_ _. []) t c"] Cons.prems show ?case
    by (simp add: stacked_turn)
qed

text \<open>Turn by turn, all threads come to their end.\<close>

lemma rounds_finish:
  assumes "mutex_inv (actions c) (shared c) \<and> stacked c"
  shows "\<exists>n. concat (threads (run E (\<lambda>_ _. []) (concat (replicate n [0..<length (threads c)])) c)) = []"
  using assms
proof (induction c rule: wf_induct_rule [OF wf_inv_image [where f = "\<lambda>c. work (actions c)"], OF wf_lex_prod [OF wf_less_than wf_less_than]])
  case (1 c)
  let ?round = "[0..<length (threads c)]"
  let ?c = "run E (\<lambda>_ _. []) ?round c"
  show ?case
  proof (cases "concat (threads c) = []")
    case True
    then show ?thesis by (intro exI [of _ 0]) simp
  next
    case False
    then obtain t where "t < length (threads c)" "turn E (\<lambda>_ _. []) t c \<noteq> c"
      using some_turn 1(2) by metis
    then have "(work (actions ?c), work (actions c)) \<in> nearer"
      using run_nearer [of E ?round c] by auto
    then obtain n where "concat (threads (run E (\<lambda>_ _. []) (concat (replicate n [0..<length (threads ?c)])) ?c)) = []"
      using 1(1) [of ?c] run_round [OF 1(2), of ?round] by (auto simp: inv_image_def)
    then show ?thesis
      using run_round [OF 1(2), of ?round] by (intro exI [of _ "Suc n"]) (simp add: run_append)
  qed
qed

end

lemma turn_finished: "concat (threads c) = [] \<Longrightarrow> turn E issues t c = c"
proof (cases "t < length (threads c)")
  case True
  assume "concat (threads c) = []"
  with True have "threads c ! t = []" by (metis concat_eq_Nil_conv nth_mem)
  then show ?thesis by (simp add: turn_def)
qed (simp add: turn_def)

lemma run_finished: "concat (threads c) = [] \<Longrightarrow> run E issues ts c = c"
  by (induction ts) (simp_all add: turn_finished)

text \<open>Two actions at the head of two threads.\<close>

lemma two_heads:
  assumes "t < length xss" and "t' < length xss" and "t \<noteq> t'" and "xss ! t = x # xs" and "xss ! t' = y # ys"
  obtains M where "mset (concat xss) = add_mset x (add_mset y M)"
proof -
  obtain M where M: "mset (concat xss) = add_mset x M" "mset (concat (xss[t := [] @ xs])) = M"
    using mset_concat_update [OF assms(1,4), of "[]"] by auto
  obtain N where "mset (concat (xss[t := [] @ xs])) = add_mset y N"
    using mset_concat_update [of t' "xss[t := [] @ xs]" y ys "[]"] assms by auto
  with M that show thesis by simp
qed

section \<open>A callback of \<open>clear\<close> that issues a request\<close>

context request_threads
begin

lemma clearing_mutex:
  assumes "mutex_inv (actions c) (shared c)" and "as \<in> set (threads c)" and "Cancel reqs todo \<in> set as"
  shows "m_mtx_openRequestCbs (shared c)"
proof (rule ccontr)
  assume "\<not> m_mtx_openRequestCbs (shared c)"
  then have "filter_mset critical (actions c) = {#}"
    by (rule critical_none [OF assms(1)])
  moreover have "Cancel reqs todo \<in># filter_mset critical (actions c)"
    unfolding set_mset_filter using assms(2,3) by auto
  ultimately show False by (metis empty_iff set_mset_empty)
qed

lemma blocked_forever:
  assumes "mutex_inv (actions c) (shared c)" and "t < length (threads c)"
    and "threads c ! t = Begin (Execute p doc (Some cb)) # rest" and "Cancel reqs todo \<in> set rest"
  shows "threads (run E issues later c) ! t = threads c ! t \<and> m_mtx_openRequestCbs (shared (run E issues later c))"
  using assms
proof (induction later arbitrary: c)
  case Nil
  then show ?case
    using clearing_mutex [OF Nil.prems(1) nth_mem [OF Nil.prems(2)], of reqs todo] by simp
next
  case (Cons t' later)
  have mtx: "m_mtx_openRequestCbs (shared c)"
    using clearing_mutex [OF Cons.prems(1) nth_mem [OF Cons.prems(2)], of reqs todo] Cons.prems(3,4) by simp
  have "threads (turn E issues t' c) ! t = threads c ! t"
    using Cons.prems(3) mtx
    by (cases "t' = t") (auto simp: turn_def split: list.splits option.splits)
  moreover have "mutex_inv (actions (turn E issues t' c)) (shared (turn E issues t' c))"
    using Cons.prems(1) act_mutex by (cases rule: turn_cases [of E issues t' c]) auto
  ultimately show ?case
    using Cons.IH [of "turn E issues t' c"] Cons.prems by simp
qed

end

interpretation demo_threads: request_threads demo_env issues for issues
proof
  show "mset (hash_order demo_env ks) = mset ks" for ks by simp
  show "run_response demo_env u v w = Some (r, w') \<Longrightarrow>
      (m_sid w', m_openRequestCbs w', m_mtx_openRequestCbs w') =
      (m_sid w, m_openRequestCbs w, m_mtx_openRequestCbs w)" for u v w r w'
    by (cases u) auto
qed

interpretation demo_returning: returning_threads demo_env
proof
  show "\<exists>r w'. run_response demo_env u v w = Some (r, w')" for u v w
    by (cases u) auto
qed

text \<open>
  Two threads: one issues a request, the other clears the table after the request was entered and before
  it was sent.
\<close>

definition demo_callback :: "nat \<Rightarrow> demo_cb responseCb" where
  "demo_callback n = UserCb (Log n)"

definition demo_programs :: "(json, demo_cb) operation list list" where
  "demo_programs = [[Execute 0 JNull (Some (demo_callback 1))], [Clear]]"

definition demo_request :: "demo_cb Request" where
  "demo_request = \<lparr>responseCallback = Some (demo_callback 1), errorNotifier = None\<rparr>"

lemma initial_requests:
  "m_openRequestCbs (initial x) = []" "\<not> m_mtx_openRequestCbs (initial x)" "m_sid (initial x) = 0"
  by (simp_all add: initial_def)

lemma turn_at:
  "t < length (threads c) \<Longrightarrow> threads c ! t = a # rest \<Longrightarrow> act E issues a (shared c) = Some (as, evs, w) \<Longrightarrow>
   turn E issues t c = \<lparr>shared = w, threads = (threads c)[t := as @ rest], events = events c @ evs\<rparr>"
  by (simp add: turn_def)

lemma demo_clearing: "run demo_env issues [0, 0, 1] (spawn (initial demo_start) demo_programs) =
  \<lparr>shared = (initial demo_start)\<lparr>m_sid := 1, m_openRequestCbs := [(1, demo_request)], m_mtx_openRequestCbs := True\<rparr>,
   threads = [[Send 0 JNull 1], [Cancel [(1, demo_request)] [1]]], events = [Issued 1 (demo_callback 1)]\<rparr>"
  by (simp add: demo_programs_def spawn_def turn_at initial_requests Let_def add_request_def request_at_def
      demo_request_def)

lemma demo_cancelling: "\<exists>w. run demo_env issues [0, 0, 1, 0, 1] (spawn (initial demo_start) demo_programs) =
  \<lparr>shared = w, threads = [[], map Begin (issues (demo_callback 1) (error_doc demo_env 1 (- 1) cancel_text)) @
     [Cancel [(1, demo_request)] []]],
   events = [Issued 1 (demo_callback 1), Answered 1 (demo_callback 1) (error_doc demo_env 1 (- 1) cancel_text)]\<rparr>"
proof -
  have parts: "[0, 0, 1, 0, 1 :: nat] = [0, 0, 1] @ [0, 1]" by simp
  show ?thesis
    unfolding parts run_append demo_clearing
    by (simp add: turn_at demo_sendMessage MAX_MESSAGE_SIZE_def answer_request_def demo_request_def
        demo_callback_def initial_def demo_start_def record_call_def)
qed

section \<open>Properties\<close>

text \<open>
  C3: every request is answered exactly once or is still open, whatever the threads do.  For any number
  of threads that execute requests, hand in responses (of any content), clear the table and fire error
  notifiers, under any schedule and with callbacks that issue operations of their own: no request is
  answered twice, an answer goes to the callback given with the request and carries its id, and once
  all threads are done every issued request has been answered or is in the table.  The ids wrap around,
  so this holds for up to \<open>2 ^ 32\<close> requests.
\<close>

theorem requests_answered_once:
  assumes "request_threads E" and "m_openRequestCbs w = []" and "\<not> m_mtx_openRequestCbs w"
    and c: "c = run E issues schedule (spawn w programs)" and "length (issued (events c)) \<le> 2 ^ 32"
  shows "distinct (map fst (answered (events c))) \<and> set (answered (events c)) \<subseteq> set (issued (events c)) \<and>
    (\<forall>i cb data. Answered i cb data \<in> set (events c) \<longrightarrow> response_id E data i) \<and>
    (concat (threads c) = [] \<longrightarrow> mset (issued (events c)) =
      mset (answered (events c)) + mset_set (open_cbs (m_openRequestCbs (shared c))))"
proof -
  have inv: "ids_inv (m_sid w) (shared c) (issued (events c))"
      "mset (issued (events c)) = waiting (actions c) (shared c) + mset (answered (events c))"
    using request_threads.spawned_inv [OF assms(1-3)] assms(5) unfolding c thread_inv_def by blast+
  obtain ws where "mset ws = waiting (actions c) (shared c)" using ex_mset by blast
  then have "mset (map fst (issued (events c))) = mset (map fst (ws @ answered (events c)))"
    using inv(2) by simp
  then have "distinct (map fst (answered (events c)))"
    using distinct_ids [OF inv(1) assms(5)] mset_eq_imp_distinct_iff by fastforce
  moreover have "set (answered (events c)) \<subseteq> set (issued (events c))"
    using inv(2) by (metis mset_subset_eq_add_right set_mset_mono set_mset_mset)
  moreover have "\<forall>i cb data. Answered i cb data \<in> set (events c) \<longrightarrow> response_id E data i"
    using request_threads.spawned_matches [OF assms(1)] unfolding c
    by (fastforce simp: request_threads.ids_match_def [OF assms(1)])
  moreover have "waiting (actions c) (shared c) = mset_set (open_cbs (m_openRequestCbs (shared c)))"
    if "concat (threads c) = []"
    unfolding waiting_def that by simp
  ultimately show ?thesis
    using inv(2) by (simp add: add.commute)
qed

theorem requests_answered_once_witness:
  "\<exists>w. run demo_env (\<lambda>_ _. []) [0, 0, 1, 0, 1, 1] (spawn (initial demo_start) demo_programs) =
      \<lparr>shared = w, threads = [[], []], events = [Issued 1 (demo_callback 1),
        Answered 1 (demo_callback 1) (error_doc demo_env 1 (- 1) cancel_text)]\<rparr> \<and>
    open_cbs (m_openRequestCbs w) = {} \<and> response_id demo_env (error_doc demo_env 1 (- 1) cancel_text) 1"
proof -
  let ?c = "run demo_env (\<lambda>_ _. []) [0, 0, 1, 0, 1, 1] (spawn (initial demo_start) demo_programs)"
  have parts: "[0, 0, 1, 0, 1, 1 :: nat] = [0, 0, 1, 0, 1] @ [1]" by simp
  obtain w where w: "?c = \<lparr>shared = w, threads = [[], []], events = [Issued 1 (demo_callback 1),
      Answered 1 (demo_callback 1) (error_doc demo_env 1 (- 1) cancel_text)]\<rparr>"
    using demo_cancelling [of "\<lambda>_ _. []"] unfolding parts run_append by (auto simp: turn_at)
  from requests_answered_once [OF demo_threads.request_threads_axioms initial_requests(1,2) refl,
      of "\<lambda>_ _. []" "[0, 0, 1, 0, 1, 1]" demo_start demo_programs]
  have "mset_set (open_cbs (m_openRequestCbs w)) = {#}"
      and id: "response_id demo_env (error_doc demo_env 1 (- 1) cancel_text) 1" unfolding w by auto
  then have "open_cbs (m_openRequestCbs w) = {}" by (simp add: mset_set_empty_iff)
  with w id show ?thesis by (intro exI [of _ w] conjI)
qed

text \<open>
  C11: the mutex excludes.  If one thread is in a block of \<open>execute\<close>, \<open>handleResult\<close> or \<open>clear\<close> that
  writes the table of open requests, the mutex is held and no other thread is in such a block.
\<close>

theorem table_writers_exclusive:
  assumes "request_threads E" and "m_openRequestCbs w = []" and "\<not> m_mtx_openRequestCbs w"
    and c: "c = run E issues schedule (spawn w programs)"
    and heads: "t < length (threads c)" "t' < length (threads c)" "t \<noteq> t'"
      "threads c ! t = a # rest" "threads c ! t' = b # rest'" and "critical a"
  shows "m_mtx_openRequestCbs (shared c) \<and> \<not> critical b"
proof -
  obtain M where M: "actions c = add_mset a (add_mset b M)"
    using two_heads [OF heads] by blast
  have "mutex_inv (add_mset a (add_mset b M)) (shared c)"
    using request_threads.spawned_mutex [OF assms(1-3)] M unfolding c by metis
  from critical_alone [OF this assms(10)] show ?thesis by (auto split: if_splits)
qed

theorem table_writers_exclusive_witness:
  "let c = run demo_env (\<lambda>_ _. []) [0, 0, 1] (spawn (initial demo_start) demo_programs) in
     threads c ! 1 = [Cancel [(1, demo_request)] [1]] \<and> threads c ! 0 = [Send 0 JNull 1] \<and>
     m_mtx_openRequestCbs (shared c) \<and> \<not> critical (Send 0 JNull 1 :: (json, demo_cb) action)"
  using table_writers_exclusive [OF demo_threads.request_threads_axioms initial_requests(1,2) refl,
      where issues = "\<lambda>_ _. []" and schedule = "[0, 0, 1]" and programs = demo_programs and t = 1 and t' = 0]
  unfolding demo_clearing by simp

text \<open>
  The notifier of a request that could not be sent is stored without the mutex: while one thread holds
  it and iterates over the table in \<open>clear\<close>, another one writes to the table.
\<close>

lemma notifier_unprotected:
  assumes "m_openRequestCbs w = []" and "\<not> m_mtx_openRequestCbs w"
    and "length (json_writeString E (json_put E doc (rpc_ID E) (json_uint E (m_sid w + 1)))) > MAX_MESSAGE_SIZE"
    and "c = run E issues [0, 0, 0, 1] (spawn w [[Execute p doc (Some cb)], [Clear]])"
  shows "m_mtx_openRequestCbs (shared c) \<and> (\<exists>reqs todo. threads c ! 1 = [Cancel reqs todo]) \<and>
    m_mtx_openRequestCbs (shared (turn E issues 0 c)) \<and>
    m_openRequestCbs (shared (turn E issues 0 c)) \<noteq> m_openRequestCbs (shared c)"
  using assms by (simp add: spawn_def turn_def add_request_def request_at_def Let_def sendMessage_def
      size_error_def set_notifier_def)

text \<open>
  C12: run by a thread that is not interrupted, the actions of an operation have the effect of its
  definition: \<open>execute\<close> with or without a callback, \<open>handleResult\<close> and \<open>clear\<close>.
\<close>

theorem operations_run_alone:
  "(execute E p doc rcb w = Some (r1, w1) \<longrightarrow> (\<exists>n. let c = run E (\<lambda>_ _. []) (replicate n 0) (spawn w [[Execute p doc rcb]])
      in threads c = [[]] \<and> shared c = w1)) \<and>
   (handleResult E data w = Some (r2, w2) \<longrightarrow> (\<exists>n. let c = run E (\<lambda>_ _. []) (replicate n 0) (spawn w [[HandleResult data]])
      in threads c = [[]] \<and> shared c = w2)) \<and>
   (clear E w = Some (r3, w3) \<longrightarrow> (\<exists>n. let c = run E (\<lambda>_ _. []) (replicate n 0) (spawn w [[Clear]])
      in threads c = [[]] \<and> shared c = w3))"
proof -
  have sole: "\<exists>n. let c = run E (\<lambda>_ _. []) (replicate n 0) (spawn w [[operation]]) in threads c = [[]] \<and> shared c = w'"
    if "completes E (Begin operation) w w'" for operation w'
    using that by (auto simp: completes_def spawn_def Let_def) (metis process.select_convs(1,2))
  show ?thesis
    by (intro conjI impI) (rule sole, erule execute_completes handleResult_completes clear_completes)+
qed

theorem operations_run_alone_witness:
  "\<exists>w n. execute demo_env 0 JNull (Some (demo_callback 1)) (initial demo_start) = Some (Inr 1, w) \<and>
    (let c = run demo_env (\<lambda>_ _. []) (replicate n 0)
         (spawn (initial demo_start) [[Execute 0 JNull (Some (demo_callback 1))]])
     in threads c = [[]] \<and> shared c = w)"
proof -
  obtain w where w: "execute demo_env 0 JNull (Some (demo_callback 1)) (initial demo_start) = Some (Inr 1, w)"
    using execute_registers [of "initial demo_start" demo_env 0 JNull "demo_callback 1"]
    by (auto simp: initial_requests)
  with operations_run_alone [of demo_env 0 JNull "Some (demo_callback 1)" "initial demo_start" "Inr 1" w]
  show ?thesis by blast
qed

text \<open>
  C13: no deadlock.  If the callbacks return and issue no operations, any number of threads with any
  operations are all done after finitely many rounds in which each gets a turn.
\<close>

theorem all_threads_finish:
  assumes "returning_threads E" and "m_openRequestCbs w = []" and "\<not> m_mtx_openRequestCbs w"
  shows "\<exists>n. \<forall>m \<ge> n. concat (threads (run E (\<lambda>_ _. [])
    (concat (replicate m [0..<length programs])) (spawn w programs))) = []"
proof -
  let ?c = "spawn w programs" and ?round = "[0..<length programs]"
  have "mutex_inv (actions ?c) (shared ?c) \<and> stacked ?c" "length (threads ?c) = length programs"
    using spawn_inv [OF assms(2,3), of programs]
    by (auto simp: thread_inv_def spawn_def stacked_def simp flip: map_tl)
  then obtain n where n: "concat (threads (run E (\<lambda>_ _. []) (concat (replicate n ?round)) ?c)) = []"
    using returning_threads.rounds_finish [OF assms(1), of ?c] by auto
  have "concat (threads (run E (\<lambda>_ _. []) (concat (replicate m ?round)) ?c)) = []" if "n \<le> m" for m
  proof -
    from that obtain k where "m = n + k" using le_iff_add by blast
    then show ?thesis using n by (simp add: replicate_add run_append run_finished)
  qed
  then show ?thesis by blast
qed

theorem all_threads_finish_witness:
  "\<exists>n. \<forall>m \<ge> n. concat (threads (run demo_env (\<lambda>_ _. []) (concat (replicate m [0..<2]))
    (spawn (initial demo_start) demo_programs))) = []"
  using all_threads_finish [OF demo_returning.returning_threads_axioms initial_requests(1,2), of demo_programs]
  by (simp add: demo_programs_def numeral_2_eq_2)

text \<open>
  C40: a callback that issues a request while \<open>clear\<close> is calling it blocks the process for good: under
  every further schedule the thread stays where it is and the mutex is never released.
\<close>

theorem clear_blocks_process:
  assumes "request_threads E" and "m_openRequestCbs w = []" and "\<not> m_mtx_openRequestCbs w"
    and c: "c = run E issues schedule (spawn w programs)"
    and "t < length (threads c)" and "threads c ! t = Begin (Execute p doc (Some cb)) # rest"
    and "Cancel reqs todo \<in> set rest"
  shows "threads (run E issues later c) ! t = threads c ! t \<and> m_mtx_openRequestCbs (shared (run E issues later c))"
  using request_threads.blocked_forever [OF assms(1) _ assms(5-7)]
    request_threads.spawned_mutex [OF assms(1-3)] unfolding c by blast

theorem clear_blocks_process_witness:
  "let issues = (\<lambda>_ _. [Execute 0 JNull (Some (demo_callback 2))]);
       c = run demo_env issues [0, 0, 1, 0, 1] (spawn (initial demo_start) demo_programs)
   in threads (run demo_env issues [0, 1, 0, 1] c) ! 1 =
        [Begin (Execute 0 JNull (Some (demo_callback 2))), Cancel [(1, demo_request)] []] \<and>
      m_mtx_openRequestCbs (shared (run demo_env issues [0, 1, 0, 1] c))"
proof -
  let ?issues = "\<lambda>_ _. [Execute 0 JNull (Some (demo_callback 2))]"
  let ?c = "run demo_env ?issues [0, 0, 1, 0, 1] (spawn (initial demo_start) demo_programs)"
  have c: "threads ?c = [[], [Begin (Execute 0 JNull (Some (demo_callback 2))), Cancel [(1, demo_request)] []]]"
    using demo_cancelling [of ?issues] by auto
  from clear_blocks_process [where w = "initial demo_start" and issues = ?issues and t = 1
        and schedule = "[0, 0, 1, 0, 1]" and programs = demo_programs and later = "[0, 1, 0, 1]",
      OF demo_threads.request_threads_axioms initial_requests(1,2) refl]
  show ?thesis unfolding Let_def c by simp
qed

end
