(* ===== verification/Spec2Isabelle.thy ===== *)
theory Spec2Isabelle
  imports Peer_Mock Simulation Routing_Properties Tool_Properties Remote_Properties Measure_Properties
    Thread_Properties
begin

text \<open>
  \<^bold>\<open>jetpeer-cpp: a verification of the jet peer library\<close>

  The repository implements peers of the jet protocol: JSON-RPC documents, framed by a 32 bit
  big-endian length, over a stream socket to a broker (the jet daemon).  A peer serves states and
  methods to others, and calls methods, sets states and fetches notifications itself.

  \<^bold>\<open>The program and the theories.\<close>

  \<^item> include/jet/defines.h, lib/jsoncpprpc_exception.cpp: protocol names, matchers, results of state
    callbacks, exceptions.  Theory \<open>Defines\<close> (exception record and classes in \<open>Json_Value\<close>).
  \<^item> lib/asyncrequest.cpp: the table of open requests, one per process.  Theory \<open>Async_Request\<close>:
    \<open>AsyncRequest\<close>, \<open>execute\<close>, \<open>execute_notification\<close>, \<open>handleResult\<close>, \<open>fire_errorNotifier\<close>, \<open>clear\<close>.
    Theory \<open>Threads\<close> cuts the same functions into the actions between which other threads can run
    (\<open>act\<close>), and executes any number of threads under a schedule (\<open>run\<close>).
  \<^item> lib/peerasync.cpp, include/jet/peerasync.hpp: the asynchronous peer.  \<open>Peer_State\<close> has its state
    (record \<open>peer\<close>, with the members of the class; record \<open>world\<close>, with the static members and all
    peers of the process), the registries, \<open>sendMessage\<close> and \<open>notifyState\<close>; \<open>Peer_Requests\<close> every
    request of the interface; \<open>Peer_Lifecycle\<close> constructor, \<open>start\<close>, \<open>stop\<close>, \<open>resume\<close>, destructor;
    \<open>Peer_Dispatch\<close> \<open>receiveCallback\<close> and \<open>handleMessage\<close>; \<open>Peer_Receive\<close> the loops of \<open>receive\<close>.
  \<^item> lib/syncrequest.cpp, lib/peer.cpp: requests that wait for their response.  Theory \<open>Peer_Sync\<close>
    (\<open>executeSync\<close>, \<open>Peer_*\<close>).
  \<^item> include/jet/peerasyncmock.hpp: theory \<open>Peer_Mock\<close>.  lib_simulation: theory \<open>Simulation\<close>, with its
    operations as a step relation of their own.
  \<^item> tool/cache.cpp, tool/notifier.cpp: clients that follow a fetch.  Theory \<open>Fetch_Cache\<close>.
  \<^item> tool/qxrouting: a test tool that restarts the devices routed through a device in cycles.  Theory
    \<open>Routing\<close>: \<open>Device\<close>, \<open>RoutedDevice\<close> and the cycle as a state around the process state.
  \<^item> The command line tools under tool/.  \<open>Tool_Base\<close>: what they share (\<open>atoi\<close>, console, exceptions, peers
    as local variables, the event loop).  \<open>Tool_Set\<close>: jetset, jetsetasync, jetstate.  \<open>Tool_Call\<close>:
    jetmethod, exec, info.  \<open>Tool_Fetch\<close>: get, cat, catsync, catexternaleventloop and the \<open>main\<close> of
    cache.  \<open>Measure_Speed\<close>: measureSpeed.  The variables of a tool and its console are part of the state
    outside the library, so its callbacks are programs over the process state like any other.

  The parts interact through the process state: the application calls operations of a peer, which
  send a document and may leave an entry in the table of open requests; the event loop calls
  \<open>receive\<close> when bytes have arrived and \<open>fire_errorNotifier\<close> when sending failed; \<open>receive\<close> cuts
  messages out of the stream and dispatches them to response, fetch, state and method callbacks; and
  a callback may call operations again.

  \<^bold>\<open>How code is modelled.\<close>  A statement is a \<open>prog\<close> (theory \<open>Prelude\<close>): a function of the state with
  three outcomes, an exception, a result, or none.  It has none when the C++ code never comes back in
  a defined way: a thread locks a non-recursive mutex it holds, iterates over a table that is changed
  meanwhile, terminates in a \<open>noexcept\<close> function, or loops for ever.  Loops that may not end are
  \<open>partial_function (option)\<close>, so there is no fuel; that they do end is part of the properties
  (\<open>receive\<close> returns for every stream, a synchronous call returns once it was answered).  Numbers keep
  their width: ids, codes and lengths are 32 bit words, payloads are byte lists.

  Code outside the repository is a parameter: jsoncpp and the JSON-RPC names of libhbk are the records
  \<open>jsoncpp\<close> and \<open>jsonrpc\<close> with locales of the same names for their documented behaviour; the socket,
  the callbacks of the application (tokens, with \<open>run_*\<close> saying what a call does to the whole state),
  the traversal order of hash tables, the evaluation order C++11 leaves open and the value of a read
  through a dangling pointer are the fields of the record \<open>env\<close>.  \<open>Json_Model\<close> gives a concrete JSON
  value type that satisfies the laws; \<open>Demo_World\<close> a concrete world, used to show that the hypotheses
  of the properties can be met.

  \<^bold>\<open>What is shown.\<close>

  \<^item> \<open>Framing\<close>: \<open>deframe\<close> is the specification of the byte stream; the locales \<open>stream_socket\<close> and
    \<open>framed_stream\<close> are the contracts of the socket and of the dispatcher.  \<open>Fetch_Stream\<close> derives the
    latter for a consumer of notifications from laws of the callbacks alone (\<open>fetch_consumer\<close>).
    \<open>Wire_Properties\<close>: \<open>receive\<close> refines \<open>deframe\<close>, also over several calls, up to the size limit and
    for a connection that stays open, is closed by the daemon or fails;
    what is sent is read back; bytes become callback calls in order.
  \<^item> \<open>Peer_Invariants\<close>: a locale for invariants of the process state, with one lemma per operation.
    \<open>Peer_Machine\<close>: the library as a state machine over the operations of the asynchronous and of the
    synchronous peer (a synchronous one spans the steps it waits for); two sublocales give the
    representation invariant and that the mutex is free between operations.
  \<^item> \<open>Path_Matching\<close>: what \<open>addPathInformation\<close> makes of a matcher.  \<open>Sent_Documents\<close>: the typing judgement
    \<open>sent_doc\<close> of the documents the library sends, with the parameters of each request, sound for the
    messages of the protocol.  The invariants of \<open>Peer_Invariants\<close> may depend on it, and
    \<open>Message_Properties\<close> uses that: with a socket that logs (locale \<open>typed_wire\<close>), every message of every
    sequence of operations is well formed and within the size limit.
  \<^item> \<open>Remote_Properties\<close>: two peers with the daemon between them (locale \<open>jet_daemon\<close>, a parameter): calling
    a method and setting a state from the client's call to the owner's callback and back, for results,
    warnings and exceptions; and a lost connection, from any state of the reception through \<open>resume\<close> to
    the callbacks of the restored fetches.
  \<^item> \<open>Request_Properties\<close>: a request is answered exactly once, by its response, by the failure of
    sending, or by \<open>clear\<close>; and where the code does not achieve this (re-entrant callbacks in \<open>clear\<close>,
    the captured pointer, the wrap-around of ids).
  \<^item> \<open>Thread_Invariants\<close>, \<open>Thread_Properties\<close>: the same under threads.  The invariant accounts for every
    request in every interleaving (locale \<open>request_threads\<close>, what the callbacks promise), so that each is
    answered at most once and none is lost; the mutex excludes, but the error notifier is stored without
    it; threads do not deadlock if callbacks return and issue nothing (locale \<open>returning_threads\<close>), and
    \<open>clear\<close> blocks the process if one does; an operation that is not interrupted behaves as \<open>Async_Request\<close> says.
  \<^item> \<open>Dispatch_Properties\<close>: what \<open>handleMessage\<close> does for every kind of message, on every branch.
  \<^item> \<open>Lifecycle_Properties\<close>: registrations that wait for the broker's answer, the parameters of get and
    fetch requests, \<open>stop\<close>, \<open>resume\<close>.
  \<^item> \<open>Sync_Properties\<close>: synchronous calls, states and fetches with the answer they wait for, notifications
    that arrive before it, and a connection that is lost meanwhile.
  \<^item> \<open>Routing_Properties\<close>: an invariant of the routing tool over all its steps (which rests on that of
    the library through the locale \<open>routing_world\<close>), the first announcement of a device, the restart
    cycle (locale \<open>peer_wires\<close>), and a cycle that counts as complete too early.
  \<^item> \<open>Tool_World\<close>: the locale \<open>tool_world\<close>, a network that works, with the life of a peer that issues one
    request; \<open>Tool_Demo\<close> interprets it on a concrete world with the tools' own callbacks.
    \<open>Tool_Properties\<close>: jetset, jetsetasync, jetget and jetexec from their arguments to the wire and the console,
    jetstate as a register, jetcat from the bytes of the stream to the console.
    \<open>Measure_Properties\<close>: what the measuring loop sends and prints, jetmethod as an echo, jetinfo.
  \<^item> \<open>Fetch_Cache\<close>, \<open>Peer_Mock\<close>, \<open>Simulation\<close>: properties of the clients, beside their
    definitions.  This theory: exceptions and their way through JSON.

  \<^bold>\<open>Not modelled.\<close>  The Windows branches; output to syslog, and of the console output of the cache, the
  notifier and the routing tool all but the complaints of the restart cycle.  Threads are modelled for
  the table of open requests only (\<open>Threads\<close>: a message is sent in one action, a callback does its own work
  in one action and then the operations it issues; waiting for a promise and the destructor of
  \<open>SyncRequest\<close> are in \<open>Peer_Sync\<close>, where the worker thread is a parameter).  Elsewhere operations are
  atomic and ordered: the recursive mutexes of the registries never block, \<open>m_receiveMutex\<close> and
  \<open>m_sendMutex\<close> only exclude other threads, but for a callback that calls \<open>receive\<close>.  Further: callbacks that destroy the object they are stored
  in; in the routing tool a callback that runs inside another operation of the tool (its closures are
  separate steps); \<open>strtod\<close>, whose results are only handed on; documents that an application hands to the
  public \<open>sendMessage\<close> itself (\<open>api_step\<close> has no such step; the operation is modelled); accessors that
  only return a member (\<open>getEventLoop\<close>, \<open>getReceiverEvent\<close>, \<open>getAsyncPeer\<close>); the tests.
\<close>

section \<open>Exceptions across the wire\<close>

text \<open>
  C39: an exception survives the way through JSON: the error object that \<open>json()\<close> builds is read
  back by the constructor from an error object as the same code, message and data.
\<close>

theorem exception_roundtrip:
  assumes "jsonrpc J"
  shows "jsoncpprpcException_error J (exn_json J e) =
    Some (jsoncpprpcException_data J (m_code e) (m_message e) (m_data_obj e))"
  by (rule jsonrpc.exn_json_error [OF assms])

theorem exception_roundtrip_witness:
  "map_option m_code (jsoncpprpcException_error demo_env (exn_json demo_env
     (jsoncpprpcException_code demo_env (- 7) ''no''))) = Some (- 7)"
  using exception_roundtrip [OF dj.jsonrpc_axioms, of "jsoncpprpcException_code demo_env (- 7) ''no''"]
  by (simp add: jsoncpprpcException_code_def jsoncpprpcException_data_def)

text \<open>
  The entries an exception is built from are the entries \<open>dataEntries\<close> reads out of it, for every
  table of entries.
\<close>

lemma data_entries_roundtrip:
  assumes "jsonrpc J" and "distinct (keys es)"
  shows "\<exists>r. dataEntries J (jsoncpprpcException_entries J es) = Some r \<and> map_of r = map_of es"
  by (rule jsonrpc.entries_roundtrip [OF assms])

text \<open>
  An error member that is no object (\<open>{"error": "text"}\<close>) makes the constructor from an error object
  throw inside a \<open>noexcept\<close> function: the process is terminated.
\<close>

lemma error_text_terminates:
  assumes "jsonrpc J" and "is_record J data" and "\<not> is_record J (json_child J data (rpc_ERR J))"
  shows "jsoncpprpcException_error J data = None"
  using jsoncpp.get_mistyped [OF jsonrpc.axioms(1) [OF assms(1)] assms(3), of "rpc_CODE J"] assms(2)
  by (auto simp: jsoncpprpcException_error_def jsoncpp.get2_record [OF jsonrpc.axioms(1) [OF assms(1)]])

end
